(* ===== verification/OW_Prelude.thy ===== *)
theory OW_Prelude
  imports Main "HOL-Library.Word" "HOL-Library.Signed_Division"
begin

text \<open>
  Shared ground of the development: the machine types of the C++ sources, the pieces of the C++
  standard library that several components use (\<open>std::clamp\<close>, \<open>tolower\<close>, \<open>isspace\<close>,
  \<open>std::stoi\<close>, \<open>std::to_string\<close>, string search), generic facts on lists and words,
  and the fact collections the component theories fill.
\<close>

unbundle bit_operations_syntax

section \<open>Fact collections\<close>

named_theorems frame_simps "which fields of a state an operation leaves alone"
named_theorems wire_simps "byte-level facts of the wire formats"

section \<open>Machine types\<close>

type_synonym u8 = "8 word"
type_synonym u32 = "32 word"

text \<open>
  A C++ \<open>std::string\<close> is a list of bytes, Isabelle's \<^typ>\<open>string\<close>. PCM samples
  (\<open>int16_t\<close>) are integers, with \<open>i16\<close> naming the ones that fit.
\<close>

type_synonym pcm = "int list"

definition i16 :: "int \<Rightarrow> bool" where
  "i16 v \<longleftrightarrow> -32768 \<le> v \<and> v \<le> 32767"

definition int32 :: "int \<Rightarrow> bool" where
  "int32 v \<longleftrightarrow> -2147483648 \<le> v \<and> v \<le> 2147483647"

section \<open>std::clamp\<close>

definition std_clamp :: "'a::linorder \<Rightarrow> 'a \<Rightarrow> 'a \<Rightarrow> 'a" where
  "std_clamp v lo hi = (if v < lo then lo else if hi < v then hi else v)"

lemma std_clamp_bounds:
  assumes "lo \<le> hi"
  shows "lo \<le> std_clamp v lo hi" and "std_clamp v lo hi \<le> hi"
  using assms by (auto simp: std_clamp_def)

lemma std_clamp_id: "lo \<le> v \<Longrightarrow> v \<le> hi \<Longrightarrow> std_clamp v lo hi = v"
  by (auto simp: std_clamp_def)

lemma std_clamp_idem [simp]: "lo \<le> hi \<Longrightarrow> std_clamp (std_clamp v lo hi) lo hi = std_clamp v lo hi"
  by (auto simp: std_clamp_def)

lemma std_clamp_mono: "v \<le> w \<Longrightarrow> lo \<le> hi \<Longrightarrow> std_clamp v lo hi \<le> std_clamp w lo hi"
  by (auto simp: std_clamp_def)

section \<open>Characters and strings\<close>

text \<open>The \<open>C\<close> locale's \<open>tolower\<close>, \<open>isspace\<close> and digit test, on bytes.\<close>

definition c_tolower :: "char \<Rightarrow> char" where
  "c_tolower c = (let n = (of_char c :: nat) in if 65 \<le> n \<and> n \<le> 90 then char_of (n + 32) else c)"

definition c_isspace :: "char \<Rightarrow> bool" where
  "c_isspace c \<longleftrightarrow> (let n = (of_char c :: nat) in n = 32 \<or> (9 \<le> n \<and> n \<le> 13))"

definition c_digit :: "char \<Rightarrow> int option" where
  "c_digit c = (let n = (of_char c :: nat) in if 48 \<le> n \<and> n \<le> 57 then Some (int n - 48) else None)"

text \<open>
  \<open>starts_with p s\<close> is \<open>s.rfind(p, 0) == 0\<close>: the search can only match at index 0.
  \<open>find_char c s\<close> is \<open>s.find(c)\<close> (\<open>None\<close> for \<open>npos\<close>), \<open>find_sub\<close> the same for a
  substring.
\<close>

definition starts_with :: "string \<Rightarrow> string \<Rightarrow> bool" where
  "starts_with p s \<longleftrightarrow> take (length p) s = p"

fun find_char :: "char \<Rightarrow> string \<Rightarrow> nat option" where
  "find_char c [] = None"
| "find_char c (x # xs) = (if x = c then Some 0 else map_option Suc (find_char c xs))"

fun find_sub :: "string \<Rightarrow> string \<Rightarrow> nat option" where
  "find_sub p s = (if starts_with p s then Some 0
     else (case s of [] \<Rightarrow> None | _ # xs \<Rightarrow> map_option Suc (find_sub p xs)))"

declare find_sub.simps [simp del]

lemma starts_with_append [simp]: "starts_with p (p @ s)"
  by (simp add: starts_with_def)

lemma find_char_None_iff: "find_char c s = None \<longleftrightarrow> c \<notin> set s"
  by (induction s) auto

lemma find_char_Some:
  "find_char c s = Some i \<Longrightarrow> i < length s \<and> s ! i = c \<and> c \<notin> set (take i s)"
  by (induction s arbitrary: i) (auto split: if_splits)

lemma find_char_append_not_in: "c \<notin> set a \<Longrightarrow> find_char c (a @ c # b) = Some (length a)"
  by (induction a) auto

lemma find_sub_self [simp]: "find_sub p (p @ s) = Some 0"
  by (simp add: find_sub.simps)

lemma length_filter_eq_zero: "c \<notin> set s \<Longrightarrow> length (filter (\<lambda>x. x = c) s) = 0"
  by (induction s) auto

text \<open>
  \<open>std::stoi(s)\<close>: leading white space, an optional sign, then the longest run of digits; it
  throws (\<open>None\<close>) when there is no digit or the value does not fit an \<open>int\<close>. Characters
  after the digits are ignored.
\<close>

fun digits_val :: "int \<Rightarrow> string \<Rightarrow> int" where
  "digits_val acc [] = acc"
| "digits_val acc (c # cs) = (case c_digit c of None \<Rightarrow> acc | Some d \<Rightarrow> digits_val (acc * 10 + d) cs)"

definition stoi_unsigned :: "string \<Rightarrow> int option" where
  "stoi_unsigned s = (case s of [] \<Rightarrow> None | c # _ \<Rightarrow>
     (case c_digit c of None \<Rightarrow> None | Some _ \<Rightarrow> Some (digits_val 0 s)))"

definition std_stoi :: "string \<Rightarrow> int option" where
  "std_stoi s = (let t = dropWhile c_isspace s;
       v = (case t of
              [] \<Rightarrow> None
            | c # r \<Rightarrow> if c = CHR ''-'' then map_option uminus (stoi_unsigned r)
                      else if c = CHR ''+'' then stoi_unsigned r else stoi_unsigned t)
     in (case v of None \<Rightarrow> None | Some n \<Rightarrow> if int32 n then Some n else None))"

lemma std_stoi_int32: "std_stoi s = Some n \<Longrightarrow> int32 n"
  by (auto simp: std_stoi_def Let_def split: option.splits if_splits)

text \<open>\<open>std::to_string\<close> of an integer.\<close>

fun nat_digits :: "nat \<Rightarrow> string" where
  "nat_digits n = (if n < 10 then [char_of (48 + n)] else nat_digits (n div 10) @ [char_of (48 + n mod 10)])"

declare nat_digits.simps [simp del]

definition std_to_string :: "int \<Rightarrow> string" where
  "std_to_string n = (if n < 0 then CHR ''-'' # nat_digits (nat (- n)) else nat_digits (nat n))"

lemma nat_digits_nonempty [simp]: "nat_digits n \<noteq> []"
  by (subst nat_digits.simps) simp

lemma c_digit_char_of: "d < 10 \<Longrightarrow> c_digit (char_of (48 + d)) = Some (int d)"
  by (simp add: c_digit_def Let_def)

lemma nat_digits_are_digits: "c \<in> set (nat_digits n) \<Longrightarrow> c_digit c \<noteq> None"
proof (induction n rule: nat_digits.induct)
  case (1 n)
  then show ?case
    by (subst (asm) nat_digits.simps) (auto simp: c_digit_char_of split: if_splits)
qed

lemma digits_val_append_digit:
  "(\<And>c. c \<in> set s \<Longrightarrow> c_digit c \<noteq> None) \<Longrightarrow> c_digit d = Some v \<Longrightarrow>
   digits_val acc (s @ [d]) = digits_val acc s * 10 + v"
  by (induction s arbitrary: acc) (force split: option.splits)+

lemma digits_val_nat_digits: "digits_val 0 (nat_digits n) = int n"
proof (induction n rule: nat_digits.induct)
  case (1 n)
  show ?case
  proof (cases "n < 10")
    case True
    then show ?thesis
      by (subst nat_digits.simps) (simp add: c_digit_char_of)
  next
    case False
    have "digits_val 0 (nat_digits (n div 10) @ [char_of (48 + n mod 10)])
        = digits_val 0 (nat_digits (n div 10)) * 10 + int (n mod 10)"
      by (rule digits_val_append_digit) (auto simp: nat_digits_are_digits c_digit_char_of)
    with 1 [OF False] False show ?thesis
      by (subst nat_digits.simps) (simp add: zdiv_int zmod_int mult_div_mod_eq [symmetric] del: mult_div_mod_eq)
  qed
qed

section \<open>Lists\<close>

lemma take_append_drop_nth: "i < length xs \<Longrightarrow> take i xs @ xs ! i # drop (Suc i) xs = xs"
  by (simp add: id_take_nth_drop [symmetric])

lemma list_eq_take9:
  assumes "9 \<le> length xs"
  shows "xs = [xs!0, xs!1, xs!2, xs!3, xs!4, xs!5, xs!6, xs!7, xs!8] @ drop 9 xs"
proof -
  have "take 9 xs = map ((!) xs) [0..<9]"
    using assms by (intro nth_equalityI) auto
  also have "\<dots> = [xs!0, xs!1, xs!2, xs!3, xs!4, xs!5, xs!6, xs!7, xs!8]"
    by (simp add: upt_rec numeral_eq_Suc)
  finally show ?thesis
    by (metis append_take_drop_id)
qed

end
