(* ===== verification/OW_Types.thy ===== *)
theory OW_Types
  imports OW_Prelude
begin

text \<open>
  The data model of \<open>owalkie-core/include/owalkie/types.hpp\<close>: every enum is a datatype with
  the source's constructors (prefixed, as several enums share names), every struct a record
  whose fields carry a short prefix, and the default member initialisers are the \<open>_default\<close>
  values. The enumerations also get their underlying integer values (\<open>static_cast<int>\<close>), which
  order them.
\<close>

section \<open>Results and enumerations\<close>

datatype Result =
    R_Ok | R_InvalidArg | R_AlreadyConnected | R_NotConnected | R_NotReady | R_Protocol
  | R_Network | R_Internal | R_Unsupported | R_BufferTooSmall | R_QueueFull | R_NoEvent

datatype TxSubmitOp = Op_Open | Op_Pcm | Op_Opus | Op_VoiceEnd | Op_Close | Op_Abort

datatype EventType =
    Ev_Connecting | Ev_TransportConnected | Ev_Disconnected | Ev_ProtocolError | Ev_Welcome
  | Ev_RxBroadcastStart | Ev_RxBroadcastEnd | Ev_LocalTxStart | Ev_LocalTxEnd | Ev_PttLocked
  | Ev_PttUnlocked | Ev_TxCountdownStart | Ev_TxStop | Ev_UdpTransportReady
  | Ev_UdpTransportLost | Ev_ConnectionFailed | Ev_Connected | Ev_ConnectionLost

datatype PowerProfile = Foreground | Background | ActiveTx

fun result_int :: "Result \<Rightarrow> int" where
  "result_int R_Ok = 0"
| "result_int R_InvalidArg = 1"
| "result_int R_AlreadyConnected = 2"
| "result_int R_NotConnected = 3"
| "result_int R_NotReady = 4"
| "result_int R_Protocol = 5"
| "result_int R_Network = 6"
| "result_int R_Internal = 7"
| "result_int R_Unsupported = 8"
| "result_int R_BufferTooSmall = 9"
| "result_int R_QueueFull = 10"
| "result_int R_NoEvent = 11"

fun event_int :: "EventType \<Rightarrow> int" where
  "event_int Ev_Connecting = 0"
| "event_int Ev_TransportConnected = 1"
| "event_int Ev_Disconnected = 2"
| "event_int Ev_ProtocolError = 3"
| "event_int Ev_Welcome = 4"
| "event_int Ev_RxBroadcastStart = 5"
| "event_int Ev_RxBroadcastEnd = 6"
| "event_int Ev_LocalTxStart = 7"
| "event_int Ev_LocalTxEnd = 8"
| "event_int Ev_PttLocked = 9"
| "event_int Ev_PttUnlocked = 10"
| "event_int Ev_TxCountdownStart = 11"
| "event_int Ev_TxStop = 12"
| "event_int Ev_UdpTransportReady = 13"
| "event_int Ev_UdpTransportLost = 14"
| "event_int Ev_ConnectionFailed = 15"
| "event_int Ev_Connected = 16"
| "event_int Ev_ConnectionLost = 17"

lemma result_int_inject [simp]: "result_int a = result_int b \<longleftrightarrow> a = b"
  by (cases a; cases b) auto

lemma event_int_inject [simp]: "event_int a = event_int b \<longleftrightarrow> a = b"
  by (cases a; cases b) auto

text \<open>The enumerations are ordered by their underlying values.\<close>

instantiation Result :: linorder
begin
definition less_eq_Result :: "Result \<Rightarrow> Result \<Rightarrow> bool" where
  "less_eq_Result a b \<longleftrightarrow> result_int a \<le> result_int b"
definition less_Result :: "Result \<Rightarrow> Result \<Rightarrow> bool" where
  "less_Result a b \<longleftrightarrow> result_int a < result_int b"
instance
  by standard (auto simp: less_eq_Result_def less_Result_def antisym)
end

instantiation EventType :: linorder
begin
definition less_eq_EventType :: "EventType \<Rightarrow> EventType \<Rightarrow> bool" where
  "less_eq_EventType a b \<longleftrightarrow> event_int a \<le> event_int b"
definition less_EventType :: "EventType \<Rightarrow> EventType \<Rightarrow> bool" where
  "less_EventType a b \<longleftrightarrow> event_int a < event_int b"
instance
  by standard (auto simp: less_eq_EventType_def less_EventType_def antisym)
end

section \<open>Structs\<close>

record OpusConfig =
  oc_bitrate :: int
  oc_complexity :: int
  oc_fec :: bool
  oc_dtx :: bool
  oc_application :: string

definition OpusConfig_default :: OpusConfig where
  "OpusConfig_default =
     \<lparr>oc_bitrate = 12000, oc_complexity = 5, oc_fec = True, oc_dtx = False,
      oc_application = ''voip''\<rparr>"

definition kProtocolVersion :: int where "kProtocolVersion = 2"

definition kRogerDefaultTailMs :: int where "kRogerDefaultTailMs = 40"

record WelcomeConfig =
  wc_sessionId :: u32
  wc_protocolVersion :: int
  wc_sampleRate :: int
  wc_packetMs :: int
  wc_opus :: OpusConfig
  wc_busyMode :: bool
  wc_transmitTimeoutSec :: int

definition WelcomeConfig_default :: WelcomeConfig where
  "WelcomeConfig_default =
     \<lparr>wc_sessionId = 0, wc_protocolVersion = kProtocolVersion, wc_sampleRate = 8000,
      wc_packetMs = 20, wc_opus = OpusConfig_default, wc_busyMode = False,
      wc_transmitTimeoutSec = 60\<rparr>"

record Event =
  ev_type :: EventType
  ev_welcome :: WelcomeConfig
  ev_rxBusyMode :: bool
  ev_rxEndDelayMs :: int
  ev_pttDisplaySec :: int
  ev_txStopInfo :: string
  ev_protocolError :: string
  ev_disconnectCode :: int
  ev_disconnectReason :: string

definition Event_default :: Event where
  "Event_default =
     \<lparr>ev_type = Ev_Connecting, ev_welcome = WelcomeConfig_default, ev_rxBusyMode = False,
      ev_rxEndDelayMs = 0, ev_pttDisplaySec = 0, ev_txStopInfo = [], ev_protocolError = [],
      ev_disconnectCode = 0, ev_disconnectReason = []\<rparr>"

record ConnectParams =
  cp_host :: string
  cp_port :: int
  cp_channel :: string
  cp_useTls :: bool
  cp_repeaterMode :: bool

definition ConnectParams_default :: ConnectParams where
  "ConnectParams_default =
     \<lparr>cp_host = [], cp_port = 0, cp_channel = [], cp_useTls = False, cp_repeaterMode = False\<rparr>"

record SessionState =
  st_connected :: bool
  st_udpReady :: bool
  st_connectionLost :: bool
  st_receiving :: bool
  st_localTxActive :: bool
  st_pttServerLocked :: bool
  st_pttLockDisplaySec :: int
  st_welcome :: WelcomeConfig
  st_hasWelcome :: bool

definition SessionState_default :: SessionState where
  "SessionState_default =
     \<lparr>st_connected = False, st_udpReady = False, st_connectionLost = False,
      st_receiving = False, st_localTxActive = False, st_pttServerLocked = False,
      st_pttLockDisplaySec = 0, st_welcome = WelcomeConfig_default, st_hasWelcome = False\<rparr>"

record UdpAudioPacket =
  up_sessionId :: u32
  up_sequence :: u32
  up_signalStrength :: u8
  up_opus :: "u8 list"

definition UdpAudioPacket_default :: UdpAudioPacket where
  "UdpAudioPacket_default =
     \<lparr>up_sessionId = 0, up_sequence = 0, up_signalStrength = 0, up_opus = []\<rparr>"

text \<open>
  Frequencies and gains are \<open>double\<close>s; the type \<open>'f\<close> stands for the machine's floating
  point numbers (see theory \<open>Signal_Pcm\<close>).
\<close>

record 'f SignalPoint =
  sp_freqHz :: 'f
  sp_durationMs :: int

record 'f SignalPattern =
  sg_points :: "'f SignalPoint list"
  sg_tailMs :: int
  sg_repeatCount :: int
  sg_gain :: 'f

text \<open>An event that carries only its type.\<close>

abbreviation plain_event :: "EventType \<Rightarrow> Event" where
  "plain_event t \<equiv> Event_default\<lparr>ev_type := t\<rparr>"

lemma Event_default_sel [simp]:
  "ev_type Event_default = Ev_Connecting" "ev_welcome Event_default = WelcomeConfig_default"
  "ev_disconnectReason Event_default = []" "ev_pttDisplaySec Event_default = 0"
  "ev_rxBusyMode Event_default = False" "ev_protocolError Event_default = []"
  "ev_txStopInfo Event_default = []" "ev_rxEndDelayMs Event_default = 0"
  "ev_disconnectCode Event_default = 0"
  by (simp_all add: Event_default_def)

lemma WelcomeConfig_default_sel [simp]:
  "wc_sessionId WelcomeConfig_default = 0" "wc_sampleRate WelcomeConfig_default = 8000"
  "wc_packetMs WelcomeConfig_default = 20" "wc_transmitTimeoutSec WelcomeConfig_default = 60"
  "wc_opus WelcomeConfig_default = OpusConfig_default"
  by (simp_all add: WelcomeConfig_default_def)

lemma SessionState_default_sel [simp]:
  "st_connected SessionState_default = False" "st_udpReady SessionState_default = False"
  "st_connectionLost SessionState_default = False" "st_receiving SessionState_default = False"
  "st_localTxActive SessionState_default = False" "st_pttServerLocked SessionState_default = False"
  "st_pttLockDisplaySec SessionState_default = 0" "st_hasWelcome SessionState_default = False"
  "st_welcome SessionState_default = WelcomeConfig_default"
  by (simp_all add: SessionState_default_def)

end
