(* ===== verification/Protocol.thy ===== *)
theory Protocol
  imports OW_Types
begin

text \<open>
  \<open>owalkie-core/src/protocol.cpp\<close> (normalisation of the negotiated audio format) and
  \<open>src/version.cpp\<close>. The products are computed on mathematical integers; \<open>frameSamples_int32\<close>
  shows that no \<open>int\<close> overflows on the normalised values the session and the codec use.
\<close>

definition normalizeSampleRate :: "int \<Rightarrow> int" where
  "normalizeSampleRate v =
     (if v = 8000 \<or> v = 12000 \<or> v = 16000 \<or> v = 24000 \<or> v = 48000 then v else 8000)"

definition normalizePacketMs :: "int \<Rightarrow> int" where
  "normalizePacketMs v = (if v = 10 \<or> v = 20 \<or> v = 40 \<or> v = 60 then v else 20)"

definition frameSamples :: "int \<Rightarrow> int \<Rightarrow> int" where
  "frameSamples sampleRate packetMs =
     (if sampleRate \<le> 0 \<or> packetMs \<le> 0 then 0 else (sampleRate * packetMs) sdiv 1000)"

definition version_string :: string where "version_string = ''0.1.0''"
definition version_major :: int where "version_major = 0"
definition version_minor :: int where "version_minor = 1"

lemma normalizeSampleRate_cases:
  "normalizeSampleRate v \<in> {8000, 12000, 16000, 24000, 48000}"
  by (simp add: normalizeSampleRate_def)

lemma normalizePacketMs_cases: "normalizePacketMs v \<in> {10, 20, 40, 60}"
  by (simp add: normalizePacketMs_def)

lemma normalizeSampleRate_idem [simp]:
  "normalizeSampleRate (normalizeSampleRate v) = normalizeSampleRate v"
  by (simp add: normalizeSampleRate_def)

lemma normalizePacketMs_idem [simp]:
  "normalizePacketMs (normalizePacketMs v) = normalizePacketMs v"
  by (simp add: normalizePacketMs_def)

lemma frameSamples_pos_div:
  "0 < r \<Longrightarrow> 0 < p \<Longrightarrow> frameSamples r p = (r * p) div 1000"
  by (simp add: frameSamples_def signed_divide_int_def)

lemma frameSamples_nonneg: "0 \<le> frameSamples r p"
  by (auto simp: frameSamples_def signed_divide_int_def sgn_if pos_imp_zdiv_nonneg_iff)

text \<open>
  Whatever sample rate and packet length a server announces, the normalised pair gives an Opus
  frame: the sample count is exact (no rounding), between 80 and 2880, its duration is one of the
  10, 20, 40, 60 ms that Opus encodes, and the product that computes it fits an \<open>int\<close>.
\<close>

theorem normalised_frame_is_opus_frame:
  "let r = normalizeSampleRate sr; p = normalizePacketMs ms; n = frameSamples r p
   in n * 1000 = r * p \<and> 80 \<le> n \<and> n \<le> 2880 \<and> int32 (r * p)"
  using normalizeSampleRate_cases [of sr] normalizePacketMs_cases [of ms]
  by (elim insertE emptyE) (simp_all add: Let_def frameSamples_pos_div int32_def)

end
