(* ===== verification/Json_Wire.thy ===== *)
theory Json_Wire
  imports Protocol
begin

text \<open>
  The JSON messages of \<open>owalkie-core/src/json.cpp\<close>. The JSON library (nlohmann) is not part of
  the repository: its operations are the fields of \<open>json_lib\<close>, over a type \<open>'j\<close> of JSON
  documents, and every theorem here holds for whatever they are. A library call that may throw
  returns an option, \<open>None\<close> for the exception; \<open>value\<close> throws when the document is no
  object or the member has another type, and gives the default when the member is missing.
  The parsers write into an output parameter, so a message that breaks off half way leaves the
  fields assigned before it: they return the result and that output.
\<close>

record 'j json_lib =
  jl_parse :: "string \<Rightarrow> 'j option"
  jl_dump :: "'j \<Rightarrow> string option"
  jl_object :: "(string \<times> 'j) list \<Rightarrow> 'j"
  jl_string :: "string \<Rightarrow> 'j"
  jl_int :: "int \<Rightarrow> 'j"
  jl_bool :: "bool \<Rightarrow> 'j"
  jl_contains :: "'j \<Rightarrow> string \<Rightarrow> bool"
  jl_at :: "'j \<Rightarrow> string \<Rightarrow> 'j"
  jl_is_null :: "'j \<Rightarrow> bool"
  jl_is_object :: "'j \<Rightarrow> bool"
  jl_is_number :: "'j \<Rightarrow> bool"
  jl_is_boolean :: "'j \<Rightarrow> bool"
  jl_is_string :: "'j \<Rightarrow> bool"
  jl_value_int :: "'j \<Rightarrow> string \<Rightarrow> int \<Rightarrow> int option"
  jl_value_uint :: "'j \<Rightarrow> string \<Rightarrow> u32 \<Rightarrow> u32 option"
  jl_value_bool :: "'j \<Rightarrow> string \<Rightarrow> bool \<Rightarrow> bool option"
  jl_value_string :: "'j \<Rightarrow> string \<Rightarrow> string \<Rightarrow> string option"

text \<open>
  \<open>catching x out k\<close> runs \<open>k\<close> on the value of a library call inside \<open>try { } catch (...)\<close>:
  an exception ends the function with \<open>Protocol\<close> and the output as it is.
\<close>

definition catching :: "'a option \<Rightarrow> 'o \<Rightarrow> ('a \<Rightarrow> Result \<times> 'o) \<Rightarrow> Result \<times> 'o" where
  "catching x out k = (case x of None \<Rightarrow> (R_Protocol, out) | Some v \<Rightarrow> k v)"

text \<open>\<open>assigning x f k\<close> is \<open>out.field = x; k\<close> inside such a block: \<open>f\<close> stores the value.\<close>

definition assigning ::
  "'a option \<Rightarrow> ('a \<Rightarrow> 'o \<Rightarrow> 'o) \<Rightarrow> ('o \<Rightarrow> Result \<times> 'o) \<Rightarrow> 'o \<Rightarrow> Result \<times> 'o" where
  "assigning x f k out = catching x out (\<lambda>v. k (f v out))"

section \<open>The parsers\<close>

definition parseWelcome_timeout :: "'j json_lib \<Rightarrow> 'j \<Rightarrow> int option" where
  "parseWelcome_timeout L root =
     (if jl_contains L root ''transmitTimeoutSec'' \<and> \<not> jl_is_null L (jl_at L root ''transmitTimeoutSec'')
      then jl_value_int L root ''transmitTimeoutSec'' 60
      else if jl_contains L root ''transmit_timeout'' \<and> \<not> jl_is_null L (jl_at L root ''transmit_timeout'')
      then jl_value_int L root ''transmit_timeout'' 60
      else Some 60)"

definition parseWelcome_opus :: "'j json_lib \<Rightarrow> 'j \<Rightarrow> WelcomeConfig \<Rightarrow> Result \<times> WelcomeConfig" where
  "parseWelcome_opus L opus =
     assigning (jl_value_int L opus ''bitrate'' 12000)
       (\<lambda>v out. out\<lparr>wc_opus := (wc_opus out)\<lparr>oc_bitrate := std_clamp v 6000 510000\<rparr>\<rparr>) (
     assigning (jl_value_int L opus ''complexity'' 5)
       (\<lambda>v out. out\<lparr>wc_opus := (wc_opus out)\<lparr>oc_complexity := std_clamp v 0 10\<rparr>\<rparr>) (
     assigning (jl_value_bool L opus ''fec'' True)
       (\<lambda>v out. out\<lparr>wc_opus := (wc_opus out)\<lparr>oc_fec := v\<rparr>\<rparr>) (
     assigning (jl_value_bool L opus ''dtx'' False)
       (\<lambda>v out. out\<lparr>wc_opus := (wc_opus out)\<lparr>oc_dtx := v\<rparr>\<rparr>) (
     assigning (jl_value_string L opus ''application'' ''voip'')
       (\<lambda>v out. out\<lparr>wc_opus := (wc_opus out)\<lparr>oc_application := v\<rparr>\<rparr>) (
     \<lambda>out. (R_Ok, out))))))"

definition parseWelcome_fields :: "'j json_lib \<Rightarrow> 'j \<Rightarrow> int \<Rightarrow> WelcomeConfig \<Rightarrow> Result \<times> WelcomeConfig" where
  "parseWelcome_fields L root protocol =
     assigning (jl_value_uint L root ''sessionId'' 0)
       (\<lambda>v out. out\<lparr>wc_sessionId := v, wc_protocolVersion := protocol\<rparr>) (
     assigning (jl_value_int L root ''sampleRate'' 8000)
       (\<lambda>v out. out\<lparr>wc_sampleRate := normalizeSampleRate v\<rparr>) (
     assigning (jl_value_int L root ''packetMs'' 20)
       (\<lambda>v out. out\<lparr>wc_packetMs := normalizePacketMs v\<rparr>) (
     assigning (jl_value_bool L root ''busyMode'' False)
       (\<lambda>v out. out\<lparr>wc_busyMode := v\<rparr>) (
     assigning (parseWelcome_timeout L root)
       (\<lambda>v out. out\<lparr>wc_transmitTimeoutSec := max 0 v\<rparr>) (
     \<lambda>out. if jl_contains L root ''opus'' \<and> jl_is_object L (jl_at L root ''opus'')
           then parseWelcome_opus L (jl_at L root ''opus'') out
           else (R_Ok, out))))))"

definition parseWelcome ::
  "'j json_lib \<Rightarrow> string \<Rightarrow> WelcomeConfig \<Rightarrow> int \<Rightarrow> Result \<times> WelcomeConfig" where
  "parseWelcome L msg out requiredProtocolVersion =
     catching (jl_parse L msg) out (\<lambda>root.
     catching (jl_value_int L root ''protocolVersion'' (-1)) out (\<lambda>protocol.
     if protocol \<noteq> requiredProtocolVersion then (R_Protocol, out)
     else if \<not> jl_contains L root ''sampleRate'' then (R_Protocol, out)
     else parseWelcome_fields L root protocol WelcomeConfig_default))"

definition parseServerMessage :: "'j json_lib \<Rightarrow> string \<Rightarrow> Event \<Rightarrow> Result \<times> Event" where
  "parseServerMessage L msg out =
     catching (jl_parse L msg) out (\<lambda>root.
     catching (jl_value_string L root ''type'' []) out (\<lambda>ty.
     if ty = ''welcome'' then
       (let out = out\<lparr>ev_type := Ev_Welcome\<rparr>;
            (r, w) = parseWelcome L msg (ev_welcome out) kProtocolVersion
        in (r, out\<lparr>ev_welcome := w\<rparr>))
     else if ty = ''rx_broadcast_start'' then
       (let out = out\<lparr>ev_type := Ev_RxBroadcastStart\<rparr>
        in catching (jl_value_bool L root ''busyMode'' False) out (\<lambda>b. (R_Ok, out\<lparr>ev_rxBusyMode := b\<rparr>)))
     else if ty = ''rx_broadcast_end'' then
       (let out = out\<lparr>ev_type := Ev_RxBroadcastEnd\<rparr>
        in catching (jl_value_int L root ''endDelayMs'' 0) out (\<lambda>v. (R_Ok, out\<lparr>ev_rxEndDelayMs := v\<rparr>)))
     else if ty = ''ptt_lock'' then
       (let out = out\<lparr>ev_type := Ev_PttLocked\<rparr>
        in catching (jl_value_int L root ''displaySec'' 0) out (\<lambda>v. (R_Ok, out\<lparr>ev_pttDisplaySec := v\<rparr>)))
     else if ty = ''ptt_unlock'' then (R_Ok, out\<lparr>ev_type := Ev_PttUnlocked\<rparr>)
     else if ty = ''tx_countdown_start'' then (R_Ok, out\<lparr>ev_type := Ev_TxCountdownStart\<rparr>)
     else if ty = ''tx_stop'' then
       (let out = out\<lparr>ev_type := Ev_TxStop\<rparr>
        in catching (jl_value_string L root ''info'' ''transmit_timeout_reached'') out
             (\<lambda>s. (R_Ok, out\<lparr>ev_txStopInfo := s\<rparr>)))
     else if ty = ''joined'' \<or> ty = ''pong'' \<or> ty = ''udp_registered'' \<or> ty = ''repeater_mode''
     then (R_NoEvent, out)
     else (R_InvalidArg, out)))"

definition parseHasActivityResponse :: "'j json_lib \<Rightarrow> string \<Rightarrow> bool \<Rightarrow> Result \<times> bool" where
  "parseHasActivityResponse L msg outActive =
     catching (jl_parse L msg) outActive (\<lambda>root.
     catching (jl_value_string L root ''type'' []) outActive (\<lambda>ty.
     if ty \<noteq> ''has_activity'' then (R_InvalidArg, outActive)
     else catching (jl_value_bool L root ''active'' False) outActive (\<lambda>b. (R_Ok, b))))"

section \<open>The builders\<close>

definition buildJoin :: "'j json_lib \<Rightarrow> string \<Rightarrow> string option" where
  "buildJoin L channel =
     jl_dump L (jl_object L [(''type'', jl_string L ''join''), (''channel'', jl_string L channel)])"

definition buildHasActivity :: "'j json_lib \<Rightarrow> string \<Rightarrow> string option" where
  "buildHasActivity L channel =
     jl_dump L (jl_object L [(''type'', jl_string L ''has_activity''), (''channel'', jl_string L channel)])"

definition buildUdpHello :: "'j json_lib \<Rightarrow> int \<Rightarrow> string option" where
  "buildUdpHello L localUdpPort =
     jl_dump L (jl_object L [(''type'', jl_string L ''udp_hello''), (''udpPort'', jl_int L localUdpPort)])"

definition buildRepeaterMode :: "'j json_lib \<Rightarrow> bool \<Rightarrow> string option" where
  "buildRepeaterMode L enabled =
     jl_dump L (jl_object L [(''type'', jl_string L ''repeater_mode''), (''enabled'', jl_bool L enabled)])"

definition buildHeartbeat :: "'j json_lib \<Rightarrow> string option" where
  "buildHeartbeat L = jl_dump L (jl_object L [(''type'', jl_string L ''heartbeat'')])"

section \<open>What a welcome can hold\<close>

text \<open>The settings a welcome may carry after parsing, whatever the server sent.\<close>

definition welcome_ok :: "WelcomeConfig \<Rightarrow> bool" where
  "welcome_ok w \<longleftrightarrow>
     wc_sampleRate w \<in> {8000, 12000, 16000, 24000, 48000} \<and> wc_packetMs w \<in> {10, 20, 40, 60}
     \<and> 0 \<le> wc_transmitTimeoutSec w
     \<and> 6000 \<le> oc_bitrate (wc_opus w) \<and> oc_bitrate (wc_opus w) \<le> 510000
     \<and> 0 \<le> oc_complexity (wc_opus w) \<and> oc_complexity (wc_opus w) \<le> 10"

lemma catching_simps [simp]:
  "catching None out k = (R_Protocol, out)" "catching (Some v) out k = k v"
  by (simp_all add: catching_def)

lemma assigning_inv:
  assumes "I out" and "\<And>v o'. I o' \<Longrightarrow> I (f v o')" and "\<And>o'. I o' \<Longrightarrow> I (snd (k o'))"
  shows "I (snd (assigning x f k out))"
  using assms by (cases x) (simp_all add: assigning_def)

definition ok_or_protocol :: "Result \<Rightarrow> bool" where
  "ok_or_protocol r \<longleftrightarrow> r = R_Ok \<or> r = R_Protocol"

lemma ok_or_protocol_simps [simp]: "ok_or_protocol R_Ok" "ok_or_protocol R_Protocol"
  by (simp_all add: ok_or_protocol_def)

lemma assigning_fst:
  "(\<And>o'. ok_or_protocol (fst (k o'))) \<Longrightarrow> ok_or_protocol (fst (assigning x f k out))"
  by (cases x) (simp_all add: assigning_def)

lemma welcome_ok_updates [simp]:
  "welcome_ok w \<Longrightarrow> welcome_ok (w\<lparr>wc_opus := (wc_opus w)\<lparr>oc_bitrate := std_clamp v 6000 510000\<rparr>\<rparr>)"
  "welcome_ok w \<Longrightarrow> welcome_ok (w\<lparr>wc_opus := (wc_opus w)\<lparr>oc_complexity := std_clamp v 0 10\<rparr>\<rparr>)"
  "welcome_ok w \<Longrightarrow> welcome_ok (w\<lparr>wc_opus := (wc_opus w)\<lparr>oc_fec := b\<rparr>\<rparr>)"
  "welcome_ok w \<Longrightarrow> welcome_ok (w\<lparr>wc_opus := (wc_opus w)\<lparr>oc_dtx := b\<rparr>\<rparr>)"
  "welcome_ok w \<Longrightarrow> welcome_ok (w\<lparr>wc_opus := (wc_opus w)\<lparr>oc_application := s\<rparr>\<rparr>)"
  "welcome_ok w \<Longrightarrow> welcome_ok (w\<lparr>wc_sessionId := i\<rparr>)"
  "welcome_ok w \<Longrightarrow> welcome_ok (w\<lparr>wc_protocolVersion := j\<rparr>)"
  "welcome_ok w \<Longrightarrow> welcome_ok (w\<lparr>wc_sampleRate := normalizeSampleRate j\<rparr>)"
  "welcome_ok w \<Longrightarrow> welcome_ok (w\<lparr>wc_packetMs := normalizePacketMs j\<rparr>)"
  "welcome_ok w \<Longrightarrow> welcome_ok (w\<lparr>wc_busyMode := b\<rparr>)"
  "welcome_ok w \<Longrightarrow> welcome_ok (w\<lparr>wc_transmitTimeoutSec := max 0 j\<rparr>)"
  using normalizeSampleRate_cases [of j] normalizePacketMs_cases [of j]
  by (simp_all add: welcome_ok_def std_clamp_bounds)

lemma WelcomeConfig_default_ok [simp]: "welcome_ok WelcomeConfig_default"
  by (simp add: welcome_ok_def WelcomeConfig_default_def OpusConfig_default_def)

lemma parseWelcome_opus_ok: "welcome_ok out \<Longrightarrow> welcome_ok (snd (parseWelcome_opus L opus out))"
  unfolding parseWelcome_opus_def by (intro assigning_inv [where I = welcome_ok]) simp_all

lemma parseWelcome_fields_ok: "welcome_ok out \<Longrightarrow> welcome_ok (snd (parseWelcome_fields L root p out))"
  unfolding parseWelcome_fields_def by (intro assigning_inv [where I = welcome_ok]) (simp_all add: parseWelcome_opus_ok)

lemma parseWelcome_opus_protocol:
  "wc_protocolVersion out = p \<Longrightarrow> wc_protocolVersion (snd (parseWelcome_opus L opus out)) = p"
  unfolding parseWelcome_opus_def
  by (intro assigning_inv [where I = "\<lambda>w. wc_protocolVersion w = p"]) simp_all

lemma parseWelcome_opus_fst: "ok_or_protocol (fst (parseWelcome_opus L opus out))"
  unfolding parseWelcome_opus_def by (intro assigning_fst) simp

lemma parseWelcome_fields_fst: "ok_or_protocol (fst (parseWelcome_fields L root p out))"
  unfolding parseWelcome_fields_def by (intro assigning_fst) (simp add: parseWelcome_opus_fst)

lemma parseWelcome_fields_protocol:
  assumes "fst (parseWelcome_fields L root p out) = R_Ok"
  shows "wc_protocolVersion (snd (parseWelcome_fields L root p out)) = p"
proof (cases "jl_value_uint L root ''sessionId'' 0")
  case None
  with assms show ?thesis by (simp add: parseWelcome_fields_def assigning_def)
next
  case (Some sid)
  let ?out = "out\<lparr>wc_sessionId := sid, wc_protocolVersion := p\<rparr>"
  show ?thesis
    unfolding parseWelcome_fields_def
    by (subst assigning_def, simp add: Some,
        intro assigning_inv [where I = "\<lambda>w. wc_protocolVersion w = p"])
      (simp_all add: parseWelcome_opus_protocol)
qed

lemmas parseWelcome_facts = parseWelcome_fields_ok [OF WelcomeConfig_default_ok] parseWelcome_fields_fst
  parseWelcome_fields_protocol

lemma parseWelcome_cases:
  "parseWelcome L msg out req = (R_Protocol, out) \<or>
   (\<exists>root. parseWelcome L msg out req = parseWelcome_fields L root req WelcomeConfig_default)"
  by (auto simp: parseWelcome_def catching_def split: option.splits)

lemma parseWelcome_fst: "ok_or_protocol (fst (parseWelcome L msg out req))"
  using parseWelcome_cases [of L msg out req] parseWelcome_fields_fst by force

section \<open>A JSON library to instantiate the parameter with\<close>

text \<open>
  \<open>jv_lib parse dump\<close> is a concrete instance of the library's interface, on a datatype of
  documents, used by the witnesses only.
\<close>

datatype jv = JNull | JBool bool | JInt int | JStr string | JObj "(string \<times> jv) list"

fun jv_member :: "jv \<Rightarrow> string \<Rightarrow> jv option" where
  "jv_member (JObj kvs) k = map_of kvs k"
| "jv_member _ k = None"

fun jv_is_object :: "jv \<Rightarrow> bool" where
  "jv_is_object (JObj kvs) = True"
| "jv_is_object _ = False"

definition jv_value :: "(jv \<Rightarrow> 'a option) \<Rightarrow> jv \<Rightarrow> string \<Rightarrow> 'a \<Rightarrow> 'a option" where
  "jv_value get j k d =
     (if \<not> jv_is_object j then None
      else (case jv_member j k of None \<Rightarrow> Some d | Some v \<Rightarrow> get v))"

definition jv_lib :: "(string \<Rightarrow> jv option) \<Rightarrow> (jv \<Rightarrow> string option) \<Rightarrow> jv json_lib" where
  "jv_lib parse dump =
     \<lparr>jl_parse = parse, jl_dump = dump, jl_object = JObj, jl_string = JStr, jl_int = JInt,
      jl_bool = JBool, jl_contains = (\<lambda>j k. jv_member j k \<noteq> None),
      jl_at = (\<lambda>j k. case jv_member j k of None \<Rightarrow> JNull | Some v \<Rightarrow> v),
      jl_is_null = (\<lambda>j. j = JNull), jl_is_object = jv_is_object,
      jl_is_number = (\<lambda>j. case j of JInt _ \<Rightarrow> True | _ \<Rightarrow> False),
      jl_is_boolean = (\<lambda>j. case j of JBool _ \<Rightarrow> True | _ \<Rightarrow> False),
      jl_is_string = (\<lambda>j. case j of JStr _ \<Rightarrow> True | _ \<Rightarrow> False),
      jl_value_int = jv_value (\<lambda>v. case v of JInt n \<Rightarrow> Some n | _ \<Rightarrow> None),
      jl_value_uint = jv_value (\<lambda>v. case v of JInt n \<Rightarrow> Some (word_of_int n) | _ \<Rightarrow> None),
      jl_value_bool = jv_value (\<lambda>v. case v of JBool b \<Rightarrow> Some b | _ \<Rightarrow> None),
      jl_value_string = jv_value (\<lambda>v. case v of JStr s \<Rightarrow> Some s | _ \<Rightarrow> None)\<rparr>"

text \<open>
  Whatever a server sends and whatever the JSON library makes of it, an accepted welcome has
  the requested protocol version, a sample rate and a packet length that Opus knows, a
  non-negative timeout and codec settings in Opus's range; a refused one is a protocol error
  and leaves either the old settings or settings in the same bounds (never raw server values).
\<close>

theorem parseWelcome_within_bounds:
  "let (r, w) = parseWelcome L msg out req
   in (r = R_Ok \<longrightarrow> welcome_ok w \<and> wc_protocolVersion w = req)
      \<and> (r \<noteq> R_Ok \<longrightarrow> r = R_Protocol \<and> (w = out \<or> welcome_ok w))"
  using parseWelcome_cases [of L msg out req] parseWelcome_facts [of L _ req] parseWelcome_fst [of L msg out req]
  by (auto simp: split_beta ok_or_protocol_def)

theorem parseWelcome_within_bounds_witness:
  "let L = jv_lib (\<lambda>_. Some (JObj [(''protocolVersion'', JInt 2), (''sampleRate'', JInt 44100),
             (''transmitTimeoutSec'', JInt (-5)), (''opus'', JObj [(''complexity'', JInt 99)])])) (\<lambda>_. None);
       (r, w) = parseWelcome L ''...'' WelcomeConfig_default 2
   in r = R_Ok \<and> welcome_ok w \<and> wc_transmitTimeoutSec w = 0 \<and> oc_complexity (wc_opus w) = 10"
proof -
  define L where "L = jv_lib (\<lambda>_. Some (JObj [(''protocolVersion'', JInt 2), (''sampleRate'', JInt 44100),
             (''transmitTimeoutSec'', JInt (-5)), (''opus'', JObj [(''complexity'', JInt 99)])])) (\<lambda>_. None)"
  have "fst (parseWelcome L ''...'' WelcomeConfig_default 2) = R_Ok"
    "wc_transmitTimeoutSec (snd (parseWelcome L ''...'' WelcomeConfig_default 2)) = 0"
    "oc_complexity (wc_opus (snd (parseWelcome L ''...'' WelcomeConfig_default 2))) = 10"
    by (simp_all add: L_def jv_lib_def jv_value_def parseWelcome_def parseWelcome_fields_def
        parseWelcome_opus_def parseWelcome_timeout_def assigning_def std_clamp_def)
  then show ?thesis
    using parseWelcome_within_bounds [of L "''...''" WelcomeConfig_default 2]
    unfolding L_def [symmetric] by (simp add: split_beta)
qed

section \<open>Server messages\<close>

text \<open>The event each message type of the relay stands for.\<close>

definition server_event :: "string \<Rightarrow> EventType option" where
  "server_event ty = map_of
     [(''welcome'', Ev_Welcome), (''rx_broadcast_start'', Ev_RxBroadcastStart),
      (''rx_broadcast_end'', Ev_RxBroadcastEnd), (''ptt_lock'', Ev_PttLocked),
      (''ptt_unlock'', Ev_PttUnlocked), (''tx_countdown_start'', Ev_TxCountdownStart),
      (''tx_stop'', Ev_TxStop)] ty"

lemma parseServerMessage_ignored:
  assumes "jl_parse L msg = Some root" "jl_value_string L root ''type'' [] = Some ty" "server_event ty = None"
  shows "snd (parseServerMessage L msg out) = out"
    and "fst (parseServerMessage L msg out) \<in> {R_NoEvent, R_InvalidArg}"
  using assms by (auto simp: parseServerMessage_def server_event_def split: if_splits)

lemma server_event_cases:
  assumes "server_event ty = Some t"
  obtains "ty = ''welcome''" "t = Ev_Welcome" | "ty = ''rx_broadcast_start''" "t = Ev_RxBroadcastStart"
    | "ty = ''rx_broadcast_end''" "t = Ev_RxBroadcastEnd" | "ty = ''ptt_lock''" "t = Ev_PttLocked"
    | "ty = ''ptt_unlock''" "t = Ev_PttUnlocked" | "ty = ''tx_countdown_start''" "t = Ev_TxCountdownStart"
    | "ty = ''tx_stop''" "t = Ev_TxStop"
  using assms by (auto simp: server_event_def split: if_splits)

lemma parseServerMessage_event:
  assumes "jl_parse L msg = Some root" "jl_value_string L root ''type'' [] = Some ty" "server_event ty = Some t"
  shows "ok_or_protocol (fst (parseServerMessage L msg out))"
    and "ev_type (snd (parseServerMessage L msg out)) = t"
    and "ev_protocolError (snd (parseServerMessage L msg out)) = ev_protocolError out"
    and "ev_disconnectCode (snd (parseServerMessage L msg out)) = ev_disconnectCode out"
    and "ev_disconnectReason (snd (parseServerMessage L msg out)) = ev_disconnectReason out"
  using assms(3)
  by (cases rule: server_event_cases;
      simp add: parseServerMessage_def assms catching_def split_beta Let_def parseWelcome_fst split: option.split)+

lemma parseServerMessage_welcome:
  assumes "jl_parse L msg = Some root" "jl_value_string L root ''type'' [] = Some ''welcome''"
  shows "parseServerMessage L msg out =
           (case parseWelcome L msg (ev_welcome out) kProtocolVersion of
              (r, w) \<Rightarrow> (r, out\<lparr>ev_type := Ev_Welcome, ev_welcome := w\<rparr>))"
  by (simp add: parseServerMessage_def assms split_beta)

lemma parseServerMessage_exception:
  "jl_parse L msg = None \<Longrightarrow> parseServerMessage L msg out = (R_Protocol, out)"
  "jl_parse L msg = Some root \<Longrightarrow> jl_value_string L root ''type'' [] = None \<Longrightarrow>
   parseServerMessage L msg out = (R_Protocol, out)"
  by (simp_all add: parseServerMessage_def)

text \<open>The server-side events: those a message of the relay can produce.\<close>

definition server_event_types :: "EventType list" where
  "server_event_types = [Ev_Welcome, Ev_RxBroadcastStart, Ev_RxBroadcastEnd, Ev_PttLocked,
     Ev_PttUnlocked, Ev_TxCountdownStart, Ev_TxStop]"

lemma parseServerMessage_type:
  assumes "parseServerMessage L msg out = (R_Ok, e)"
  shows "ev_type e \<in> set server_event_types"
proof (cases "jl_parse L msg")
  case None
  with assms show ?thesis by (simp add: parseServerMessage_exception)
next
  case root: (Some root)
  show ?thesis
  proof (cases "jl_value_string L root ''type'' []")
    case None
    with root assms show ?thesis by (simp add: parseServerMessage_exception)
  next
    case ty: (Some ty)
    show ?thesis
    proof (cases "server_event ty")
      case None
      from parseServerMessage_ignored [OF root ty None, of out] assms show ?thesis by simp
    next
      case t: (Some t)
      from parseServerMessage_event(2) [OF root ty t, of out] assms have "ev_type e = t" by simp
      with t show ?thesis by (auto elim: server_event_cases simp: server_event_types_def)
    qed
  qed
qed

text \<open>
  A message from the relay yields an event exactly of the kind its \<open>type\<close> member names, and
  only of the seven server-side kinds, so the server cannot fake the client's own lifecycle
  events (connected, disconnected, connection lost, ...) nor their error and disconnect fields;
  acknowledgements and unknown messages give no event and leave the output untouched; anything
  the JSON library rejects is a protocol error.
\<close>

theorem parseServerMessage_dispatch:
  "let (r, e) = parseServerMessage L msg out
   in r \<in> {R_Ok, R_NoEvent, R_InvalidArg, R_Protocol}
      \<and> (r = R_Ok \<longrightarrow> (\<exists>root ty. jl_parse L msg = Some root \<and> jl_value_string L root ''type'' [] = Some ty
                         \<and> server_event ty = Some (ev_type e)) \<and> ev_type e \<in> set server_event_types)
      \<and> (r = R_Ok \<and> ev_type e = Ev_Welcome \<longrightarrow> welcome_ok (ev_welcome e))
      \<and> (r \<in> {R_NoEvent, R_InvalidArg} \<longrightarrow> e = out)
      \<and> ev_protocolError e = ev_protocolError out \<and> ev_disconnectCode e = ev_disconnectCode out
      \<and> ev_disconnectReason e = ev_disconnectReason out"
proof (cases "jl_parse L msg")
  case None
  then show ?thesis by (simp add: parseServerMessage_exception)
next
  case (Some root)
  show ?thesis
  proof (cases "jl_value_string L root ''type'' []")
    case None
    with Some show ?thesis by (simp add: parseServerMessage_exception)
  next
    case ty: (Some ty)
    show ?thesis
    proof (cases "server_event ty")
      case None
      from parseServerMessage_ignored [OF Some ty None, of out] show ?thesis
        by (auto simp: split_beta)
    next
      case t: (Some t)
      note facts = parseServerMessage_event [OF Some ty t, of out]
      have "welcome_ok (ev_welcome (snd (parseServerMessage L msg out)))"
        if "fst (parseServerMessage L msg out) = R_Ok" "t = Ev_Welcome"
      proof -
        from t that(2) have "ty = ''welcome''" by (auto elim: server_event_cases)
        then have eq: "parseServerMessage L msg out =
           (case parseWelcome L msg (ev_welcome out) kProtocolVersion of
              (r, w) \<Rightarrow> (r, out\<lparr>ev_type := Ev_Welcome, ev_welcome := w\<rparr>))"
          using parseServerMessage_welcome [of L msg root out] Some ty by simp
        with that(1) show ?thesis
          using parseWelcome_cases [of L msg "ev_welcome out" kProtocolVersion]
            parseWelcome_facts(1) [of L _ kProtocolVersion]
          by (auto simp: split_beta)
      qed
      moreover have "t \<in> set server_event_types"
        using t by (auto elim: server_event_cases simp: server_event_types_def)
      ultimately show ?thesis
        using facts t Some ty by (auto simp: split_beta ok_or_protocol_def)
    qed
  qed
qed

theorem parseServerMessage_dispatch_witness:
  "let L = jv_lib (\<lambda>_. Some (JObj [(''type'', JStr ''ptt_lock''), (''displaySec'', JInt 9)])) (\<lambda>_. None);
       (r, e) = parseServerMessage L ''...'' Event_default
   in r = R_Ok \<and> ev_pttDisplaySec e = 9 \<and> ev_type e \<in> set server_event_types"
proof -
  define L where "L = jv_lib (\<lambda>_. Some (JObj [(''type'', JStr ''ptt_lock''), (''displaySec'', JInt 9)])) (\<lambda>_. None)"
  have eq: "parseServerMessage L ''...'' Event_default
      = (R_Ok, Event_default\<lparr>ev_type := Ev_PttLocked, ev_pttDisplaySec := 9\<rparr>)"
    by (simp add: parseServerMessage_def L_def jv_lib_def jv_value_def)
  show ?thesis
    using parseServerMessage_dispatch [of L "''...''" Event_default]
    unfolding L_def [symmetric] by (simp add: eq)
qed

end
