(* ===== verification/Host_Endpoint.thy ===== *)
theory Host_Endpoint
  imports OW_Types
begin

text \<open>
  The two parsers of a server address: \<open>parseHostEndpoint\<close> of \<open>session.cpp\<close>, used to connect,
  and the one of \<open>activity_probe.cpp\<close>, used to ask for activity. \<open>None\<close> is the exception that
  \<open>std::stoi\<close> throws and the first parser does not catch.
\<close>

record ParsedHost =
  ph_host :: string
  ph_port :: int
  ph_useTls :: bool

record ProbeHost =
  pr_host :: string
  pr_useTls :: bool

text \<open>Both parsers strip the scheme and the path in the same way.\<close>

definition strip_scheme :: "string \<Rightarrow> string \<times> bool" where
  "strip_scheme rawHost =
     (let val = rawHost; lowered = map c_tolower val
      in if starts_with ''wss://'' lowered then (drop 6 val, True)
         else if starts_with ''ws://'' lowered then (drop 5 val, False)
         else if starts_with ''https://'' lowered then (drop 8 val, True)
         else if starts_with ''http://'' lowered then (drop 7 val, False)
         else (val, False))"

definition strip_path :: "string \<Rightarrow> string" where
  "strip_path val = (case find_char (CHR ''/'') val of Some slash \<Rightarrow> take slash val | None \<Rightarrow> val)"

definition colonCount :: "string \<Rightarrow> nat" where
  "colonCount s = length (filter (\<lambda>c. c = CHR '':'') s)"

text \<open>\<open>rfind(':')\<close> on a string with exactly one colon is its only occurrence.\<close>

definition colon_index :: "string \<Rightarrow> nat" where
  "colon_index s = (case find_char (CHR '':'') s of Some i \<Rightarrow> i | None \<Rightarrow> length s)"

definition parse_authority :: "string \<Rightarrow> ParsedHost \<Rightarrow> ParsedHost option" where
  "parse_authority val out =
     (if val = [] then Some out
      else if hd val = CHR ''['' then
        (case find_char (CHR '']'') val of
           None \<Rightarrow> Some out
         | Some closing \<Rightarrow>
             let out = out\<lparr>ph_host := take (closing - 1) (drop 1 val)\<rparr>; rest = drop (closing + 1) val
             in if rest \<noteq> [] \<and> hd rest = CHR '':'' then
                  (case std_stoi (drop 1 rest) of None \<Rightarrow> None | Some p \<Rightarrow> Some (out\<lparr>ph_port := p\<rparr>))
                else Some out)
      else if colonCount val = 1 then
        (let idx = colon_index val
         in case std_stoi (drop (idx + 1) val) of
              None \<Rightarrow> Some (out\<lparr>ph_host := val\<rparr>)
            | Some p \<Rightarrow> Some (out\<lparr>ph_port := p, ph_host := take idx val\<rparr>))
      else Some out)"

definition parseHostEndpoint :: "string \<Rightarrow> int \<Rightarrow> ParsedHost option" where
  "parseHostEndpoint rawHost fallbackPort =
     (let (val, tls) = strip_scheme rawHost; val = strip_path val
      in parse_authority val \<lparr>ph_host = val, ph_port = fallbackPort, ph_useTls = tls\<rparr>)"

definition probe_authority :: "string \<Rightarrow> ProbeHost \<Rightarrow> ProbeHost" where
  "probe_authority val out =
     (if val = [] then out
      else if hd val = CHR ''['' then
        (case find_char (CHR '']'') val of
           None \<Rightarrow> out
         | Some closing \<Rightarrow> out\<lparr>pr_host := take (closing - 1) (drop 1 val)\<rparr>)
      else if colonCount val = 1 then out\<lparr>pr_host := take (colon_index val) val\<rparr>
      else out\<lparr>pr_host := val\<rparr>)"

definition probe_parseHostEndpoint :: "string \<Rightarrow> ProbeHost" where
  "probe_parseHostEndpoint rawHost =
     (let (val, tls) = strip_scheme rawHost
      in probe_authority (strip_path val) \<lparr>pr_host = [], pr_useTls = tls\<rparr>)"

section \<open>Numbers in addresses\<close>

lemma colonCount_append [simp]: "colonCount (a @ b) = colonCount a + colonCount b"
  by (simp add: colonCount_def)

lemma colonCount_not_in: "CHR '':'' \<notin> set s \<Longrightarrow> colonCount s = 0"
  by (simp add: colonCount_def length_filter_eq_zero)

lemma c_digit_char:
  assumes "c_digit c \<noteq> None"
  shows "\<not> c_isspace c" "c \<noteq> CHR ''-''" "c \<noteq> CHR ''+''" "c \<noteq> CHR '':''" "c \<noteq> CHR ''/''"
  using assms by (auto simp: c_digit_def c_isspace_def Let_def split: if_splits)

lemma nat_digits_no_special: "CHR '':'' \<notin> set (nat_digits n)" "CHR ''/'' \<notin> set (nat_digits n)"
  using nat_digits_are_digits c_digit_char(4,5) by metis+

lemma std_stoi_nat_digits:
  assumes "n \<le> 2147483647"
  shows "std_stoi (nat_digits n) = Some (int n)"
proof -
  obtain c r where cr: "nat_digits n = c # r"
    by (cases "nat_digits n") auto
  then have d: "c_digit c \<noteq> None"
    using nat_digits_are_digits [of c n] by simp
  note sp = c_digit_char [OF d]
  have "dropWhile c_isspace (nat_digits n) = nat_digits n"
    by (simp add: cr sp)
  moreover have "stoi_unsigned (nat_digits n) = Some (int n)"
    using d digits_val_nat_digits [of n] by (auto simp: stoi_unsigned_def cr)
  ultimately show ?thesis
    using sp assms by (simp add: std_stoi_def Let_def cr int32_def)
qed

section \<open>When the parsers agree\<close>

definition endpoint_value :: "string \<Rightarrow> string" where
  "endpoint_value raw = strip_path (fst (strip_scheme raw))"

text \<open>The bracketed form with a port that is no number: the exception nothing catches.\<close>

definition bad_bracket_port :: "string \<Rightarrow> bool" where
  "bad_bracket_port val \<longleftrightarrow> val \<noteq> [] \<and> hd val = CHR ''['' \<and>
     (case find_char (CHR '']'') val of None \<Rightarrow> False
      | Some i \<Rightarrow> (case drop (i + 1) val of [] \<Rightarrow> False
                 | c # r \<Rightarrow> c = CHR '':'' \<and> std_stoi r = None))"

text \<open>The addresses on which the parsers see different hosts.\<close>

definition hosts_differ :: "string \<Rightarrow> bool" where
  "hosts_differ val \<longleftrightarrow> val \<noteq> [] \<and>
     (if hd val = CHR ''['' then find_char (CHR '']'') val = None
      else colonCount val = 1 \<and> std_stoi (drop (colon_index val + 1) val) = None)"

lemma colon_index_less: "colonCount s = 1 \<Longrightarrow> colon_index s < length s"
  using colonCount_not_in [of s] find_char_None_iff [of "CHR '':''" s]
  by (auto simp: colon_index_def dest: find_char_Some split: option.split)

lemma authorities_agree:
  "case parse_authority val \<lparr>ph_host = val, ph_port = fp, ph_useTls = tls\<rparr> of
     None \<Rightarrow> bad_bracket_port val
   | Some p \<Rightarrow> \<not> bad_bracket_port val \<and> ph_useTls p = tls
       \<and> pr_useTls (probe_authority val \<lparr>pr_host = [], pr_useTls = tls\<rparr>) = tls
       \<and> (ph_host p = pr_host (probe_authority val \<lparr>pr_host = [], pr_useTls = tls\<rparr>) \<longleftrightarrow> \<not> hosts_differ val)"
proof -
  consider "val = []"
    | "val \<noteq> []" "hd val = CHR ''[''" "find_char (CHR '']'') val = None"
    | i where "val \<noteq> []" "hd val = CHR ''[''" "find_char (CHR '']'') val = Some i"
    | "val \<noteq> []" "hd val \<noteq> CHR ''[''" "colonCount val = 1"
    | "val \<noteq> []" "hd val \<noteq> CHR ''[''" "colonCount val \<noteq> 1"
    by (cases "find_char (CHR '']'') val") auto
  then show ?thesis
  proof cases
    case (3 i)
    then show ?thesis
      by (cases "drop (i + 1) val"; cases "std_stoi (drop 1 (drop (i + 1) val))")
        (simp_all add: parse_authority_def probe_authority_def bad_bracket_port_def hosts_differ_def Let_def
          del: drop_drop)
  next
    case 4
    then have "val \<noteq> take (colon_index val) val"
      using colon_index_less [of val] by (metis length_take min.absorb4 nless_le)
    with 4 show ?thesis
      by (cases "std_stoi (drop (colon_index val + 1) val)")
        (auto simp: parse_authority_def probe_authority_def bad_bracket_port_def hosts_differ_def Let_def)
  qed (simp_all add: parse_authority_def probe_authority_def bad_bracket_port_def hosts_differ_def Let_def)
qed

text \<open>
  The two address parsers agree: they always see the same TLS flag, and the same host unless
  the address opens a bracket it never closes or has one colon with no number behind it; the
  session's parser lets an exception escape exactly for a bracketed host followed by a colon
  and no number (the probe's never does).
\<close>

theorem host_parsers_agree:
  "case parseHostEndpoint raw fallbackPort of
     None \<Rightarrow> bad_bracket_port (endpoint_value raw)
   | Some p \<Rightarrow> \<not> bad_bracket_port (endpoint_value raw)
       \<and> ph_useTls p = pr_useTls (probe_parseHostEndpoint raw)
       \<and> (ph_host p = pr_host (probe_parseHostEndpoint raw) \<longleftrightarrow> \<not> hosts_differ (endpoint_value raw))"
  using authorities_agree [where val = "endpoint_value raw" and fp = fallbackPort and tls = "snd (strip_scheme raw)"]
  by (simp add: parseHostEndpoint_def probe_parseHostEndpoint_def endpoint_value_def split_beta Let_def
      split: option.splits)

section \<open>Printing and parsing\<close>

definition schemes :: "(string \<times> bool) list" where
  "schemes = [([], False), (''ws://'', False), (''wss://'', True), (''http://'', False), (''https://'', True)]"

definition plain_host :: "string \<Rightarrow> bool" where
  "plain_host h \<longleftrightarrow> h \<noteq> [] \<and> hd h \<noteq> CHR ''['' \<and> CHR ''/'' \<notin> set h \<and> CHR '':'' \<notin> set h"

lemma c_tolower_iff: "(of_char d :: nat) < 65 \<Longrightarrow> c_tolower c = d \<longleftrightarrow> c = d"
proof -
  assume d: "(of_char d :: nat) < 65"
  have "(of_char (c_tolower c) :: nat) = of_char d \<longleftrightarrow> (of_char c :: nat) = of_char d"
    using d by (auto simp: c_tolower_def Let_def)
  then show ?thesis by (simp only: of_char_eq_iff)
qed

lemma c_tolower_special [simp]:
  "c_tolower c = CHR '':'' \<longleftrightarrow> c = CHR '':''" "c_tolower c = CHR ''/'' \<longleftrightarrow> c = CHR ''/''"
  by (rule c_tolower_iff, simp)+

lemma starts_with_scheme:
  assumes "starts_with (p @ ''://'') s" and "CHR '':'' \<notin> set p"
  shows "find_char (CHR '':'') s = Some (length p) \<and> length p + 1 < length s \<and> s ! (length p + 1) = CHR ''/''"
proof -
  define r where "r = drop (length (p @ ''://'')) s"
  have "s = take (length (p @ ''://'')) s @ drop (length (p @ ''://'')) s" by simp
  also have "\<dots> = p @ CHR '':'' # ''//'' @ r"
    using assms(1) unfolding starts_with_def r_def by simp
  finally have s: "s = p @ CHR '':'' # ''//'' @ r" .
  show ?thesis
    using find_char_append_not_in [OF assms(2), of "''//'' @ r"] unfolding s by (simp add: nth_append)
qed

lemma no_scheme:
  assumes "plain_host h" and "c \<noteq> CHR ''/''"
  shows "strip_scheme (h @ CHR '':'' # c # r) = (h @ CHR '':'' # c # r, False)"
proof -
  let ?l = "map c_tolower (h @ CHR '':'' # c # r)"
  have h: "CHR '':'' \<notin> set (map c_tolower h)"
    using assms(1) by (auto simp: plain_host_def dest: sym)
  have f: "find_char (CHR '':'') ?l = Some (length h)"
    using find_char_append_not_in [OF h, of "map c_tolower (c # r)"] by (simp add: c_tolower_def)
  have "\<not> starts_with (p @ ''://'') ?l" if "CHR '':'' \<notin> set p" for p
  proof
    assume "starts_with (p @ ''://'') ?l"
    from starts_with_scheme [OF this that] f
    have "?l ! (length h + 1) = CHR ''/''" by auto
    with assms(2) show False by (simp add: nth_append)
  qed
  from this [of "''wss''"] this [of "''ws''"] this [of "''https''"] this [of "''http''"]
  show ?thesis by (simp add: strip_scheme_def Let_def)
qed

lemma strip_scheme_prefix:
  assumes "(s, tls) \<in> set schemes" and "s \<noteq> []"
  shows "strip_scheme (s @ x) = (x, tls)"
  using assms by (auto simp: schemes_def strip_scheme_def Let_def starts_with_def c_tolower_def)

lemma strip_path_append:
  assumes "CHR ''/'' \<notin> set a" and "path = [] \<or> hd path = CHR ''/''"
  shows "strip_path (a @ path) = a"
proof (cases path)
  case Nil
  with assms(1) have "find_char (CHR ''/'') (a @ path) = None" by (simp add: find_char_None_iff)
  then show ?thesis by (simp add: strip_path_def Nil)
next
  case (Cons c r)
  with assms find_char_append_not_in [OF assms(1), of r] show ?thesis by (simp add: strip_path_def)
qed

text \<open>
  What a client writes is what it gets: a scheme (or none), a host without special characters,
  a colon, a port number and a path (or none) parse to that host, that port and the scheme's
  TLS flag, whatever the fallback port.
\<close>

theorem parseHostEndpoint_roundtrip:
  assumes "(s, tls) \<in> set schemes" and "plain_host h" and "port \<le> 2147483647"
    and "path = [] \<or> hd path = CHR ''/''"
  shows "parseHostEndpoint (s @ h @ '':'' @ std_to_string (int port) @ path) fallbackPort
           = Some \<lparr>ph_host = h, ph_port = int port, ph_useTls = tls\<rparr>"
proof -
  let ?a = "h @ '':'' @ nat_digits port"
  obtain c r where cr: "nat_digits port = c # r" by (cases "nat_digits port") auto
  then have c: "c \<noteq> CHR ''/''" using nat_digits_no_special [of port] by auto
  have "strip_scheme (s @ ?a @ path) = (?a @ path, tls)"
  proof (cases "s = []")
    case True
    with assms(1) have "\<not> tls" by (auto simp: schemes_def)
    with True no_scheme [OF assms(2) c, of "r @ path"] show ?thesis by (simp add: cr)
  next
    case False
    from strip_scheme_prefix [OF assms(1) this] show ?thesis .
  qed
  moreover have "strip_path (?a @ path) = ?a"
    using assms(2,4) nat_digits_no_special [of port] by (intro strip_path_append) (auto simp: plain_host_def)
  moreover have "colonCount ?a = 1"
    using assms(2) nat_digits_no_special [of port] by (simp add: plain_host_def colonCount_not_in, simp add: colonCount_def filter_empty_conv, metis)
  moreover have "colon_index ?a = length h"
    using assms(2) find_char_append_not_in [of "CHR '':''" h "nat_digits port"]
    by (simp add: colon_index_def plain_host_def)
  moreover have "?a \<noteq> []" "hd ?a \<noteq> CHR ''[''" using assms(2) by (auto simp: plain_host_def hd_append)
  ultimately show ?thesis
    using std_stoi_nat_digits [OF assms(3)]
    by (simp add: parseHostEndpoint_def parse_authority_def std_to_string_def Let_def)
qed

theorem parseHostEndpoint_roundtrip_witness:
  "parseHostEndpoint (''wss://'' @ ''radio.example'' @ '':'' @ std_to_string (int 8443) @ ''/ws'') 443
     = Some \<lparr>ph_host = ''radio.example'', ph_port = int 8443, ph_useTls = True\<rparr>"
  by (rule parseHostEndpoint_roundtrip) (simp_all add: schemes_def plain_host_def)

end
