(* ===== verification/Udp_Packet.thy ===== *)
theory Udp_Packet
  imports OW_Types
begin

text \<open>
  The UDP wire format of \<open>owalkie-core/src/udp.cpp\<close>: a nine byte header (session id and sequence
  number, big endian, and the signal byte) followed by the Opus payload, and the three kinds of
  header-only datagrams that steer the relay. \<open>udp_pack\<close> takes the output vector because the
  source leaves it untouched when it refuses the packet.
\<close>

definition kKeepaliveSignal :: u8 where "kKeepaliveSignal = 255"
definition kKeepaliveAckSignal :: u8 where "kKeepaliveAckSignal = 254"
definition kDefaultTxSignalStrength :: u8 where "kDefaultTxSignalStrength = 255"

definition be32_bytes :: "u32 \<Rightarrow> u8 list" where
  "be32_bytes w = [ucast (drop_bit 24 w AND 0xFF), ucast (drop_bit 16 w AND 0xFF),
                   ucast (drop_bit 8 w AND 0xFF), ucast (w AND 0xFF)]"

definition be32_word :: "u8 \<Rightarrow> u8 \<Rightarrow> u8 \<Rightarrow> u8 \<Rightarrow> u32" where
  "be32_word a b c d =
     push_bit 24 (ucast a) OR push_bit 16 (ucast b) OR push_bit 8 (ucast c) OR ucast d"

definition udp_pack :: "UdpAudioPacket \<Rightarrow> u8 list \<Rightarrow> Result \<times> u8 list" where
  "udp_pack pkt out =
     (if length (up_opus pkt) > 65535 then (R_InvalidArg, out)
      else (R_Ok, be32_bytes (up_sessionId pkt) @ be32_bytes (up_sequence pkt)
                  @ [up_signalStrength pkt] @ up_opus pkt))"

definition udp_unpack :: "u8 list \<Rightarrow> UdpAudioPacket \<Rightarrow> Result \<times> UdpAudioPacket" where
  "udp_unpack buf out =
     (if length buf < 9 then (R_InvalidArg, out)
      else (R_Ok, out\<lparr>up_sessionId := be32_word (buf!0) (buf!1) (buf!2) (buf!3),
                       up_sequence := be32_word (buf!4) (buf!5) (buf!6) (buf!7),
                       up_signalStrength := buf!8,
                       up_opus := drop 9 buf\<rparr>))"

definition isKeepaliveSignal :: "u8 list \<Rightarrow> bool" where
  "isKeepaliveSignal buf =
     (if length buf \<noteq> 9 then False
      else (case udp_unpack buf UdpAudioPacket_default of (r, pkt) \<Rightarrow>
        if r \<noteq> R_Ok then False
        else up_sequence pkt = 0 \<and> up_signalStrength pkt = kKeepaliveSignal \<and> up_opus pkt = []))"

definition isKeepaliveAck :: "u8 list \<Rightarrow> u32 \<Rightarrow> bool" where
  "isKeepaliveAck buf sessionId =
     (if length buf \<noteq> 9 then False
      else (case udp_unpack buf UdpAudioPacket_default of (r, pkt) \<Rightarrow>
        if r \<noteq> R_Ok then False
        else up_sessionId pkt = sessionId \<and> up_sequence pkt = 0
             \<and> up_signalStrength pkt = kKeepaliveAckSignal \<and> up_opus pkt = []))"

definition isTxEofMarker :: "u8 list \<Rightarrow> bool" where
  "isTxEofMarker buf =
     (if length buf \<noteq> 9 then False
      else (case udp_unpack buf UdpAudioPacket_default of (r, pkt) \<Rightarrow>
        if r \<noteq> R_Ok then False
        else up_sequence pkt > 0 \<and> up_signalStrength pkt = 0 \<and> up_opus pkt = []))"

section \<open>Big-endian words\<close>

lemma length_be32_bytes [simp]: "length (be32_bytes w) = 4"
  by (simp add: be32_bytes_def)

lemma ucast_AND_FF [simp]: "ucast ((w :: u32) AND 0xFF) = (ucast w :: u8)"
proof -
  have "w AND 0xFF = take_bit 8 w"
    by (simp add: take_bit_eq_mask mask_eq_exp_minus_1)
  moreover have "ucast (take_bit 8 w) = (ucast w :: u8)"
    by (rule bit_word_eqI) (simp add: bit_simps)
  ultimately show ?thesis by simp
qed

lemma be32_bytes_eq:
  "be32_bytes w = [ucast (drop_bit 24 w), ucast (drop_bit 16 w), ucast (drop_bit 8 w), ucast w]"
  by (simp only: be32_bytes_def ucast_AND_FF)

lemma bit_be32_word:
  "bit (be32_word a b c d) n \<longleftrightarrow>
     (if n < 8 then bit d n else if n < 16 then bit c (n - 8) else if n < 24 then bit b (n - 16)
      else if n < 32 then bit a (n - 24) else False)"
  by (auto simp: be32_word_def bit_simps dest: bit_imp_le_length)

lemma be32_word_bytes [wire_simps]:
  "be32_word (be32_bytes w ! 0) (be32_bytes w ! 1) (be32_bytes w ! 2) (be32_bytes w ! 3) = w"
  by (rule bit_word_eqI) (auto simp: be32_bytes_eq bit_be32_word bit_simps)

lemma be32_bytes_word [wire_simps]: "be32_bytes (be32_word a b c d) = [a, b, c, d]"
proof -
  have "ucast (drop_bit 24 (be32_word a b c d)) = a" "ucast (drop_bit 16 (be32_word a b c d)) = b"
    "ucast (drop_bit 8 (be32_word a b c d)) = c" "ucast (be32_word a b c d) = d"
    by (rule bit_word_eqI, simp add: bit_be32_word bit_simps)+
  then show ?thesis by (simp add: be32_bytes_eq)
qed

lemma be32_bytes_inject: "be32_bytes v = be32_bytes w \<longleftrightarrow> v = w"
  by (metis be32_word_bytes)

section \<open>Packets\<close>

lemma udp_pack_length:
  "udp_pack pkt out = (R_Ok, buf) \<Longrightarrow> length buf = 9 + length (up_opus pkt)"
  by (auto simp: udp_pack_def split: if_splits)

lemma udp_unpack_fields:
  "udp_unpack (be32_bytes s @ be32_bytes q @ [g] @ o') out =
     (R_Ok, out\<lparr>up_sessionId := s, up_sequence := q, up_signalStrength := g, up_opus := o'\<rparr>)"
proof -
  let ?b = "be32_bytes s @ be32_bytes q @ [g] @ o'"
  have "?b ! i = be32_bytes s ! i" if "i < 4" for i using that by (simp add: nth_append)
  moreover have "?b ! (i + 4) = be32_bytes q ! i" if "i < 4" for i using that by (simp add: nth_append)
  moreover have "?b ! 8 = g" by (simp add: nth_append)
  ultimately show ?thesis
    using be32_word_bytes [of s] be32_word_bytes [of q]
    by (simp add: udp_unpack_def numeral_eq_Suc)
qed

lemma udp_unpack_pack:
  "udp_pack pkt out = (R_Ok, buf) \<Longrightarrow> udp_unpack buf pkt' = (R_Ok, pkt)"
  by (auto simp: udp_pack_def udp_unpack_fields [simplified] split: if_splits)

lemma header_only_iff:
  assumes "length buf = 9"
  obtains s q g where "buf = be32_bytes s @ be32_bytes q @ [g]"
proof
  show "buf = be32_bytes (be32_word (buf!0) (buf!1) (buf!2) (buf!3))
            @ be32_bytes (be32_word (buf!4) (buf!5) (buf!6) (buf!7)) @ [buf!8]"
    using list_eq_take9 [of buf] assms by (simp add: wire_simps)
qed

lemma marker_simps [wire_simps]:
  "isKeepaliveSignal (be32_bytes s @ be32_bytes q @ [g]) \<longleftrightarrow> q = 0 \<and> g = kKeepaliveSignal"
  "isKeepaliveAck (be32_bytes s @ be32_bytes q @ [g]) sid \<longleftrightarrow>
     s = sid \<and> q = 0 \<and> g = kKeepaliveAckSignal"
  "isTxEofMarker (be32_bytes s @ be32_bytes q @ [g]) \<longleftrightarrow> q > 0 \<and> g = 0"
  using udp_unpack_fields [of s q g "[]"]
  by (simp_all add: isKeepaliveSignal_def isKeepaliveAck_def isTxEofMarker_def)

lemma marker_length:
  "isKeepaliveSignal buf \<Longrightarrow> length buf = 9"
  "isKeepaliveAck buf sid \<Longrightarrow> length buf = 9"
  "isTxEofMarker buf \<Longrightarrow> length buf = 9"
  by (auto simp: isKeepaliveSignal_def isKeepaliveAck_def isTxEofMarker_def split: if_splits)



text \<open>
  The relay can tell the datagrams apart: no buffer is two of keepalive, keepalive
  acknowledgement and end-of-transmission marker at once, and no packed packet with a payload is
  any of them, whatever its session, sequence number and signal byte.
\<close>

theorem markers_exclusive:
  "\<not> (isKeepaliveSignal buf \<and> isKeepaliveAck buf sid)
   \<and> \<not> (isKeepaliveSignal buf \<and> isTxEofMarker buf)
   \<and> \<not> (isKeepaliveAck buf sid \<and> isTxEofMarker buf)
   \<and> (fst (udp_pack pkt out) = R_Ok \<and> up_opus pkt \<noteq> [] \<longrightarrow>
        (let b = snd (udp_pack pkt out)
         in \<not> isKeepaliveSignal b \<and> \<not> isKeepaliveAck b sid \<and> \<not> isTxEofMarker b))"
proof -
  have "\<not> (isKeepaliveSignal buf \<and> isKeepaliveAck buf sid)
   \<and> \<not> (isKeepaliveSignal buf \<and> isTxEofMarker buf) \<and> \<not> (isKeepaliveAck buf sid \<and> isTxEofMarker buf)"
  proof (cases "length buf = 9")
    case True
    then obtain s q g where "buf = be32_bytes s @ be32_bytes q @ [g]" by (rule header_only_iff)
    then show ?thesis by (auto simp: wire_simps kKeepaliveSignal_def kKeepaliveAckSignal_def)
  qed (auto dest: marker_length)
  moreover have "length (snd (udp_pack pkt out)) \<noteq> 9"
    if "fst (udp_pack pkt out) = R_Ok" "up_opus pkt \<noteq> []"
    using udp_pack_length [of pkt out] that by (cases "udp_pack pkt out") simp
  ultimately show ?thesis
    by (auto simp: Let_def dest: marker_length)
qed

theorem markers_exclusive_witness:
  "\<not> isKeepaliveSignal (snd (udp_pack \<lparr>up_sessionId = 7, up_sequence = 0, up_signalStrength = 255, up_opus = [1]\<rparr> []))"
  using markers_exclusive [of "[]" 7 "\<lparr>up_sessionId = 7, up_sequence = 0, up_signalStrength = 255, up_opus = [1]\<rparr>" "[]"]
  by (simp add: udp_pack_def Let_def)

end
