(* ===== verification/Link_Signal.thy ===== *)
theory Link_Signal
  imports Udp_Packet
begin

text \<open>
  The uplink signal registry of \<open>owalkie-core/src/link_signal.cpp\<close>: Wi-Fi RSSI and cellular level
  are mapped to a byte 0..255 that every outgoing audio datagram carries. The Wi-Fi mapping
  divides in single precision; \<open>f32_quot\<close> computes that quotient (correctly rounded, ties to
  even, 24 bit significand), so the truncation the source performs is the one of the machine.
\<close>

section \<open>Single-precision quotients\<close>

text \<open>
  \<open>round_half_even n d\<close> is \<open>n / d\<close> rounded to an integer; \<open>f32_scale\<close> finds the power of two
  that brings a quotient to 24 significant bits. The quotient of two positive integers that
  binary32 represents exactly is then \<open>round_half_even (n * 2^k) d / 2^k\<close>, and its integer part
  a shift. The search needs at most 24 steps, as the quotients here lie between 5 and 250.
\<close>

definition round_half_even :: "int \<Rightarrow> int \<Rightarrow> int" where
  "round_half_even n d =
     (let q = n div d; r = n mod d
      in if 2 * r < d then q else if 2 * r > d then q + 1 else if even q then q else q + 1)"

fun f32_scale :: "nat \<Rightarrow> int \<Rightarrow> int \<Rightarrow> nat" where
  "f32_scale 0 n d = 0"
| "f32_scale (Suc fuel) n d = (if 2 ^ 23 * d \<le> n then 0 else Suc (f32_scale fuel (2 * n) d))"

definition f32_quot_trunc :: "int \<Rightarrow> int \<Rightarrow> int" where
  "f32_quot_trunc n d =
     (let k = f32_scale 24 n d in round_half_even (n * 2 ^ k) d div 2 ^ k)"

section \<open>The mappings\<close>

datatype Mode = Wifi | Cell

definition clampByte :: "int \<Rightarrow> int" where
  "clampByte v = std_clamp v 0 255"

definition wifiRssiToByte :: "int \<Rightarrow> int" where
  "wifiRssiToByte rssiDbm =
     (if rssiDbm \<le> -100 then 0
      else if rssiDbm \<ge> -55 then 256 - 1
      else (let numer = rssiDbm - (-100); denom = -55 - (-100)
            in clampByte (f32_quot_trunc (numer * (256 - 1)) denom)))"

definition cellLevelToByte :: "int \<Rightarrow> int" where
  "cellLevelToByte level0to4 =
     (let level = std_clamp level0to4 0 4 in clampByte ((level * 255) sdiv 4))"

section \<open>The registry\<close>

record Registry =
  wifiValid :: bool
  wifiByte :: int
  cellValid :: bool
  cellByte :: int

definition Registry_init :: Registry where
  "Registry_init = \<lparr>wifiValid = False, wifiByte = 0, cellValid = False, cellByte = 0\<rparr>"

fun Registry_report :: "Registry \<Rightarrow> Mode \<Rightarrow> int \<Rightarrow> Result \<times> Registry" where
  "Registry_report r Wifi v = (R_Ok, r\<lparr>wifiByte := wifiRssiToByte v, wifiValid := True\<rparr>)"
| "Registry_report r Cell v =
     (if v < 0 \<or> v > 4 then (R_InvalidArg, r)
      else (R_Ok, r\<lparr>cellByte := cellLevelToByte v, cellValid := True\<rparr>))"

fun Registry_clear :: "Registry \<Rightarrow> Mode \<Rightarrow> Result \<times> Registry" where
  "Registry_clear r Wifi = (R_Ok, r\<lparr>wifiValid := False, wifiByte := 0\<rparr>)"
| "Registry_clear r Cell = (R_Ok, r\<lparr>cellValid := False, cellByte := 0\<rparr>)"

definition combinedByte :: "Registry \<Rightarrow> int" where
  "combinedByte r =
     (let any0 = False; combined0 = 0;
          (combined1, any1) = (if wifiValid r then (wifiByte r, True) else (combined0, any0));
          (combined2, any2) = (if cellValid r
              then (if any1 then max combined1 (cellByte r) else cellByte r, True)
              else (combined1, any1))
      in if \<not> any2 then uint kDefaultTxSignalStrength
         else if combined2 = uint kKeepaliveAckSignal then uint kDefaultTxSignalStrength
         else combined2)"

section \<open>What the mappings compute\<close>

lemma f32_quot_exact: "n \<in> set [1..44] \<Longrightarrow> f32_quot_trunc (n * 255) 45 = (n * 255) div 45"
proof -
  have "\<forall>n \<in> set [1..44]. f32_quot_trunc (n * 255) 45 = (n * 255) div 45"
    by code_simp
  then show "n \<in> set [1..44] \<Longrightarrow> f32_quot_trunc (n * 255) 45 = (n * 255) div 45" by blast
qed

lemma wifiRssiToByte_eq:
  "wifiRssiToByte rssi = (std_clamp (rssi + 100) 0 45 * 255) div 45"
proof -
  consider "rssi \<le> -100" | "rssi \<ge> -55" | "-100 < rssi" "rssi < -55" by linarith
  then show ?thesis
  proof cases
    case 3
    then have "rssi + 100 \<in> set [1..44]" by simp
    from f32_quot_exact [OF this] 3 show ?thesis
      by (simp add: wifiRssiToByte_def Let_def clampByte_def std_clamp_def)
  qed (auto simp: wifiRssiToByte_def std_clamp_def)
qed

lemma wifiRssiToByte_bounds: "0 \<le> wifiRssiToByte rssi \<and> wifiRssiToByte rssi \<le> 255"
proof -
  have "0 \<le> std_clamp (rssi + 100) 0 45 \<and> std_clamp (rssi + 100) 0 45 \<le> 45"
    using std_clamp_bounds [of 0 "45::int"] by auto
  then show ?thesis unfolding wifiRssiToByte_eq by auto
qed

lemma cellLevelToByte_bounds: "0 \<le> cellLevelToByte v \<and> cellLevelToByte v \<le> 255"
  using std_clamp_bounds [of 0 "255::int"] by (simp add: cellLevelToByte_def clampByte_def Let_def)

lemma wifiRssiToByte_mono: "a \<le> b \<Longrightarrow> wifiRssiToByte a \<le> wifiRssiToByte b"
  unfolding wifiRssiToByte_eq
  by (intro zdiv_mono1 mult_right_mono std_clamp_mono) auto

section \<open>Reachable registries\<close>

definition Registry_inv :: "Registry \<Rightarrow> bool" where
  "Registry_inv r \<longleftrightarrow> 0 \<le> wifiByte r \<and> wifiByte r \<le> 255 \<and> 0 \<le> cellByte r \<and> cellByte r \<le> 255"

inductive registry_reachable :: "Registry \<Rightarrow> bool" where
  reg_start: "registry_reachable Registry_init"
| reg_report: "registry_reachable r \<Longrightarrow> registry_reachable (snd (Registry_report r m v))"
| reg_clear: "registry_reachable r \<Longrightarrow> registry_reachable (snd (Registry_clear r m))"

lemma Registry_report_inv: "Registry_inv r \<Longrightarrow> Registry_inv (snd (Registry_report r m v))"
  using wifiRssiToByte_bounds [of v] cellLevelToByte_bounds [of v]
  by (cases m) (auto simp: Registry_inv_def)

lemma Registry_clear_inv: "Registry_inv r \<Longrightarrow> Registry_inv (snd (Registry_clear r m))"
  by (cases m) (auto simp: Registry_inv_def)

lemma registry_reachable_inv: "registry_reachable r \<Longrightarrow> Registry_inv r"
  by (induction rule: registry_reachable.induct)
    (simp_all add: Registry_report_inv Registry_clear_inv, simp add: Registry_inv_def Registry_init_def)

lemma combinedByte_eq:
  "combinedByte r =
     (let c = (if wifiValid r \<and> cellValid r then max (wifiByte r) (cellByte r)
               else if wifiValid r then wifiByte r else if cellValid r then cellByte r else 255)
      in if c = 254 then 255 else c)"
  by (simp add: combinedByte_def kDefaultTxSignalStrength_def kKeepaliveAckSignal_def Let_def)

text \<open>
  Whatever sequence of reports and clears the application makes, the byte the registry hands
  out is in 0..255 and never 254, the value that marks a keepalive acknowledgement.
\<close>

theorem combinedByte_safe:
  assumes "registry_reachable r"
  shows "0 \<le> combinedByte r \<and> combinedByte r \<le> 255 \<and> combinedByte r \<noteq> uint kKeepaliveAckSignal"
  using registry_reachable_inv [OF assms]
  by (auto simp: combinedByte_eq Registry_inv_def kKeepaliveAckSignal_def Let_def)

theorem combinedByte_safe_witness:
  "combinedByte (snd (Registry_report Registry_init Cell 3)) \<noteq> uint kKeepaliveAckSignal"
  using combinedByte_safe [OF reg_report [OF reg_start, of Cell 3]] by blast

text \<open>
  The Wi-Fi mapping, computed in single precision, is the exact integer formula: the linear
  scale of -100..-55 dBm to 0..255, rounded down, saturated at both ends, so it is monotone and
  reaches 0 and 255 exactly at the ends.
\<close>

theorem wifiRssiToByte_exact:
  "wifiRssiToByte rssi = (std_clamp (rssi + 100) 0 45 * 255) div 45
   \<and> (rssi \<le> rssi' \<longrightarrow> wifiRssiToByte rssi \<le> wifiRssiToByte rssi')
   \<and> (wifiRssiToByte rssi = 0 \<longleftrightarrow> rssi \<le> -100) \<and> (wifiRssiToByte rssi = 255 \<longleftrightarrow> -55 \<le> rssi)"
proof -
  have "wifiRssiToByte rssi = 0 \<longleftrightarrow> rssi \<le> -100"
    unfolding wifiRssiToByte_eq by (auto simp: std_clamp_def pos_imp_zdiv_pos_iff split: if_splits)
  moreover have "wifiRssiToByte rssi = 255 \<longleftrightarrow> -55 \<le> rssi"
    unfolding wifiRssiToByte_eq by (auto simp: std_clamp_def split: if_splits)
  ultimately show ?thesis
    by (simp add: wifiRssiToByte_eq [symmetric] wifiRssiToByte_mono)
qed

theorem wifiRssiToByte_exact_witness: "wifiRssiToByte (-80) \<le> wifiRssiToByte (-60)"
  using wifiRssiToByte_exact [of "-80" "-60"] by simp

end
