(* ===== verification/Keepalive.thy ===== *)
theory Keepalive
  imports OW_Types
begin

text \<open>
  Timing of the UDP keepalive in \<open>session.cpp\<close>: constants, the per-profile intervals and the
  jittered delay. \<open>std::uniform_int_distribution(lo, hi)\<close> is \<open>uniform_draw\<close>: some value of the
  range, chosen by the entropy \<open>e\<close> that stands for the engine's next output. The \<open>int64_t\<close>
  products are computed on mathematical integers: \<open>keepalive_int64\<close> shows that those of the
  profiles stay far below the limits.
\<close>

definition kNsPerSec :: int where "kNsPerSec = 1000000000"
definition kNsPerMs :: int where "kNsPerMs = 1000000"
definition kUdpKeepaliveRecoveryWindowNs :: int where "kUdpKeepaliveRecoveryWindowNs = 90 * kNsPerSec"
definition kNetworkRecoveryMinIntervalNs :: int where "kNetworkRecoveryMinIntervalNs = 3 * kNsPerSec"
definition kWsHeartbeatIntervalNs :: int where "kWsHeartbeatIntervalNs = 30 * kNsPerSec"
definition kKeepaliveJitterPercent :: int where "kKeepaliveJitterPercent = 15"
definition kSocketRecvTimeoutMs :: int where "kSocketRecvTimeoutMs = 2000"
definition kConnectTimeoutMs :: int where "kConnectTimeoutMs = 5000"
definition kResolveTimeoutMs :: int where "kResolveTimeoutMs = 2500"
definition kReconnectConnectTimeoutMs :: int where "kReconnectConnectTimeoutMs = 3500"

record KeepaliveTimings =
  kt_idleIntervalNs :: int
  kt_recoveryIntervalNs :: int
  kt_rtxNs :: int
  kt_lostNs :: int
  kt_pendingPollMs :: int

fun keepaliveTimingsFor :: "PowerProfile \<Rightarrow> KeepaliveTimings" where
  "keepaliveTimingsFor Background =
     \<lparr>kt_idleIntervalNs = 50 * kNsPerSec, kt_recoveryIntervalNs = 12 * kNsPerSec,
      kt_rtxNs = 2000 * kNsPerMs, kt_lostNs = 10000 * kNsPerMs, kt_pendingPollMs = 700\<rparr>"
| "keepaliveTimingsFor _ =
     \<lparr>kt_idleIntervalNs = 12 * kNsPerSec, kt_recoveryIntervalNs = 6 * kNsPerSec,
      kt_rtxNs = 1000 * kNsPerMs, kt_lostNs = 8000 * kNsPerMs, kt_pendingPollMs = 300\<rparr>"

definition uniform_draw :: "int \<Rightarrow> int \<Rightarrow> int \<Rightarrow> int" where
  "uniform_draw e lo hi = lo + e mod (hi - lo + 1)"

definition jitteredKeepaliveDelayMs :: "int \<Rightarrow> int \<Rightarrow> int" where
  "jitteredKeepaliveDelayMs intervalSec e =
     (let baseMs = intervalSec * 1000;
          deltaMs = (baseMs * kKeepaliveJitterPercent) sdiv 100;
          minMs = max 1000 (baseMs - deltaMs);
          maxMs = baseMs + deltaMs
      in if maxMs \<le> minMs then minMs else uniform_draw e minMs maxMs)"

lemmas ns_defs = kNsPerSec_def kNsPerMs_def kUdpKeepaliveRecoveryWindowNs_def
  kNetworkRecoveryMinIntervalNs_def kWsHeartbeatIntervalNs_def

lemma uniform_draw_bounds: "lo \<le> hi \<Longrightarrow> lo \<le> uniform_draw e lo hi \<and> uniform_draw e lo hi \<le> hi"
  using pos_mod_bound [of "hi - lo + 1" e] pos_mod_sign [of "hi - lo + 1" e]
  by (simp add: uniform_draw_def)

lemma uniform_draw_onto: "lo \<le> v \<Longrightarrow> v \<le> hi \<Longrightarrow> uniform_draw (v - lo) lo hi = v"
  by (simp add: uniform_draw_def)

lemma timings_order:
  "0 < kt_rtxNs (keepaliveTimingsFor p)"
  "3 * kt_rtxNs (keepaliveTimingsFor p) < kt_lostNs (keepaliveTimingsFor p)"
  "kt_lostNs (keepaliveTimingsFor p) < kt_idleIntervalNs (keepaliveTimingsFor p)"
  "kt_recoveryIntervalNs (keepaliveTimingsFor p) < kt_idleIntervalNs (keepaliveTimingsFor p)"
  "kt_pendingPollMs (keepaliveTimingsFor p) * kNsPerMs < kt_rtxNs (keepaliveTimingsFor p)"
  by (cases p; simp add: ns_defs)+

lemma jittered_bounds:
  assumes "2 \<le> n"
  shows "n * 850 \<le> jitteredKeepaliveDelayMs n e \<and> jitteredKeepaliveDelayMs n e \<le> n * 1150"
proof -
  have d: "(n * 1000 * 15) sdiv 100 = n * 150"
    using assms by (simp add: signed_divide_int_def sgn_if)
  have m: "max 1000 (n * 1000 - n * 150) = n * 850" using assms by simp
  have "jitteredKeepaliveDelayMs n e = uniform_draw e (n * 850) (n * 1150)"
    unfolding jitteredKeepaliveDelayMs_def kKeepaliveJitterPercent_def Let_def d m
    using assms by (simp add: mult.commute)
  then show ?thesis using assms uniform_draw_bounds [of "n * 850" "n * 1150" e] by simp
qed

text \<open>
  The sleep of the keepalive loop is 85 to 115 percent of the nominal interval, below a minute,
  and, outside the recovery window, longer than the time after which an unanswered keepalive
  counts as lost.
\<close>

lemma keepalive_schedule:
  fixes p e
  defines "t \<equiv> keepaliveTimingsFor p"
  defines "idle \<equiv> jitteredKeepaliveDelayMs (kt_idleIntervalNs t div kNsPerSec) e"
  defines "recv \<equiv> jitteredKeepaliveDelayMs (kt_recoveryIntervalNs t div kNsPerSec) e"
  shows "85 * kt_idleIntervalNs t \<le> 100 * (idle * kNsPerMs)"
    and "100 * (idle * kNsPerMs) \<le> 115 * kt_idleIntervalNs t"
    and "85 * kt_recoveryIntervalNs t \<le> 100 * (recv * kNsPerMs)"
    and "100 * (recv * kNsPerMs) \<le> 115 * kt_recoveryIntervalNs t"
    and "idle < 60000" and "kt_lostNs t < idle * kNsPerMs"
  using jittered_bounds [of "kt_idleIntervalNs t div kNsPerSec" e]
    jittered_bounds [of "kt_recoveryIntervalNs t div kNsPerSec" e]
  unfolding idle_def recv_def t_def by (cases p; simp add: ns_defs)+

end
