(* ===== verification/Opus_Codec.thy ===== *)
theory Opus_Codec
  imports Protocol
begin

text \<open>
  \<open>owalkie-core/src/opus_codec.cpp\<close>: the wrapper around libopus. The library is a parameter:
  \<open>opus_lib\<close> holds its functions over a type \<open>'c\<close> of encoder and decoder states. Creation
  returns \<open>None\<close> when libopus reports an error or no object; \<open>ol_encode\<close> and \<open>ol_decode\<close> return
  the library's count (negative for an error), the contents of the output buffer and the
  state after the call.
\<close>

datatype opus_ctl = OPUS_SET_BITRATE | OPUS_SET_COMPLEXITY | OPUS_SET_INBAND_FEC | OPUS_SET_DTX

datatype opus_application =
  OPUS_APPLICATION_VOIP | OPUS_APPLICATION_AUDIO | OPUS_APPLICATION_RESTRICTED_LOWDELAY

record 'c opus_lib =
  ol_encoder_create :: "int \<Rightarrow> opus_application \<Rightarrow> 'c option"
  ol_encoder_ctl :: "opus_ctl \<Rightarrow> int \<Rightarrow> 'c \<Rightarrow> 'c"
  ol_decoder_create :: "int \<Rightarrow> 'c option"
  ol_encode :: "'c \<Rightarrow> pcm \<Rightarrow> int \<Rightarrow> nat \<Rightarrow> int \<times> u8 list \<times> 'c"
  ol_decode :: "'c \<Rightarrow> u8 list \<Rightarrow> int \<Rightarrow> int \<times> pcm \<times> 'c"

record 'c OpusCodec =
  cd_encoder :: "'c option"
  cd_decoder :: "'c option"
  cd_sampleRate :: int
  cd_frameSamples :: int

definition OpusCodec_init :: "'c OpusCodec" where
  "OpusCodec_init = \<lparr>cd_encoder = None, cd_decoder = None, cd_sampleRate = 8000, cd_frameSamples = 0\<rparr>"

definition mapApplication :: "string \<Rightarrow> opus_application" where
  "mapApplication app =
     (if app = ''audio'' then OPUS_APPLICATION_AUDIO
      else if app = ''lowdelay'' then OPUS_APPLICATION_RESTRICTED_LOWDELAY
      else OPUS_APPLICATION_VOIP)"

definition Codec_reset :: "'c OpusCodec \<Rightarrow> 'c OpusCodec" where
  "Codec_reset c = c\<lparr>cd_encoder := None, cd_decoder := None, cd_frameSamples := 0\<rparr>"

definition Codec_configure :: "'c opus_lib \<Rightarrow> WelcomeConfig \<Rightarrow> 'c OpusCodec \<Rightarrow> Result \<times> 'c OpusCodec" where
  "Codec_configure LO config c =
     (let c = Codec_reset c;
          c = c\<lparr>cd_sampleRate := wc_sampleRate config\<rparr>;
          c = c\<lparr>cd_frameSamples := frameSamples (wc_sampleRate config) (wc_packetMs config)\<rparr>
      in if cd_frameSamples c \<le> 0 then (R_InvalidArg, c)
         else (case ol_encoder_create LO (cd_sampleRate c) (mapApplication (oc_application (wc_opus config))) of
           None \<Rightarrow> (R_Internal, c)
         | Some e \<Rightarrow>
             let e = ol_encoder_ctl LO OPUS_SET_BITRATE (oc_bitrate (wc_opus config)) e;
                 e = ol_encoder_ctl LO OPUS_SET_COMPLEXITY (oc_complexity (wc_opus config)) e;
                 e = ol_encoder_ctl LO OPUS_SET_INBAND_FEC (if oc_fec (wc_opus config) then 1 else 0) e;
                 e = ol_encoder_ctl LO OPUS_SET_DTX (if oc_dtx (wc_opus config) then 1 else 0) e;
                 c = c\<lparr>cd_encoder := Some e\<rparr>
             in (case ol_decoder_create LO (cd_sampleRate c) of
                   None \<Rightarrow> (R_Internal, c)
                 | Some d \<Rightarrow> (R_Ok, c\<lparr>cd_decoder := Some d\<rparr>))))"

text \<open>\<open>vec_resize n v xs\<close> is \<open>std::vector::resize(n, v)\<close>.\<close>

definition vec_resize :: "nat \<Rightarrow> 'a \<Rightarrow> 'a list \<Rightarrow> 'a list" where
  "vec_resize n v xs = take n xs @ replicate (n - length xs) v"

definition Codec_encode :: "'c opus_lib \<Rightarrow> pcm \<Rightarrow> 'c OpusCodec \<Rightarrow> Result \<times> u8 list \<times> 'c OpusCodec" where
  "Codec_encode LO pcm c =
     (case cd_encoder c of
        None \<Rightarrow> (R_InvalidArg, [], c)
      | Some e \<Rightarrow>
          if int (length pcm) \<noteq> cd_frameSamples c then (R_InvalidArg, [], c)
          else
            let (n, buf, e') = ol_encode LO e pcm (cd_frameSamples c) 512;
                c = c\<lparr>cd_encoder := Some e'\<rparr>;
                out = vec_resize 512 0 buf
            in if n < 0 then (R_Internal, out, c) else (R_Ok, vec_resize (nat n) 0 out, c))"

definition Codec_decode :: "'c opus_lib \<Rightarrow> u8 list \<Rightarrow> int \<Rightarrow> 'c OpusCodec \<Rightarrow> Result \<times> pcm \<times> 'c OpusCodec" where
  "Codec_decode LO opus fs c =
     (case cd_decoder c of
        None \<Rightarrow> (R_InvalidArg, [], c)
      | Some d \<Rightarrow>
          if fs \<le> 0 then (R_InvalidArg, [], c)
          else
            let (n, buf, d') = ol_decode LO d opus fs;
                c = c\<lparr>cd_decoder := Some d'\<rparr>;
                out = vec_resize (nat fs) 0 buf
            in if n < 0 then (R_Internal, out, c) else (R_Ok, vec_resize (nat n) 0 out, c))"

lemma length_vec_resize [simp]: "length (vec_resize n v xs) = n"
  by (simp add: vec_resize_def)

lemma vec_resize_same [simp]: "vec_resize (length xs) v xs = xs"
  by (simp add: vec_resize_def)

lemma Codec_configure_frame:
  "Codec_configure LO cfg c = (r, c') \<Longrightarrow>
     cd_frameSamples c' = frameSamples (wc_sampleRate cfg) (wc_packetMs cfg)"
  by (auto simp: Codec_configure_def Let_def split: if_splits option.splits)

lemma Codec_encode_frame: "cd_frameSamples (snd (snd (Codec_encode LO pcm c))) = cd_frameSamples c"
  by (simp add: Codec_encode_def Let_def split_beta split: option.split)

lemma Codec_encode_ok:
  "fst (Codec_encode LO pcm c) = R_Ok \<Longrightarrow> int (length pcm) = cd_frameSamples c \<and> cd_encoder c \<noteq> None"
  by (auto simp: Codec_encode_def Let_def split_beta split: option.splits if_splits)

lemma Codec_decode_frame: "cd_frameSamples (snd (snd (Codec_decode LO op fs c))) = cd_frameSamples c"
  by (simp add: Codec_decode_def Let_def split_beta split: option.split)

lemma Codec_decode_length:
  "Codec_decode LO op fs c = (R_Ok, out, c') \<Longrightarrow>
     \<exists>d. cd_decoder c = Some d \<and> int (length out) = fst (ol_decode LO d op fs)"
  by (auto simp: Codec_decode_def Let_def split_beta split: option.splits if_splits)

end
