(* ===== verification/Session_State.thy ===== *)
theory Session_State
  imports Json_Wire Host_Endpoint Link_Signal Keepalive Opus_Codec
begin

text \<open>
  The state of \<open>Session::Impl\<close> (\<open>session.cpp\<close>) and its small operations: events, callbacks,
  sleeping, sockets, the WebSocket write pump, UDP datagrams and UDP recovery.

  One record holds the members of \<open>Impl\<close>; the operations return it updated. Every operation of
  the source that runs under its locks or on its own thread is one atomic step here; theories
  \<open>Session_Tx\<close> to \<open>Session_Steps\<close> interleave the steps of the application, the WebSocket, UDP,
  keepalive, TX worker and teardown threads. The fields of the last group are the model's own:
  the clock with the delays the environment inserts before readings, whether another thread
  halts the transport during a sleep, the thread an operation runs on, whether the WebSocket
  thread has completed a teardown on its own, whether the program has been terminated, and the
  trace of what the session does to its environment.
\<close>

datatype thread_id = T_App | T_Ws | T_Udp | T_Keepalive | T_Tx | T_Teardown

datatype obs =
    O_Event Event
  | O_RxPcm pcm int int
  | O_RxOpus "u8 list"
  | O_Udp "u8 list"
  | O_WsWrite string
  | O_Encode pcm
  | O_Sleep int

record ws_stream =
  ws_is_open :: bool
  ws_tcp_open :: bool

record udp_socket =
  us_is_open :: bool
  us_port :: int

record TxQueueItem =
  ti_op :: TxSubmitOp
  ti_pcm :: pcm
  ti_opusBytes :: "u8 list"

record 'c session =
  s_onSessionEvent :: bool
  s_onRxPcm :: bool
  s_onRxOpus :: bool
  s_sessionState :: SessionState
  s_wsStream :: "ws_stream option"
  s_udpSocket :: "udp_socket option"
  s_udpRemotePort :: int
  s_wsOutboundQueue :: "string list"
  s_wsWriteInProgress :: bool
  s_udpResetRequested :: bool
  s_udpResetGraceUntilNs :: int
  s_wsThreadCompletesTeardown :: bool
  s_disconnectEventEmitted :: bool
  s_disconnectStarted :: bool
  s_transportFullyStopped :: bool
  s_teardownThread :: bool
  s_powerProfile :: PowerProfile
  s_udpRecoveryUntilNs :: int
  s_pendingNetworkRecreate :: bool
  s_lastNetworkRecoveryAtNs :: int
  s_clientTxOpen :: bool
  s_connected :: bool
  s_stopRequested :: bool
  s_seq :: u32
  s_welcome :: WelcomeConfig
  s_connectParams :: ConnectParams
  s_hostForWs :: string
  s_repeaterMode :: bool
  s_opus :: "'c OpusCodec"
  s_txPcmBuffer :: pcm
  s_txQueue :: "TxQueueItem list"
  s_txWorkerThread :: bool
  s_txWorkerStop :: bool
  s_txWorkerRunning :: bool
  s_txWorkerProcessing :: bool
  s_txOpenAtNs :: int
  s_txLastActivityNs :: int
  s_nextPaceAtNs :: int
  s_wsThread :: bool
  s_udpThread :: bool
  s_keepaliveThread :: bool
  s_lastInboundNs :: int
  s_lastUdpKeepaliveSentNs :: int
  s_lastUdpKeepalivePendingSinceNs :: int
  s_lastWsHeartbeatSentNs :: int
  s_connectionLostSignaled :: bool
  s_clk :: int
  s_clkDelays :: "nat list"
  s_sleepHalts :: "bool list"
  s_curThread :: thread_id
  s_iocStopped :: bool
  s_iocPosts :: nat
  s_readArmed :: bool
  s_teardownPending :: bool
  s_detachedTeardowns :: nat
  s_wsSelfFinished :: bool
  s_terminated :: bool
  s_trace :: "obs list"

text \<open>
  What the session takes from outside: the JSON and Opus libraries, the global signal registry,
  and whether opening a UDP socket succeeds and which port it gets.
\<close>

record ('j, 'c) env =
  e_json :: "'j json_lib"
  e_opus :: "'c opus_lib"
  e_registry :: Registry
  e_udpOpenOk :: bool
  e_localPort :: int

definition Session_init :: "'c session" where
  "Session_init =
     \<lparr>s_onSessionEvent = False, s_onRxPcm = False, s_onRxOpus = False,
      s_sessionState = SessionState_default, s_wsStream = None, s_udpSocket = None,
      s_udpRemotePort = 0, s_wsOutboundQueue = [], s_wsWriteInProgress = False,
      s_udpResetRequested = False, s_udpResetGraceUntilNs = 0,
      s_wsThreadCompletesTeardown = False, s_disconnectEventEmitted = False,
      s_disconnectStarted = False, s_transportFullyStopped = True, s_teardownThread = False,
      s_powerProfile = Foreground, s_udpRecoveryUntilNs = 0, s_pendingNetworkRecreate = False,
      s_lastNetworkRecoveryAtNs = 0, s_clientTxOpen = False, s_connected = False,
      s_stopRequested = False, s_seq = 0, s_welcome = WelcomeConfig_default,
      s_connectParams = ConnectParams_default, s_hostForWs = [], s_repeaterMode = False,
      s_opus = OpusCodec_init, s_txPcmBuffer = [], s_txQueue = [], s_txWorkerThread = False,
      s_txWorkerStop = False, s_txWorkerRunning = False, s_txWorkerProcessing = False,
      s_txOpenAtNs = 0, s_txLastActivityNs = 0, s_nextPaceAtNs = 0, s_wsThread = False,
      s_udpThread = False, s_keepaliveThread = False, s_lastInboundNs = 0,
      s_lastUdpKeepaliveSentNs = 0, s_lastUdpKeepalivePendingSinceNs = 0,
      s_lastWsHeartbeatSentNs = 0, s_connectionLostSignaled = False, s_clk = 0,
      s_clkDelays = [], s_sleepHalts = [], s_curThread = T_App, s_iocStopped = False,
      s_iocPosts = 0, s_readArmed = False, s_teardownPending = False, s_detachedTeardowns = 0,
      s_wsSelfFinished = False, s_terminated = False, s_trace = []\<rparr>"

text \<open>\<open>obs o\<close> records what the environment sees.\<close>

definition observe :: "obs \<Rightarrow> 'c session \<Rightarrow> 'c session" where
  "observe ob s = s\<lparr>s_trace := s_trace s @ [ob]\<rparr>"

text \<open>\<open>tick\<close> lets the time pass that the environment has chosen; \<open>s_clk\<close> is then the reading.\<close>

definition tick :: "'c session \<Rightarrow> 'c session" where
  "tick s = (case s_clkDelays s of [] \<Rightarrow> s
     | d # ds \<Rightarrow> s\<lparr>s_clk := s_clk s + int d, s_clkDelays := ds\<rparr>)"

text \<open>\<open>on_thread t f\<close> runs \<open>f\<close> on thread \<open>t\<close>.\<close>

definition on_thread :: "thread_id \<Rightarrow> ('c session \<Rightarrow> 'c session) \<Rightarrow> 'c session \<Rightarrow> 'c session" where
  "on_thread t f s = (f (s\<lparr>s_curThread := t\<rparr>))\<lparr>s_curThread := s_curThread s\<rparr>"

section \<open>Events\<close>

definition applyEventState :: "Event \<Rightarrow> SessionState \<Rightarrow> SessionState" where
  "applyEventState ev st =
     (case ev_type ev of
        Ev_TransportConnected \<Rightarrow> st\<lparr>st_connected := True\<rparr>
      | Ev_Disconnected \<Rightarrow> st\<lparr>st_connected := False, st_udpReady := False, st_connectionLost := False\<rparr>
      | Ev_ProtocolError \<Rightarrow> st\<lparr>st_connected := False, st_udpReady := False, st_connectionLost := False\<rparr>
      | Ev_Welcome \<Rightarrow> st\<lparr>st_welcome := ev_welcome ev, st_hasWelcome := True\<rparr>
      | Ev_Connected \<Rightarrow> st\<lparr>st_welcome := ev_welcome ev, st_hasWelcome := True, st_connected := True,
                            st_udpReady := True, st_connectionLost := False\<rparr>
      | Ev_RxBroadcastStart \<Rightarrow> st\<lparr>st_receiving := True\<rparr>
      | Ev_RxBroadcastEnd \<Rightarrow> st\<lparr>st_receiving := False\<rparr>
      | Ev_LocalTxStart \<Rightarrow> st\<lparr>st_localTxActive := True\<rparr>
      | Ev_LocalTxEnd \<Rightarrow> st\<lparr>st_localTxActive := False\<rparr>
      | Ev_PttLocked \<Rightarrow> st\<lparr>st_pttServerLocked := True, st_pttLockDisplaySec := ev_pttDisplaySec ev\<rparr>
      | Ev_PttUnlocked \<Rightarrow> st\<lparr>st_pttServerLocked := False, st_pttLockDisplaySec := 0\<rparr>
      | Ev_UdpTransportReady \<Rightarrow> st\<lparr>st_udpReady := True\<rparr>
      | Ev_UdpTransportLost \<Rightarrow> st\<lparr>st_udpReady := False\<rparr>
      | Ev_ConnectionLost \<Rightarrow> st\<lparr>st_connected := False, st_udpReady := False,
                                 st_connectionLost := True, st_receiving := False\<rparr>
      | _ \<Rightarrow> st)"

definition emitEvent :: "Event \<Rightarrow> 'c session \<Rightarrow> 'c session" where
  "emitEvent ev s =
     (let s = s\<lparr>s_sessionState := applyEventState ev (s_sessionState s)\<rparr>
      in if s_onSessionEvent s then observe (O_Event ev) s else s)"

definition emitConnectionFailed :: "string \<Rightarrow> 'c session \<Rightarrow> 'c session" where
  "emitConnectionFailed reason s =
     emitEvent (Event_default\<lparr>ev_type := Ev_ConnectionFailed, ev_disconnectReason := reason\<rparr>) s"

definition emit_loss :: "string \<Rightarrow> 'c session \<Rightarrow> 'c session" where
  "emit_loss reason s =
     emitEvent (Event_default\<lparr>ev_type := Ev_ConnectionLost, ev_disconnectReason := reason\<rparr>)
       (emitEvent (plain_event Ev_RxBroadcastEnd) s)"

definition emitConnectionLost :: "string \<Rightarrow> 'c session \<Rightarrow> 'c session" where
  "emitConnectionLost reason s =
     (if s_disconnectStarted s then s
      else let s = s\<lparr>s_connectionLostSignaled := True\<rparr> in emit_loss reason s)"

definition emitRxPcm :: "pcm \<Rightarrow> 'c session \<Rightarrow> 'c session" where
  "emitRxPcm pcm s =
     (if s_onRxPcm s
      then observe (O_RxPcm pcm (wc_sampleRate (s_welcome s)) (wc_packetMs (s_welcome s))) s else s)"

section \<open>Sockets\<close>

definition shutdownWsTcp :: "'c session \<Rightarrow> 'c session" where
  "shutdownWsTcp s =
     (case s_wsStream s of None \<Rightarrow> s
      | Some w \<Rightarrow> if ws_tcp_open w then s\<lparr>s_wsStream := Some (w\<lparr>ws_tcp_open := False\<rparr>)\<rparr> else s)"

definition releaseWsStream :: "'c session \<Rightarrow> 'c session" where
  "releaseWsStream s = (case s_wsStream s of None \<Rightarrow> s | Some _ \<Rightarrow> s\<lparr>s_wsStream := None\<rparr>)"

definition closeSockets :: "'c session \<Rightarrow> 'c session" where
  "closeSockets s =
     (let s = s\<lparr>s_udpResetRequested := True\<rparr>;
          s = shutdownWsTcp s
      in case s_udpSocket s of None \<Rightarrow> s
         | Some u \<Rightarrow> s\<lparr>s_udpSocket := Some (u\<lparr>us_is_open := False\<rparr>)\<rparr>)"

definition haltTransport :: "'c session \<Rightarrow> 'c session" where
  "haltTransport s =
     (let s = s\<lparr>s_stopRequested := True\<rparr>; s = s\<lparr>s_connected := False\<rparr>; s = closeSockets s
      in s\<lparr>s_iocStopped := True\<rparr>)"

definition cancelOngoingConnect :: "'c session \<Rightarrow> 'c session" where
  "cancelOngoingConnect s = closeSockets (s\<lparr>s_stopRequested := True\<rparr>)"

definition resetIoContext :: "'c session \<Rightarrow> 'c session" where
  "resetIoContext s = (let s = s\<lparr>s_iocStopped := True\<rparr> in s\<lparr>s_iocStopped := False\<rparr>)"

text \<open>
  A sleep ends after its time, or at once when another thread halts the transport, which is the
  only thing that sets \<open>stopRequested\<close> while a worker sleeps.
\<close>

definition interruptibleSleepMs :: "int \<Rightarrow> 'c session \<Rightarrow> 'c session" where
  "interruptibleSleepMs ms s =
     (if ms \<le> 0 \<or> s_stopRequested s then s
      else
        let s = observe (O_Sleep ms) s
        in case s_sleepHalts s of
             [] \<Rightarrow> s\<lparr>s_clk := s_clk s + ms * kNsPerMs\<rparr>
           | h # hs \<Rightarrow>
               let s = s\<lparr>s_sleepHalts := hs\<rparr>
               in if h then haltTransport s else s\<lparr>s_clk := s_clk s + ms * kNsPerMs\<rparr>)"

definition signalRecoverableLoss :: "string \<Rightarrow> 'c session \<Rightarrow> 'c session" where
  "signalRecoverableLoss reason s =
     (if s_disconnectStarted s then s
      else
        let s = s\<lparr>s_connected := False\<rparr>;
            s = haltTransport s;
            s = s\<lparr>s_welcome := WelcomeConfig_default\<rparr>
        in if s_connectionLostSignaled s then s
           else let s = s\<lparr>s_connectionLostSignaled := True\<rparr> in emit_loss reason s)"

section \<open>The WebSocket write pump\<close>

definition pumpWsAsyncWrites :: "'c session \<Rightarrow> 'c session" where
  "pumpWsAsyncWrites s =
     (if s_wsWriteInProgress s \<or> s_stopRequested s \<or> \<not> s_connected s
         \<or> (case s_wsStream s of None \<Rightarrow> True | Some w \<Rightarrow> \<not> ws_is_open w) then s
      else (case s_wsOutboundQueue s of
              [] \<Rightarrow> s
            | msg # rest \<Rightarrow>
                let s = s\<lparr>s_wsOutboundQueue := rest\<rparr>; s = s\<lparr>s_wsWriteInProgress := True\<rparr>
                in observe (O_WsWrite msg) s))"

text \<open>\<open>dispatch\<close> runs the pump inline on the thread of the io_context, and posts it elsewhere.\<close>

definition sendWsText :: "string \<Rightarrow> 'c session \<Rightarrow> 'c session" where
  "sendWsText msg s =
     (if \<not> s_connected s \<or> s_stopRequested s \<or> msg = [] then s
      else
        let s = s\<lparr>s_wsOutboundQueue := s_wsOutboundQueue s @ [msg]\<rparr>
        in if s_curThread s = T_Ws then pumpWsAsyncWrites s
           else s\<lparr>s_iocPosts := s_iocPosts s + 1\<rparr>)"

record error_code =
  ec_interrupted :: bool
  ec_operation_aborted :: bool
  ec_timed_out :: bool
  ec_message :: string

definition isBenignUdpSocketError :: "error_code \<Rightarrow> bool" where
  "isBenignUdpSocketError ec =
     (if ec_interrupted ec \<or> ec_operation_aborted ec then True
      else let msg = ec_message ec
        in find_sub ''Interrupted'' msg \<noteq> None \<or> find_sub ''interrupted'' msg \<noteq> None
           \<or> find_sub ''Operation canceled'' msg \<noteq> None \<or> find_sub ''operation canceled'' msg \<noteq> None)"

text \<open>The completion handler of \<open>async_write\<close>; \<open>None\<close> is success.\<close>

definition onWsWriteDone :: "error_code option \<Rightarrow> 'c session \<Rightarrow> 'c session" where
  "onWsWriteDone ec s =
     (let s = s\<lparr>s_wsWriteInProgress := False\<rparr>
      in case ec of
           Some e \<Rightarrow>
             let s = s\<lparr>s_wsOutboundQueue := []\<rparr>
             in if \<not> s_stopRequested s then
                  let s = s\<lparr>s_connected := False\<rparr>
                  in if \<not> ec_operation_aborted e then signalRecoverableLoss (ec_message e) s else s
                else s
         | None \<Rightarrow> pumpWsAsyncWrites s)"

section \<open>UDP datagrams\<close>

definition sendUdpPayload :: "u8 list \<Rightarrow> 'c session \<Rightarrow> 'c session" where
  "sendUdpPayload data s =
     (case s_udpSocket s of
        None \<Rightarrow> s
      | Some u \<Rightarrow>
          if \<not> s_connected s \<or> wc_sessionId (s_welcome s) = 0 then s
          else if us_is_open u then observe (O_Udp data) s else s)"

definition uplinkSignalByte :: "('j, 'c) env \<Rightarrow> u8" where
  "uplinkSignalByte E = word_of_int (combinedByte (e_registry E))"

definition sendOpusFrame :: "u8 list \<Rightarrow> u8 \<Rightarrow> 'c session \<Rightarrow> 'c session" where
  "sendOpusFrame data signalStrength s =
     (if data = [] then s
      else
        let s = s\<lparr>s_seq := s_seq s + 1\<rparr>;
            pkt = \<lparr>up_sessionId = wc_sessionId (s_welcome s), up_sequence = s_seq s,
                   up_signalStrength = signalStrength, up_opus = data\<rparr>
        in (case udp_pack pkt [] of (r, payload) \<Rightarrow>
              if r \<noteq> R_Ok then s else sendUdpPayload payload s))"

definition sendUdpKeepalive :: "'c session \<Rightarrow> 'c session" where
  "sendUdpKeepalive s =
     (if s_udpSocket s = None \<or> wc_sessionId (s_welcome s) = 0 then s
      else
        let payload = be32_bytes (wc_sessionId (s_welcome s)) @ [0, 0, 0, 0] @ [kKeepaliveSignal];
            s = sendUdpPayload payload s;
            s = tick s;
            now = s_clk s;
            s = s\<lparr>s_lastUdpKeepaliveSentNs := now\<rparr>
        in if s_lastUdpKeepalivePendingSinceNs s = 0
           then s\<lparr>s_lastUdpKeepalivePendingSinceNs := now\<rparr> else s)"

definition sendUdpTxEof :: "'c session \<Rightarrow> 'c session" where
  "sendUdpTxEof s =
     (if s_udpSocket s = None \<or> wc_sessionId (s_welcome s) = 0 then s
      else
        let s = s\<lparr>s_seq := s_seq s + 1\<rparr>;
            payload = be32_bytes (wc_sessionId (s_welcome s)) @ be32_bytes (s_seq s) @ [0]
        in sendUdpPayload payload s)"

section \<open>UDP recovery\<close>

definition enterUdpRecovery :: "'c session \<Rightarrow> 'c session" where
  "enterUdpRecovery s =
     (let s = tick s in s\<lparr>s_udpRecoveryUntilNs := s_clk s + kUdpKeepaliveRecoveryWindowNs\<rparr>)"

text \<open>
  \<open>resetUdpInternal\<close>. The block in \<open>try\<close> throws when the TCP peer is gone, the socket cannot be
  opened, or the JSON library throws.
\<close>

definition resetUdp :: "('j, 'c) env \<Rightarrow> 'c session \<Rightarrow> Result \<times> 'c session" where
  "resetUdp E s =
     (case s_wsStream s of
        None \<Rightarrow> (R_NotConnected, s)
      | Some w \<Rightarrow>
          if \<not> s_connected s then (R_NotConnected, s)
          else
            let s = tick s;
                s = s\<lparr>s_udpResetGraceUntilNs := s_clk s + 300 * kNsPerMs\<rparr>;
                s = s\<lparr>s_udpResetRequested := True\<rparr>;
                s = s\<lparr>s_udpSocket := None\<rparr>;
                failed = (\<lambda>s. let s = s\<lparr>s_udpResetRequested := False\<rparr>
                              in (R_Network, emitEvent (plain_event Ev_UdpTransportLost) s))
            in if \<not> ws_tcp_open w \<or> \<not> e_udpOpenOk E then failed s
               else
                 let s = s\<lparr>s_udpSocket := Some \<lparr>us_is_open = True, us_port = e_localPort E\<rparr>\<rparr>;
                     s = s\<lparr>s_udpRemotePort := cp_port (s_connectParams s)\<rparr>
                 in (case buildUdpHello (e_json E) (e_localPort E) of
                       None \<Rightarrow> failed s
                     | Some msg \<Rightarrow>
                         let s = sendWsText msg s;
                             s = sendUdpKeepalive s;
                             s = emitEvent (plain_event Ev_UdpTransportReady) s
                         in (R_Ok, s\<lparr>s_udpResetRequested := False\<rparr>)))"

definition recover_network :: "('j, 'c) env \<Rightarrow> 'c session \<Rightarrow> 'c session" where
  "recover_network E s = enterUdpRecovery (snd (resetUdp E (s\<lparr>s_lastNetworkRecoveryAtNs := s_clk s\<rparr>)))"

definition notifyNetworkChanged :: "('j, 'c) env \<Rightarrow> 'c session \<Rightarrow> 'c session" where
  "notifyNetworkChanged E s =
     (if \<not> s_connected s then s
      else if st_localTxActive (s_sessionState s) then s\<lparr>s_pendingNetworkRecreate := True\<rparr>
      else
        let s = tick s; now = s_clk s; last = s_lastNetworkRecoveryAtNs s
        in if last \<noteq> 0 \<and> now - last < kNetworkRecoveryMinIntervalNs then s
           else recover_network E s)"

definition drainPendingNetworkRecreateIfIdle :: "('j, 'c) env \<Rightarrow> 'c session \<Rightarrow> 'c session" where
  "drainPendingNetworkRecreateIfIdle E s =
     (if \<not> s_pendingNetworkRecreate s then s
      else
        let s = s\<lparr>s_pendingNetworkRecreate := False\<rparr>
        in if \<not> s_connected s then s
           else if st_localTxActive (s_sessionState s) then s\<lparr>s_pendingNetworkRecreate := True\<rparr>
           else
             let s = tick s; now = s_clk s; last = s_lastNetworkRecoveryAtNs s
             in if last \<noteq> 0 \<and> now - last < kNetworkRecoveryMinIntervalNs
                then s\<lparr>s_pendingNetworkRecreate := True\<rparr>
                else recover_network E s)"

definition punchUdpNat :: "'c session \<Rightarrow> Result \<times> 'c session" where
  "punchUdpNat s =
     (if \<not> s_connected s \<or> wc_sessionId (s_welcome s) = 0 then (R_NotConnected, s)
      else (R_Ok, sendUdpKeepalive s))"

definition beginLocalTxIfNeeded :: "'c session \<Rightarrow> 'c session" where
  "beginLocalTxIfNeeded s =
     (if \<not> st_localTxActive (s_sessionState s) then emitEvent (plain_event Ev_LocalTxStart) s else s)"

definition endLocalTxIfNeeded :: "('j, 'c) env \<Rightarrow> 'c session \<Rightarrow> 'c session" where
  "endLocalTxIfNeeded E s =
     (if st_localTxActive (s_sessionState s)
      then drainPendingNetworkRecreateIfIdle E (emitEvent (plain_event Ev_LocalTxEnd) s) else s)"

section \<open>A session to try things on\<close>

text \<open>
  A concrete environment and a concrete connected session, used by the witnesses only: a codec
  that encodes every frame to two bytes, a JSON library on the datatype of theory \<open>Json_Wire\<close>,
  and a session with number 9 at 8000 Hz and 20 ms.
\<close>

definition demo_opus :: "unit opus_lib" where
  "demo_opus =
     \<lparr>ol_encoder_create = (\<lambda>_ _. Some ()), ol_encoder_ctl = (\<lambda>_ _ c. c), ol_decoder_create = (\<lambda>_. Some ()),
      ol_encode = (\<lambda>c _ _ _. (2, [7, 8], c)), ol_decode = (\<lambda>c _ n. (n, replicate (nat n) 0, c))\<rparr>"

definition demo_env :: "(jv, unit) env" where
  "demo_env =
     \<lparr>e_json = jv_lib (\<lambda>_. Some (JObj [(''type'', JStr ''welcome''), (''protocolVersion'', JInt 2),
                  (''sampleRate'', JInt 8000), (''sessionId'', JInt 9)])) (\<lambda>_. Some ''{}''),
      e_opus = demo_opus, e_registry = Registry_init, e_udpOpenOk = True, e_localPort = 40000\<rparr>"

definition demo_session :: "unit session" where
  "demo_session = Session_init\<lparr>s_onSessionEvent := True, s_onRxPcm := True, s_connected := True,
     s_transportFullyStopped := False, s_wsStream := Some \<lparr>ws_is_open = True, ws_tcp_open = True\<rparr>,
     s_udpSocket := Some \<lparr>us_is_open = True, us_port = 40000\<rparr>,
     s_welcome := WelcomeConfig_default\<lparr>wc_sessionId := 9\<rparr>,
     s_opus := \<lparr>cd_encoder = Some (), cd_decoder = Some (), cd_sampleRate = 8000, cd_frameSamples = 160\<rparr>,
     s_clk := 1000\<rparr>"

lemma uplink_not_ack:
  "registry_reachable (e_registry E) \<Longrightarrow> uplinkSignalByte E \<noteq> kKeepaliveAckSignal"
proof
  assume r: "registry_reachable (e_registry E)" and a: "uplinkSignalByte E = kKeepaliveAckSignal"
  let ?c = "combinedByte (e_registry E)"
  from registry_reachable_inv [OF r] have c: "0 \<le> ?c" "?c \<le> 255" "?c \<noteq> 254"
    by (auto simp: combinedByte_eq Registry_inv_def Let_def)
  from a have "uint (word_of_int ?c :: u8) = 254"
    by (simp add: uplinkSignalByte_def kKeepaliveAckSignal_def)
  with c show False by (simp add: uint_word_of_int)
qed

end
