(* ===== verification/Session_Tx.thy ===== *)
theory Session_Tx
  imports Session_State
begin

text \<open>
  The transmit side of \<open>Session::Impl\<close>: encoding of the PCM buffer, opening and closing a
  transmission, the bounded command queue and the worker thread that empties it. Waiting for
  the worker (in \<open>submitTx\<close> and \<open>waitTxQueueIdle\<close>) takes the worker's progress during each wait
  as an argument, so that every interleaving of the two threads is some argument.
\<close>

definition kTxQueueCapacity :: nat where "kTxQueueCapacity = 48"
definition kTxQueueSubmitWaitMs :: int where "kTxQueueSubmitWaitMs = 400"
definition kTxOpenWatchdogNs :: int where "kTxOpenWatchdogNs = 2 * kNsPerSec"

section \<open>Encoding\<close>

text \<open>
  One round of \<open>opus.encode\<close> on the first \<open>frame\<close> samples of the buffer, as \<open>flushTxPcmBuffer\<close>
  and \<open>feedTxPcmInternal\<close> do it: \<open>None\<close> when the codec fails, which clears the buffer.
\<close>

definition encode_front :: "('j, 'c) env \<Rightarrow> nat \<Rightarrow> 'c session \<Rightarrow> u8 list option \<times> 'c session" where
  "encode_front E frame s =
     (let frameSpan = take frame (s_txPcmBuffer s);
          (r, encoded, c) = Codec_encode (e_opus E) frameSpan (s_opus s);
          s = s\<lparr>s_opus := c\<rparr>
      in if r \<noteq> R_Ok then (None, s\<lparr>s_txPcmBuffer := []\<rparr>)
         else (Some encoded, observe (O_Encode frameSpan) (s\<lparr>s_txPcmBuffer := drop frame (s_txPcmBuffer s)\<rparr>)))"

lemma sendUdpPayload_buffer [simp]: "s_txPcmBuffer (sendUdpPayload d s) = s_txPcmBuffer s"
  by (simp add: sendUdpPayload_def observe_def split: option.split)

lemma sendOpusFrame_buffer [simp]: "s_txPcmBuffer (sendOpusFrame d g s) = s_txPcmBuffer s"
  by (simp add: sendOpusFrame_def Let_def split: prod.split)

lemma encode_front_buffer:
  "encode_front E frame s = (Some enc, s') \<Longrightarrow> s_txPcmBuffer s' = drop frame (s_txPcmBuffer s)"
  by (auto simp: encode_front_def Let_def split_beta observe_def split: if_splits)

definition pad_partial :: "nat \<Rightarrow> pcm \<Rightarrow> pcm" where
  "pad_partial frame buf = (if buf \<noteq> [] \<and> length buf < frame then vec_resize frame 0 buf else buf)"

function flushTxPcmBuffer :: "('j, 'c) env \<Rightarrow> 'c session \<Rightarrow> 'c session" where
  "flushTxPcmBuffer E s =
     (let frame = nat (cd_frameSamples (s_opus s))
      in if frame = 0 then s
         else
           let s1 = s\<lparr>s_txPcmBuffer := pad_partial frame (s_txPcmBuffer s)\<rparr>
           in if length (s_txPcmBuffer s1) < frame then s1
              else (case encode_front E frame s1 of
                      (None, s2) \<Rightarrow> s2
                    | (Some encoded, s2) \<Rightarrow>
                        flushTxPcmBuffer E (sendOpusFrame encoded (uplinkSignalByte E) s2)))"
  by pat_completeness auto
termination
proof (relation "measure (\<lambda>(E, s). length (s_txPcmBuffer s))", goal_cases)
  case (2 E s frame s1 x s2 e)
  then have "s_txPcmBuffer s2 = drop frame (pad_partial frame (s_txPcmBuffer s))"
    using encode_front_buffer [of E frame s1 e s2] by simp
  moreover from 2 have "0 < frame" "frame \<le> length (pad_partial frame (s_txPcmBuffer s))" by simp_all
  ultimately show ?case by (auto simp: pad_partial_def split: if_splits)
qed simp

declare flushTxPcmBuffer.simps [simp del]

section \<open>Opening, feeding and closing a transmission\<close>

definition txStart :: "'c session \<Rightarrow> Result \<times> 'c session" where
  "txStart s =
     (if \<not> s_connected s \<or> wc_sessionId (s_welcome s) = 0 then (R_NotConnected, s)
      else
        let s = s\<lparr>s_txPcmBuffer := []\<rparr>; s = s\<lparr>s_clientTxOpen := True\<rparr>
        in (R_Ok, beginLocalTxIfNeeded s))"

fun eof_burst :: "int list \<Rightarrow> 'c session \<Rightarrow> 'c session" where
  "eof_burst [] s = s"
| "eof_burst (d # ds) s =
     (let s = (if d > 0 then interruptibleSleepMs d s else s)
      in if s_stopRequested s then s else eof_burst ds (sendUdpTxEof s))"

definition sendTxEofBurst :: "('j, 'c) env \<Rightarrow> 'c session \<Rightarrow> Result \<times> 'c session" where
  "sendTxEofBurst E s =
     (if \<not> s_connected s then (R_NotConnected, s)
      else
        let s = s\<lparr>s_txPcmBuffer := []\<rparr>; s = eof_burst [0, 20, 60] s
        in (R_Ok, endLocalTxIfNeeded E s))"

definition txEnd :: "('j, 'c) env \<Rightarrow> 'c session \<Rightarrow> Result \<times> 'c session" where
  "txEnd E s =
     (if \<not> s_connected s then (R_NotConnected, s)
      else if \<not> s_clientTxOpen s then (R_NotReady, s)
      else
        let s = flushTxPcmBuffer E s; s = s\<lparr>s_txPcmBuffer := []\<rparr>; s = s\<lparr>s_clientTxOpen := False\<rparr>
        in sendTxEofBurst E s)"

definition feedTxPcm :: "('j, 'c) env \<Rightarrow> pcm \<Rightarrow> 'c session \<Rightarrow> Result \<times> 'c session" where
  "feedTxPcm E samples s =
     (if \<not> s_connected s \<or> wc_sessionId (s_welcome s) = 0 then (R_NotConnected, s)
      else if \<not> s_clientTxOpen s then (R_NotReady, s)
      else if samples = [] then (R_InvalidArg, s)
      else
        let frame = nat (cd_frameSamples (s_opus s))
        in if frame = 0 then (R_NotReady, s)
           else
             let s = s\<lparr>s_txPcmBuffer := s_txPcmBuffer s @ samples\<rparr>
             in if length (s_txPcmBuffer s) < frame then (R_Ok, s)
                else (case encode_front E frame s of
                        (None, s) \<Rightarrow> (R_NotReady, s)
                      | (Some encoded, s) \<Rightarrow> (R_Ok, sendOpusFrame encoded (uplinkSignalByte E) s)))"

definition sendTxOpus :: "('j, 'c) env \<Rightarrow> u8 list \<Rightarrow> 'c session \<Rightarrow> Result \<times> 'c session" where
  "sendTxOpus E opus s =
     (if \<not> s_connected s \<or> wc_sessionId (s_welcome s) = 0 then (R_NotConnected, s)
      else if \<not> s_clientTxOpen s then (R_NotReady, s)
      else if opus = [] then (R_InvalidArg, s)
      else (R_Ok, sendOpusFrame opus (uplinkSignalByte E) s))"

definition abortTx :: "('j, 'c) env \<Rightarrow> 'c session \<Rightarrow> 'c session" where
  "abortTx E s =
     (let s = s\<lparr>s_txQueue := []\<rparr>;
          s = s\<lparr>s_txPcmBuffer := []\<rparr>;
          s = (if s_clientTxOpen s then endLocalTxIfNeeded E (s\<lparr>s_clientTxOpen := False\<rparr>) else s);
          s = s\<lparr>s_txOpenAtNs := 0\<rparr>
      in s\<lparr>s_txLastActivityNs := 0\<rparr>)"

section \<open>The worker\<close>

definition paceTxFrame :: "'c session \<Rightarrow> 'c session" where
  "paceTxFrame s =
     (let packetMs = (if wc_packetMs (s_welcome s) > 0 then wc_packetMs (s_welcome s) else 20);
          frameNs = packetMs * kNsPerMs;
          s = tick s;
          now = s_clk s;
          s = (if s_nextPaceAtNs s \<le> 0 then s\<lparr>s_nextPaceAtNs := now\<rparr> else s);
          sleepNs = s_nextPaceAtNs s - now;
          s = (if sleepNs > 0 then interruptibleSleepMs ((sleepNs + kNsPerMs - 1) sdiv kNsPerMs) s
               else if sleepNs < - frameNs * 2 then (let s = tick s in s\<lparr>s_nextPaceAtNs := s_clk s\<rparr>)
               else s)
      in s\<lparr>s_nextPaceAtNs := s_nextPaceAtNs s + frameNs\<rparr>)"

definition mark_activity :: "'c session \<Rightarrow> 'c session" where
  "mark_activity s = (let s = tick s in s\<lparr>s_txLastActivityNs := s_clk s\<rparr>)"

definition processTxItem :: "('j, 'c) env \<Rightarrow> TxQueueItem \<Rightarrow> 'c session \<Rightarrow> 'c session" where
  "processTxItem E item s =
     (case ti_op item of
        Op_Open \<Rightarrow>
          let s = (if s_clientTxOpen s then snd (txEnd E s) else s);
              s = snd (txStart s);
              s = tick s;
              s = s\<lparr>s_txOpenAtNs := s_clk s\<rparr>;
              s = s\<lparr>s_txLastActivityNs := s_txOpenAtNs s\<rparr>
          in s\<lparr>s_nextPaceAtNs := 0\<rparr>
      | Op_Pcm \<Rightarrow>
          if \<not> s_clientTxOpen s then s
          else mark_activity (snd (feedTxPcm E (ti_pcm item) (paceTxFrame s)))
      | Op_Opus \<Rightarrow>
          if \<not> s_clientTxOpen s then s
          else mark_activity (snd (sendTxOpus E (ti_opusBytes item) (paceTxFrame s)))
      | Op_VoiceEnd \<Rightarrow>
          mark_activity (if s_clientTxOpen s then flushTxPcmBuffer E s else s)
      | Op_Close \<Rightarrow>
          let s = snd (txEnd E s)
          in s\<lparr>s_txOpenAtNs := 0, s_txLastActivityNs := 0, s_nextPaceAtNs := 0\<rparr>
      | Op_Abort \<Rightarrow> let s = abortTx E s in s\<lparr>s_nextPaceAtNs := 0\<rparr>)"

text \<open>
  One turn of \<open>txWorkerLoop\<close>, on the worker's thread: \<open>None\<close> when the loop ends. With an empty
  queue the turn is the watchdog, which closes a transmission nobody feeds.
\<close>

definition txWorkerTurn :: "('j, 'c) env \<Rightarrow> 'c session \<Rightarrow> 'c session option" where
  "txWorkerTurn E s =
     (case s_txQueue s of
        [] \<Rightarrow>
          if s_txWorkerStop s then None
          else Some (
            if s_clientTxOpen s \<and> s_txOpenAtNs s > 0 then
              let s = tick s; now = s_clk s
              in if now - s_txLastActivityNs s > kTxOpenWatchdogNs then
                   let s = snd (txEnd E s)
                   in s\<lparr>s_txOpenAtNs := 0, s_txLastActivityNs := 0, s_nextPaceAtNs := 0\<rparr>
                 else s
            else s)
      | item # rest \<Rightarrow>
          let s = s\<lparr>s_txQueue := rest\<rparr>;
              s = s\<lparr>s_txWorkerProcessing := True\<rparr>;
              s = processTxItem E item s
          in Some (s\<lparr>s_txWorkerProcessing := False\<rparr>))"

definition txWorkerStep :: "('j, 'c) env \<Rightarrow> 'c session \<Rightarrow> 'c session" where
  "txWorkerStep E s =
     (if s_txWorkerThread s then
        (case txWorkerTurn E (s\<lparr>s_curThread := T_Tx\<rparr>) of
           None \<Rightarrow> s
         | Some s' \<Rightarrow> s'\<lparr>s_curThread := s_curThread s\<rparr>)
      else s)"

text \<open>\<open>n\<close> turns of the worker, as another thread waits.\<close>

definition txWorkerSteps :: "('j, 'c) env \<Rightarrow> nat \<Rightarrow> 'c session \<Rightarrow> 'c session" where
  "txWorkerSteps E n s = (txWorkerStep E ^^ n) s"

text \<open>
  Joining the worker lets it work through the rest of its queue: every turn takes an item and no
  turn adds one, so as many turns as there are items empty it (\<open>txWorkerDrain_empty\<close>).
\<close>

fun txWorkerDrain :: "('j, 'c) env \<Rightarrow> nat \<Rightarrow> 'c session \<Rightarrow> 'c session" where
  "txWorkerDrain E 0 s = s"
| "txWorkerDrain E (Suc n) s =
     (if s_txQueue s = [] then s
      else (case txWorkerTurn E s of None \<Rightarrow> s | Some s' \<Rightarrow> txWorkerDrain E n s'))"

definition stopTxPipeline :: "('j, 'c) env \<Rightarrow> 'c session \<Rightarrow> 'c session" where
  "stopTxPipeline E s =
     (let s = s\<lparr>s_txWorkerStop := True\<rparr>;
          s = (if s_txWorkerThread s \<and> s_curThread s \<noteq> T_Tx
               then on_thread T_Tx (txWorkerDrain E (length (s_txQueue s))) s else s);
          s = s\<lparr>s_txWorkerThread := False, s_txWorkerRunning := False, s_txWorkerStop := False,
                s_txQueue := []\<rparr>
      in abortTx E s)"

text \<open>Assigning to a joinable \<open>std::thread\<close> terminates the program.\<close>

definition ensureTxWorkerStarted :: "'c session \<Rightarrow> 'c session" where
  "ensureTxWorkerStarted s =
     (if s_txWorkerRunning s then s
      else
        let s = s\<lparr>s_txWorkerStop := False\<rparr>;
            s = (if s_txWorkerThread s then s\<lparr>s_terminated := True\<rparr> else s);
            s = s\<lparr>s_txWorkerThread := True, s_nextPaceAtNs := 0\<rparr>
        in s\<lparr>s_txWorkerRunning := True\<rparr>)"

section \<open>The queue\<close>

fun submit_wait :: "('j, 'c) env \<Rightarrow> nat list \<Rightarrow> 'c session \<Rightarrow> 'c session" where
  "submit_wait E [] s = s"
| "submit_wait E (n # ns) s =
     (if length (s_txQueue s) \<ge> kTxQueueCapacity then submit_wait E ns (txWorkerSteps E n s) else s)"

definition tx_item :: "TxSubmitOp \<Rightarrow> pcm \<Rightarrow> u8 list \<Rightarrow> TxQueueItem" where
  "tx_item op pcm opus =
     \<lparr>ti_op = op, ti_pcm = (if op = Op_Pcm then pcm else []),
      ti_opusBytes = (if op = Op_Opus then opus else [])\<rparr>"

definition push_item :: "TxQueueItem \<Rightarrow> 'c session \<Rightarrow> 'c session" where
  "push_item item s = s\<lparr>s_txQueue := s_txQueue s @ [item]\<rparr>"

text \<open>
  \<open>submitTxInternal\<close>; \<open>polls\<close> is the worker's progress in each wait of a full queue, until the
  deadline of \<open>kTxQueueSubmitWaitMs\<close>.
\<close>

definition submitTx ::
  "('j, 'c) env \<Rightarrow> TxSubmitOp \<Rightarrow> pcm \<Rightarrow> u8 list \<Rightarrow> nat list \<Rightarrow> 'c session \<Rightarrow> Result \<times> 'c session" where
  "submitTx E op pcm opus polls s =
     (if op \<noteq> Op_Abort \<and> (\<not> s_connected s \<or> wc_sessionId (s_welcome s) = 0) then (R_NotConnected, s)
      else if op = Op_Pcm \<and> pcm = [] then (R_InvalidArg, s)
      else if op = Op_Opus \<and> opus = [] then (R_InvalidArg, s)
      else if s_stopRequested s \<and> op \<noteq> Op_Abort then (R_NotConnected, s)
      else if s_txWorkerStop s \<and> op \<noteq> Op_Abort then (R_NotConnected, s)
      else
        let s = (if op = Op_Pcm then submit_wait E polls s else s)
        in if op = Op_Pcm \<and> length (s_txQueue s) \<ge> kTxQueueCapacity then (R_QueueFull, s)
           else
             let s = (if op = Op_Open then s\<lparr>s_txQueue := []\<rparr> else s);
                 s = push_item (tx_item op pcm opus) s
             in (R_Ok, ensureTxWorkerStarted s))"

definition quiescent :: "'c session \<Rightarrow> bool" where
  "quiescent s \<longleftrightarrow> s_txQueue s = [] \<and> \<not> s_txWorkerProcessing s"

text \<open>Each poll is the time a wait took and the worker's turns in it; the list ends at the deadline.\<close>

fun wait_idle_loop :: "('j, 'c) env \<Rightarrow> int \<Rightarrow> (nat \<times> nat) list \<Rightarrow> 'c session \<Rightarrow> bool \<times> 'c session" where
  "wait_idle_loop E deadline [] s = (quiescent s, s)"
| "wait_idle_loop E deadline ((ns, n) # polls) s =
     (if s_clk s < deadline then
        (if quiescent s then (True, s)
         else let s = txWorkerSteps E n s
              in wait_idle_loop E deadline polls (s\<lparr>s_clk := s_clk s + int ns\<rparr>))
      else (quiescent s, s))"

definition waitTxQueueIdle :: "('j, 'c) env \<Rightarrow> int \<Rightarrow> (nat \<times> nat) list \<Rightarrow> 'c session \<Rightarrow> bool \<times> 'c session" where
  "waitTxQueueIdle E timeoutMs polls s =
     (let s = tick s; deadline = s_clk s + (if timeoutMs > 0 then timeoutMs else 0) * kNsPerMs
      in wait_idle_loop E deadline polls s)"

end
