(* ===== verification/Net_Poll.thy ===== *)
theory Net_Poll
  imports OW_Types
begin

text \<open>
  The bounded waits of \<open>session.cpp\<close> and \<open>activity_probe.cpp\<close>: an asynchronous operation is
  started, \<open>io_context::run_for\<close> is called in slices until the operation completes or a
  deadline passes, then the operation is cancelled and given a last slice. What happens during
  a slice comes from the environment: how long it took, whether the completion handler ran
  (with success or an error), and whether another thread asked to stop. Times are nanoseconds.
\<close>

record slice =
  sl_ns :: int
  sl_done :: "bool option"
  sl_stop :: bool

record wait_env =
  we_slices :: "slice list"
  we_final :: slice

text \<open>
  The loop; \<open>watch\<close> tells whether it also ends on a stop request (the session's loops do). The
  result is the completion status, the time and the stop flag; \<open>None\<close> means the loop is still
  running after the given slices.
\<close>

fun poll_loop :: "bool \<Rightarrow> int \<Rightarrow> bool option \<Rightarrow> int \<Rightarrow> bool \<Rightarrow> slice list \<Rightarrow> (bool option \<times> int \<times> bool) option" where
  "poll_loop watch deadline completed now stop slices =
     (if completed \<noteq> None \<or> (watch \<and> stop) then Some (completed, now, stop)
      else (case slices of
              [] \<Rightarrow> None
            | sl # rest \<Rightarrow>
                let now = now + sl_ns sl; completed = sl_done sl; stop = (stop \<or> sl_stop sl)
                in if now \<ge> deadline then Some (completed, now, stop)
                   else poll_loop watch deadline completed now stop rest))"

declare poll_loop.simps [simp del]

definition await :: "bool \<Rightarrow> int \<Rightarrow> int \<Rightarrow> bool \<Rightarrow> wait_env \<Rightarrow> (bool option \<times> int \<times> bool) option" where
  "await watch timeoutNs now stop we =
     (case poll_loop watch (now + timeoutNs) None now stop (we_slices we) of
        None \<Rightarrow> None
      | Some (completed, now, stop) \<Rightarrow>
          if completed = None
          then Some (sl_done (we_final we), now + sl_ns (we_final we), stop \<or> sl_stop (we_final we))
          else Some (completed, now, stop))"

text \<open>
  An environment that respects \<open>run_for(slice)\<close>: a slice in which nothing completes takes at least
  the slice's time (the io_context still has work), none takes more than that plus a scheduling
  delay, and enough slices are given to reach the deadline.
\<close>

definition slice_ok :: "int \<Rightarrow> int \<Rightarrow> slice \<Rightarrow> bool" where
  "slice_ok sliceNs slackNs sl \<longleftrightarrow>
     (sl_done sl = None \<longrightarrow> sliceNs \<le> sl_ns sl) \<and> 0 \<le> sl_ns sl \<and> sl_ns sl \<le> sliceNs + slackNs"

lemma poll_loop_ends:
  assumes "0 < sliceNs" "list_all (slice_ok sliceNs slackNs) slices"
    and "deadline - now \<le> int (length slices) * sliceNs" and "now < deadline"
  shows "\<exists>c t st. poll_loop watch deadline completed now stop slices = Some (c, t, st)
           \<and> now \<le> t \<and> t \<le> deadline + sliceNs + slackNs"
  using assms(2-4)
proof (induction slices arbitrary: completed now stop)
  case Nil
  then show ?case by simp
next
  case (Cons sl rest)
  let ?now = "now + sl_ns sl"
  have sl: "slice_ok sliceNs slackNs sl" using Cons.prems by simp
  then have s: "0 \<le> sl_ns sl" "sl_ns sl \<le> sliceNs + slackNs" by (auto simp: slice_ok_def)
  show ?case
  proof (cases "completed \<noteq> None \<or> (watch \<and> stop)")
    case True
    with Cons.prems assms(1) s show ?thesis by (subst poll_loop.simps) auto
  next
    case cont: False
    show ?thesis
    proof (cases "?now \<ge> deadline")
      case True
      with cont s Cons.prems show ?thesis by (subst poll_loop.simps) (auto simp: Let_def)
    next
      case False
      show ?thesis
      proof (cases "sl_done sl")
        case None
        then have "sliceNs \<le> sl_ns sl" using sl by (simp add: slice_ok_def)
        then have "deadline - ?now \<le> int (length rest) * sliceNs"
          using Cons.prems(2) by (simp add: algebra_simps)
        from Cons.IH [OF _ this, of "sl_done sl" "stop \<or> sl_stop sl"] False Cons.prems(1) s(1)
        obtain c t st where "poll_loop watch deadline (sl_done sl) ?now (stop \<or> sl_stop sl) rest = Some (c, t, st)"
          "?now \<le> t" "t \<le> deadline + sliceNs + slackNs" by auto
        with cont False s(1) show ?thesis by (subst poll_loop.simps) (auto simp: Let_def)
      next
        case (Some b)
        have "poll_loop watch deadline (Some b) ?now (stop \<or> sl_stop sl) rest = Some (Some b, ?now, stop \<or> sl_stop sl)"
          by (subst poll_loop.simps) simp
        with cont False Some s assms(1) show ?thesis by (subst poll_loop.simps) (auto simp: Let_def)
      qed
    qed
  qed
qed

lemma await_ends:
  assumes "0 < sliceNs" "0 < timeoutNs" "list_all (slice_ok sliceNs slackNs) (we_slices we)"
    and "timeoutNs \<le> int (length (we_slices we)) * sliceNs"
    and "0 \<le> sl_ns (we_final we)" "sl_ns (we_final we) \<le> finalNs"
  shows "\<exists>c t st. await watch timeoutNs now stop we = Some (c, t, st)
           \<and> now \<le> t \<and> t \<le> now + timeoutNs + sliceNs + slackNs + finalNs"
proof -
  from poll_loop_ends [OF assms(1,3), of "now + timeoutNs" now watch None stop] assms(2,4)
  obtain c t st where "poll_loop watch (now + timeoutNs) None now stop (we_slices we) = Some (c, t, st)"
    "now \<le> t" "t \<le> now + timeoutNs + sliceNs + slackNs" by auto
  with assms(5,6) show ?thesis by (auto simp: await_def)
qed

text \<open>
  A wait for resolve, connect or handshake always ends, and in time: with slices of at least
  their nominal length it returns no later than the timeout plus two slices (one overshoot and
  the final one) and the scheduling delays, whether or not the peer ever answers.
\<close>

theorem await_terminates_in_time:
  assumes "0 < sliceNs" "0 < timeoutNs" "list_all (slice_ok sliceNs slackNs) (we_slices we)"
    and "timeoutNs \<le> int (length (we_slices we)) * sliceNs"
    and "0 \<le> sl_ns (we_final we)" "sl_ns (we_final we) \<le> finalNs"
  shows "\<exists>c t st. await watch timeoutNs now stop we = Some (c, t, st)
           \<and> now \<le> t \<and> t \<le> now + timeoutNs + sliceNs + slackNs + finalNs"
  by (rule await_ends [OF assms])

theorem await_terminates_in_time_witness:
  "let sl = \<lparr>sl_ns = 200, sl_done = None, sl_stop = False\<rparr>
   in \<exists>c t st. await True 500 (7::int) False \<lparr>we_slices = [sl, sl, sl], we_final = sl\<rparr> = Some (c, t, st) \<and> t \<le> 907"
  using await_terminates_in_time [of 200 500 0
      "\<lparr>we_slices = replicate 3 \<lparr>sl_ns = 200, sl_done = None, sl_stop = False\<rparr>,
        we_final = \<lparr>sl_ns = 200, sl_done = None, sl_stop = False\<rparr>\<rparr>" 200 True 7 False]
  by (auto simp: slice_ok_def numeral_3_eq_3)

end
