(* ===== verification/Session_Transport.thy ===== *)
theory Session_Transport
  imports Session_Tx Net_Poll
begin

text \<open>
  Connecting, disconnecting, tearing down and waiting in \<open>Session::Impl\<close>. Threads are joinable
  or not; what a joined thread still has to do before it ends (the WebSocket thread finishing a
  disconnect, the teardown thread, the TX worker's queue) is done at the join, or earlier by a
  step of that thread. The polling loops read the environment's part from an argument, as in
  theory \<open>Net_Poll\<close>.
\<close>

section \<open>Clearing and joining\<close>

definition clearTransportState :: "('j, 'c) env \<Rightarrow> 'c session \<Rightarrow> 'c session" where
  "clearTransportState E s =
     (let s = stopTxPipeline E s;
          s = releaseWsStream s;
          s = s\<lparr>s_udpSocket := None\<rparr>;
          s = resetIoContext s
      in s\<lparr>s_connected := False, s_lastUdpKeepaliveSentNs := 0,
           s_lastUdpKeepalivePendingSinceNs := 0, s_udpRecoveryUntilNs := 0,
           s_pendingNetworkRecreate := False, s_lastNetworkRecoveryAtNs := 0,
           s_udpResetRequested := False, s_udpResetGraceUntilNs := 0, s_clientTxOpen := False,
           s_wsOutboundQueue := [], s_wsWriteInProgress := False\<rparr>)"

definition emitDisconnectedOnce :: "'c session \<Rightarrow> 'c session" where
  "emitDisconnectedOnce s =
     (if s_disconnectEventEmitted s then s
      else emitEvent (plain_event Ev_Disconnected) (s\<lparr>s_disconnectEventEmitted := True\<rparr>))"

definition joinUdpKeepaliveThreadsUnlessCaller :: "'c session \<Rightarrow> 'c session" where
  "joinUdpKeepaliveThreadsUnlessCaller s =
     (let s = (if s_udpThread s \<and> s_curThread s \<noteq> T_Udp then s\<lparr>s_udpThread := False\<rparr> else s)
      in if s_keepaliveThread s \<and> s_curThread s \<noteq> T_Keepalive then s\<lparr>s_keepaliveThread := False\<rparr> else s)"

text \<open>\<open>finalizeTransportTeardown\<close> after its joins.\<close>

definition finalize_rest :: "('j, 'c) env \<Rightarrow> 'c session \<Rightarrow> 'c session" where
  "finalize_rest E s =
     (let s = clearTransportState E s;
          s = s\<lparr>s_welcome := WelcomeConfig_default\<rparr>;
          s = s\<lparr>s_seq := 0\<rparr>;
          s = s\<lparr>s_opus := Codec_reset (s_opus s), s_txPcmBuffer := []\<rparr>;
          s = endLocalTxIfNeeded E s;
          s = emitDisconnectedOnce s
      in s\<lparr>s_transportFullyStopped := True\<rparr>)"

text \<open>
  The end of \<open>wsIoLoop\<close>: on the WebSocket thread \<open>joinWsThreadUnlessCaller\<close> does nothing, so
  \<open>finishDisconnectFromWsThread\<close> joins the two other workers and finalizes.
\<close>

definition wsThreadExit :: "('j, 'c) env \<Rightarrow> 'c session \<Rightarrow> 'c session" where
  "wsThreadExit E s =
     (if s_wsThreadCompletesTeardown s
      then finalize_rest E (joinUdpKeepaliveThreadsUnlessCaller
             (s\<lparr>s_wsThreadCompletesTeardown := False, s_wsSelfFinished := True\<rparr>))
      else s)"

definition joinWsThreadUnlessCaller :: "('j, 'c) env \<Rightarrow> 'c session \<Rightarrow> 'c session" where
  "joinWsThreadUnlessCaller E s =
     (if s_wsThread s \<and> s_curThread s \<noteq> T_Ws
      then (on_thread T_Ws (wsThreadExit E) s)\<lparr>s_wsThread := False\<rparr> else s)"

definition finalizeTransportTeardown :: "('j, 'c) env \<Rightarrow> 'c session \<Rightarrow> 'c session" where
  "finalizeTransportTeardown E s =
     finalize_rest E (joinUdpKeepaliveThreadsUnlessCaller (joinWsThreadUnlessCaller E s))"

definition joinThreads :: "('j, 'c) env \<Rightarrow> 'c session \<Rightarrow> 'c session" where
  "joinThreads E s =
     clearTransportState E (joinUdpKeepaliveThreadsUnlessCaller (joinWsThreadUnlessCaller E s))"

definition detachWorkerThreadsUnlessCaller :: "'c session \<Rightarrow> 'c session" where
  "detachWorkerThreadsUnlessCaller s =
     (let s = (if s_wsThread s \<and> s_curThread s \<noteq> T_Ws then s\<lparr>s_wsThread := False\<rparr> else s)
      in joinUdpKeepaliveThreadsUnlessCaller s)"

definition joinTeardownThread :: "('j, 'c) env \<Rightarrow> 'c session \<Rightarrow> 'c session" where
  "joinTeardownThread E s =
     (if \<not> s_teardownThread s then s
      else
        let s = (if s_teardownPending s
                 then on_thread T_Teardown (finalizeTransportTeardown E) (s\<lparr>s_teardownPending := False\<rparr>)
                 else s)
        in s\<lparr>s_teardownThread := False\<rparr>)"

definition detachTeardownThread :: "'c session \<Rightarrow> 'c session" where
  "detachTeardownThread s =
     (if s_teardownThread s
      then s\<lparr>s_detachedTeardowns := s_detachedTeardowns s + (if s_teardownPending s then 1 else 0),
             s_teardownPending := False, s_teardownThread := False\<rparr>
      else s)"

section \<open>Disconnecting and waiting\<close>

definition disconnectSession :: "'c session \<Rightarrow> 'c session" where
  "disconnectSession s =
     (if s_disconnectStarted s then haltTransport s
      else
        let s = s\<lparr>s_disconnectStarted := True\<rparr>;
            s = s\<lparr>s_transportFullyStopped := False\<rparr>;
            s = haltTransport s;
            s = emitDisconnectedOnce s
        in if s_wsThread s \<and> s_curThread s = T_Ws then s\<lparr>s_wsThreadCompletesTeardown := True\<rparr>
           else
             let s = detachTeardownThread s
             in s\<lparr>s_teardownThread := True, s_teardownPending := True\<rparr>)"

text \<open>
  \<open>waitUntilTransportStoppedInternal\<close>: each poll is the delay beyond the ten milliseconds of a
  sleep and whether the WebSocket thread ended in it. \<open>None\<close> means the wait is still going on
  after the given polls.
\<close>

fun wait_loop :: "('j, 'c) env \<Rightarrow> int \<Rightarrow> int \<Rightarrow> (nat \<times> bool) list \<Rightarrow> 'c session \<Rightarrow> 'c session option" where
  "wait_loop E timeoutMs deadline polls s =
     (if s_transportFullyStopped s then Some s
      else
        let s = (if timeoutMs \<ge> 0 then tick s else s)
        in if timeoutMs \<ge> 0 \<and> s_clk s \<ge> deadline then Some (haltTransport s)
           else
             let joinedTeardown = s_teardownThread s; s = joinTeardownThread E s
             in if s_transportFullyStopped s then Some s
                else if \<not> joinedTeardown \<and> timeoutMs < 0 then Some s
                else (case polls of
                        [] \<Rightarrow> None
                      | (d, wsEnds) # rest \<Rightarrow>
                          let s = s\<lparr>s_clk := s_clk s + 10 * kNsPerMs + int d\<rparr>;
                              s = (if wsEnds then on_thread T_Ws (wsThreadExit E) s else s)
                          in wait_loop E timeoutMs deadline rest s))"

declare wait_loop.simps [simp del]

definition wait_finish :: "('j, 'c) env \<Rightarrow> int \<Rightarrow> int \<Rightarrow> 'c session \<Rightarrow> 'c session" where
  "wait_finish E timeoutMs deadline s =
     (let s = tick s;
          s = (if s_teardownThread s then
                 (if timeoutMs < 0 \<or> s_clk s < deadline then joinTeardownThread E s
                  else detachTeardownThread s)
               else s);
          s = tick s;
          pastDeadline = (timeoutMs \<ge> 0 \<and> s_clk s \<ge> deadline);
          s = (if pastDeadline
               then clearTransportState E (detachWorkerThreadsUnlessCaller (haltTransport s))
               else joinUdpKeepaliveThreadsUnlessCaller (joinWsThreadUnlessCaller E s))
      in s\<lparr>s_transportFullyStopped := True\<rparr>)"

definition waitUntilTransportStopped ::
  "('j, 'c) env \<Rightarrow> int \<Rightarrow> (nat \<times> bool) list \<Rightarrow> 'c session \<Rightarrow> 'c session option" where
  "waitUntilTransportStopped E timeoutMs polls s =
     (let s = tick s; deadline = s_clk s + timeoutMs * kNsPerMs
      in map_option (wait_finish E timeoutMs deadline) (wait_loop E timeoutMs deadline polls s))"

section \<open>Connecting\<close>

text \<open>
  A call returns a result, lets an exception escape, or is still waiting after the given
  observations.
\<close>

datatype outcome = Returned Result | Raised | Running

record connect_env =
  cn_resolve :: wait_env
  cn_connect :: wait_env
  cn_handshake :: wait_env
  cn_remoteEndpointOk :: bool
  cn_udpOpenOk :: bool
  cn_localPort :: int

text \<open>
  \<open>resolveWithTimeout\<close>, \<open>connectTcpWithTimeout\<close> and \<open>handshakeWithTimeout\<close>: the operation has
  succeeded when it completed without error and nobody asked to stop (another thread does so
  with \<open>cancelOngoingConnect\<close>).
\<close>

definition await_result :: "int \<Rightarrow> wait_env \<Rightarrow> 'c session \<Rightarrow> Result option \<times> 'c session" where
  "await_result timeoutMs we s =
     (let s = tick s
      in case await True (timeoutMs * kNsPerMs) (s_clk s) (s_stopRequested s) we of
           None \<Rightarrow> (None, s)
         | Some (completed, now, stop) \<Rightarrow>
             let s = s\<lparr>s_clk := now\<rparr>;
                 s = (if stop \<and> \<not> s_stopRequested s then cancelOngoingConnect s else s)
             in if stop then (Some R_Network, s)
                else if completed \<noteq> Some True then (Some R_Network, s)
                else (Some R_Ok, s))"

definition resolveWithTimeout :: "int \<Rightarrow> connect_env \<Rightarrow> 'c session \<Rightarrow> Result option \<times> 'c session" where
  "resolveWithTimeout timeoutMs net s = await_result timeoutMs (cn_resolve net) s"

definition connectTcpWithTimeout :: "int \<Rightarrow> connect_env \<Rightarrow> 'c session \<Rightarrow> Result option \<times> 'c session" where
  "connectTcpWithTimeout timeoutMs net s =
     (case await_result timeoutMs (cn_connect net) s of
        (Some R_Ok, s) \<Rightarrow> (Some R_Ok, s\<lparr>s_wsStream := Some \<lparr>ws_is_open = False, ws_tcp_open = True\<rparr>\<rparr>)
      | (r, s) \<Rightarrow> (r, s))"

definition handshakeWithTimeout :: "int \<Rightarrow> connect_env \<Rightarrow> 'c session \<Rightarrow> Result option \<times> 'c session" where
  "handshakeWithTimeout timeoutMs net s =
     (case await_result timeoutMs (cn_handshake net) s of
        (Some R_Ok, s) \<Rightarrow> (Some R_Ok, s\<lparr>s_wsStream := map_option (\<lambda>w. w\<lparr>ws_is_open := True\<rparr>) (s_wsStream s)\<rparr>)
      | (r, s) \<Rightarrow> (r, s))"

text \<open>The exception handler of \<open>connectInternal\<close>.\<close>

definition connect_failed :: "('j, 'c) env \<Rightarrow> 'c session \<Rightarrow> outcome \<times> 'c session" where
  "connect_failed E s = (Returned R_Network, joinThreads E (closeSockets s))"

definition start_thread :: "bool \<Rightarrow> 'c session \<Rightarrow> 'c session" where
  "start_thread joinable s = (if joinable then s\<lparr>s_terminated := True\<rparr> else s)"

definition start_workers :: "'c session \<Rightarrow> 'c session" where
  "start_workers s =
     (let s = start_thread (s_wsThread s) s; s = s\<lparr>s_wsThread := True\<rparr>;
          s = start_thread (s_udpThread s) s; s = s\<lparr>s_udpThread := True\<rparr>;
          s = start_thread (s_keepaliveThread s) s
      in s\<lparr>s_keepaliveThread := True\<rparr>)"

definition connect_established ::
  "('j, 'c) env \<Rightarrow> connect_env \<Rightarrow> ConnectParams \<Rightarrow> 'c session \<Rightarrow> outcome \<times> 'c session" where
  "connect_established E net params s =
     (if \<not> cn_remoteEndpointOk net \<or> \<not> cn_udpOpenOk net then connect_failed E s
      else
        let s = s\<lparr>s_udpSocket := Some \<lparr>us_is_open = True, us_port = cn_localPort net\<rparr>\<rparr>;
            s = s\<lparr>s_udpRemotePort := cp_port params\<rparr>;
            s = s\<lparr>s_connected := True\<rparr>;
            s = enterUdpRecovery s;
            s = s\<lparr>s_connectionLostSignaled := False\<rparr>
        in (Returned R_Ok, start_workers s))"

definition connect_attempt ::
  "('j, 'c) env \<Rightarrow> connect_env \<Rightarrow> ConnectParams \<Rightarrow> int \<Rightarrow> 'c session \<Rightarrow> outcome \<times> 'c session" where
  "connect_attempt E net params connectTimeoutMs s =
     (case resolveWithTimeout kResolveTimeoutMs net s of
        (None, s) \<Rightarrow> (Running, s)
      | (Some r, s) \<Rightarrow>
          if r \<noteq> R_Ok then connect_failed E s
          else
            let s = (if s_wsStream s \<noteq> None
                     then releaseWsStream (joinUdpKeepaliveThreadsUnlessCaller (joinWsThreadUnlessCaller E s))
                     else s);
                s = s\<lparr>s_wsStream := Some \<lparr>ws_is_open = False, ws_tcp_open = False\<rparr>\<rparr>
            in (case connectTcpWithTimeout connectTimeoutMs net s of
                  (None, s) \<Rightarrow> (Running, s)
                | (Some r, s) \<Rightarrow>
                    if r \<noteq> R_Ok then connect_failed E s
                    else (case handshakeWithTimeout connectTimeoutMs net s of
                            (None, s) \<Rightarrow> (Running, s)
                          | (Some r, s) \<Rightarrow>
                              if r \<noteq> R_Ok then connect_failed E s
                              else connect_established E net params s)))"

text \<open>\<open>connectInternal\<close> from the reset of the flags to the \<open>Connecting\<close> event.\<close>

definition connect_prepare :: "ParsedHost \<Rightarrow> ConnectParams \<Rightarrow> 'c session \<Rightarrow> 'c session" where
  "connect_prepare parsed params s =
     (let s = s\<lparr>s_repeaterMode := cp_repeaterMode params, s_hostForWs := ph_host parsed\<rparr>;
          s = s\<lparr>s_stopRequested := False, s_wsThreadCompletesTeardown := False,
                s_disconnectEventEmitted := False, s_disconnectStarted := False,
                s_transportFullyStopped := False\<rparr>;
          s = resetIoContext s;
          s = s\<lparr>s_seq := 0, s_welcome := WelcomeConfig_default\<rparr>;
          s = s\<lparr>s_txPcmBuffer := [], s_opus := Codec_reset (s_opus s)\<rparr>
      in emitEvent (plain_event Ev_Connecting) s)"

definition connect_params ::
  "('j, 'c) env \<Rightarrow> connect_env \<Rightarrow> ConnectParams \<Rightarrow> int \<Rightarrow> 'c session \<Rightarrow> outcome \<times> 'c session" where
  "connect_params E net params connectTimeoutMs s =
     (let s = s\<lparr>s_connectParams := params\<rparr>
      in case parseHostEndpoint (cp_host params) (cp_port params) of
           None \<Rightarrow> (Raised, s)
         | Some parsed \<Rightarrow>
             if ph_host parsed = [] \<or> cp_port params < 1 \<or> cp_port params > 65535
             then (Returned R_InvalidArg, s)
             else if cp_useTls params \<or> ph_useTls parsed then (Returned R_Unsupported, s)
             else connect_attempt E net params connectTimeoutMs (connect_prepare parsed params s))"

definition connectInternal ::
  "('j, 'c) env \<Rightarrow> connect_env \<Rightarrow> ConnectParams \<Rightarrow> int \<Rightarrow> bool \<Rightarrow> 'c session \<Rightarrow> outcome \<times> 'c session" where
  "connectInternal E net params connectTimeoutMs afterTeardown s =
     (if afterTeardown then connect_params E net params connectTimeoutMs s
      else
        (case (if s_connected s \<or> s_disconnectStarted s
               then waitUntilTransportStopped E (-1) [] (disconnectSession s)
               else Some s) of
           None \<Rightarrow> (Running, s)
         | Some s \<Rightarrow>
             let s = closeSockets s; s = joinThreads E s; s = resetIoContext s
             in connect_params E net params connectTimeoutMs s))"

section \<open>Reconnecting\<close>

text \<open>\<open>reconnectTeardownInternal\<close> after its wait.\<close>

definition teardown_reset :: "('j, 'c) env \<Rightarrow> 'c session \<Rightarrow> 'c session" where
  "teardown_reset E s =
     (let s = clearTransportState E s;
          s = s\<lparr>s_welcome := WelcomeConfig_default, s_seq := 0, s_clientTxOpen := False\<rparr>;
          s = s\<lparr>s_opus := Codec_reset (s_opus s), s_txPcmBuffer := []\<rparr>;
          s = endLocalTxIfNeeded E s;
          s = s\<lparr>s_lastWsHeartbeatSentNs := 0\<rparr>
      in s\<lparr>s_sessionState := (s_sessionState s)\<lparr>st_receiving := False, st_localTxActive := False,
             st_connectionLost := False, st_connected := False, st_udpReady := False\<rparr>\<rparr>)"

definition reconnectTeardown ::
  "('j, 'c) env \<Rightarrow> (nat \<times> bool) list \<Rightarrow> 'c session \<Rightarrow> outcome \<times> 'c session" where
  "reconnectTeardown E polls s =
     (let s = s\<lparr>s_connectionLostSignaled := False, s_disconnectStarted := False,
                s_disconnectEventEmitted := False, s_stopRequested := False,
                s_wsThreadCompletesTeardown := False\<rparr>
      in case (if \<not> s_transportFullyStopped s
               then waitUntilTransportStopped E 3000 polls (haltTransport s) else Some s) of
           None \<Rightarrow> (Running, s)
         | Some s \<Rightarrow> (Returned R_Ok, teardown_reset E s))"

definition reconnectConnect ::
  "('j, 'c) env \<Rightarrow> connect_env \<Rightarrow> ConnectParams \<Rightarrow> int \<Rightarrow> 'c session \<Rightarrow> outcome \<times> 'c session" where
  "reconnectConnect E net params timeoutMs s =
     (let s = s\<lparr>s_stopRequested := False\<rparr>;
          connectTimeout = (if timeoutMs > 0 then timeoutMs else kReconnectConnectTimeoutMs)
      in connectInternal E net params connectTimeout True s)"

definition reconnectSession ::
  "('j, 'c) env \<Rightarrow> (nat \<times> bool) list \<Rightarrow> connect_env \<Rightarrow> ConnectParams \<Rightarrow> 'c session \<Rightarrow> outcome \<times> 'c session" where
  "reconnectSession E polls net params s =
     (case reconnectTeardown E polls s of
        (Returned r, s) \<Rightarrow> if r \<noteq> R_Ok then (Returned R_Network, s) else reconnectConnect E net params 0 s
      | (oc, s) \<Rightarrow> (oc, s))"

section \<open>The public methods of Session\<close>

definition Session_connect :: "('j, 'c) env \<Rightarrow> connect_env \<Rightarrow> ConnectParams \<Rightarrow> 'c session \<Rightarrow> outcome \<times> 'c session" where
  "Session_connect E net params s = connectInternal E net params kConnectTimeoutMs False s"

definition Session_destroy :: "('j, 'c) env \<Rightarrow> (nat \<times> bool) list \<Rightarrow> 'c session \<Rightarrow> 'c session option" where
  "Session_destroy E polls s = waitUntilTransportStopped E 5000 polls (disconnectSession s)"

definition Session_setCallbacks :: "bool \<Rightarrow> bool \<Rightarrow> bool \<Rightarrow> 'c session \<Rightarrow> 'c session" where
  "Session_setCallbacks onEvent onRxPcm onRxOpus s =
     s\<lparr>s_onSessionEvent := onEvent, s_onRxPcm := onRxPcm, s_onRxOpus := onRxOpus\<rparr>"

definition Session_isConnected :: "'c session \<Rightarrow> bool" where
  "Session_isConnected s = s_connected s"

definition Session_isSessionReady :: "'c session \<Rightarrow> bool" where
  "Session_isSessionReady s \<longleftrightarrow> s_connected s \<and> wc_sessionId (s_welcome s) \<noteq> 0"

definition Session_isConnectionLost :: "'c session \<Rightarrow> bool" where
  "Session_isConnectionLost s = st_connectionLost (s_sessionState s)"

definition Session_clearConnectionLostSignaled :: "'c session \<Rightarrow> 'c session" where
  "Session_clearConnectionLostSignaled s = s\<lparr>s_connectionLostSignaled := False\<rparr>"

text \<open>An exception from the JSON library leaves the call; here it is \<open>Raised\<close>.\<close>

definition Session_setRepeaterMode :: "('j, 'c) env \<Rightarrow> bool \<Rightarrow> 'c session \<Rightarrow> outcome \<times> 'c session" where
  "Session_setRepeaterMode E enabled s =
     (let s = s\<lparr>s_repeaterMode := enabled\<rparr>
      in if \<not> s_connected s then (Returned R_NotConnected, s)
         else (case buildRepeaterMode (e_json E) enabled of
                 None \<Rightarrow> (Raised, s)
               | Some msg \<Rightarrow> (Returned R_Ok, sendWsText msg s)))"

definition Session_setPowerProfile :: "PowerProfile \<Rightarrow> 'c session \<Rightarrow> 'c session" where
  "Session_setPowerProfile p s = s\<lparr>s_powerProfile := p\<rparr>"

definition Session_state :: "'c session \<Rightarrow> SessionState" where
  "Session_state s = s_sessionState s"

end
