(* ===== verification/Session_Io.thy ===== *)
theory Session_Io
  imports Session_Transport
begin

text \<open>
  What the WebSocket, UDP and keepalive threads of \<open>Session::Impl\<close> do in one turn of their loops.
  A handler returns whether it ended normally: an exception (from the JSON library or from
  asking a closed socket for its port) leaves \<open>io_context::run\<close> and ends the WebSocket loop.
\<close>

section \<open>The WebSocket thread\<close>

definition startWsAsyncRead :: "'c session \<Rightarrow> 'c session" where
  "startWsAsyncRead s =
     (if s_stopRequested s \<or> \<not> s_connected s
         \<or> (case s_wsStream s of None \<Rightarrow> True | Some w \<Rightarrow> \<not> ws_is_open w) then s
      else s\<lparr>s_readArmed := True\<rparr>)"

text \<open>The part of \<open>handleWelcome\<close> after the messages are sent.\<close>

definition welcome_ready :: "WelcomeConfig \<Rightarrow> 'c session \<Rightarrow> 'c session" where
  "welcome_ready cfg s =
     (let s = enterUdpRecovery s;
          s = sendUdpKeepalive s;
          s = emitEvent (Event_default\<lparr>ev_type := Ev_Connected, ev_welcome := cfg\<rparr>) s
      in emitEvent (plain_event Ev_UdpTransportReady) s)"

definition send_built :: "string option \<Rightarrow> ('c session \<Rightarrow> bool \<times> 'c session) \<Rightarrow> 'c session \<Rightarrow> bool \<times> 'c session" where
  "send_built msg k s = (case msg of None \<Rightarrow> (False, s) | Some m \<Rightarrow> k (sendWsText m s))"

definition localPort :: "'c session \<Rightarrow> int option" where
  "localPort s = (case s_udpSocket s of
     None \<Rightarrow> Some 0
   | Some u \<Rightarrow> if us_is_open u then Some (us_port u) else None)"

definition handleWelcome :: "('j, 'c) env \<Rightarrow> WelcomeConfig \<Rightarrow> 'c session \<Rightarrow> bool \<times> 'c session" where
  "handleWelcome E cfg s =
     (let s = s\<lparr>s_welcome := cfg\<rparr>;
          s = s\<lparr>s_opus := snd (Codec_configure (e_opus E) (s_welcome s) (s_opus s)), s_txPcmBuffer := []\<rparr>;
          s = emitEvent (Event_default\<lparr>ev_type := Ev_Welcome, ev_welcome := cfg\<rparr>) s
      in send_built (buildJoin (e_json E) (cp_channel (s_connectParams s))) (\<lambda>s.
           case localPort s of
             None \<Rightarrow> (False, s)
           | Some port \<Rightarrow>
               send_built (buildUdpHello (e_json E) port) (\<lambda>s.
               send_built (buildRepeaterMode (e_json E) (s_repeaterMode s)) (\<lambda>s.
               (True, welcome_ready cfg s)) s) s) s)"

definition handleWsText :: "('j, 'c) env \<Rightarrow> string \<Rightarrow> 'c session \<Rightarrow> bool \<times> 'c session" where
  "handleWsText E msg s =
     (let (parsed, event) = parseServerMessage (e_json E) msg Event_default
      in if parsed = R_NoEvent then (True, s)
         else if parsed \<noteq> R_Ok then
           (if parsed = R_Protocol then
              let err = Event_default\<lparr>ev_type := Ev_ProtocolError, ev_protocolError := ''protocol mismatch''\<rparr>;
                  s = s\<lparr>s_connected := False\<rparr>;
                  s = emitEvent err s
              in (True, closeSockets s)
            else (True, s))
         else if ev_type event = Ev_Welcome then handleWelcome E (ev_welcome event) s
         else (True, emitEvent event s))"

text \<open>\<open>Inl\<close> is a failed read, \<open>Inr\<close> the received text.\<close>

definition onWsAsyncRead :: "('j, 'c) env \<Rightarrow> error_code + string \<Rightarrow> 'c session \<Rightarrow> bool \<times> 'c session" where
  "onWsAsyncRead E got s =
     (let s = s\<lparr>s_readArmed := False\<rparr>
      in case got of
           Inl ec \<Rightarrow>
             (True,
              if \<not> s_stopRequested s \<and> \<not> ec_operation_aborted ec \<and> \<not> ec_interrupted ec
              then signalRecoverableLoss (ec_message ec) (s\<lparr>s_connected := False\<rparr>) else s)
         | Inr payload \<Rightarrow>
             (case handleWsText E payload s of
                (False, s) \<Rightarrow> (False, s)
              | (True, s) \<Rightarrow> (True, if s_stopRequested s \<or> \<not> s_connected s then s else startWsAsyncRead s)))"

text \<open>What the io_context can run next on the WebSocket thread.\<close>

datatype io_event =
    Io_Start
  | Io_Posted
  | Io_Read "error_code + string"
  | Io_Written "error_code option"

definition io_handler :: "('j, 'c) env \<Rightarrow> io_event \<Rightarrow> 'c session \<Rightarrow> bool \<times> 'c session" where
  "io_handler E ev s =
     (case ev of
        Io_Start \<Rightarrow> (True, startWsAsyncRead s)
      | Io_Posted \<Rightarrow> (True, pumpWsAsyncWrites (s\<lparr>s_iocPosts := s_iocPosts s - 1\<rparr>))
      | Io_Read got \<Rightarrow> onWsAsyncRead E got s
      | Io_Written ec \<Rightarrow> (True, onWsWriteDone ec s))"

text \<open>
  One handler on \<open>wsIoLoop\<close>; the loop goes on while there is no exception and no stop, and its
  end completes a disconnect that was asked for on this thread.
\<close>

definition wsIoTurn :: "('j, 'c) env \<Rightarrow> io_event \<Rightarrow> 'c session \<Rightarrow> 'c session" where
  "wsIoTurn E ev s =
     (case io_handler E ev s of
        (ok, s) \<Rightarrow> if \<not> ok \<or> s_stopRequested s \<or> \<not> s_connected s then wsThreadExit E s else s)"

section \<open>The UDP thread\<close>

text \<open>One turn of \<open>udpReadLoop\<close> on what \<open>receive_from\<close> gave; \<open>False\<close> when the loop ends.\<close>

definition udpReceive :: "('j, 'c) env \<Rightarrow> u8 list \<Rightarrow> 'c session \<Rightarrow> 'c session" where
  "udpReceive E buf s =
     (if isKeepaliveAck buf (wc_sessionId (s_welcome s)) then
        let s = tick s; s = s\<lparr>s_lastInboundNs := s_clk s\<rparr>
        in s\<lparr>s_lastUdpKeepalivePendingSinceNs := 0\<rparr>
      else if length buf \<le> 9 then s
      else
        let s = tick s; s = s\<lparr>s_lastInboundNs := s_clk s\<rparr>
        in (case udp_unpack buf UdpAudioPacket_default of (r, pkt) \<Rightarrow>
              if r \<noteq> R_Ok \<or> up_opus pkt = [] then s
              else if s_onRxOpus s then observe (O_RxOpus (up_opus pkt)) s
              else (case Codec_decode (e_opus E) (up_opus pkt) (cd_frameSamples (s_opus s)) (s_opus s) of
                      (r, pcm, c) \<Rightarrow>
                        let s = s\<lparr>s_opus := c\<rparr>
                        in if r \<noteq> R_Ok then s else emitRxPcm pcm s)))"

definition udpReadTurn :: "('j, 'c) env \<Rightarrow> error_code + u8 list \<Rightarrow> 'c session \<Rightarrow> bool \<times> 'c session" where
  "udpReadTurn E got s =
     (if \<not> s_connected s \<or> s_stopRequested s then (False, s)
      else if s_udpSocket s = None then (False, s)
      else (case got of
        Inl ec \<Rightarrow>
          let s = (if s_stopRequested s \<or> s_udpResetRequested s then s else tick s)
          in if s_stopRequested s \<or> s_udpResetRequested s \<or> s_clk s < s_udpResetGraceUntilNs s
             then (True, interruptibleSleepMs 50 s)
             else if \<not> s_stopRequested s \<and> ec_timed_out ec then (True, s)
             else if isBenignUdpSocketError ec then (True, interruptibleSleepMs 50 s)
             else (False, signalRecoverableLoss (''udp: '' @ ec_message ec) s)
      | Inr buf \<Rightarrow> (True, udpReceive E buf s)))"

section \<open>The keepalive thread\<close>

definition keepalive_heartbeat :: "('j, 'c) env \<Rightarrow> int \<Rightarrow> 'c session \<Rightarrow> 'c session" where
  "keepalive_heartbeat E now s =
     (let lastWsHb = s_lastWsHeartbeatSentNs s
      in if lastWsHb = 0 \<or> now - lastWsHb \<ge> kWsHeartbeatIntervalNs
         then (case buildHeartbeat (e_json E) of
                 None \<Rightarrow> s\<lparr>s_terminated := True\<rparr>
               | Some msg \<Rightarrow> (sendWsText msg s)\<lparr>s_lastWsHeartbeatSentNs := now\<rparr>)
         else s)"

text \<open>
  One turn of \<open>keepaliveLoop\<close>; \<open>e\<close> is the outcome of the random engine, and the result tells
  whether the loop goes on. An exception from the JSON library would leave the thread function.
\<close>

definition keepaliveTurn :: "('j, 'c) env \<Rightarrow> int \<Rightarrow> 'c session \<Rightarrow> bool \<times> 'c session" where
  "keepaliveTurn E e s =
     (if \<not> s_connected s \<or> s_stopRequested s then (False, s)
      else if wc_sessionId (s_welcome s) = 0 then (True, interruptibleSleepMs 1000 s)
      else
        let s = tick s;
            now = s_clk s;
            profile = s_powerProfile s;
            timings = keepaliveTimingsFor profile;
            inRecovery = (now < s_udpRecoveryUntilNs s);
            intervalSec = (if inRecovery then kt_recoveryIntervalNs timings sdiv kNsPerSec
                           else kt_idleIntervalNs timings sdiv kNsPerSec);
            intervalNs = intervalSec * kNsPerSec;
            skipIdleKeepalive = (st_localTxActive (s_sessionState s) \<or> profile = ActiveTx);
            pendingSince = s_lastUdpKeepalivePendingSinceNs s
        in if pendingSince \<noteq> 0 then
             (if now - pendingSince \<ge> kt_lostNs timings then
                let s = s\<lparr>s_lastUdpKeepalivePendingSinceNs := 0\<rparr>
                in (False, signalRecoverableLoss ''keepalive_lost'' s)
              else
                let lastSent = s_lastUdpKeepaliveSentNs s;
                    s = (if lastSent = 0 \<or> now - lastSent \<ge> kt_rtxNs timings then sendUdpKeepalive s else s)
                in (True, interruptibleSleepMs (kt_pendingPollMs timings) s))
           else
             let lastSent = s_lastUdpKeepaliveSentNs s;
                 s = (if \<not> skipIdleKeepalive \<and> (lastSent = 0 \<or> now - lastSent \<ge> intervalNs)
                      then sendUdpKeepalive s else s);
                 s = keepalive_heartbeat E now s
             in (True, interruptibleSleepMs (jitteredKeepaliveDelayMs intervalSec e) s))"

end
