(* ===== verification/Session_Frame.thy ===== *)
theory Session_Frame
  imports Session_Io
begin

text \<open>
  What all operations of a session have in common. A property of runs is a relation between the
  state before and after; \<open>base_relation\<close> is the interface such a relation has to meet: it is
  reflexive and transitive and holds for the primitive effects (storing to the fields no property
  looks at, emitting an event, sending, ...); \<open>tx_relation\<close> adds the TX worker's. Every operation
  up to \<open>clearTransportState\<close> is then proved to respect it, once. \<open>session_relation\<close> extends the
  interface by the effects of tearing down, joining and enqueueing, and covers the operations of
  all threads except connecting. The interpretations on concrete relations are in theory
  \<open>Session_Safety\<close>.
\<close>

named_theorems R_rules "R s t \<Longrightarrow> R s (f t)"

lemma emitEvent_fields [simp]:
  "s_connected (emitEvent ev s) = s_connected s"
  "s_onSessionEvent (emitEvent ev s) = s_onSessionEvent s"
  "s_sessionState (emitEvent ev s) = applyEventState ev (s_sessionState s)"
  "s_disconnectEventEmitted (emitEvent ev s) = s_disconnectEventEmitted s"
  "s_connectionLostSignaled (emitEvent ev s) = s_connectionLostSignaled s"
  "s_stopRequested (emitEvent ev s) = s_stopRequested s"
  "s_trace (emitEvent ev s) = s_trace s @ (if s_onSessionEvent s then [O_Event ev] else [])"
  by (simp_all add: emitEvent_def observe_def Let_def)

lemma tick_fields [simp]:
  "s_connected (tick s) = s_connected s" "s_sessionState (tick s) = s_sessionState s"
  "s_stopRequested (tick s) = s_stopRequested s"
  by (simp_all add: tick_def split: list.split)

lemma closeSockets_lossflag [simp]:
  "s_connectionLostSignaled (closeSockets s) = s_connectionLostSignaled s"
  "s_connectionLostSignaled (haltTransport s) = s_connectionLostSignaled s"
  by (simp_all add: closeSockets_def haltTransport_def shutdownWsTcp_def Let_def split: option.split)

lemma observe_clk [simp]: "s_clk (observe ob s) = s_clk s"
  by (simp add: observe_def)

lemma kNsPerMs_pos [simp]: "0 < kNsPerMs" "0 < ms \<Longrightarrow> 0 \<le> ms * kNsPerMs"
  by (simp_all add: kNsPerMs_def)

lemma applyEventState_localTx:
  "st_localTxActive (applyEventState ev st) =
     (if ev_type ev = Ev_LocalTxStart then True else if ev_type ev = Ev_LocalTxEnd then False
      else st_localTxActive st)"
  by (simp add: applyEventState_def split: EventType.split)

fun is_send :: "obs \<Rightarrow> bool" where
  "is_send (O_Udp d) = True"
| "is_send (O_WsWrite m) = True"
| "is_send _ = False"

fun is_event :: "obs \<Rightarrow> bool" where
  "is_event (O_Event ev) = True"
| "is_event _ = False"

text \<open>
  The datagrams a session may send: keepalives, end-of-transmission markers and audio with the
  uplink signal byte, all for a session with a number.
\<close>

definition well_formed_datagram :: "('j, 'c) env \<Rightarrow> u8 list \<Rightarrow> bool" where
  "well_formed_datagram E d \<longleftrightarrow>
     (\<exists>sid q g p. d = be32_bytes sid @ be32_bytes q @ [g] @ p \<and> sid \<noteq> 0 \<and>
        (q = 0 \<and> g = kKeepaliveSignal \<and> p = [] \<or> g = 0 \<and> p = []
         \<or> g = uplinkSignalByte E \<and> p \<noteq> [] \<and> length p \<le> 65535))"

fun datagram_ok :: "('j, 'c) env \<Rightarrow> obs \<Rightarrow> bool" where
  "datagram_ok E (O_Udp d) = well_formed_datagram E d"
| "datagram_ok E _ = True"

lemma well_formed_keepalive:
  "sid \<noteq> 0 \<Longrightarrow> well_formed_datagram E (be32_bytes sid @ [0, 0, 0, 0] @ [kKeepaliveSignal])"
  unfolding well_formed_datagram_def
  by (rule exI [of _ sid], rule exI [of _ 0], rule exI [of _ kKeepaliveSignal], rule exI [of _ "[]"])
    (simp add: be32_bytes_def)

lemma well_formed_eof: "sid \<noteq> 0 \<Longrightarrow> well_formed_datagram E (be32_bytes sid @ be32_bytes q @ [0])"
  unfolding well_formed_datagram_def
  by (rule exI [of _ sid], rule exI [of _ q], rule exI [of _ 0], rule exI [of _ "[]"]) simp

lemma well_formed_audio:
  assumes "udp_pack \<lparr>up_sessionId = sid, up_sequence = q, up_signalStrength = uplinkSignalByte E, up_opus = p\<rparr> []
             = (R_Ok, d)" and "sid \<noteq> 0" and "p \<noteq> []"
  shows "well_formed_datagram E d"
  unfolding well_formed_datagram_def
  by (rule exI [of _ sid], rule exI [of _ q], rule exI [of _ "uplinkSignalByte E"], rule exI [of _ p])
    (use assms in \<open>auto simp: udp_pack_def split: if_splits\<close>)

abbreviation once_events :: "EventType set" where
  "once_events \<equiv> {Ev_Disconnected, Ev_ConnectionLost, Ev_LocalTxStart, Ev_LocalTxEnd}"

lemma flush_induct [case_names flush]:
  assumes "\<And>s. (\<And>enc s2. encode_front E (nat (cd_frameSamples (s_opus s)))
        (s\<lparr>s_txPcmBuffer := pad_partial (nat (cd_frameSamples (s_opus s))) (s_txPcmBuffer s)\<rparr>) = (Some enc, s2) \<Longrightarrow>
      0 < cd_frameSamples (s_opus s) \<Longrightarrow>
      nat (cd_frameSamples (s_opus s)) \<le> length (pad_partial (nat (cd_frameSamples (s_opus s))) (s_txPcmBuffer s)) \<Longrightarrow>
      P (sendOpusFrame enc (uplinkSignalByte E) s2)) \<Longrightarrow> P s"
  shows "P s"
proof -
  have "E' = E \<Longrightarrow> P s" for E'
  proof (induction E' s rule: flushTxPcmBuffer.induct)
    case (1 E' s)
    show ?case
    proof (rule assms)
      fix enc s2
      assume e: "encode_front E (nat (cd_frameSamples (s_opus s)))
          (s\<lparr>s_txPcmBuffer := pad_partial (nat (cd_frameSamples (s_opus s))) (s_txPcmBuffer s)\<rparr>) = (Some enc, s2)"
        and f: "0 < cd_frameSamples (s_opus s)"
        "nat (cd_frameSamples (s_opus s)) \<le> length (pad_partial (nat (cd_frameSamples (s_opus s))) (s_txPcmBuffer s))"
      show "P (sendOpusFrame enc (uplinkSignalByte E) s2)"
        using 1(1) [OF refl _ refl _ _ _ _] 1(2) e f by auto
    qed
  qed
  then show ?thesis by simp
qed


section \<open>The transmit and recovery operations\<close>

locale base_relation =
  fixes E :: "('j, 'c) env" and R :: "'c session \<Rightarrow> 'c session \<Rightarrow> bool"
  assumes refl: "R s s"
    and trans: "R s t \<Longrightarrow> R t u \<Longrightarrow> R s u"
    and on_thread: "R (s\<lparr>s_curThread := th\<rparr>) u \<Longrightarrow> R s (u\<lparr>s_curThread := s_curThread s\<rparr>)"
    and emit: "ev_type ev \<notin> once_events \<Longrightarrow> R s (emitEvent ev s)"
    and local_start: "\<not> st_localTxActive (s_sessionState s) \<Longrightarrow> R s (emitEvent (plain_event Ev_LocalTxStart) s)"
    and local_end: "st_localTxActive (s_sessionState s) \<Longrightarrow> R s (emitEvent (plain_event Ev_LocalTxEnd) s)"
    and loss: "\<not> s_connectionLostSignaled s \<Longrightarrow> R s (emit_loss r (s\<lparr>s_connectionLostSignaled := True\<rparr>))"
    and quiet: "\<not> is_send ob \<Longrightarrow> \<not> is_event ob \<Longrightarrow> R s (observe ob s)"
    and sending: "is_send ob \<Longrightarrow> s_connected s \<Longrightarrow> datagram_ok E ob \<Longrightarrow> R s (observe ob s)"
    and disconnected: "R s (s\<lparr>s_connected := False\<rparr>)"
    and stop: "R s (s\<lparr>s_stopRequested := True\<rparr>)"
    and later: "s_clk s \<le> x \<Longrightarrow> R s (s\<lparr>s_clk := x\<rparr>)"
    and next_seq: "R s (s\<lparr>s_seq := s_seq s + 1\<rparr>)"
    and stores: "R s (s\<lparr>s_wsStream := x0\<rparr>)"
      "R s (s\<lparr>s_udpSocket := x1\<rparr>)"
      "R s (s\<lparr>s_udpRemotePort := x2\<rparr>)"
      "R s (s\<lparr>s_wsOutboundQueue := x3\<rparr>)"
      "R s (s\<lparr>s_wsWriteInProgress := x4\<rparr>)"
      "R s (s\<lparr>s_udpResetRequested := x5\<rparr>)"
      "R s (s\<lparr>s_udpResetGraceUntilNs := x6\<rparr>)"
      "R s (s\<lparr>s_udpRecoveryUntilNs := x7\<rparr>)"
      "R s (s\<lparr>s_pendingNetworkRecreate := x8\<rparr>)"
      "R s (s\<lparr>s_lastNetworkRecoveryAtNs := x9\<rparr>)"
      "R s (s\<lparr>s_clientTxOpen := x10\<rparr>)"
      "R s (s\<lparr>s_welcome := x11\<rparr>)"
      "R s (s\<lparr>s_opus := x12\<rparr>)"
      "R s (s\<lparr>s_txPcmBuffer := x13\<rparr>)"
      "R s (s\<lparr>s_txWorkerStop := x14\<rparr>)"
      "R s (s\<lparr>s_txWorkerProcessing := x15\<rparr>)"
      "R s (s\<lparr>s_txOpenAtNs := x16\<rparr>)"
      "R s (s\<lparr>s_txLastActivityNs := x17\<rparr>)"
      "R s (s\<lparr>s_nextPaceAtNs := x18\<rparr>)"
      "R s (s\<lparr>s_lastInboundNs := x19\<rparr>)"
      "R s (s\<lparr>s_lastUdpKeepaliveSentNs := x20\<rparr>)"
      "R s (s\<lparr>s_lastUdpKeepalivePendingSinceNs := x21\<rparr>)"
      "R s (s\<lparr>s_lastWsHeartbeatSentNs := x22\<rparr>)"
      "R s (s\<lparr>s_clkDelays := x24\<rparr>)"
      "R s (s\<lparr>s_sleepHalts := x25\<rparr>)"
      "R s (s\<lparr>s_iocStopped := x26\<rparr>)"
      "R s (s\<lparr>s_iocPosts := x27\<rparr>)"
      "R s (s\<lparr>s_readArmed := x28\<rparr>)"
      "R s (s\<lparr>s_repeaterMode := x29\<rparr>)" "R s (s\<lparr>s_powerProfile := x30\<rparr>)"
begin

lemma step: "R s t \<Longrightarrow> R t (f t) \<Longrightarrow> R s (f t)"
  by (rule trans)

lemmas refl_R [R_rules] = refl

lemmas stores_R [R_rules] = stores [THEN trans [rotated]]

lemmas basic_R [R_rules] = disconnected [THEN trans [rotated]] stop [THEN trans [rotated]]
  next_seq [THEN trans [rotated]]

lemma later_R [R_rules]: "R s t \<Longrightarrow> s_clk t \<le> x \<Longrightarrow> R s (t\<lparr>s_clk := x\<rparr>)"
  by (rule trans [OF _ later])

lemma emit_R [R_rules]: "R s t \<Longrightarrow> ev_type ev \<notin> once_events \<Longrightarrow> R s (emitEvent ev t)"
  by (rule trans [OF _ emit])

lemma quiet_R [R_rules]: "R s t \<Longrightarrow> \<not> is_send ob \<Longrightarrow> \<not> is_event ob \<Longrightarrow> R s (observe ob t)"
  by (rule trans [OF _ quiet])

lemma send_R [R_rules]:
  "R s t \<Longrightarrow> is_send ob \<Longrightarrow> s_connected t \<Longrightarrow> datagram_ok E ob \<Longrightarrow> R s (observe ob t)"
  by (rule trans [OF _ sending])

lemma loss_R [R_rules]:
  "R s t \<Longrightarrow> \<not> s_connectionLostSignaled t \<Longrightarrow> R s (emit_loss r (t\<lparr>s_connectionLostSignaled := True\<rparr>))"
  by (rule trans [OF _ loss])

lemma tick_R [R_rules]: "R s t \<Longrightarrow> R s (tick t)"
  by (simp add: tick_def R_rules split: list.split)

lemma sockets_R [R_rules]:
  "R s t \<Longrightarrow> R s (shutdownWsTcp t)" "R s t \<Longrightarrow> R s (releaseWsStream t)"
  "R s t \<Longrightarrow> R s (closeSockets t)" "R s t \<Longrightarrow> R s (haltTransport t)"
  "R s t \<Longrightarrow> R s (cancelOngoingConnect t)" "R s t \<Longrightarrow> R s (resetIoContext t)"
  by (simp_all add: shutdownWsTcp_def releaseWsStream_def closeSockets_def haltTransport_def
      cancelOngoingConnect_def resetIoContext_def Let_def R_rules split: option.split)

lemma sleep_R [R_rules]: "R s t \<Longrightarrow> R s (interruptibleSleepMs ms t)"
  by (simp add: interruptibleSleepMs_def Let_def R_rules not_le split: list.split)

lemma recoverable_loss_R [R_rules]: "R s t \<Longrightarrow> R s (signalRecoverableLoss r t)"
  by (simp add: signalRecoverableLoss_def Let_def R_rules)

lemma pump_R [R_rules]: "R s t \<Longrightarrow> R s (pumpWsAsyncWrites t)"
  by (simp add: pumpWsAsyncWrites_def Let_def R_rules split: list.split option.split)

lemma send_ops_R [R_rules]:
  "R s t \<Longrightarrow> R s (sendWsText m t)" "R s t \<Longrightarrow> R s (onWsWriteDone ec t)"
  by (simp_all add: sendWsText_def onWsWriteDone_def Let_def R_rules split: option.split)

lemma payload_R:
  "R s t \<Longrightarrow> wc_sessionId (s_welcome t) \<noteq> 0 \<longrightarrow> well_formed_datagram E d \<Longrightarrow> R s (sendUdpPayload d t)"
  by (simp add: sendUdpPayload_def R_rules split: option.split)

lemma opus_frame_R [R_rules]: "R s t \<Longrightarrow> R s (sendOpusFrame d (uplinkSignalByte E) t)"
proof (cases "udp_pack \<lparr>up_sessionId = wc_sessionId (s_welcome t), up_sequence = s_seq t + 1,
    up_signalStrength = uplinkSignalByte E, up_opus = d\<rparr> []")
  case (Pair r payload)
  assume "R s t"
  with Pair show ?thesis
    using well_formed_audio [of "wc_sessionId (s_welcome t)" "s_seq t + 1" E d payload]
    by (auto simp: sendOpusFrame_def Let_def R_rules intro!: payload_R)
qed

lemma udp_ops_R [R_rules]:
  "R s t \<Longrightarrow> R s (sendUdpKeepalive t)" "R s t \<Longrightarrow> R s (sendUdpTxEof t)" "R s t \<Longrightarrow> R s (enterUdpRecovery t)"
  using well_formed_keepalive [of "wc_sessionId (s_welcome t)" E]
    well_formed_eof [of "wc_sessionId (s_welcome t)" E "s_seq t + 1"]
  by (simp_all add: sendUdpKeepalive_def sendUdpTxEof_def enterUdpRecovery_def Let_def R_rules payload_R)

lemma resetUdp_R [R_rules]: "R s t \<Longrightarrow> R s (snd (resetUdp E t))"
  by (simp add: resetUdp_def Let_def R_rules split: option.split)

lemma recovery_R [R_rules]:
  "R s t \<Longrightarrow> R s (recover_network E t)" "R s t \<Longrightarrow> R s (notifyNetworkChanged E t)"
  "R s t \<Longrightarrow> R s (drainPendingNetworkRecreateIfIdle E t)" "R s t \<Longrightarrow> R s (snd (punchUdpNat t))"
  by (simp_all add: recover_network_def notifyNetworkChanged_def drainPendingNetworkRecreateIfIdle_def
      punchUdpNat_def Let_def R_rules)

lemma local_tx_R [R_rules]:
  "R s t \<Longrightarrow> R s (beginLocalTxIfNeeded t)" "R s t \<Longrightarrow> R s (endLocalTxIfNeeded E t)"
  by (simp_all add: beginLocalTxIfNeeded_def endLocalTxIfNeeded_def R_rules trans [OF _ local_start] trans [OF _ local_end])

lemma emitRxPcm_R [R_rules]: "R s t \<Longrightarrow> R s (emitRxPcm p t)"
  by (simp add: emitRxPcm_def R_rules)

lemma failed_emit_R [R_rules]: "R s t \<Longrightarrow> R s (emitConnectionFailed r t)"
  by (simp add: emitConnectionFailed_def R_rules)

text \<open>The transmit operations\<close>

lemma encode_R [R_rules]: "R s t \<Longrightarrow> R s (snd (encode_front E n t))"
  by (simp add: encode_front_def Let_def R_rules split: prod.split)

lemma encode_eq_R: "encode_front E n t = (r, u) \<Longrightarrow> R s t \<Longrightarrow> R s u"
  using encode_R [of s t n] by simp

lemma flush_R [R_rules]: "R s t \<Longrightarrow> R s (flushTxPcmBuffer E t)"
proof (induction t rule: flush_induct [of E])
  case (flush t)
  let ?n = "nat (cd_frameSamples (s_opus t))"
  let ?t = "t\<lparr>s_txPcmBuffer := pad_partial ?n (s_txPcmBuffer t)\<rparr>"
  obtain enc s2 where e: "encode_front E ?n ?t = (enc, s2)" by fastforce
  have c: "R s s2" by (rule encode_eq_R [OF e]) (simp add: flush.prems R_rules)
  show ?case
    using flush.prems flush.IH [of _ s2] c
    by (subst flushTxPcmBuffer.simps) (auto simp: Let_def e R_rules split: option.split)
qed

lemma tx_ops_R [R_rules]:
  "R s t \<Longrightarrow> R s (snd (txStart t))" "R s t \<Longrightarrow> R s (eof_burst ds t)"
  "R s t \<Longrightarrow> R s (paceTxFrame t)" "R s t \<Longrightarrow> R s (mark_activity t)"
  by (simp add: txStart_def Let_def R_rules)
    ((induction ds arbitrary: t; simp add: Let_def R_rules),
     simp_all add: paceTxFrame_def mark_activity_def Let_def R_rules)

lemma tx_end_R [R_rules]:
  "R s t \<Longrightarrow> R s (snd (sendTxEofBurst E t))" "R s t \<Longrightarrow> R s (snd (txEnd E t))"
  "R s t \<Longrightarrow> R s (snd (sendTxOpus E op t))"
  by (simp_all add: sendTxEofBurst_def txEnd_def sendTxOpus_def Let_def R_rules)

lemma feed_R [R_rules]: "R s t \<Longrightarrow> R s (snd (feedTxPcm E p t))"
  by (auto simp: feedTxPcm_def Let_def R_rules dest: encode_eq_R [where s = s]
      split: prod.split option.split)

lemma process_item_R:
  "R s t \<Longrightarrow> ti_op item \<noteq> Op_Abort \<Longrightarrow> R s (processTxItem E item t)"
  by (simp add: processTxItem_def Let_def R_rules split: TxSubmitOp.split)

text \<open>The handlers of the loops.\<close>

lemma read_R [R_rules]: "R s t \<Longrightarrow> R s (startWsAsyncRead t)"
  by (simp add: startWsAsyncRead_def R_rules split: option.split)

lemma send_built_R:
  "R s t \<Longrightarrow> (\<And>u. R s u \<Longrightarrow> R s (snd (k u))) \<Longrightarrow> R s (snd (send_built m k t))"
  by (simp add: send_built_def R_rules split: option.split)

lemma welcome_R [R_rules]:
  "R s t \<Longrightarrow> R s (welcome_ready cfg t)" "R s t \<Longrightarrow> R s (snd (handleWelcome E cfg t))"
proof -
  show 1: "R s t \<Longrightarrow> R s (welcome_ready cfg t)" for t
    by (simp add: welcome_ready_def Let_def R_rules)
  show "R s t \<Longrightarrow> R s (snd (handleWelcome E cfg t))"
    unfolding handleWelcome_def Let_def
    by (intro send_built_R) (auto simp: R_rules 1 intro!: send_built_R split: option.split)
qed

lemma text_R [R_rules]: "R s t \<Longrightarrow> R s (snd (handleWsText E msg t))"
  using parseServerMessage_type [of "e_json E" msg Event_default]
  by (auto simp: handleWsText_def Let_def R_rules server_event_types_def split: prod.split)

lemma on_read_R [R_rules]: "R s t \<Longrightarrow> R s (snd (onWsAsyncRead E got t))"
proof (cases got)
  case (Inr payload)
  assume c: "R s t"
  obtain ok u where u: "handleWsText E payload (t\<lparr>s_readArmed := False\<rparr>) = (ok, u)" by fastforce
  have "R s u" using text_R [of s "t\<lparr>s_readArmed := False\<rparr>" payload] c u by (simp add: R_rules)
  then show ?thesis by (cases ok) (simp_all add: onWsAsyncRead_def Inr Let_def u R_rules)
qed (simp add: onWsAsyncRead_def Let_def R_rules)

lemma io_R [R_rules]: "R s t \<Longrightarrow> R s (snd (io_handler E ev t))"
  by (simp add: io_handler_def R_rules split: io_event.split)

lemma udp_receive_R [R_rules]: "R s t \<Longrightarrow> R s (udpReceive E buf t)"
  by (simp add: udpReceive_def Let_def R_rules split: prod.split)

lemma udp_turn_R [R_rules]: "R s t \<Longrightarrow> R s (snd (udpReadTurn E got t))"
  by (simp add: udpReadTurn_def Let_def R_rules split: sum.split)

end

section \<open>The worker and its queue\<close>

locale tx_relation = base_relation E R
  for E :: "('j, 'c) env" and R :: "'c session \<Rightarrow> 'c session \<Rightarrow> bool" +
  assumes clear_queue: "R s (s\<lparr>s_txQueue := []\<rparr>)"
    and take_queue: "s_txQueue s = item # rest \<Longrightarrow> R s (s\<lparr>s_txQueue := rest\<rparr>)"
    and worker_gone: "R s (s\<lparr>s_txWorkerThread := False, s_txWorkerRunning := False,
                              s_txWorkerStop := False, s_txQueue := []\<rparr>)"
begin

lemmas queue_R [R_rules] = clear_queue [THEN trans [rotated]] worker_gone [THEN trans [rotated]]

lemma abort_R [R_rules]: "R s t \<Longrightarrow> R s (abortTx E t)"
  by (simp add: abortTx_def Let_def R_rules)

lemma process_R [R_rules]: "R s t \<Longrightarrow> R s (processTxItem E item t)"
  by (simp add: processTxItem_def Let_def R_rules split: TxSubmitOp.split)

lemma take_R [R_rules]: "R s t \<Longrightarrow> s_txQueue t = item # rest \<Longrightarrow> R s (t\<lparr>s_txQueue := rest\<rparr>)"
  by (rule trans [OF _ take_queue])

lemma turn_R: "txWorkerTurn E t = Some u \<Longrightarrow> R s t \<Longrightarrow> R s u"
  by (auto simp: txWorkerTurn_def Let_def R_rules split: list.splits if_splits)

lemma drain_R [R_rules]: "R s t \<Longrightarrow> R s (txWorkerDrain E n t)"
  by (induction n arbitrary: t) (auto dest: turn_R [where s = s] split: option.split)

lemma on_thread_R [R_rules]:
  assumes "R s t" and "\<And>v. s_curThread v = th \<Longrightarrow> R v (f v)"
  shows "R s (on_thread th f t)"
proof (rule trans [OF assms(1)])
  have "R (t\<lparr>s_curThread := th\<rparr>) (f (t\<lparr>s_curThread := th\<rparr>))"
    by (rule assms(2)) simp
  from on_thread [OF this] show "R t (on_thread th f t)"
    by (simp add: on_thread_def)
qed

lemma worker_R [R_rules]: "R s t \<Longrightarrow> R s (txWorkerStep E t)"
proof -
  assume st: "R s t"
  have "R t (u\<lparr>s_curThread := s_curThread t\<rparr>)" if "txWorkerTurn E (t\<lparr>s_curThread := T_Tx\<rparr>) = Some u" for u
    by (rule on_thread [OF turn_R [OF that refl]])
  then show ?thesis
    by (auto simp: txWorkerStep_def st intro: trans [OF st] split: option.split)
qed

lemma worker_steps_R [R_rules]: "R s t \<Longrightarrow> R s (txWorkerSteps E n t)"
  unfolding txWorkerSteps_def by (induction n arbitrary: t) (simp_all add: R_rules funpow_swap1)

lemma pipeline_R [R_rules]: "R s t \<Longrightarrow> R s (stopTxPipeline E t)"
  by (simp add: stopTxPipeline_def Let_def R_rules)

lemma clear_R [R_rules]: "R s t \<Longrightarrow> R s (clearTransportState E t)"
  by (simp add: clearTransportState_def Let_def R_rules)

end

section \<open>The threads are left alone by transmitting\<close>

text \<open>The fields about threads, which no transmit operation touches.\<close>

definition worker_frame :: "'c session \<Rightarrow> 'c session \<Rightarrow> bool" where
  "worker_frame s t \<longleftrightarrow>
     s_wsThread t = s_wsThread s \<and> s_udpThread t = s_udpThread s \<and> s_keepaliveThread t = s_keepaliveThread s
     \<and> s_wsSelfFinished t = s_wsSelfFinished s \<and> s_transportFullyStopped t = s_transportFullyStopped s
     \<and> s_wsThreadCompletesTeardown t = s_wsThreadCompletesTeardown s
     \<and> s_disconnectStarted t = s_disconnectStarted s \<and> s_teardownThread t = s_teardownThread s
     \<and> s_teardownPending t = s_teardownPending s \<and> s_curThread t = s_curThread s
     \<and> s_terminated t = s_terminated s"

interpretation fr: tx_relation E worker_frame for E :: "('j, 'c) env"
  by unfold_locales
    (simp_all add: worker_frame_def emitEvent_def emit_loss_def observe_def Let_def)

lemma clear_worker_frame:
  "worker_frame s (clearTransportState E s)" "worker_frame s (endLocalTxIfNeeded E s)"
  "worker_frame s (haltTransport s)" "worker_frame s (tick s)"
  by (simp_all add: R_rules fr.refl)

lemma emitDisconnectedOnce_frame: "worker_frame s (emitDisconnectedOnce s)"
  by (simp add: worker_frame_def emitDisconnectedOnce_def emitEvent_def observe_def Let_def)

text \<open>No worker thread is left that another thread would have to join.\<close>

definition workers_gone :: "'c session \<Rightarrow> bool" where
  "workers_gone s \<longleftrightarrow> \<not> s_udpThread s \<and> \<not> s_keepaliveThread s \<and> (s_wsThread s \<longrightarrow> s_wsSelfFinished s)"

lemma workers_gone_frame: "worker_frame s t \<Longrightarrow> workers_gone t = workers_gone s"
  by (simp add: worker_frame_def workers_gone_def)

lemmas workers_gone_frames = clear_worker_frame [THEN workers_gone_frame]
  emitDisconnectedOnce_frame [THEN workers_gone_frame]

lemma workers_gone_update [simp]:
  "workers_gone (s\<lparr>s_welcome := w\<rparr>) = workers_gone s" "workers_gone (s\<lparr>s_seq := q\<rparr>) = workers_gone s"
  "workers_gone (s\<lparr>s_opus := c\<rparr>) = workers_gone s" "workers_gone (s\<lparr>s_txPcmBuffer := p\<rparr>) = workers_gone s"
  by (simp_all add: workers_gone_def)

definition on_worker :: "'c session \<Rightarrow> bool" where
  "on_worker s \<longleftrightarrow> s_curThread s \<in> {T_Ws, T_Udp, T_Keepalive}"

lemma cur_simps [simp]:
  "s_curThread (on_thread th f s) = s_curThread s"
  "s_curThread (joinUdpKeepaliveThreadsUnlessCaller s) = s_curThread s"
  "s_curThread (joinWsThreadUnlessCaller E s) = s_curThread s"
  "s_curThread (joinTeardownThread E s) = s_curThread s"
  "s_curThread (detachTeardownThread s) = s_curThread s"
  "s_curThread (detachWorkerThreadsUnlessCaller s) = s_curThread s"
  "s_curThread (haltTransport s) = s_curThread s" "s_curThread (tick s) = s_curThread s"
  using clear_worker_frame(3) [of s] clear_worker_frame(4) [of s]
  by (simp_all add: on_thread_def joinUdpKeepaliveThreadsUnlessCaller_def joinWsThreadUnlessCaller_def
      joinTeardownThread_def detachTeardownThread_def detachWorkerThreadsUnlessCaller_def Let_def
      worker_frame_def)

lemma workers_gone_join:
  "\<not> on_worker s \<Longrightarrow> workers_gone (joinUdpKeepaliveThreadsUnlessCaller (joinWsThreadUnlessCaller E s))"
  "\<not> on_worker s \<Longrightarrow> workers_gone (detachWorkerThreadsUnlessCaller s)"
  by (auto simp: workers_gone_def on_worker_def joinUdpKeepaliveThreadsUnlessCaller_def
      joinWsThreadUnlessCaller_def detachWorkerThreadsUnlessCaller_def Let_def on_thread_def)

lemma cur_wait_loop: "wait_loop E ms d polls s = Some u \<Longrightarrow> s_curThread u = s_curThread s"
proof (induction polls arbitrary: s)
  case Nil
  then show ?case by (subst (asm) wait_loop.simps) (auto simp: Let_def split: if_splits)
next
  case (Cons p polls)
  obtain ns b where p: "p = (ns, b)" by (cases p)
  show ?case
    using Cons.prems by (subst (asm) wait_loop.simps)
      (auto simp: Let_def p split: if_splits dest!: Cons.IH)
qed

lemma ws_fields [simp]:
  "s_wsThread (emitDisconnectedOnce s) = s_wsThread s" "s_curThread (emitDisconnectedOnce s) = s_curThread s"
  "s_wsThread (haltTransport s) = s_wsThread s"
  using emitDisconnectedOnce_frame [of s] clear_worker_frame(3) [of s] by (simp_all add: worker_frame_def)

lemma on_worker_simps [simp]:
  "on_worker (tick s) = on_worker s" "on_worker (joinTeardownThread E s) = on_worker s"
  "on_worker (detachTeardownThread s) = on_worker s" "on_worker (haltTransport s) = on_worker s"
  by (simp_all add: on_worker_def)

section \<open>All operations but connecting\<close>

locale session_relation = tx_relation E R
  for E :: "('j, 'c) env" and R :: "'c session \<Rightarrow> 'c session \<Rightarrow> bool" +
  assumes enqueue: "(ti_op item = Op_Pcm \<longrightarrow> length (s_txQueue s) < kTxQueueCapacity) \<Longrightarrow>
      R s (push_item item s)"
    and start_worker: "R s (ensureTxWorkerStarted s)"
    and disc_once: "R s (emitDisconnectedOnce s)"
    and begin_disconnect: "R s (s\<lparr>s_disconnectStarted := True\<rparr>)"
    and not_stopped: "R s (s\<lparr>s_transportFullyStopped := False\<rparr>)"
    and stopped: "workers_gone s \<Longrightarrow> R s (s\<lparr>s_transportFullyStopped := True\<rparr>)"
    and reset_seq: "R s (s\<lparr>s_seq := 0\<rparr>)"
    and thread_gone: "R s (s\<lparr>s_wsThread := False\<rparr>)" "R s (s\<lparr>s_udpThread := False\<rparr>)"
      "R s (s\<lparr>s_keepaliveThread := False\<rparr>)"
    and completes_off: "s_wsThreadCompletesTeardown s \<Longrightarrow>
      R s (s\<lparr>s_wsThreadCompletesTeardown := False, s_wsSelfFinished := True\<rparr>)"
    and teardown_stores: "R s (s\<lparr>s_teardownThread := b\<rparr>)" "R s (s\<lparr>s_teardownPending := b\<rparr>)"
      "R s (s\<lparr>s_detachedTeardowns := n\<rparr>)"
    and heartbeat_dead: "buildHeartbeat (e_json E) = None \<Longrightarrow> R s (s\<lparr>s_terminated := True\<rparr>)"
begin

lemmas session_basic_R [R_rules] = start_worker [THEN trans [rotated]] disc_once [THEN trans [rotated]]
  begin_disconnect [THEN trans [rotated]] not_stopped [THEN trans [rotated]] reset_seq [THEN trans [rotated]]
  thread_gone [THEN trans [rotated]] teardown_stores [THEN trans [rotated]]

lemma stopped_R: "R s t \<Longrightarrow> workers_gone t \<Longrightarrow> R s (t\<lparr>s_transportFullyStopped := True\<rparr>)"
  by (rule trans [OF _ stopped])

lemma heartbeat_dead_R [R_rules]:
  "R s t \<Longrightarrow> buildHeartbeat (e_json E) = None \<Longrightarrow> R s (t\<lparr>s_terminated := True\<rparr>)"
  by (rule trans [OF _ heartbeat_dead])

lemma enqueue_R [R_rules]:
  "R s t \<Longrightarrow> (ti_op item = Op_Pcm \<longrightarrow> length (s_txQueue t) < kTxQueueCapacity) \<Longrightarrow>
   R s (push_item item t)"
  by (rule trans [OF _ enqueue])

lemma submit_wait_R [R_rules]: "R s t \<Longrightarrow> R s (submit_wait E ns t)"
  by (induction ns arbitrary: t) (simp_all add: R_rules)

lemma submit_R [R_rules]: "R s t \<Longrightarrow> R s (snd (submitTx E op p o' ns t))"
  by (auto simp: submitTx_def Let_def R_rules tx_item_def)

lemma idle_loop_R [R_rules]: "R s t \<Longrightarrow> R s (snd (wait_idle_loop E d polls t))"
proof (induction polls arbitrary: t)
  case (Cons p polls)
  then show ?case by (cases p) (simp add: Let_def R_rules)
qed simp

lemma idle_R [R_rules]: "R s t \<Longrightarrow> R s (snd (waitTxQueueIdle E ms polls t))"
  by (simp add: waitTxQueueIdle_def Let_def R_rules)

text \<open>Tearing down.\<close>

lemma joins_R [R_rules]:
  "R s t \<Longrightarrow> R s (joinUdpKeepaliveThreadsUnlessCaller t)"
  "R s t \<Longrightarrow> R s (detachWorkerThreadsUnlessCaller t)"
  "R s t \<Longrightarrow> R s (detachTeardownThread t)"
  by (simp_all add: joinUdpKeepaliveThreadsUnlessCaller_def detachWorkerThreadsUnlessCaller_def
      detachTeardownThread_def Let_def R_rules)

lemma finalize_rest_R: 
  assumes "R s t" and "workers_gone t"
  shows "R s (finalize_rest E t)"
proof -
  define u where "u = emitDisconnectedOnce (endLocalTxIfNeeded E ((clearTransportState E t)
      \<lparr>s_welcome := WelcomeConfig_default, s_seq := 0,
       s_opus := Codec_reset (s_opus (clearTransportState E t)), s_txPcmBuffer := []\<rparr>))"
  have "R s u" by (simp add: u_def assms R_rules)
  moreover have "workers_gone u"
    unfolding u_def using assms(2)
    by (simp add: workers_gone_frames)
  ultimately have "R s (u\<lparr>s_transportFullyStopped := True\<rparr>)" by (rule stopped_R)
  then show ?thesis by (simp add: finalize_rest_def Let_def u_def)
qed

lemma ws_exit_R:
  assumes "R s t" and "s_curThread t = T_Ws"
  shows "R s (wsThreadExit E t)"
proof (cases "s_wsThreadCompletesTeardown t")
  case True
  let ?u = "t\<lparr>s_wsThreadCompletesTeardown := False, s_wsSelfFinished := True\<rparr>"
  have "R s ?u" by (rule trans [OF assms(1) completes_off [OF True]])
  then have "R s (joinUdpKeepaliveThreadsUnlessCaller ?u)" by (rule joins_R)
  moreover have "workers_gone (joinUdpKeepaliveThreadsUnlessCaller ?u)"
    using assms(2) by (simp add: workers_gone_def joinUdpKeepaliveThreadsUnlessCaller_def Let_def)
  ultimately show ?thesis using True by (simp add: wsThreadExit_def finalize_rest_R)
next
  case False
  with assms(1) show ?thesis by (simp add: wsThreadExit_def)
qed

lemma join_ws_R [R_rules]: "R s t \<Longrightarrow> R s (joinWsThreadUnlessCaller E t)"
  by (simp add: joinWsThreadUnlessCaller_def R_rules ws_exit_R)

lemma ws_background_R [R_rules]: "R s t \<Longrightarrow> R s (on_thread T_Ws (wsThreadExit E) t)"
  by (simp add: R_rules ws_exit_R)

lemma finalize_R: "R s t \<Longrightarrow> \<not> on_worker t \<Longrightarrow> R s (finalizeTransportTeardown E t)"
  by (simp add: finalizeTransportTeardown_def R_rules finalize_rest_R workers_gone_join)

lemma teardown_R [R_rules]:
  "R s t \<Longrightarrow> R s (on_thread T_Teardown (finalizeTransportTeardown E) t)"
  "R s t \<Longrightarrow> R s (joinTeardownThread E t)" "R s t \<Longrightarrow> R s (joinThreads E t)"
  by (simp_all add: joinTeardownThread_def joinThreads_def Let_def R_rules finalize_R on_worker_def)

lemma disconnect_R:
  "R s t \<Longrightarrow> \<not> (s_wsThread t \<and> s_curThread t = T_Ws) \<Longrightarrow> R s (disconnectSession t)"
  by (auto simp: disconnectSession_def Let_def R_rules)

lemma wait_loop_R: "wait_loop E ms d polls t = Some u \<Longrightarrow> R s t \<Longrightarrow> R s u"
proof (induction polls arbitrary: t)
  case Nil
  then show ?case by (subst (asm) wait_loop.simps) (auto simp: Let_def R_rules split: if_splits)
next
  case (Cons p polls)
  obtain ns b where p: "p = (ns, b)" by (cases p)
  show ?case
    using Cons.prems by (subst (asm) wait_loop.simps)
      (auto simp: Let_def R_rules p less_imp_le split: if_splits elim!: Cons.IH)
qed

lemma wait_finish_R: "R s t \<Longrightarrow> \<not> on_worker t \<Longrightarrow> R s (wait_finish E ms d t)"
  by (simp add: wait_finish_def Let_def)
    (intro conjI impI stopped_R; simp add: R_rules workers_gone_frames workers_gone_join)

lemma wait_R: "waitUntilTransportStopped E ms polls t = Some u \<Longrightarrow> R s t \<Longrightarrow> \<not> on_worker t \<Longrightarrow> R s u"
  by (auto simp: waitUntilTransportStopped_def Let_def R_rules on_worker_def
      intro!: wait_finish_R dest: cur_wait_loop elim!: wait_loop_R)

text \<open>The turns of the three worker loops.\<close>

lemma io_turn_R: "R s t \<Longrightarrow> s_curThread t = T_Ws \<Longrightarrow> R s (wsIoTurn E ev t)"
proof -
  assume c: "R s t" and t: "s_curThread t = T_Ws"
  obtain ok u where u: "io_handler E ev t = (ok, u)" by fastforce
  have "R s u" using io_R [OF c, of ev] u by simp
  moreover have "s_curThread u = T_Ws"
    using fr.io_R [OF fr.refl [of t], where E = E and ev = ev] u t by (simp add: worker_frame_def)
  ultimately show ?thesis by (simp add: wsIoTurn_def u ws_exit_R)
qed

lemma heartbeat_R [R_rules]: "R s t \<Longrightarrow> R s (keepalive_heartbeat E now t)"
  by (simp add: keepalive_heartbeat_def Let_def R_rules split: option.split)

lemma keepalive_R [R_rules]: "R s t \<Longrightarrow> R s (snd (keepaliveTurn E e t))"
  by (simp add: keepaliveTurn_def Let_def R_rules)

lemma turns_R [R_rules]:
  "R s t \<Longrightarrow> R s (on_thread T_Ws (wsIoTurn E ev) t)"
  "R s t \<Longrightarrow> R s (on_thread T_Udp (\<lambda>v. snd (udpReadTurn E got v)) t)"
  "R s t \<Longrightarrow> R s (on_thread T_Keepalive (\<lambda>v. snd (keepaliveTurn E e v)) t)"
  by (simp_all add: R_rules io_turn_R)

end

end
