(* ===== verification/Session_Safety.thy ===== *)
theory Session_Safety
  imports Session_Frame
begin

text \<open>
  Properties of whole runs of a session. \<open>session_step\<close> lists what can happen between two
  connects, in any order: calls of the application from its own thread, from a callback or from
  a worker, turns of the TX worker, the WebSocket, UDP and keepalive threads with whatever the
  network delivers, the teardown threads, and the passing of time. Three relations are shown to
  meet the interface \<open>session_relation\<close>, and every step respects them.
\<close>

section \<open>The step relation\<close>

text \<open>
  \<open>cb\<close> says whether the application may disconnect from inside a callback on the WebSocket
  thread.
\<close>

inductive session_step :: "bool \<Rightarrow> ('j, 'c) env \<Rightarrow> 'c session \<Rightarrow> 'c session \<Rightarrow> bool" for cb E where
  st_submit: "session_step cb E s (snd (submitTx E op pcm opus polls s))"
| st_wait_idle: "session_step cb E s (snd (waitTxQueueIdle E ms idles s))"
| st_disconnect: "\<not> (s_wsThread s \<and> s_curThread s = T_Ws) \<Longrightarrow> session_step cb E s (disconnectSession s)"
| st_thread_disconnect: "th \<noteq> T_Ws \<Longrightarrow> session_step cb E s (on_thread th disconnectSession s)"
| st_callback_disconnect: "cb \<Longrightarrow> session_step cb E s (on_thread T_Ws disconnectSession s)"
| st_halt: "session_step cb E s (haltTransport s)"
| st_cancel: "session_step cb E s (cancelOngoingConnect s)"
| st_wait: "\<not> on_worker s \<Longrightarrow> waitUntilTransportStopped E ms waits s = Some s' \<Longrightarrow> session_step cb E s s'"
| st_punch: "session_step cb E s (snd (punchUdpNat s))"
| st_notify: "session_step cb E s (notifyNetworkChanged E s)"
| st_reset_udp: "session_step cb E s (snd (resetUdp E s))"
| st_repeater: "session_step cb E s (snd (Session_setRepeaterMode E b s))"
| st_power: "session_step cb E s (Session_setPowerProfile p s)"
| st_failed: "session_step cb E s (emitConnectionFailed reason s)"
| st_tx: "session_step cb E s (txWorkerStep E s)"
| st_ws: "s_wsThread s \<Longrightarrow> session_step cb E s (on_thread T_Ws (wsIoTurn E ev) s)"
| st_udp: "s_udpThread s \<Longrightarrow> session_step cb E s (on_thread T_Udp (\<lambda>v. snd (udpReadTurn E got v)) s)"
| st_keepalive: "s_keepaliveThread s \<Longrightarrow>
    session_step cb E s (on_thread T_Keepalive (\<lambda>v. snd (keepaliveTurn E e v)) s)"
| st_ws_exit: "s_wsThread s \<Longrightarrow> session_step cb E s (on_thread T_Ws (wsThreadExit E) s)"
| st_teardown: "s_teardownPending s \<Longrightarrow>
    session_step cb E s (on_thread T_Teardown (finalizeTransportTeardown E) (s\<lparr>s_teardownPending := False\<rparr>))"
| st_detached_teardown: "0 < s_detachedTeardowns s \<Longrightarrow>
    session_step cb E s (on_thread T_Teardown (finalizeTransportTeardown E)
      (s\<lparr>s_detachedTeardowns := s_detachedTeardowns s - 1\<rparr>))"
| st_time: "session_step cb E s (s\<lparr>s_clk := s_clk s + int d, s_clkDelays := ds, s_sleepHalts := hs\<rparr>)"

definition session_run :: "bool \<Rightarrow> ('j, 'c) env \<Rightarrow> 'c session \<Rightarrow> 'c session \<Rightarrow> bool" where
  "session_run cb E = (session_step cb E)\<^sup>*\<^sup>*"

text \<open>
  The client side of the interface: a relation with the laws of \<open>session_relation\<close> that also
  admits the flag set by a disconnect from a callback holds along every run.
\<close>

lemma disconnect_on_ws:
  "s_wsThread s \<Longrightarrow> s_curThread s = T_Ws \<Longrightarrow> disconnectSession s =
     (if s_disconnectStarted s then haltTransport s
      else (emitDisconnectedOnce (haltTransport (s\<lparr>s_disconnectStarted := True, s_transportFullyStopped := False\<rparr>)))
             \<lparr>s_wsThreadCompletesTeardown := True\<rparr>)"
  by (simp add: disconnectSession_def Let_def)

context session_relation
begin

lemma repeater_R [R_rules]: "R s t \<Longrightarrow> R s (snd (Session_setRepeaterMode E b t))"
  by (simp add: Session_setRepeaterMode_def Let_def R_rules split: option.split)

lemma power_R [R_rules]: "R s t \<Longrightarrow> R s (Session_setPowerProfile p t)"
  by (simp add: Session_setPowerProfile_def R_rules)

lemma step_R: "session_step False E s s' \<Longrightarrow> R s s'"
  by (erule session_step.cases) (auto simp: R_rules disconnect_R elim!: wait_R)

lemma run_R: "session_run False E s s' \<Longrightarrow> R s s'"
  unfolding session_run_def by (induction rule: rtranclp_induct) (auto simp: refl intro: trans step_R)

end

locale callback_relation = session_relation E R
  for E :: "('j, 'c) env" and R :: "'c session \<Rightarrow> 'c session \<Rightarrow> bool" +
  assumes completes_on: "R s (s\<lparr>s_wsThreadCompletesTeardown := True\<rparr>)"
begin

lemma any_disconnect_R [R_rules]: "R s t \<Longrightarrow> R s (disconnectSession t)"
proof (cases "s_wsThread t \<and> s_curThread t = T_Ws")
  case True
  assume "R s t"
  with True show ?thesis
    by (auto simp: disconnect_on_ws R_rules intro!: trans [OF _ completes_on])
qed (simp add: disconnect_R)

lemma any_step_R: "session_step cb E s s' \<Longrightarrow> R s s'"
  by (erule session_step.cases) (auto simp: R_rules elim!: wait_R)

lemma any_run_R: "session_run cb E s s' \<Longrightarrow> R s s'"
  unfolding session_run_def by (induction rule: rtranclp_induct) (auto simp: refl intro: trans any_step_R)

end

section \<open>Events that are announced once, and silence\<close>

definition count_events :: "EventType \<Rightarrow> obs list \<Rightarrow> nat" where
  "count_events ty tr = length (filter (\<lambda>ob. case ob of O_Event ev \<Rightarrow> ev_type ev = ty | _ \<Rightarrow> False) tr)"

definition disc_budget :: "'c session \<Rightarrow> nat" where
  "disc_budget s = count_events Ev_Disconnected (s_trace s) + (if s_disconnectEventEmitted s then 0 else 1)"

definition loss_budget :: "'c session \<Rightarrow> nat" where
  "loss_budget s = count_events Ev_ConnectionLost (s_trace s) + (if s_connectionLostSignaled s then 0 else 1)"

definition calm :: "'c session \<Rightarrow> 'c session \<Rightarrow> bool" where
  "calm s t \<longleftrightarrow>
     disc_budget t \<le> disc_budget s \<and> loss_budget t \<le> loss_budget s
     \<and> (\<not> s_connected s \<longrightarrow> \<not> s_connected t \<and> filter is_send (s_trace t) = filter is_send (s_trace s))
     \<and> (\<exists>new. s_trace t = s_trace s @ new)"

lemmas calm_defs = calm_def disc_budget_def loss_budget_def

lemma count_events_simps [simp]:
  "count_events ty [] = 0"
  "count_events ty (ob # tr) =
     (case ob of O_Event ev \<Rightarrow> if ev_type ev = ty then 1 else 0 | _ \<Rightarrow> 0) + count_events ty tr"
  "count_events ty (tr @ tr') = count_events ty tr + count_events ty tr'"
  by (auto simp: count_events_def split: obs.split)

lemma emit_loss_fields [simp]:
  "s_trace (emit_loss r s) = s_trace s @ (if s_onSessionEvent s
     then [O_Event (plain_event Ev_RxBroadcastEnd),
           O_Event (Event_default\<lparr>ev_type := Ev_ConnectionLost, ev_disconnectReason := r\<rparr>)] else [])"
  "s_connected (emit_loss r s) = s_connected s" "s_onSessionEvent (emit_loss r s) = s_onSessionEvent s"
  "s_disconnectEventEmitted (emit_loss r s) = s_disconnectEventEmitted s"
  "s_connectionLostSignaled (emit_loss r s) = s_connectionLostSignaled s"
  by (simp_all add: emit_loss_def)

interpretation calm: callback_relation E calm for E :: "('j, 'c) env"
proof unfold_locales
  fix ob and s :: "'c session"
  show "\<not> is_send ob \<Longrightarrow> \<not> is_event ob \<Longrightarrow> calm s (observe ob s)"
    by (cases ob) (simp_all add: calm_defs observe_def)
  show "is_send ob \<Longrightarrow> s_connected s \<Longrightarrow> datagram_ok E ob \<Longrightarrow> calm s (observe ob s)"
    by (cases ob) (simp_all add: calm_defs observe_def)
qed (auto simp: calm_defs emitDisconnectedOnce_def push_item_def ensureTxWorkerStarted_def Let_def)

lemma calm_run:
  "session_run cb E s s' \<Longrightarrow> calm s s'"
  by (rule calm.any_run_R)


text \<open>
  C7. Once a session is not connected (after a disconnect, a lost connection, a protocol error or a
  halt), nothing leaves it any more, neither a datagram nor a WebSocket message, whatever the
  application submits and whatever its threads still do, until the next connect.
\<close>

theorem silent_when_not_connected:
  assumes "session_run cb E s s'" and "\<not> s_connected s"
  shows "\<not> s_connected s' \<and> (\<exists>new. s_trace s' = s_trace s @ new \<and> filter is_send new = [])"
  using calm_run [OF assms(1)] assms(2) by (auto simp: calm_defs)

lemma demo_disconnect_run: "session_run cb demo_env demo_session (disconnectSession demo_session)"
  unfolding session_run_def
  by (rule r_into_rtranclp, rule st_disconnect) (simp add: demo_session_def Session_init_def)


theorem silent_when_not_connected_witness:
  "\<not> s_connected (snd (submitTx demo_env Op_Open [] [] [] (haltTransport demo_session)))"
proof -
  have "session_run True demo_env (haltTransport demo_session)
      (snd (submitTx demo_env Op_Open [] [] [] (haltTransport demo_session)))"
    unfolding session_run_def by (rule r_into_rtranclp, rule st_submit)
  moreover have "\<not> s_connected (haltTransport demo_session)"
    by (simp add: haltTransport_def closeSockets_def shutdownWsTcp_def Let_def split: option.split)
  ultimately show ?thesis using silent_when_not_connected by blast
qed

section \<open>Threads\<close>

text \<open>
  No \<open>std::thread\<close> member is assigned while it is joinable (which would end the program): the TX
  worker runs exactly when its flag says so, and a fully stopped session has no workers left.
  The heartbeat message must be printable, which it is for the JSON library the program uses.
\<close>

definition threads_ok :: "'c session \<Rightarrow> bool" where
  "threads_ok s \<longleftrightarrow>
     \<not> s_terminated s \<and> s_txWorkerThread s = s_txWorkerRunning s
     \<and> (s_transportFullyStopped s \<longrightarrow> workers_gone s)"

definition thr :: "('j, 'c) env \<Rightarrow> 'c session \<Rightarrow> 'c session \<Rightarrow> bool" where
  "thr E s t \<longleftrightarrow> (buildHeartbeat (e_json E) \<noteq> None \<longrightarrow> threads_ok s \<longrightarrow> threads_ok t)"

lemma emit_other_fields [simp]:
  "s_terminated (emitEvent ev s) = s_terminated s" "s_txWorkerThread (emitEvent ev s) = s_txWorkerThread s"
  "s_txWorkerRunning (emitEvent ev s) = s_txWorkerRunning s"
  "s_transportFullyStopped (emitEvent ev s) = s_transportFullyStopped s"
  "s_wsThread (emitEvent ev s) = s_wsThread s" "s_udpThread (emitEvent ev s) = s_udpThread s"
  "s_keepaliveThread (emitEvent ev s) = s_keepaliveThread s"
  "s_wsSelfFinished (emitEvent ev s) = s_wsSelfFinished s"
  "s_wsThreadCompletesTeardown (emitEvent ev s) = s_wsThreadCompletesTeardown s"
  "s_txQueue (emitEvent ev s) = s_txQueue s"
  by (simp_all add: emitEvent_def observe_def Let_def)

interpretation thr: callback_relation E "thr E" for E :: "('j, 'c) env"
  by unfold_locales
    (auto simp: thr_def threads_ok_def workers_gone_def emit_loss_def observe_def
      emitDisconnectedOnce_def push_item_def ensureTxWorkerStarted_def Let_def)

text \<open>Only a disconnect from a callback makes the WebSocket thread finish a teardown itself.\<close>

definition not_self_finished :: "'c session \<Rightarrow> 'c session \<Rightarrow> bool" where
  "not_self_finished s t \<longleftrightarrow>
     (\<not> s_wsThreadCompletesTeardown s \<and> \<not> s_wsSelfFinished s \<longrightarrow>
      \<not> s_wsThreadCompletesTeardown t \<and> \<not> s_wsSelfFinished t)"

interpretation nsf: session_relation E not_self_finished for E :: "('j, 'c) env"
  by unfold_locales
    (auto simp: not_self_finished_def emit_loss_def observe_def
      emitDisconnectedOnce_def push_item_def ensureTxWorkerStarted_def Let_def)

section \<open>The command queue\<close>

definition pcm_items :: "'c session \<Rightarrow> nat" where
  "pcm_items s = length (filter (\<lambda>i. ti_op i = Op_Pcm) (s_txQueue s))"

definition bounded_queue :: "'c session \<Rightarrow> 'c session \<Rightarrow> bool" where
  "bounded_queue s t \<longleftrightarrow> (pcm_items s \<le> kTxQueueCapacity \<longrightarrow> pcm_items t \<le> kTxQueueCapacity)"

lemma pcm_items_push:
  assumes "pcm_items s \<le> kTxQueueCapacity"
    and "ti_op item = Op_Pcm \<longrightarrow> length (s_txQueue s) < kTxQueueCapacity"
  shows "pcm_items (push_item item s) \<le> kTxQueueCapacity"
proof (cases "ti_op item = Op_Pcm")
  case True
  then have "pcm_items (push_item item s) = Suc (pcm_items s)" by (simp add: pcm_items_def push_item_def)
  moreover have "pcm_items s \<le> length (s_txQueue s)" by (simp add: pcm_items_def)
  ultimately show ?thesis using True assms(2) by simp
qed (use assms in \<open>simp add: pcm_items_def push_item_def\<close>)

interpretation bq: callback_relation E bounded_queue for E :: "('j, 'c) env"
proof unfold_locales
  fix item and s :: "'c session"
  show "ti_op item = Op_Pcm \<longrightarrow> length (s_txQueue s) < kTxQueueCapacity \<Longrightarrow> bounded_queue s (push_item item s)"
    by (simp add: bounded_queue_def pcm_items_push)
qed (auto simp: bounded_queue_def pcm_items_def emit_loss_def observe_def
      emitDisconnectedOnce_def ensureTxWorkerStarted_def Let_def split: if_splits)

section \<open>Datagrams\<close>

definition datagrams_ok :: "('j, 'c) env \<Rightarrow> 'c session \<Rightarrow> bool" where
  "datagrams_ok E s \<longleftrightarrow> (\<forall>ob \<in> set (s_trace s). datagram_ok E ob)"

definition keeps_datagrams :: "('j, 'c) env \<Rightarrow> 'c session \<Rightarrow> 'c session \<Rightarrow> bool" where
  "keeps_datagrams E s t \<longleftrightarrow> (datagrams_ok E s \<longrightarrow> datagrams_ok E t)"

interpretation dg: callback_relation E "keeps_datagrams E" for E :: "('j, 'c) env"
proof unfold_locales
  fix ob and s :: "'c session"
  show "\<not> is_send ob \<Longrightarrow> \<not> is_event ob \<Longrightarrow> keeps_datagrams E s (observe ob s)"
    by (cases ob) (auto simp: keeps_datagrams_def datagrams_ok_def observe_def)
qed (auto simp: keeps_datagrams_def datagrams_ok_def observe_def emit_loss_def
      emitDisconnectedOnce_def push_item_def ensureTxWorkerStarted_def Let_def)

section \<open>Local transmission\<close>

text \<open>
  \<open>ltx_run\<close> reads the trace's \<open>LocalTxStart\<close> and \<open>LocalTxEnd\<close> events as switching a flag on and
  off; \<open>None\<close> when it is switched to what it is already.
\<close>

definition ltx_step :: "bool option \<Rightarrow> obs \<Rightarrow> bool option" where
  "ltx_step st ob =
     (case ob of
        O_Event ev \<Rightarrow>
          if ev_type ev = Ev_LocalTxStart then (if st = Some False then Some True else None)
          else if ev_type ev = Ev_LocalTxEnd then (if st = Some True then Some False else None)
          else st
      | _ \<Rightarrow> st)"

definition ltx_run :: "obs list \<Rightarrow> bool option" where
  "ltx_run tr = foldl ltx_step (Some False) tr"

definition ltx_alternates :: "'c session \<Rightarrow> bool" where
  "ltx_alternates s \<longleftrightarrow>
     s_onSessionEvent s \<and> ltx_run (s_trace s) = Some (st_localTxActive (s_sessionState s))"

definition keeps_ltx :: "'c session \<Rightarrow> 'c session \<Rightarrow> bool" where
  "keeps_ltx s t \<longleftrightarrow> (ltx_alternates s \<longrightarrow> ltx_alternates t)"

lemma ltx_run_append [simp]: "ltx_run (tr @ tr') = foldl ltx_step (ltx_run tr) tr'"
  by (simp add: ltx_run_def)

interpretation ltx: callback_relation E keeps_ltx for E :: "('j, 'c) env"
proof unfold_locales
  fix ob and s :: "'c session"
  show "\<not> is_send ob \<Longrightarrow> \<not> is_event ob \<Longrightarrow> keeps_ltx s (observe ob s)"
    by (cases ob) (auto simp: keeps_ltx_def ltx_alternates_def observe_def ltx_step_def)
  show "is_send ob \<Longrightarrow> s_connected s \<Longrightarrow> datagram_ok E ob \<Longrightarrow> keeps_ltx s (observe ob s)"
    by (cases ob) (auto simp: keeps_ltx_def ltx_alternates_def observe_def ltx_step_def)
qed (auto simp: keeps_ltx_def ltx_alternates_def observe_def emit_loss_def applyEventState_localTx ltx_step_def
      emitDisconnectedOnce_def push_item_def ensureTxWorkerStarted_def Let_def)

end
