(* ===== verification/Session_Reach.thy ===== *)
theory Session_Reach
  imports Session_Safety
begin

text \<open>
  Connecting and reconnecting join the steps of theory \<open>Session_Safety\<close>: \<open>connect_relation\<close>
  extends the interface by what a connect does (clear the flags, set \<open>connected\<close>, start the
  workers), \<open>session_reach\<close> is the set of states a session can get into from its creation, and
  the invariants are read off the interpretations.
\<close>

section \<open>Frames of the connect path\<close>

lemma clk_frame: "worker_frame s (t\<lparr>s_clk := x\<rparr>) = worker_frame s t"
  by (simp add: worker_frame_def)

lemma await_result_frame: "worker_frame s (snd (await_result ms we s))"
  by (simp add: await_result_def Let_def R_rules fr.refl clk_frame split: option.split)

lemma network_frames:
  "worker_frame s (snd (resolveWithTimeout ms net s))"
  "worker_frame s (snd (connectTcpWithTimeout ms net s))"
  "worker_frame s (snd (handshakeWithTimeout ms net s))"
proof -
  have store: "worker_frame s (t\<lparr>s_wsStream := w\<rparr>) = worker_frame s t" for s t :: "'c session" and w
    by (simp add: worker_frame_def)
  show "worker_frame s (snd (resolveWithTimeout ms net s))"
    by (simp add: resolveWithTimeout_def await_result_frame)
  show "worker_frame s (snd (connectTcpWithTimeout ms net s))"
    using await_result_frame [of s ms "cn_connect net"]
    by (auto simp: connectTcpWithTimeout_def store split: prod.splits option.splits Result.splits)
  show "worker_frame s (snd (handshakeWithTimeout ms net s))"
    using await_result_frame [of s ms "cn_handshake net"]
    by (auto simp: handshakeWithTimeout_def store split: prod.splits option.splits Result.splits)
qed

definition no_workers :: "'c session \<Rightarrow> bool" where
  "no_workers s \<longleftrightarrow> \<not> s_wsThread s \<and> \<not> s_udpThread s \<and> \<not> s_keepaliveThread s"

lemma no_workers_frame: "worker_frame s t \<Longrightarrow> no_workers t = no_workers s"
  by (simp add: worker_frame_def no_workers_def)

lemma no_workers_stopped [simp]:
  "no_workers (s\<lparr>s_transportFullyStopped := b\<rparr>) = no_workers s"
  by (simp add: no_workers_def)

lemma no_workers_join [simp]:
  "no_workers s \<Longrightarrow> joinUdpKeepaliveThreadsUnlessCaller (joinWsThreadUnlessCaller E s) = s"
  by (simp add: no_workers_def joinUdpKeepaliveThreadsUnlessCaller_def joinWsThreadUnlessCaller_def)

lemma no_workers_join_threads:
  "\<not> on_worker s \<Longrightarrow> no_workers (joinThreads E s)"
  "\<not> on_worker s \<Longrightarrow> no_workers (joinUdpKeepaliveThreadsUnlessCaller (joinWsThreadUnlessCaller E s))"
  "\<not> on_worker s \<Longrightarrow> no_workers (detachWorkerThreadsUnlessCaller s)"
proof -
  show *: "\<not> on_worker s \<Longrightarrow> no_workers (joinUdpKeepaliveThreadsUnlessCaller (joinWsThreadUnlessCaller E s))"
    by (auto simp: no_workers_def on_worker_def joinUdpKeepaliveThreadsUnlessCaller_def
        joinWsThreadUnlessCaller_def Let_def on_thread_def)
  show "\<not> on_worker s \<Longrightarrow> no_workers (joinThreads E s)"
    using * by (simp add: joinThreads_def no_workers_frame [OF clear_worker_frame(1)])
  show "\<not> on_worker s \<Longrightarrow> no_workers (detachWorkerThreadsUnlessCaller s)"
    by (auto simp: no_workers_def on_worker_def joinUdpKeepaliveThreadsUnlessCaller_def
        detachWorkerThreadsUnlessCaller_def Let_def)
qed

lemma no_workers_wait:
  "waitUntilTransportStopped E ms polls s = Some t \<Longrightarrow> \<not> on_worker s \<Longrightarrow> no_workers t"
proof -
  have "no_workers (wait_finish E ms d u)" if "\<not> on_worker u" for d u
    using that by (simp add: wait_finish_def Let_def no_workers_join_threads
        no_workers_frame [OF clear_worker_frame(1)])
  then show "waitUntilTransportStopped E ms polls s = Some t \<Longrightarrow> \<not> on_worker s \<Longrightarrow> no_workers t"
    by (auto simp: waitUntilTransportStopped_def Let_def on_worker_def dest: cur_wait_loop)
qed

lemma sending_sessionState [simp]:
  "s_sessionState (observe ob s) = s_sessionState s"
  "s_sessionState (pumpWsAsyncWrites s) = s_sessionState s"
  "s_sessionState (sendUdpPayload d s) = s_sessionState s"
  by (simp_all add: observe_def pumpWsAsyncWrites_def sendUdpPayload_def Let_def split: option.split list.split)

lemma sending_sessionState2 [simp]:
  "s_sessionState (sendWsText m s) = s_sessionState s"
  "s_sessionState (sendUdpKeepalive s) = s_sessionState s"
  "s_sessionState (enterUdpRecovery s) = s_sessionState s"
  by (simp_all add: sendWsText_def sendUdpKeepalive_def enterUdpRecovery_def Let_def)

lemma resetUdp_localTx:
  "st_localTxActive (s_sessionState (snd (resetUdp E s))) = st_localTxActive (s_sessionState s)"
  by (simp add: resetUdp_def Let_def applyEventState_localTx split: option.split)

lemma endLocalTx_off: "\<not> st_localTxActive (s_sessionState (endLocalTxIfNeeded E s))"
  by (simp add: endLocalTxIfNeeded_def drainPendingNetworkRecreateIfIdle_def recover_network_def
      enterUdpRecovery_def resetUdp_localTx applyEventState_localTx Let_def)

lemma clear_cur [simp]: "s_curThread (clearTransportState E s) = s_curThread s"
  using clear_worker_frame(1) [of s E] by (simp add: worker_frame_def)

lemma cur_wait_finish [simp]: "s_curThread (wait_finish E ms d s) = s_curThread s"
  by (simp add: wait_finish_def Let_def)

lemma cur_wait: "waitUntilTransportStopped E ms polls s = Some u \<Longrightarrow> s_curThread u = s_curThread s"
  by (auto simp: waitUntilTransportStopped_def Let_def dest: cur_wait_loop)

lemma teardown_reset_frame [simp]:
  "on_worker (teardown_reset E s) = on_worker s" "no_workers (teardown_reset E s) = no_workers s"
proof -
  define u where "u = endLocalTxIfNeeded E ((clearTransportState E s)\<lparr>s_welcome := WelcomeConfig_default,
      s_seq := 0, s_clientTxOpen := False, s_opus := Codec_reset (s_opus (clearTransportState E s)),
      s_txPcmBuffer := []\<rparr>)"
  have "worker_frame s u"
    using clear_worker_frame(1) [of s E] clear_worker_frame(2) [where E = E]
    unfolding u_def worker_frame_def by simp
  then show "on_worker (teardown_reset E s) = on_worker s" "no_workers (teardown_reset E s) = no_workers s"
    by (simp_all add: teardown_reset_def Let_def u_def [symmetric] worker_frame_def on_worker_def no_workers_def)
qed

section \<open>The interface of connecting\<close>

locale connect_relation = session_relation E R
  for E :: "('j, 'c) env" and R :: "'c session \<Rightarrow> 'c session \<Rightarrow> bool" +
  assumes connected: "R s (s\<lparr>s_connected := True\<rparr>)"
    and waited: "R s (s\<lparr>s_clk := now\<rparr>)"
    and flags: "R s (s\<lparr>s_stopRequested := False\<rparr>)" "R s (s\<lparr>s_wsThreadCompletesTeardown := False\<rparr>)"
      "R s (s\<lparr>s_disconnectEventEmitted := False\<rparr>)" "R s (s\<lparr>s_disconnectStarted := False\<rparr>)"
      "R s (s\<lparr>s_connectionLostSignaled := False\<rparr>)" "R s (s\<lparr>s_connectParams := params\<rparr>)"
      "R s (s\<lparr>s_hostForWs := host\<rparr>)"
    and reset_state: "\<not> st_localTxActive (s_sessionState s) \<Longrightarrow>
      R s (s\<lparr>s_sessionState := (s_sessionState s)\<lparr>st_receiving := False, st_localTxActive := False,
             st_connectionLost := False, st_connected := False, st_udpReady := False\<rparr>\<rparr>)"
    and workers: "no_workers s \<Longrightarrow> \<not> s_transportFullyStopped s \<Longrightarrow> R s (start_workers s)"
begin

lemmas flags_R [R_rules] = flags [THEN trans [rotated]] waited [THEN trans [rotated]] connected [THEN trans [rotated]]

lemma await_R [R_rules]: "R s t \<Longrightarrow> R s (snd (await_result ms we t))"
  by (simp add: await_result_def Let_def R_rules split: option.split)

lemma await_eq: "await_result ms we t = (r, u) \<Longrightarrow> R s t \<Longrightarrow> R s u"
  using await_R [of s t ms we] by simp

lemma network_R [R_rules]:
  "R s t \<Longrightarrow> R s (snd (resolveWithTimeout ms net t))"
  "R s t \<Longrightarrow> R s (snd (connectTcpWithTimeout ms net t))"
  "R s t \<Longrightarrow> R s (snd (handshakeWithTimeout ms net t))"
  by (auto simp: resolveWithTimeout_def connectTcpWithTimeout_def handshakeWithTimeout_def R_rules
      split: prod.split option.split Result.split dest: await_eq [where s = s])

lemma failed_R [R_rules]: "R s t \<Longrightarrow> R s (snd (connect_failed E t))"
  by (simp add: connect_failed_def R_rules)

lemma established_R:
  assumes "R s t" and "no_workers t" and "\<not> s_transportFullyStopped t"
  shows "R s (snd (connect_established E net params t))"
proof -
  define u where "u = (enterUdpRecovery (t\<lparr>s_udpSocket := Some \<lparr>us_is_open = True, us_port = cn_localPort net\<rparr>,
      s_udpRemotePort := cp_port params, s_connected := True\<rparr>))\<lparr>s_connectionLostSignaled := False\<rparr>"
  have f: "worker_frame t u"
    by (simp add: u_def worker_frame_def enterUdpRecovery_def tick_def Let_def split: list.split)
  have "R s (start_workers u)"
  proof (rule trans)
    show "R s u" by (simp add: u_def R_rules assms(1))
    show "R u (start_workers u)"
      using f assms(2,3) by (intro workers) (simp_all add: no_workers_frame, simp add: worker_frame_def)
  qed
  then show ?thesis
    using assms(1) by (simp add: connect_established_def R_rules u_def Let_def)
qed

lemma attempt_R:
  assumes "R s t" and "no_workers t" and "\<not> s_transportFullyStopped t"
  shows "R s (snd (connect_attempt E net params ms t))"
proof -
  obtain r1 u1 where 1: "resolveWithTimeout kResolveTimeoutMs net t = (r1, u1)" by fastforce
  have u1: "R s u1" "no_workers u1" "\<not> s_transportFullyStopped u1"
    using network_R(1) [OF assms(1), of kResolveTimeoutMs net] network_frames(1) [of t kResolveTimeoutMs net] assms(2,3)
    by (simp_all add: 1 no_workers_frame) (simp add: worker_frame_def)
  define v where "v = (if s_wsStream u1 \<noteq> None then releaseWsStream u1 else u1)
      \<lparr>s_wsStream := Some \<lparr>ws_is_open = False, ws_tcp_open = False\<rparr>\<rparr>"
  have v: "R s v" "no_workers v" "\<not> s_transportFullyStopped v"
    using u1 by (auto simp: v_def R_rules no_workers_def releaseWsStream_def split: option.split)
  obtain r2 u2 where 2: "connectTcpWithTimeout ms net v = (r2, u2)" by fastforce
  have u2: "R s u2" "no_workers u2" "\<not> s_transportFullyStopped u2"
    using network_R(2) [OF v(1), of ms net] network_frames(2) [of v ms net] v(2,3)
    by (simp_all add: 2 no_workers_frame) (simp add: worker_frame_def)
  obtain r3 u3 where 3: "handshakeWithTimeout ms net u2 = (r3, u3)" by fastforce
  have u3: "R s u3" "no_workers u3" "\<not> s_transportFullyStopped u3"
    using network_R(3) [OF u2(1), of ms net] network_frames(3) [of u2 ms net] u2(2,3)
    by (simp_all add: 3 no_workers_frame) (simp add: worker_frame_def)
  show ?thesis
    using u1 u2 u3 2
    by (cases "s_wsStream u1") (simp_all add: v_def connect_attempt_def 1 Let_def 3 R_rules established_R
        split: option.split)
qed

lemma prepare_R [R_rules]: "R s t \<Longrightarrow> R s (connect_prepare parsed params t)"
  by (simp add: connect_prepare_def Let_def R_rules)

lemma params_R:
  assumes "R s t" and "no_workers t"
  shows "R s (snd (connect_params E net params ms t))"
proof -
  have "no_workers (connect_prepare parsed params (t\<lparr>s_connectParams := params\<rparr>))"
    "\<not> s_transportFullyStopped (connect_prepare parsed params (t\<lparr>s_connectParams := params\<rparr>))" for parsed
    using assms(2) by (simp_all add: connect_prepare_def resetIoContext_def no_workers_def Let_def)
  then show ?thesis
    using assms(1) by (simp add: connect_params_def Let_def R_rules attempt_R split: option.split)
qed

lemma connect_fresh_R:
  assumes "R s t" and "\<not> on_worker t"
  shows "R s (snd (connect_params E net params ms (resetIoContext (joinThreads E (closeSockets t)))))"
proof (rule params_R)
  have "s_curThread (closeSockets t) = s_curThread t"
    by (simp add: closeSockets_def shutdownWsTcp_def Let_def split: option.split)
  then have "no_workers (joinThreads E (closeSockets t))"
    using assms(2) by (intro no_workers_join_threads) (simp add: on_worker_def)
  then show "no_workers (resetIoContext (joinThreads E (closeSockets t)))"
    by (simp add: no_workers_def resetIoContext_def Let_def)
qed (simp add: assms(1) R_rules)

lemma connect_R:
  assumes "R s t" and "\<not> on_worker t"
  shows "R s (snd (connectInternal E net params ms False t))"
proof (cases "s_connected t \<or> s_disconnectStarted t")
  case True
  have d: "R s (disconnectSession t)"
    using assms(2) by (intro disconnect_R assms(1)) (simp add: on_worker_def)
  have c: "\<not> on_worker (disconnectSession t)"
    using assms(2) by (auto simp: on_worker_def disconnectSession_def Let_def)
  show ?thesis
  proof (cases "waitUntilTransportStopped E (- 1) [] (disconnectSession t)")
    case None
    with True assms(1) show ?thesis by (simp add: connectInternal_def)
  next
    case (Some u)
    have "\<not> on_worker u"
      using c cur_wait [OF Some] by (simp add: on_worker_def)
    from connect_fresh_R [OF wait_R [OF Some d c] this] True Some show ?thesis
      by (simp add: connectInternal_def Let_def)
  qed
next
  case False
  with connect_fresh_R [OF assms] show ?thesis by (simp add: connectInternal_def Let_def)
qed

lemma teardown_reset_R [R_rules]: "R s t \<Longrightarrow> R s (teardown_reset E t)"
proof -
  assume st: "R s t"
  define v where "v = (endLocalTxIfNeeded E ((clearTransportState E t)\<lparr>s_welcome := WelcomeConfig_default,
      s_seq := 0, s_clientTxOpen := False, s_opus := Codec_reset (s_opus (clearTransportState E t)),
      s_txPcmBuffer := []\<rparr>))\<lparr>s_lastWsHeartbeatSentNs := 0\<rparr>"
  have "R s v" by (simp add: v_def st R_rules)
  moreover have "\<not> st_localTxActive (s_sessionState v)" by (simp add: v_def endLocalTx_off)
  ultimately have "R s (v\<lparr>s_sessionState := (s_sessionState v)\<lparr>st_receiving := False,
      st_localTxActive := False, st_connectionLost := False, st_connected := False, st_udpReady := False\<rparr>\<rparr>)"
    by (rule trans [OF _ reset_state])
  then show ?thesis by (simp add: teardown_reset_def Let_def v_def)
qed

lemma reconnectTeardown_R:
  assumes "R s t" and "\<not> on_worker t" and "s_transportFullyStopped t \<longrightarrow> no_workers t"
    and "reconnectTeardown E polls t = (oc, u)"
  shows "R s u \<and> \<not> on_worker u \<and> (oc = Returned R_Ok \<longrightarrow> no_workers u)"
proof -
  define s1 where "s1 = t\<lparr>s_connectionLostSignaled := False, s_disconnectStarted := False,
      s_disconnectEventEmitted := False, s_stopRequested := False, s_wsThreadCompletesTeardown := False\<rparr>"
  have s1: "R s s1" "\<not> on_worker s1" "s_transportFullyStopped s1 = s_transportFullyStopped t"
    "no_workers s1 = no_workers t" "s_curThread s1 = s_curThread t"
    using assms(1,2) by (simp_all add: s1_def R_rules on_worker_def no_workers_def)
  have reset: "R s (teardown_reset E v) \<and> \<not> on_worker (teardown_reset E v) \<and> no_workers (teardown_reset E v)"
    if "R s v" "\<not> on_worker v" "no_workers v" for v
    using that by (simp add: teardown_reset_R teardown_reset_frame)
  show ?thesis
  proof (cases "s_transportFullyStopped t")
    case True
    with assms(4) have "oc = Returned R_Ok" "u = teardown_reset E s1"
      using s1(3) by (simp_all add: reconnectTeardown_def s1_def [symmetric] Let_def)
    with reset [of s1] s1 assms(3) True show ?thesis by simp
  next
    case False
    have w: "R s v \<and> \<not> on_worker v \<and> no_workers v"
      if "waitUntilTransportStopped E 3000 polls (haltTransport s1) = Some v" for v
      using wait_R [OF that, of s] no_workers_wait [OF that] cur_wait [OF that] s1(1,2)
      by (simp add: R_rules on_worker_def)
    from False assms(4) s1 show ?thesis
      by (cases "waitUntilTransportStopped E 3000 polls (haltTransport s1)")
        (auto simp: reconnectTeardown_def s1_def [symmetric] Let_def dest!: w reset)
  qed
qed

lemma reconnect_R:
  assumes "R s t" and "\<not> on_worker t" and "s_transportFullyStopped t \<longrightarrow> no_workers t"
  shows "R s (snd (reconnectSession E polls net params t))"
proof -
  obtain oc u where u: "reconnectTeardown E polls t = (oc, u)" by fastforce
  note facts = reconnectTeardown_R [OF assms u]
  have "R s (u\<lparr>s_stopRequested := False\<rparr>)" using facts by (simp add: R_rules)
  then show ?thesis
    using facts params_R [of s "u\<lparr>s_stopRequested := False\<rparr>" net params]
    by (auto simp: reconnectSession_def u reconnectConnect_def connectInternal_def Let_def no_workers_def
        split: outcome.split)
qed

end

section \<open>Reachable states\<close>

text \<open>Every operation returns to the thread it was called on.\<close>

definition same_thread :: "'c session \<Rightarrow> 'c session \<Rightarrow> bool" where
  "same_thread s t \<longleftrightarrow> s_curThread t = s_curThread s"

interpretation cur: connect_relation E same_thread for E :: "('j, 'c) env"
  by unfold_locales
    (simp_all add: same_thread_def start_workers_def start_thread_def emitEvent_def emit_loss_def observe_def
      emitDisconnectedOnce_def push_item_def ensureTxWorkerStarted_def Let_def)

interpretation thrc: connect_relation E "thr E" for E :: "('j, 'c) env"
  by unfold_locales
    (auto simp: thr_def threads_ok_def workers_gone_def no_workers_def start_workers_def start_thread_def Let_def)

interpretation bqc: connect_relation E bounded_queue for E :: "('j, 'c) env"
  by unfold_locales
    (auto simp: bounded_queue_def pcm_items_def start_workers_def start_thread_def Let_def)

interpretation dgc: connect_relation E "keeps_datagrams E" for E :: "('j, 'c) env"
  by unfold_locales
    (auto simp: keeps_datagrams_def datagrams_ok_def start_workers_def start_thread_def Let_def)

interpretation ltxc: connect_relation E keeps_ltx for E :: "('j, 'c) env"
  by unfold_locales
    (auto simp: keeps_ltx_def ltx_alternates_def start_workers_def start_thread_def Let_def)

interpretation nsfc: connect_relation E not_self_finished for E :: "('j, 'c) env"
  by unfold_locales
    (auto simp: not_self_finished_def start_workers_def start_thread_def Let_def)

text \<open>
  A session is created, gets its callbacks, and is then used from an application thread:
  connects and reconnects (teardown, then connect) in between any steps.
\<close>

inductive session_reach :: "('j, 'c) env \<Rightarrow> 'c session \<Rightarrow> bool" for E where
  sr_create: "session_reach E (Session_setCallbacks True onRxPcm onRxOpus Session_init)"
| sr_step: "session_reach E s \<Longrightarrow> session_step False E s s' \<Longrightarrow> session_reach E s'"
| sr_connect: "session_reach E s \<Longrightarrow> session_reach E (snd (connectInternal E net params ms False s))"
| sr_reconnect: "session_reach E s \<Longrightarrow> session_reach E (snd (reconnectSession E polls net params s))"

text \<open>The invariant: on the application's thread, threads in order, no teardown from a callback.\<close>

definition session_inv :: "'c session \<Rightarrow> bool" where
  "session_inv s \<longleftrightarrow> threads_ok s \<and> s_curThread s = T_App
     \<and> \<not> s_wsThreadCompletesTeardown s \<and> \<not> s_wsSelfFinished s"

lemma session_inv_no_workers: "session_inv s \<Longrightarrow> s_transportFullyStopped s \<longrightarrow> no_workers s"
  by (auto simp: session_inv_def threads_ok_def workers_gone_def no_workers_def)

lemma session_inv_preserved:
  assumes "thr E s t" and "same_thread s t" and "not_self_finished s t"
    and "buildHeartbeat (e_json E) \<noteq> None" and "session_inv s"
  shows "session_inv t"
  using assms by (auto simp: session_inv_def thr_def same_thread_def not_self_finished_def)

lemma session_inv_worker: "session_inv s \<Longrightarrow> \<not> on_worker s"
  by (simp add: session_inv_def on_worker_def)

text \<open>A relation that all three ways of moving respect holds from any reachable state's predecessor.\<close>

lemma reach_inv:
  assumes "session_reach E s" and hb: "buildHeartbeat (e_json E) \<noteq> None"
  shows "session_inv s"
  using assms(1)
proof (induction rule: session_reach.induct)
  case (sr_create onRxPcm onRxOpus)
  then show ?case
    by (simp add: session_inv_def threads_ok_def workers_gone_def Session_setCallbacks_def Session_init_def)
next
  case (sr_step s s')
  show ?case
    by (rule session_inv_preserved [OF thr.step_R cur.step_R nsf.step_R hb]) (use sr_step in auto)
next
  case (sr_connect s net params ms)
  note w = session_inv_worker [OF sr_connect.IH]
  show ?case
    by (rule session_inv_preserved [OF thrc.connect_R cur.connect_R nsfc.connect_R hb sr_connect.IH])
      (use w in \<open>auto intro: thr.refl cur.refl nsf.refl\<close>)
next
  case (sr_reconnect s polls net params)
  note w = session_inv_worker [OF sr_reconnect.IH] session_inv_no_workers [OF sr_reconnect.IH]
  show ?case
    by (rule session_inv_preserved [OF thrc.reconnect_R cur.reconnect_R nsfc.reconnect_R hb sr_reconnect.IH])
      (use w in \<open>auto intro: thr.refl cur.refl nsf.refl\<close>)
qed

context connect_relation
begin

lemma reach_R:
  assumes "session_reach E s" and "buildHeartbeat (e_json E) \<noteq> None"
    and "\<And>b c. R (Session_setCallbacks True b c Session_init) (Session_setCallbacks True b c Session_init) \<Longrightarrow>
           I (Session_setCallbacks True b c Session_init)"
    and "\<And>u v. R u v \<Longrightarrow> I u \<Longrightarrow> I v"
  shows "I s"
  using assms(1)
proof (induction rule: session_reach.induct)
  case (sr_create onRxPcm onRxOpus)
  show ?case by (rule assms(3) [OF refl])
next
  case (sr_step s s')
  then show ?case using assms(4) step_R by blast
next
  case (sr_connect s net params ms)
  from session_inv_worker [OF reach_inv [OF sr_connect.hyps assms(2)]]
  show ?case using assms(4) [OF connect_R [OF refl] sr_connect.IH] by blast
next
  case (sr_reconnect s polls net params)
  note inv = reach_inv [OF sr_reconnect.hyps assms(2)]
  show ?case
    by (rule assms(4) [OF reconnect_R [OF refl session_inv_worker [OF inv] session_inv_no_workers [OF inv]]])
      (rule sr_reconnect.IH)
qed

end

text \<open>A concrete reachable state: a connect whose peers answer at once, and a submitted command.\<close>

definition demo_wait :: wait_env where
  "demo_wait = \<lparr>we_slices = [\<lparr>sl_ns = 1000, sl_done = Some True, sl_stop = False\<rparr>],
                we_final = \<lparr>sl_ns = 0, sl_done = None, sl_stop = False\<rparr>\<rparr>"

definition demo_net :: connect_env where
  "demo_net = \<lparr>cn_resolve = demo_wait, cn_connect = demo_wait, cn_handshake = demo_wait,
               cn_remoteEndpointOk = True, cn_udpOpenOk = True, cn_localPort = 40000\<rparr>"

definition demo_params :: ConnectParams where
  "demo_params = \<lparr>cp_host = ''relay.example'', cp_port = 5500, cp_channel = ''global'',
                  cp_useTls = False, cp_repeaterMode = False\<rparr>"

definition demo_reached :: "unit session" where
  "demo_reached = snd (submitTx demo_env Op_Open [] [] []
     (on_thread T_Ws (wsIoTurn demo_env (Io_Read (Inr ''welcome'')))
       (snd (connectInternal demo_env demo_net demo_params 5000 False
          (Session_setCallbacks True True False Session_init)))))"

lemma demo_heartbeat: "buildHeartbeat (e_json demo_env) \<noteq> None"
  by (simp add: buildHeartbeat_def demo_env_def jv_lib_def)

lemma demo_connect_workers:
  "s_wsThread (snd (connectInternal demo_env demo_net demo_params 5000 False
     (Session_setCallbacks True True False Session_init)))"
  by code_simp

lemma demo_reach: "session_reach demo_env demo_reached"
  unfolding demo_reached_def
  by (intro sr_step [OF sr_step [OF sr_connect [OF sr_create] st_ws] st_submit] demo_connect_workers)

text \<open>
  C14. Whatever the interleaving, the library never assigns a \<open>std::thread\<close> member that is still
  joinable, which would end the program: in every reachable state of a session used from an
  application thread, nothing has been terminated, the TX worker exists exactly when its flag
  says so, and a fully stopped transport has no worker threads left.
\<close>

theorem threads_never_overwritten:
  assumes "session_reach E s" and "buildHeartbeat (e_json E) \<noteq> None"
  shows "\<not> s_terminated s \<and> s_txWorkerThread s = s_txWorkerRunning s
    \<and> (s_transportFullyStopped s \<longrightarrow> \<not> s_wsThread s \<and> \<not> s_udpThread s \<and> \<not> s_keepaliveThread s)"
  using reach_inv [OF assms] session_inv_no_workers [OF reach_inv [OF assms]]
  by (simp add: session_inv_def threads_ok_def no_workers_def)

theorem threads_never_overwritten_witness: "\<not> s_terminated demo_reached"
  using threads_never_overwritten [OF demo_reach demo_heartbeat] by blast

lemma well_formed_not_ack:
  assumes "registry_reachable (e_registry E)" and "well_formed_datagram E d"
  shows "\<not> isKeepaliveAck d sid"
proof
  assume ack: "isKeepaliveAck d sid"
  obtain i q g p where d: "d = be32_bytes i @ be32_bytes q @ [g] @ p"
    and g: "q = 0 \<and> g = kKeepaliveSignal \<and> p = [] \<or> g = 0 \<and> p = [] \<or> g = uplinkSignalByte E \<and> p \<noteq> []"
    using assms(2) by (auto simp: well_formed_datagram_def)
  from marker_length(2) [OF ack] have p: "p = []" by (simp add: d)
  with ack have "g = kKeepaliveAckSignal" by (simp add: d marker_simps [simplified])
  with g p show False by (auto simp: kKeepaliveSignal_def kKeepaliveAckSignal_def)
qed



text \<open>
  In every reachable state the queue of transmit commands holds at most 48 PCM items, whatever
  the application submits and however slowly the worker takes them.
\<close>

theorem pcm_queue_bounded:
  assumes "session_reach E s" and "buildHeartbeat (e_json E) \<noteq> None"
  shows "length (filter (\<lambda>i. ti_op i = Op_Pcm) (s_txQueue s)) \<le> 48"
  using bqc.reach_R [OF assms, where I = "\<lambda>s. pcm_items s \<le> kTxQueueCapacity"]
  by (auto simp: bounded_queue_def pcm_items_def Session_setCallbacks_def Session_init_def kTxQueueCapacity_def)

theorem pcm_queue_bounded_witness:
  "length (filter (\<lambda>i. ti_op i = Op_Pcm) (s_txQueue demo_reached)) \<le> 48"
  by (rule pcm_queue_bounded [OF demo_reach demo_heartbeat])

text \<open>
  The application sees \<open>LocalTxStart\<close> and \<open>LocalTxEnd\<close> strictly alternating, over any number of
  transmissions, aborts, losses, disconnects and reconnects, and the last of them agrees with
  the \<open>localTxActive\<close> flag of the session's state.
\<close>

theorem local_tx_alternates:
  assumes "session_reach E s" and "buildHeartbeat (e_json E) \<noteq> None"
  shows "ltx_run (s_trace s) = Some (st_localTxActive (s_sessionState s))"
proof -
  have "ltx_alternates s"
    by (rule ltxc.reach_R [OF assms, where I = ltx_alternates])
      (auto simp: keeps_ltx_def ltx_alternates_def Session_setCallbacks_def Session_init_def ltx_run_def)
  then show ?thesis by (simp add: ltx_alternates_def)
qed

theorem local_tx_alternates_witness:
  "ltx_run (s_trace demo_reached) = Some (st_localTxActive (s_sessionState demo_reached))"
  by (rule local_tx_alternates [OF demo_reach demo_heartbeat])

end
