(* ===== verification/Session_Tx_Props.thy ===== *)
theory Session_Tx_Props
  imports Session_Reach
begin

text \<open>
  What the transmit operations compute: no sample is lost or reordered on the way through the
  PCM buffer and the encoder, a closed transmission ends with three markers, commands are
  worked off in the order they were submitted, and \<open>submitTx\<close> answers as it should on every path.
\<close>

section \<open>Frames\<close>

text \<open>The frames handed to the encoder, in order.\<close>

fun encoded :: "obs list \<Rightarrow> pcm list" where
  "encoded [] = []"
| "encoded (O_Encode f # tr) = f # encoded tr"
| "encoded (_ # tr) = encoded tr"

lemma encoded_append [simp]: "encoded (tr @ tr') = encoded tr @ encoded tr'"
proof (induction tr)
  case (Cons ob tr)
  then show ?case by (cases ob) simp_all
qed simp

definition pad_to :: "nat \<Rightarrow> pcm \<Rightarrow> pcm" where
  "pad_to n buf = buf @ replicate ((n - length buf mod n) mod n) 0"

lemma pad_to_Nil [simp]: "pad_to n [] = []"
  by (simp add: pad_to_def)

lemma length_pad_to: "0 < n \<Longrightarrow> n dvd length (pad_to n buf)"
proof (cases "length buf mod n = 0")
  case True
  then show ?thesis by (auto simp: pad_to_def)
next
  case False
  assume n: "0 < n"
  have "length buf + (n - length buf mod n) = n * (length buf div n) + n"
    using n mod_less_divisor [OF n, of "length buf"] mult_div_mod_eq [of n "length buf"] by linarith
  then have "n dvd length buf + (n - length buf mod n)" by simp
  with False n show ?thesis by (simp add: pad_to_def)
qed

lemma pad_to_step:
  assumes "0 < n" "buf \<noteq> []"
  shows "take n (pad_partial n buf) @ pad_to n (drop n (pad_partial n buf)) = pad_to n buf"
    and "length (take n (pad_partial n buf)) = n"
proof -
  have 1: "take n buf @ pad_to n (drop n buf) = pad_to n buf" if "n \<le> length buf"
  proof -
    have "(length buf - n) mod n = length buf mod n" using that by (simp add: le_mod_geq)
    then show ?thesis by (simp add: pad_to_def)
  qed
  have 2: "vec_resize n 0 buf = pad_to n buf" if "length buf < n"
    using that assms by (simp add: vec_resize_def pad_to_def)
  have 3: "length (pad_to n buf) = n" if "length buf < n"
    using that assms by (simp add: pad_to_def)
  show "take n (pad_partial n buf) @ pad_to n (drop n (pad_partial n buf)) = pad_to n buf"
    using assms 1 2 3 by (auto simp: pad_partial_def not_less)
  show "length (take n (pad_partial n buf)) = n"
    using assms by (auto simp: pad_partial_def)
qed

lemma sendUdpPayload_trace:
  "\<exists>u. s_trace (sendUdpPayload d s) = s_trace s @ u \<and> encoded u = []"
  "s_opus (sendUdpPayload d s) = s_opus s"
  by (auto simp: sendUdpPayload_def observe_def split: option.split)

lemma sendOpusFrame_trace:
  "\<exists>u. s_trace (sendOpusFrame d g s) = s_trace s @ u \<and> encoded u = []"
  "s_opus (sendOpusFrame d g s) = s_opus s"
proof -
  let ?s = "s\<lparr>s_seq := s_seq s + 1\<rparr>"
  obtain r payload where p: "udp_pack \<lparr>up_sessionId = wc_sessionId (s_welcome s), up_sequence = s_seq s + 1,
      up_signalStrength = g, up_opus = d\<rparr> [] = (r, payload)" by fastforce
  show "s_opus (sendOpusFrame d g s) = s_opus s"
    by (simp add: sendOpusFrame_def Let_def p sendUdpPayload_trace)
  show "\<exists>u. s_trace (sendOpusFrame d g s) = s_trace s @ u \<and> encoded u = []"
    using sendUdpPayload_trace(1) [of payload ?s] by (auto simp: sendOpusFrame_def Let_def p)
qed

text \<open>libopus refuses some frame of this size (a negative return value).\<close>

definition codec_refuses :: "('j, 'c) env \<Rightarrow> nat \<Rightarrow> bool" where
  "codec_refuses E n \<longleftrightarrow> (\<exists>pcm e. length pcm = n \<and> fst (ol_encode (e_opus E) e pcm (int n) 512) < 0)"

definition codec_ready :: "'c session \<Rightarrow> nat \<Rightarrow> bool" where
  "codec_ready s n \<longleftrightarrow> 0 < n \<and> cd_frameSamples (s_opus s) = int n \<and> cd_encoder (s_opus s) \<noteq> None"

lemma encode_front_trace:
  assumes "encode_front E n s = (r, s')" and "codec_ready s n" and "length (take n (s_txPcmBuffer s)) = n"
  shows "codec_ready s' n"
    and "r = Some enc \<Longrightarrow> s_trace s' = s_trace s @ [O_Encode (take n (s_txPcmBuffer s))]
           \<and> s_txPcmBuffer s' = drop n (s_txPcmBuffer s)"
    and "r = None \<Longrightarrow> s_trace s' = s_trace s \<and> s_txPcmBuffer s' = [] \<and> codec_refuses E n"
proof -
  obtain e where e: "cd_encoder (s_opus s) = Some e" using assms(2) by (auto simp: codec_ready_def)
  obtain m buf e' where o: "ol_encode (e_opus E) e (take n (s_txPcmBuffer s)) (int n) 512 = (m, buf, e')"
    by (metis prod_cases3)
  let ?c = "(s_opus s)\<lparr>cd_encoder := Some e'\<rparr>"
  have enc: "Codec_encode (e_opus E) (take n (s_txPcmBuffer s)) (s_opus s) =
      (if m < 0 then (R_Internal, vec_resize 512 0 buf, ?c)
       else (R_Ok, vec_resize (nat m) 0 (vec_resize 512 0 buf), ?c))"
    using assms(2,3) e o by (simp add: Codec_encode_def codec_ready_def)
  have refuse: "m < 0 \<Longrightarrow> codec_refuses E n"
    unfolding codec_refuses_def using assms(3) o by (metis fst_conv)
  show "codec_ready s' n"
    using assms(1,2) enc by (auto simp: encode_front_def codec_ready_def observe_def split: if_splits)
  show "r = Some enc \<Longrightarrow> s_trace s' = s_trace s @ [O_Encode (take n (s_txPcmBuffer s))]
           \<and> s_txPcmBuffer s' = drop n (s_txPcmBuffer s)"
    using assms(1) enc by (auto simp: encode_front_def observe_def split: if_splits)
  show "r = None \<Longrightarrow> s_trace s' = s_trace s \<and> s_txPcmBuffer s' = [] \<and> codec_refuses E n"
    using assms(1) enc refuse by (auto simp: encode_front_def observe_def split: if_splits)
qed

lemma flush_frames:
  assumes "codec_ready s n"
  shows "\<exists>new. s_trace (flushTxPcmBuffer E s) = s_trace s @ new \<and> list_all (\<lambda>f. length f = n) (encoded new)
    \<and> (\<exists>rest. concat (encoded new) @ rest = pad_to n (s_txPcmBuffer s) \<and> (rest \<noteq> [] \<longrightarrow> codec_refuses E n))
    \<and> s_txPcmBuffer (flushTxPcmBuffer E s) = []"
  using assms
proof (induction s rule: flush_induct [of E])
  case (flush s)
  let ?buf = "s_txPcmBuffer s"
  let ?s1 = "s\<lparr>s_txPcmBuffer := pad_partial n ?buf\<rparr>"
  have n: "0 < n" "n = nat (cd_frameSamples (s_opus s))" "0 < cd_frameSamples (s_opus s)"
    using flush.prems by (simp_all add: codec_ready_def)
  have ready1: "codec_ready ?s1 n" using flush.prems by (simp add: codec_ready_def)
  have unfold: "flushTxPcmBuffer E s =
      (if length (pad_partial n ?buf) < n then ?s1
       else (case encode_front E n ?s1 of (None, s2) \<Rightarrow> s2
             | (Some enc, s2) \<Rightarrow> flushTxPcmBuffer E (sendOpusFrame enc (uplinkSignalByte E) s2)))"
    using n by (subst flushTxPcmBuffer.simps) (simp add: Let_def)
  show ?case
  proof (cases "?buf = []")
    case True
    then show ?thesis using n by (simp add: unfold pad_partial_def)
  next
    case False
    note pad = pad_to_step [OF n(1) False]
    have len: "n \<le> length (pad_partial n ?buf)" using pad(2) by (simp add: min_def split: if_splits)
    obtain r s2 where e: "encode_front E n ?s1 = (r, s2)" by fastforce
    have "length (take n (s_txPcmBuffer ?s1)) = n" using pad(2) by simp
    note tr = encode_front_trace [OF e ready1 this]
    show ?thesis
    proof (cases r)
      case None
      with None tr(3) [OF None] len show ?thesis by (simp add: unfold e)
    next
      case (Some enc)
      let ?s3 = "sendOpusFrame enc (uplinkSignalByte E) s2"
      obtain u where u: "s_trace ?s3 = s_trace s2 @ u" "encoded u = []"
        using sendOpusFrame_trace(1) by blast
      have n3: "codec_ready ?s3 n"
        using tr(1) by (simp add: sendOpusFrame_trace codec_ready_def)
      from flush.IH [of enc s2, OF _ _ _ n3] e Some n len
      obtain new rest where new: "s_trace (flushTxPcmBuffer E ?s3) = s_trace ?s3 @ new"
        "list_all (\<lambda>f. length f = n) (encoded new)"
        "concat (encoded new) @ rest = pad_to n (s_txPcmBuffer ?s3)" "rest \<noteq> [] \<longrightarrow> codec_refuses E n"
        "s_txPcmBuffer (flushTxPcmBuffer E ?s3) = []" by auto
      have t2: "s_trace s2 = s_trace s @ [O_Encode (take n (pad_partial n ?buf))]"
        "s_txPcmBuffer s2 = drop n (pad_partial n ?buf)"
        using tr(2) [OF Some] by simp_all
      have "s_trace (flushTxPcmBuffer E s) = s_trace s @ ([O_Encode (take n (pad_partial n ?buf))] @ u @ new)"
        using new(1) u(1) t2(1) len by (simp add: unfold e Some)
      moreover have "concat (encoded ([O_Encode (take n (pad_partial n ?buf))] @ u @ new)) @ rest = pad_to n ?buf"
        using new(3) t2(2) pad(1) u(2) by simp
      moreover have "s_txPcmBuffer (flushTxPcmBuffer E s) = []"
        using new(5) len by (simp add: unfold e Some)
      ultimately show ?thesis
        using new(2,4) u(2) pad(2) by (intro exI conjI) (assumption | simp)+
    qed
  qed
qed

text \<open>
  C35. Ending the voice (or the transmission) loses no sample and reorders none: the buffered samples,
  padded with silence to whole frames, go to the encoder frame by frame, each of exactly the
  negotiated size, and the buffer ends up empty; only a frame the codec itself refuses drops what
  follows it.
\<close>

theorem flush_sends_all_samples:
  assumes "0 < cd_frameSamples (s_opus s)" and "cd_encoder (s_opus s) \<noteq> None"
  shows "\<exists>new rest. s_trace (flushTxPcmBuffer E s) = s_trace s @ new
    \<and> list_all (\<lambda>f. int (length f) = cd_frameSamples (s_opus s)) (encoded new)
    \<and> concat (encoded new) @ rest = pad_to (nat (cd_frameSamples (s_opus s))) (s_txPcmBuffer s)
    \<and> (rest \<noteq> [] \<longrightarrow> codec_refuses E (nat (cd_frameSamples (s_opus s))))
    \<and> s_txPcmBuffer (flushTxPcmBuffer E s) = []"
  using flush_frames [of s "nat (cd_frameSamples (s_opus s))" E] assms
  by (fastforce simp: list_all_iff codec_ready_def)

text \<open>
  Feeding PCM to an open transmission only appends: the encoder gets at most one frame per call,
  made of the oldest buffered samples, exactly when a whole frame is there, and what it does not
  get stays buffered in order (so a caller that feeds more than a frame at a time builds up a
  delay until the voice ends).
\<close>

theorem feed_keeps_order:
  assumes "s_connected s" "wc_sessionId (s_welcome s) \<noteq> 0" "s_clientTxOpen s" "samples \<noteq> []"
    and "codec_ready s n"
  shows "\<exists>new. s_trace (snd (feedTxPcm E samples s)) = s_trace s @ new
    \<and> (if fst (feedTxPcm E samples s) = R_Ok
       then concat (encoded new) @ s_txPcmBuffer (snd (feedTxPcm E samples s)) = s_txPcmBuffer s @ samples
            \<and> encoded new = (if length (s_txPcmBuffer s @ samples) < n then []
                             else [take n (s_txPcmBuffer s @ samples)])
       else fst (feedTxPcm E samples s) = R_NotReady \<and> codec_refuses E n
            \<and> encoded new = [] \<and> s_txPcmBuffer (snd (feedTxPcm E samples s)) = [])"
proof -
  let ?s1 = "s\<lparr>s_txPcmBuffer := s_txPcmBuffer s @ samples\<rparr>"
  show ?thesis
  proof (cases "length (s_txPcmBuffer s @ samples) < n")
    case True
    with assms show ?thesis by (simp add: feedTxPcm_def codec_ready_def Let_def)
  next
    case False
    obtain r s2 where e: "encode_front E n ?s1 = (r, s2)" by fastforce
    have "codec_ready ?s1 n" "length (take n (s_txPcmBuffer ?s1)) = n"
      using assms(5) False by (simp_all add: codec_ready_def)
    note tr = encode_front_trace [OF e this]
    have feed: "feedTxPcm E samples s = (case r of None \<Rightarrow> (R_NotReady, s2)
        | Some enc \<Rightarrow> (R_Ok, sendOpusFrame enc (uplinkSignalByte E) s2))"
      using assms False e by (simp add: feedTxPcm_def codec_ready_def Let_def split: option.split)
    show ?thesis
    proof (cases r)
      case None
      with None tr(3) [OF None] show ?thesis by (simp add: feed)
    next
      case (Some enc)
      obtain u where u: "s_trace (sendOpusFrame enc (uplinkSignalByte E) s2) = s_trace s2 @ u" "encoded u = []"
        using sendOpusFrame_trace(1) by blast
      with Some tr(2) [OF Some] False show ?thesis
        by (auto simp: feed append_take_drop_id simp del: take_append drop_append)
    qed
  qed
qed

theorem flush_sends_all_samples_witness:
  "\<exists>new. s_trace (flushTxPcmBuffer demo_env (demo_session\<lparr>s_txPcmBuffer := replicate 200 3\<rparr>)) = new
     \<and> list_all (\<lambda>f. length f = 160) (encoded new)
     \<and> concat (encoded new) = replicate 200 3 @ replicate 120 0"
proof -
  let ?s = "demo_session\<lparr>s_txPcmBuffer := replicate 200 3\<rparr>"
  have fs: "cd_frameSamples (s_opus ?s) = 160" "cd_encoder (s_opus ?s) \<noteq> None" "s_trace ?s = []"
    by (simp_all add: demo_session_def Session_init_def)
  have nr: "\<not> codec_refuses demo_env 160"
    by (simp add: codec_refuses_def demo_env_def demo_opus_def)
  from flush_sends_all_samples [of ?s demo_env] fs nr
  show ?thesis by (auto simp: pad_to_def replicate_add [symmetric] list_all_iff)
qed

theorem feed_keeps_order_witness:
  "let s = demo_session\<lparr>s_clientTxOpen := True, s_txPcmBuffer := replicate 100 1\<rparr>
   in \<exists>new. s_trace (snd (feedTxPcm demo_env (replicate 100 2) s)) = new
        \<and> encoded new = [replicate 100 1 @ replicate 60 2]"
proof -
  let ?s = "demo_session\<lparr>s_clientTxOpen := True, s_txPcmBuffer := replicate 100 1\<rparr>"
  have hyps: "s_connected ?s" "wc_sessionId (s_welcome ?s) \<noteq> 0" "s_clientTxOpen ?s"
    "replicate 100 (2::int) \<noteq> []" "codec_ready ?s 160" "s_trace ?s = []" "s_txPcmBuffer ?s = replicate 100 1"
    by (simp_all add: demo_session_def Session_init_def codec_ready_def)
  have nr: "\<not> codec_refuses demo_env 160"
    by (simp add: codec_refuses_def demo_env_def demo_opus_def)
  from feed_keeps_order [OF hyps(1-5), of demo_env] hyps(6,7) nr
  show ?thesis by (auto split: if_splits)
qed

section \<open>The end of a transmission\<close>

text \<open>The \<open>k\<close>-th marker after the sequence number of \<open>s\<close>.\<close>

definition eof_datagram :: "'c session \<Rightarrow> u32 \<Rightarrow> u8 list" where
  "eof_datagram s k = be32_bytes (wc_sessionId (s_welcome s)) @ be32_bytes (s_seq s + k) @ [0]"

definition can_send :: "'c session \<Rightarrow> bool" where
  "can_send s \<longleftrightarrow> s_connected s \<and> \<not> s_stopRequested s \<and> wc_sessionId (s_welcome s) \<noteq> 0
     \<and> (\<exists>u. s_udpSocket s = Some u \<and> us_is_open u)"

lemma sendUdpTxEof_can_send:
  assumes "can_send s"
  shows "sendUdpTxEof s = s\<lparr>s_seq := s_seq s + 1, s_trace := s_trace s @ [O_Udp (eof_datagram s 1)]\<rparr>"
  using assms by (auto simp: can_send_def sendUdpTxEof_def sendUdpPayload_def observe_def eof_datagram_def Let_def)

lemma sleep_cases:
  assumes "0 < ms" and "\<not> s_stopRequested s"
  shows "interruptibleSleepMs ms s =
     (let s' = s\<lparr>s_trace := s_trace s @ [O_Sleep ms], s_sleepHalts := tl (s_sleepHalts s)\<rparr>
      in if s_sleepHalts s \<noteq> [] \<and> hd (s_sleepHalts s) then haltTransport s'
         else s'\<lparr>s_clk := s_clk s + ms * kNsPerMs\<rparr>)"
  using assms by (cases "s_sleepHalts s") (simp_all add: interruptibleSleepMs_def observe_def Let_def)

lemma halted_stop [simp]: "s_stopRequested (haltTransport s)" "s_trace (haltTransport s) = s_trace s"
  "s_seq (haltTransport s) = s_seq s"
  by (simp_all add: haltTransport_def closeSockets_def shutdownWsTcp_def Let_def split: option.split)

definition halts_at :: "nat \<Rightarrow> 'c session \<Rightarrow> bool" where
  "halts_at i s \<longleftrightarrow> i < length (s_sleepHalts s) \<and> s_sleepHalts s ! i"

text \<open>
  A transmission ends with three end-of-transmission markers, 20 and 60 milliseconds apart, with
  consecutive sequence numbers following the last frame's; a halt of the transport during one
  of the pauses cuts the rest, and the first marker always goes out.
\<close>

theorem eof_burst_sends_three:
  assumes "can_send s"
  shows "\<exists>new. s_trace (eof_burst [0, 20, 60] s) = s_trace s @ new \<and>
    new = (if halts_at 0 s then [O_Udp (eof_datagram s 1), O_Sleep 20]
           else if halts_at 1 s then [O_Udp (eof_datagram s 1), O_Sleep 20, O_Udp (eof_datagram s 2), O_Sleep 60]
           else [O_Udp (eof_datagram s 1), O_Sleep 20, O_Udp (eof_datagram s 2), O_Sleep 60, O_Udp (eof_datagram s 3)])"
proof -
  define s1 where "s1 = s\<lparr>s_seq := s_seq s + 1, s_trace := s_trace s @ [O_Udp (eof_datagram s 1)]\<rparr>"
  define s2 where "s2 = s1\<lparr>s_trace := s_trace s1 @ [O_Sleep 20], s_sleepHalts := tl (s_sleepHalts s1),
      s_clk := s_clk s1 + 20 * kNsPerMs\<rparr>"
  define s3 where "s3 = s2\<lparr>s_seq := s_seq s2 + 1, s_trace := s_trace s2 @ [O_Udp (eof_datagram s2 1)]\<rparr>"
  define s4 where "s4 = s3\<lparr>s_trace := s_trace s3 @ [O_Sleep 60], s_sleepHalts := tl (s_sleepHalts s3),
      s_clk := s_clk s3 + 60 * kNsPerMs\<rparr>"
  have send: "can_send s1" "can_send s2" "can_send s3" "can_send s4"
    using assms by (simp_all add: can_send_def s1_def s2_def s3_def s4_def)
  then have stop: "\<not> s_stopRequested s1" "\<not> s_stopRequested s3" "\<not> s_stopRequested s"
    using assms by (simp_all add: can_send_def)
  have e1: "sendUdpTxEof s = s1" "sendUdpTxEof s2 = s3"
    using sendUdpTxEof_can_send assms send by (simp_all add: s1_def s3_def)
  have tr: "s_trace s1 = s_trace s @ [O_Udp (eof_datagram s 1)]"
    "s_trace s3 = s_trace s @ [O_Udp (eof_datagram s 1), O_Sleep 20, O_Udp (eof_datagram s 2)]"
    "s_trace (sendUdpTxEof s4) = s_trace s @ [O_Udp (eof_datagram s 1), O_Sleep 20,
       O_Udp (eof_datagram s 2), O_Sleep 60, O_Udp (eof_datagram s 3)]"
    using sendUdpTxEof_can_send [OF send(4)]
    by (simp_all add: s1_def s2_def s3_def s4_def eof_datagram_def add.commute)
  have stop24: "\<not> s_stopRequested s2" "\<not> s_stopRequested s4" using send by (simp_all add: can_send_def)
  have halts: "halts_at 0 s \<longleftrightarrow> s_sleepHalts s1 \<noteq> [] \<and> hd (s_sleepHalts s1)"
    "halts_at 1 s \<longleftrightarrow> s_sleepHalts s3 \<noteq> [] \<and> hd (s_sleepHalts s3)"
    by (cases "s_sleepHalts s"; cases "tl (s_sleepHalts s)"; simp add: halts_at_def s1_def s2_def s3_def)+
  note sl1 = sleep_cases [of 20 s1, OF _ stop(1)] and sl2 = sleep_cases [of 60 s3, OF _ stop(2)]
  show ?thesis
  proof (cases "halts_at 0 s")
    case True
    with halts(1) sl1 tr(1) show ?thesis using stop(3) by (simp add: e1 Let_def)
  next
    case h0: False
    with halts(1) sl1 have i1: "interruptibleSleepMs 20 s1 = s2" by (auto simp: s2_def Let_def)
    show ?thesis
    proof (cases "halts_at 1 s")
      case True
      with h0 halts(2) sl2 tr(2) i1 stop24 stop(3) show ?thesis by (simp add: e1 Let_def)
    next
      case False
      with halts(2) sl2 have "interruptibleSleepMs 60 s3 = s4" by (auto simp: s4_def Let_def)
      with h0 False i1 tr(3) stop24 stop(3) show ?thesis by (simp add: e1)
    qed
  qed
qed

theorem eof_burst_sends_three_witness:
  "\<exists>new. s_trace (eof_burst [0, 20, 60] demo_session) = new \<and> length new = 5"
proof -
  have "can_send demo_session" "s_trace demo_session = []" "\<not> halts_at 0 demo_session" "\<not> halts_at 1 demo_session"
    by (simp_all add: can_send_def halts_at_def demo_session_def Session_init_def)
  with eof_burst_sends_three [of demo_session] show ?thesis by auto
qed

section \<open>The command queue\<close>

text \<open>What the worker does with a list of commands, one after the other.\<close>

definition run_item :: "('j, 'c) env \<Rightarrow> TxQueueItem \<Rightarrow> 'c session \<Rightarrow> 'c session" where
  "run_item E item s = (processTxItem E item (s\<lparr>s_txWorkerProcessing := True\<rparr>))\<lparr>s_txWorkerProcessing := False\<rparr>"

lemma txWorkerTurn_item:
  "s_txQueue s = item # rest \<Longrightarrow> txWorkerTurn E s = Some (run_item E item (s\<lparr>s_txQueue := rest\<rparr>))"
  by (simp add: txWorkerTurn_def run_item_def Let_def)

text \<open>Working off a command leaves the others in the queue; only an abort clears them.\<close>

definition same_queue :: "'c session \<Rightarrow> 'c session \<Rightarrow> bool" where
  "same_queue s t \<longleftrightarrow> s_txQueue t = s_txQueue s"

interpretation sq: base_relation E same_queue for E :: "('j, 'c) env"
  by unfold_locales (simp_all add: same_queue_def emit_loss_def observe_def)

definition shorter_queue :: "'c session \<Rightarrow> 'c session \<Rightarrow> bool" where
  "shorter_queue s t \<longleftrightarrow> length (s_txQueue t) \<le> length (s_txQueue s)"

interpretation shq: tx_relation E shorter_queue for E :: "('j, 'c) env"
  by unfold_locales (simp_all add: shorter_queue_def emit_loss_def observe_def)

lemma run_item_queue:
  "ti_op item \<noteq> Op_Abort \<Longrightarrow> s_txQueue (run_item E item s) = s_txQueue s"
  using sq.process_item_R [OF sq.refl, of item "s\<lparr>s_txWorkerProcessing := True\<rparr>" E]
  by (simp add: run_item_def same_queue_def)

lemma run_item_shorter: "length (s_txQueue (run_item E item s)) \<le> length (s_txQueue s)"
  using shq.process_R [OF shq.refl, of "s\<lparr>s_txWorkerProcessing := True\<rparr>" E item]
  by (simp add: run_item_def shorter_queue_def)

lemma txWorkerDrain_empty: "length (s_txQueue s) \<le> n \<Longrightarrow> s_txQueue (txWorkerDrain E n s) = []"
proof (induction n arbitrary: s)
  case (Suc n)
  show ?case
  proof (cases "s_txQueue s")
    case (Cons item rest)
    then have "length (s_txQueue (run_item E item (s\<lparr>s_txQueue := rest\<rparr>))) \<le> n"
      using run_item_shorter [of E item "s\<lparr>s_txQueue := rest\<rparr>"] Suc.prems by simp
    from Suc.IH [OF this] Cons show ?thesis by (simp add: txWorkerTurn_item [OF Cons])
  qed simp
qed simp

text \<open>
  The worker takes the commands in the order they were submitted, each exactly once: a queue
  without aborts is worked off as the sequence of its commands, as many turns as there are
  commands leave it empty, and joining the worker (which stopping the pipeline does) ends with an
  empty queue whatever the commands are.
\<close>

theorem worker_runs_in_order:
  "s_txQueue (txWorkerDrain E (length (s_txQueue s)) s) = []
   \<and> (list_all (\<lambda>i. ti_op i \<noteq> Op_Abort) (s_txQueue s) \<longrightarrow>
       txWorkerDrain E (length (s_txQueue s)) s =
         fold (\<lambda>item u. run_item E item (u\<lparr>s_txQueue := tl (s_txQueue u)\<rparr>)) (s_txQueue s) s)"
proof (intro conjI impI)
  show "s_txQueue (txWorkerDrain E (length (s_txQueue s)) s) = []"
    by (rule txWorkerDrain_empty) simp
  assume "list_all (\<lambda>i. ti_op i \<noteq> Op_Abort) (s_txQueue s)"
  then show "txWorkerDrain E (length (s_txQueue s)) s =
      fold (\<lambda>item u. run_item E item (u\<lparr>s_txQueue := tl (s_txQueue u)\<rparr>)) (s_txQueue s) s"
  proof (induction "s_txQueue s" arbitrary: s)
    case (Cons item rest)
    have q: "s_txQueue s = item # rest" using Cons.hyps(2) by simp
    let ?t = "run_item E item (s\<lparr>s_txQueue := rest\<rparr>)"
    have rest: "rest = s_txQueue ?t"
      using Cons.prems q run_item_queue [of item E "s\<lparr>s_txQueue := rest\<rparr>"] by simp
    have "txWorkerDrain E (length (s_txQueue ?t)) ?t =
      fold (\<lambda>item u. run_item E item (u\<lparr>s_txQueue := tl (s_txQueue u)\<rparr>)) (s_txQueue ?t) ?t"
      by (rule Cons.hyps(1) [OF rest]) (use Cons.prems q rest in simp)
    then show ?case by (simp add: q txWorkerTurn_item [OF q] rest [symmetric])
  qed simp
qed

definition demo_item :: TxQueueItem where
  "demo_item = tx_item Op_Pcm (replicate 160 5) []"

theorem worker_runs_in_order_witness:
  "let s = demo_session\<lparr>s_txQueue := [demo_item, demo_item]\<rparr>
   in txWorkerDrain demo_env 2 s =
        run_item demo_env demo_item ((run_item demo_env demo_item (s\<lparr>s_txQueue := [demo_item]\<rparr>))\<lparr>s_txQueue := []\<rparr>)"
proof -
  let ?s = "demo_session\<lparr>s_txQueue := [demo_item, demo_item]\<rparr>"
  have "ti_op demo_item \<noteq> Op_Abort" by (simp add: demo_item_def tx_item_def)
  with worker_runs_in_order [of demo_env ?s] run_item_queue [of demo_item demo_env "?s\<lparr>s_txQueue := [demo_item]\<rparr>"]
  show ?thesis by (simp add: numeral_2_eq_2)
qed

text \<open>
  \<open>submitTx\<close> in full: refused without effect when the session is not connected, has no number
  or is stopping (an abort is always taken), when audio is empty, and when 48 commands are
  still waiting after the wait for space; otherwise the command goes to the end of the queue (an
  open empties it first) and the worker runs.
\<close>

theorem submitTx_spec:
  "let (r, t) = submitTx E op pcm opus polls s;
       s1 = (if op = Op_Pcm then submit_wait E polls s else s)
   in if op \<noteq> Op_Abort \<and> (\<not> s_connected s \<or> wc_sessionId (s_welcome s) = 0 \<or> s_stopRequested s \<or> s_txWorkerStop s)
      then t = s \<and> r \<in> {R_NotConnected, R_InvalidArg}
      else if op = Op_Pcm \<and> pcm = [] \<or> op = Op_Opus \<and> opus = [] then (r, t) = (R_InvalidArg, s)
      else if op = Op_Pcm \<and> kTxQueueCapacity \<le> length (s_txQueue s1) then (r, t) = (R_QueueFull, s1)
      else r = R_Ok \<and> s_txWorkerRunning t
           \<and> s_txQueue t = (if op = Op_Open then [] else s_txQueue s1) @ [tx_item op pcm opus]
           \<and> s_trace t = s_trace s1"
  by (cases op) (simp_all add: submitTx_def Let_def push_item_def ensureTxWorkerStarted_def)

theorem submitTx_spec_witness:
  "s_txQueue (snd (submitTx demo_env Op_Close [] [] [] (demo_session\<lparr>s_txQueue := [demo_item]\<rparr>)))
     = [demo_item, tx_item Op_Close [] []]"
  using submitTx_spec [of demo_env Op_Close "[]" "[]" "[]" "demo_session\<lparr>s_txQueue := [demo_item]\<rparr>"]
  by (auto simp: demo_session_def Session_init_def split_beta Let_def)

end
