(* ===== verification/Session_Manager.thy ===== *)
theory Session_Manager
  imports Session_Reach
begin

text \<open>
  \<open>owalkie-core/src/session_manager.cpp\<close>: the registry of sessions. The sessions are an association
  list under their ids (the order stands for the unspecified iteration order of the hash map),
  operations are atomic where the source holds \<open>mu_\<close>, and \<open>mg_opLocked\<close> says whether some thread holds
  the session's \<open>sessionOpMu\<close>. Loops that sleep and look again take what the other threads do in
  each sleep as a list of functions that ends at the loop's deadline.
\<close>

section \<open>The table of sessions\<close>

definition um_find :: "'k \<Rightarrow> ('k \<times> 'v) list \<Rightarrow> 'v option" where
  "um_find k m = map_of m k"

definition um_emplace :: "'k \<Rightarrow> 'v \<Rightarrow> ('k \<times> 'v) list \<Rightarrow> ('k \<times> 'v) list" where
  "um_emplace k v m = (if um_find k m = None then m @ [(k, v)] else m)"

definition um_erase :: "'k \<Rightarrow> ('k \<times> 'v) list \<Rightarrow> ('k \<times> 'v) list" where
  "um_erase k m = filter (\<lambda>e. fst e \<noteq> k) m"

definition um_replace :: "'k \<Rightarrow> 'v \<Rightarrow> ('k \<times> 'v) list \<Rightarrow> ('k \<times> 'v) list" where
  "um_replace k v m = map (\<lambda>e. if fst e = k then (k, v) else e) m"

section \<open>State\<close>

type_synonym session_id = "64 word"

definition kInvalidSessionId :: session_id where "kInvalidSessionId = 0"
definition kMaxManagedSessions :: nat where "kMaxManagedSessions = 16"
definition kTeardownWaitMs :: int where "kTeardownWaitMs = 15000"
definition kDefaultReconnectTimeoutMs :: int where "kDefaultReconnectTimeoutMs = 3500"
definition kConnectTransportWaitMs :: int where "kConnectTransportWaitMs = 800"

record 'c managed =
  mg_session :: "'c session"
  mg_params :: ConnectParams
  mg_userIntent :: bool
  mg_opLocked :: bool

record 'c manager =
  sm_sessions :: "(session_id \<times> 'c managed) list"
  sm_nextId :: session_id
  sm_cleanups :: "'c session list"
  sm_preConnectHook :: bool

definition manager_init :: "'c manager" where
  "manager_init = \<lparr>sm_sessions = [], sm_nextId = 1, sm_cleanups = [], sm_preConnectHook = False\<rparr>"

definition find_managed :: "session_id \<Rightarrow> 'c manager \<Rightarrow> 'c managed option" where
  "find_managed sid m = um_find sid (sm_sessions m)"

definition put_managed :: "session_id \<Rightarrow> 'c managed \<Rightarrow> 'c manager \<Rightarrow> 'c manager" where
  "put_managed sid mg m = m\<lparr>sm_sessions := um_replace sid mg (sm_sessions m)\<rparr>"

definition erase_managed :: "session_id \<Rightarrow> 'c manager \<Rightarrow> 'c manager" where
  "erase_managed sid m = m\<lparr>sm_sessions := um_erase sid (sm_sessions m)\<rparr>"

definition sessionLocked :: "session_id \<Rightarrow> 'c manager \<Rightarrow> 'c session option" where
  "sessionLocked sid m = map_option mg_session (find_managed sid m)"

definition on_session :: "('c session \<Rightarrow> 'c session) \<Rightarrow> 'c managed \<Rightarrow> 'c managed" where
  "on_session f mg = mg\<lparr>mg_session := f (mg_session mg)\<rparr>"

text \<open>An operation on the session of an id, with the result for an id that has none.\<close>

definition with_session :: "'r \<Rightarrow> ('c session \<Rightarrow> 'r \<times> 'c session) \<Rightarrow> session_id \<Rightarrow> 'c manager \<Rightarrow> 'r \<times> 'c manager" where
  "with_session none f sid m =
     (case find_managed sid m of
        None \<Rightarrow> (none, m)
      | Some mg \<Rightarrow> (case f (mg_session mg) of (r, s) \<Rightarrow> (r, put_managed sid (mg\<lparr>mg_session := s\<rparr>) m)))"

section \<open>Taking a session out\<close>

definition signalUserDisconnect :: "'c managed \<Rightarrow> 'c managed" where
  "signalUserDisconnect mg = on_session cancelOngoingConnect (mg\<lparr>mg_userIntent := False\<rparr>)"

text \<open>
  Each element of the list is a round of the loop, with what the other threads do while it
  sleeps; the end of the list is the deadline.
\<close>

fun takeSessionForTeardown ::
  "session_id \<Rightarrow> ('c manager \<Rightarrow> 'c manager) list \<Rightarrow> 'c manager \<Rightarrow> 'c managed option \<times> 'c manager" where
  "takeSessionForTeardown sid [] m = (None, m)"
| "takeSessionForTeardown sid (others # rounds) m =
     (case find_managed sid m of
        None \<Rightarrow> (None, m)
      | Some mg \<Rightarrow>
          let mg = signalUserDisconnect mg; m = put_managed sid mg m
          in if mg_opLocked mg then takeSessionForTeardown sid rounds (others m)
             else (Some mg, erase_managed sid m))"

text \<open>
  A detached thread that waits for the transport to stop and then drops the last reference;
  \<open>sm_cleanups\<close> are the sessions of those threads, so its length is \<open>pendingCleanups_\<close>.
\<close>

definition scheduleSessionCleanup :: "'c session \<Rightarrow> 'c manager \<Rightarrow> 'c manager" where
  "scheduleSessionCleanup s m = m\<lparr>sm_cleanups := sm_cleanups m @ [s]\<rparr>"

definition cleanupThread ::
  "('j, 'c) env \<Rightarrow> (nat \<times> bool) list \<Rightarrow> (nat \<times> bool) list \<Rightarrow> nat \<Rightarrow> 'c manager \<Rightarrow> 'c manager" where
  "cleanupThread E polls polls' k m =
     (if k < length (sm_cleanups m) then
        (case waitUntilTransportStopped E (-1) polls (sm_cleanups m ! k) of
           None \<Rightarrow> m
         | Some s \<Rightarrow>
             (case Session_destroy E polls' s of
                None \<Rightarrow> m
              | Some _ \<Rightarrow> m\<lparr>sm_cleanups := take k (sm_cleanups m) @ drop (Suc k) (sm_cleanups m)\<rparr>))
      else m)"

definition no_callbacks :: "'c session \<Rightarrow> 'c session" where
  "no_callbacks s = Session_setCallbacks False False False s"

definition releaseSession :: "session_id \<Rightarrow> ('c manager \<Rightarrow> 'c manager) list \<Rightarrow> 'c manager \<Rightarrow> 'c manager" where
  "releaseSession sid rounds m =
     (case takeSessionForTeardown sid rounds m of
        (None, m) \<Rightarrow> m
      | (Some owned, m) \<Rightarrow> scheduleSessionCleanup (disconnectSession (no_callbacks (mg_session owned))) m)"

definition haltAndRelease :: "session_id \<Rightarrow> ('c manager \<Rightarrow> 'c manager) list \<Rightarrow> 'c manager \<Rightarrow> 'c manager" where
  "haltAndRelease sid rounds m =
     (case takeSessionForTeardown sid rounds m of
        (None, m) \<Rightarrow> m
      | (Some owned, m) \<Rightarrow> scheduleSessionCleanup (haltTransport (no_callbacks (mg_session owned))) m)"

text \<open>
  Up to five attempts; an attempt that could not take a session that is still registered is
  followed by a sleep of 50 ms, with what the other threads do in it.
\<close>

fun disconnect_attempts ::
  "session_id \<Rightarrow> (('c manager \<Rightarrow> 'c manager) list \<times> ('c manager \<Rightarrow> 'c manager)) list \<Rightarrow> 'c manager \<Rightarrow> 'c manager" where
  "disconnect_attempts sid [] m = m"
| "disconnect_attempts sid ((rounds, others) # attempts) m =
     (case takeSessionForTeardown sid rounds m of
        (Some owned, m) \<Rightarrow> scheduleSessionCleanup (disconnectSession (mg_session owned)) m
      | (None, m) \<Rightarrow>
          (case find_managed sid m of
             None \<Rightarrow> m
           | Some mg \<Rightarrow>
               disconnect_attempts sid attempts
                 (others (put_managed sid (on_session cancelOngoingConnect mg) m))))"

definition disconnect ::
  "session_id \<Rightarrow> (nat \<Rightarrow> ('c manager \<Rightarrow> 'c manager) list \<times> ('c manager \<Rightarrow> 'c manager)) \<Rightarrow> 'c manager \<Rightarrow> 'c manager" where
  "disconnect sid attempt m = disconnect_attempts sid (map attempt [0..<5]) m"

text \<open>Every session is told at once, then they are disconnected one after the other.\<close>

definition disconnectAll ::
  "(session_id \<Rightarrow> nat \<Rightarrow> ('c manager \<Rightarrow> 'c manager) list \<times> ('c manager \<Rightarrow> 'c manager)) \<Rightarrow> 'c manager \<Rightarrow> 'c manager" where
  "disconnectAll attempt m =
     (let m = m\<lparr>sm_sessions := map (\<lambda>(sid, mg). (sid, on_session cancelOngoingConnect (signalUserDisconnect mg)))
                  (sm_sessions m)\<rparr>;
          ids = map fst (sm_sessions m)
      in fold (\<lambda>sid. disconnect sid (attempt sid)) ids m)"

text \<open>The vector \<open>cleanupThreads_\<close> is never filled, so only the first loop of the source waits.\<close>

fun waitForCleanups :: "('c manager \<Rightarrow> 'c manager) list \<Rightarrow> 'c manager \<Rightarrow> 'c manager" where
  "waitForCleanups [] m = m"
| "waitForCleanups (others # rounds) m =
     (if sm_cleanups m \<noteq> [] then waitForCleanups rounds (others m) else m)"

definition disconnectAllAndWait ::
  "(session_id \<Rightarrow> nat \<Rightarrow> ('c manager \<Rightarrow> 'c manager) list \<times> ('c manager \<Rightarrow> 'c manager)) \<Rightarrow>
   ('c manager \<Rightarrow> 'c manager) list \<Rightarrow> 'c manager \<Rightarrow> 'c manager" where
  "disconnectAllAndWait attempt rounds m = waitForCleanups rounds (disconnectAll attempt m)"

section \<open>Preparing and connecting\<close>

text \<open>\<open>wrapCallbacks\<close> always installs an event callback, so the session has one whatever the user gave.\<close>

definition wrapCallbacks :: "bool \<Rightarrow> bool \<Rightarrow> 'c session \<Rightarrow> 'c session" where
  "wrapCallbacks onRxPcm onRxOpus s = Session_setCallbacks True onRxPcm onRxOpus s"

definition prepareConnection :: "ConnectParams \<Rightarrow> bool \<Rightarrow> bool \<Rightarrow> 'c manager \<Rightarrow> session_id \<times> 'c manager" where
  "prepareConnection params onRxPcm onRxOpus m =
     (if length (sm_sessions m) \<ge> kMaxManagedSessions then (kInvalidSessionId, m)
      else
        let sid = sm_nextId m;
            managed = \<lparr>mg_session = wrapCallbacks onRxPcm onRxOpus Session_init, mg_params = params,
                       mg_userIntent = True, mg_opLocked = False\<rparr>
        in (sid, m\<lparr>sm_nextId := sid + 1, sm_sessions := um_emplace sid managed (sm_sessions m)\<rparr>))"

text \<open>
  What \<open>connect\<close> meets: the answers of the network, the polls of its two waits, and what the
  other threads do to the session while it waits for the lock, between its looks at
  \<open>userIntent\<close>, in the rounds of its waits for the welcome, and while it tries to release the
  session after a rejected connect.
\<close>

record 'c connect_sched =
  cs_wait :: "'c manager \<Rightarrow> 'c manager"
  cs_between :: "nat \<Rightarrow> 'c managed \<Rightarrow> 'c managed"
  cs_polls :: "(nat \<times> bool) list"
  cs_teardownPolls :: "(nat \<times> bool) list"
  cs_net :: connect_env
  cs_early :: "('c managed \<Rightarrow> 'c managed) list"
  cs_welcome :: "('c managed \<Rightarrow> 'c managed) list"
  cs_release :: "('c manager \<Rightarrow> 'c manager) list"

definition managed_ready :: "'c managed \<Rightarrow> bool" where
  "managed_ready mg = Session_isSessionReady (mg_session mg)"

text \<open>The loop that waits for the welcome; the end of the list is its deadline.\<close>

fun welcome_wait :: "('c managed \<Rightarrow> 'c managed) list \<Rightarrow> 'c managed \<Rightarrow> 'c managed" where
  "welcome_wait [] mg = mg"
| "welcome_wait (others # rounds) mg =
     (if \<not> mg_userIntent mg then mg
      else if managed_ready mg then mg
      else if \<not> Session_isConnected (mg_session mg) then mg
      else welcome_wait rounds (others mg))"

text \<open>The attempt itself; the flag tells whether the session is to be released afterwards.\<close>

definition manager_attempt ::
  "('j, 'c) env \<Rightarrow> 'c connect_sched \<Rightarrow> int \<Rightarrow> 'c managed \<Rightarrow> outcome \<times> bool \<times> 'c managed" where
  "manager_attempt E sch connectTimeout mg =
     (case reconnectConnect E (cs_net sch) (mg_params mg) connectTimeout (mg_session mg) of
        (Returned result, s) \<Rightarrow>
          let mg = mg\<lparr>mg_session := s\<rparr>;
              mg = (if result = R_Ok \<and> \<not> managed_ready mg \<and> mg_userIntent mg
                    then welcome_wait (cs_welcome sch) mg else mg)
          in if result = R_Ok \<and> managed_ready mg then (Returned R_Ok, False, mg)
             else if result = R_Ok then (Returned R_Network, False, mg)
             else if result = R_InvalidArg \<or> result = R_Unsupported \<or> result = R_Protocol
             then (Returned result, True,
                   on_session (emitConnectionFailed (if result = R_InvalidArg
                     then ''invalid connect parameters'' else ''connect failed'')) mg)
             else (Returned result, False, mg)
      | (oc, s) \<Rightarrow> (oc, False, mg\<lparr>mg_session := s\<rparr>))"

definition manager_teardown ::
  "('j, 'c) env \<Rightarrow> 'c connect_sched \<Rightarrow> int \<Rightarrow> 'c managed \<Rightarrow> outcome \<times> bool \<times> 'c managed" where
  "manager_teardown E sch connectTimeout mg =
     (case reconnectTeardown E (cs_teardownPolls sch) (mg_session mg) of
        (Running, s) \<Rightarrow> (Running, False, mg\<lparr>mg_session := s\<rparr>)
      | (_, s) \<Rightarrow>
          let mg = mg\<lparr>mg_session := Session_clearConnectionLostSignaled s\<rparr>;
              mg = cs_between sch 2 mg
          in if \<not> mg_userIntent mg then (Returned R_InvalidArg, False, mg)
             else
               let mg = cs_between sch 3 mg
               in if \<not> mg_userIntent mg then (Returned R_InvalidArg, False, mg)
                  else manager_attempt E sch connectTimeout (cs_between sch 4 mg))"

text \<open>\<open>connect\<close> from the second look at \<open>userIntent\<close>, with the session's lock held.\<close>

definition connect_locked ::
  "('j, 'c) env \<Rightarrow> 'c connect_sched \<Rightarrow> int \<Rightarrow> 'c managed \<Rightarrow> outcome \<times> bool \<times> 'c managed" where
  "connect_locked E sch connectTimeout mg =
     (if \<not> mg_userIntent mg then (Returned R_InvalidArg, False, mg)
      else if managed_ready mg then (Returned R_Ok, False, mg)
      else
        let mg = on_session cancelOngoingConnect mg; mg = on_session haltTransport mg
        in (case waitUntilTransportStopped E kConnectTransportWaitMs (cs_polls sch) (mg_session mg) of
              None \<Rightarrow> (Running, False, mg)
            | Some s \<Rightarrow>
                let mg = cs_between sch 1 (mg\<lparr>mg_session := s\<rparr>)
                in if \<not> mg_userIntent mg then (Returned R_InvalidArg, False, mg)
                   else if managed_ready mg then (Returned R_Ok, False, mg)
                   else
                     let early = (Session_isConnected (mg_session mg) \<and> \<not> managed_ready mg);
                         mg = (if early then welcome_wait (cs_early sch) mg else mg)
                     in if early \<and> managed_ready mg then (Returned R_Ok, False, mg)
                        else manager_teardown E sch connectTimeout mg))"

text \<open>
  The whole call. A session that another thread takes while this one waits for the lock has
  lost its intent, so the call then ends with \<open>InvalidArg\<close>. The lock is held to the end, also
  during the release after a rejected connect.
\<close>

definition connect ::
  "('j, 'c) env \<Rightarrow> 'c connect_sched \<Rightarrow> session_id \<Rightarrow> int \<Rightarrow> 'c manager \<Rightarrow> outcome \<times> 'c manager" where
  "connect E sch sid timeoutMs m =
     (case find_managed sid m of
        None \<Rightarrow> (Returned R_InvalidArg, m)
      | Some managed \<Rightarrow>
          if \<not> mg_userIntent managed then (Returned R_InvalidArg, m)
          else if managed_ready managed then (Returned R_Ok, m)
          else
            let connectTimeout = (if timeoutMs > 0 then timeoutMs else kDefaultReconnectTimeoutMs);
                m = cs_wait sch m
            in (case find_managed sid m of
                  None \<Rightarrow> (Returned R_InvalidArg, m)
                | Some mg \<Rightarrow>
                    if mg_opLocked mg then (Running, m)
                    else (case connect_locked E sch connectTimeout (mg\<lparr>mg_opLocked := True\<rparr>) of
                            (Running, _, mg) \<Rightarrow> (Running, put_managed sid mg m)
                          | (oc, release, mg) \<Rightarrow>
                              let m = put_managed sid mg m;
                                  m = (if release then releaseSession sid (cs_release sch) m else m)
                              in (oc, case find_managed sid m of
                                        None \<Rightarrow> m
                                      | Some mg \<Rightarrow> put_managed sid (mg\<lparr>mg_opLocked := False\<rparr>) m))))"

section \<open>The other operations\<close>

definition isValid :: "session_id \<Rightarrow> 'c manager \<Rightarrow> bool" where
  "isValid sid m = (if sid = kInvalidSessionId then False else find_managed sid m \<noteq> None)"

definition isSessionReady :: "session_id \<Rightarrow> 'c manager \<Rightarrow> bool" where
  "isSessionReady sid m = (case sessionLocked sid m of None \<Rightarrow> False | Some s \<Rightarrow> Session_isSessionReady s)"

definition getSessionInfo :: "session_id \<Rightarrow> 'c manager \<Rightarrow> Result \<times> (SessionState \<times> bool) option" where
  "getSessionInfo sid m =
     (case sessionLocked sid m of
        None \<Rightarrow> (R_InvalidArg, None)
      | Some s \<Rightarrow> (R_Ok, Some (Session_state s, Session_isSessionReady s)))"

definition manager_submitTx ::
  "('j, 'c) env \<Rightarrow> TxSubmitOp \<Rightarrow> pcm \<Rightarrow> u8 list \<Rightarrow> nat list \<Rightarrow> session_id \<Rightarrow> 'c manager \<Rightarrow> Result \<times> 'c manager" where
  "manager_submitTx E op pcm opus polls =
     with_session R_InvalidArg (\<lambda>s.
       if op \<noteq> Op_Abort \<and> \<not> Session_isSessionReady s then (R_NotReady, s)
       else submitTx E op pcm opus polls s)"

definition manager_waitTxQueueIdle ::
  "('j, 'c) env \<Rightarrow> int \<Rightarrow> (nat \<times> nat) list \<Rightarrow> session_id \<Rightarrow> 'c manager \<Rightarrow> bool \<times> 'c manager" where
  "manager_waitTxQueueIdle E timeoutMs polls = with_session True (waitTxQueueIdle E timeoutMs polls)"

definition manager_setRepeaterMode ::
  "('j, 'c) env \<Rightarrow> bool \<Rightarrow> session_id \<Rightarrow> 'c manager \<Rightarrow> outcome \<times> 'c manager" where
  "manager_setRepeaterMode E enabled sid m =
     (case find_managed sid m of
        None \<Rightarrow> (Returned R_InvalidArg, m)
      | Some mg \<Rightarrow>
          let mg = mg\<lparr>mg_params := (mg_params mg)\<lparr>cp_repeaterMode := enabled\<rparr>\<rparr>
          in (case Session_setRepeaterMode E enabled (mg_session mg) of
                (oc, s) \<Rightarrow> (oc, put_managed sid (mg\<lparr>mg_session := s\<rparr>) m)))"

definition manager_setPowerProfile :: "PowerProfile \<Rightarrow> session_id \<Rightarrow> 'c manager \<Rightarrow> 'c manager" where
  "manager_setPowerProfile profile sid m = snd (with_session () (\<lambda>s. ((), Session_setPowerProfile profile s)) sid m)"

definition manager_punchNat :: "session_id \<Rightarrow> 'c manager \<Rightarrow> Result \<times> 'c manager" where
  "manager_punchNat = with_session R_InvalidArg punchUdpNat"

definition setPreConnectHook :: "bool \<Rightarrow> 'c manager \<Rightarrow> 'c manager" where
  "setPreConnectHook hook m = m\<lparr>sm_preConnectHook := hook\<rparr>"

end
