(* ===== verification/Activity_Probe.thy ===== *)
theory Activity_Probe
  imports Json_Wire Host_Endpoint Net_Poll Keepalive
begin

text \<open>
  \<open>owalkie-core/src/activity_probe.cpp\<close>: the one-shot question whether a channel is active. The
  waits are those of theory \<open>Net_Poll\<close>; each blocking read of the WebSocket takes its time and
  its outcome from a list, and \<open>None\<close> as a result means that the probe is still reading after
  them. Times are nanoseconds.
\<close>

definition kDefaultTimeoutMs :: int where "kDefaultTimeoutMs = 4000"
definition kProbeResolveTimeoutMs :: int where "kProbeResolveTimeoutMs = 2500"
definition kProbeConnectTimeoutMs :: int where "kProbeConnectTimeoutMs = 3500"
definition kReadSliceMs :: int where "kReadSliceMs = 400"

datatype ws_read = Rd_Text string | Rd_Timeout | Rd_Error

record probe_env =
  pn_resolve :: wait_env
  pn_connect :: wait_env
  pn_handshake :: wait_env
  pn_writeOk :: bool

text \<open>\<open>duration_cast<milliseconds>\<close> truncates.\<close>

definition ms_left :: "int \<Rightarrow> int \<Rightarrow> int" where
  "ms_left deadline now = (deadline - now) sdiv kNsPerMs"

text \<open>A wait of the probe: whether the operation succeeded, and the time after it.\<close>

definition probe_wait :: "int \<Rightarrow> int \<Rightarrow> wait_env \<Rightarrow> (bool \<times> int) option" where
  "probe_wait timeoutMs now we =
     (case await False (timeoutMs * kNsPerMs) now False we of
        None \<Rightarrow> None
      | Some (completed, t, _) \<Rightarrow> Some (completed = Some True, t))"

definition probe_resolve :: "probe_env \<Rightarrow> int \<Rightarrow> int \<Rightarrow> (bool \<times> int) option" where
  "probe_resolve net timeoutMs now = probe_wait timeoutMs now (pn_resolve net)"

definition probe_connect :: "probe_env \<Rightarrow> int \<Rightarrow> int \<Rightarrow> (bool \<times> int) option" where
  "probe_connect net timeoutMs now = probe_wait timeoutMs now (pn_connect net)"

definition probe_handshake :: "probe_env \<Rightarrow> int \<Rightarrow> int \<Rightarrow> (bool \<times> int) option" where
  "probe_handshake net timeoutMs now = probe_wait timeoutMs now (pn_handshake net)"

text \<open>
  \<open>readWsText\<close>: a text or nothing, the time, and the reads that are left.
\<close>

fun readWsText :: "int \<Rightarrow> int \<Rightarrow> (nat \<times> ws_read) list \<Rightarrow> (string option \<times> int \<times> (nat \<times> ws_read) list) option" where
  "readWsText deadline now [] =
     (if now < deadline \<and> ms_left deadline now > 0 then None else Some (None, now, []))"
| "readWsText deadline now ((d, r) # reads) =
     (if now < deadline \<and> ms_left deadline now > 0 then
        (case r of
           Rd_Text msg \<Rightarrow> Some (Some msg, now + int d, reads)
         | Rd_Timeout \<Rightarrow> readWsText deadline (now + int d) reads
         | Rd_Error \<Rightarrow> Some (None, now + int d, reads))
      else Some (None, now, (d, r) # reads))"

definition messageTypeIs :: "'j json_lib \<Rightarrow> string \<Rightarrow> string \<Rightarrow> bool" where
  "messageTypeIs L msg ty =
     (case jl_parse L msg of
        None \<Rightarrow> False
      | Some root \<Rightarrow> (case jl_value_string L root ''type'' [] of None \<Rightarrow> False | Some t \<Rightarrow> t = ty))"

lemma readWsText_shorter:
  "readWsText deadline now reads = Some (Some msg, t, rest) \<Longrightarrow> length rest < length reads"
  by (induction deadline now reads rule: readWsText.induct) (auto split: if_splits ws_read.splits)

function probe_answers ::
  "'j json_lib \<Rightarrow> int \<Rightarrow> int \<Rightarrow> (nat \<times> ws_read) list \<Rightarrow> (Result \<times> bool \<times> int) option" where
  "probe_answers L deadline now reads =
     (if now < deadline then
        (case readWsText deadline now reads of
           None \<Rightarrow> None
         | Some (None, t, _) \<Rightarrow> Some (R_Network, False, t)
         | Some (Some msg, t, rest) \<Rightarrow>
             if messageTypeIs L msg ''has_activity'' then
               (case parseHasActivityResponse L msg False of (r, active) \<Rightarrow>
                  Some (if r = R_Ok then R_Ok else R_Protocol, active, t))
             else probe_answers L deadline t rest)
      else Some (R_Network, False, now))"
  by pat_completeness auto
termination
  by (relation "measure (\<lambda>(L, deadline, now, reads). length reads)") (auto dest: readWsText_shorter)

declare probe_answers.simps [simp del]

text \<open>After the handshake: the welcome, the question, the answer.\<close>

definition probe_talk ::
  "'j json_lib \<Rightarrow> probe_env \<Rightarrow> string \<Rightarrow> int \<Rightarrow> int \<Rightarrow> (nat \<times> ws_read) list \<Rightarrow> (Result \<times> bool \<times> int) option" where
  "probe_talk L net channel deadline now reads =
     (case readWsText deadline now reads of
        None \<Rightarrow> None
      | Some (None, t, _) \<Rightarrow> Some (R_Network, False, t)
      | Some (Some msg, t, rest) \<Rightarrow>
          if \<not> messageTypeIs L msg ''welcome'' then Some (R_Network, False, t)
          else if buildHasActivity L channel = None then Some (R_Network, False, t)
          else if \<not> pn_writeOk net then Some (R_Network, False, t)
          else probe_answers L deadline t rest)"

text \<open>The result, what \<open>outActive\<close> holds, and the time when the call returns.\<close>

definition checkChannelActivity ::
  "'j json_lib \<Rightarrow> probe_env \<Rightarrow> (nat \<times> ws_read) list \<Rightarrow> ConnectParams \<Rightarrow> int \<Rightarrow> int \<Rightarrow> (Result \<times> bool \<times> int) option" where
  "checkChannelActivity L net reads params timeoutMs now =
     (if cp_host params = [] \<or> cp_port params < 1 \<or> cp_port params > 65535 then Some (R_InvalidArg, False, now)
      else
        let parsed = probe_parseHostEndpoint (cp_host params)
        in if pr_host parsed = [] then Some (R_InvalidArg, False, now)
           else if cp_useTls params \<or> pr_useTls parsed then Some (R_Unsupported, False, now)
           else
             let channel = (if cp_channel params = [] then ''global'' else cp_channel params);
                 budgetMs = (if timeoutMs > 0 then timeoutMs else kDefaultTimeoutMs);
                 deadline = now + budgetMs * kNsPerMs
             in (case probe_resolve net (min kProbeResolveTimeoutMs budgetMs) now of
                   None \<Rightarrow> None
                 | Some (ok, t) \<Rightarrow>
                     if \<not> ok then Some (R_Network, False, t)
                     else if ms_left deadline t \<le> 0 then Some (R_Network, False, t)
                     else (case probe_connect net (min kProbeConnectTimeoutMs (ms_left deadline t)) t of
                             None \<Rightarrow> None
                           | Some (ok, t) \<Rightarrow>
                               if \<not> ok then Some (R_Network, False, t)
                               else if ms_left deadline t \<le> 0 then Some (R_Network, False, t)
                               else (case probe_handshake net (min kProbeConnectTimeoutMs (ms_left deadline t)) t of
                                       None \<Rightarrow> None
                                     | Some (ok, t) \<Rightarrow>
                                         if \<not> ok then Some (R_Network, False, t)
                                         else probe_talk L net channel deadline t reads))))"

section \<open>What an answer rests on\<close>

lemma readWsText_text:
  "readWsText deadline now reads = Some (Some msg, t, rest) \<Longrightarrow> \<exists>pre d. reads = pre @ (d, Rd_Text msg) # rest"
proof (induction deadline now reads rule: readWsText.induct)
  case (2 deadline now d r reads)
  show ?case
  proof (cases r)
    case Rd_Timeout
    with 2 obtain pre d' where "reads = pre @ (d', Rd_Text msg) # rest" by (auto split: if_splits)
    then show ?thesis by (intro exI [of _ "(d, r) # pre"]) auto
  next
    case (Rd_Text m)
    with 2 have "(d, r) # reads = [] @ (d, Rd_Text msg) # rest" by (auto split: if_splits)
    then show ?thesis by blast
  qed (use 2 in \<open>auto split: if_splits\<close>)
qed (auto split: if_splits)

definition answered :: "'j json_lib \<Rightarrow> (nat \<times> ws_read) list \<Rightarrow> bool \<Rightarrow> bool" where
  "answered L reads active \<longleftrightarrow> (\<exists>pre d msg post. reads = pre @ (d, Rd_Text msg) # post
     \<and> messageTypeIs L msg ''has_activity'' \<and> parseHasActivityResponse L msg False = (R_Ok, active))"

lemma answered_append: "answered L reads active \<Longrightarrow> answered L (pre @ x # reads) active"
  unfolding answered_def by (metis append_Cons append_assoc)

lemma parse_activity_false: "parseHasActivityResponse L msg False = (r, active) \<Longrightarrow> r \<noteq> R_Ok \<Longrightarrow> \<not> active"
  by (auto simp: parseHasActivityResponse_def catching_def split: option.splits if_splits)

lemma probe_answers_sound:
  "probe_answers L deadline now reads = Some (r, active, t) \<Longrightarrow>
     (r = R_Ok \<longrightarrow> answered L reads active) \<and> (r \<noteq> R_Ok \<longrightarrow> \<not> active) \<and> r \<in> {R_Ok, R_Protocol, R_Network}"
proof (induction L deadline now reads rule: probe_answers.induct)
  case (1 L deadline now reads)
  show ?case
  proof (cases "now < deadline")
    case False
    with 1 show ?thesis by (auto simp: probe_answers.simps [of L deadline now])
  next
    case True
    obtain m u rest where m: "readWsText deadline now reads = Some (m, u, rest)"
      using 1(2) True by (cases "readWsText deadline now reads") (auto simp: probe_answers.simps [of L deadline now])
    show ?thesis
    proof (cases m)
      case None
      with 1(2) True m show ?thesis by (auto simp: probe_answers.simps [of L deadline now])
    next
      case (Some msg)
      obtain pre d where reads: "reads = pre @ (d, Rd_Text msg) # rest"
        using readWsText_text m Some by blast
      show ?thesis
      proof (cases "messageTypeIs L msg ''has_activity''")
        case True': True
        obtain r' a where p: "parseHasActivityResponse L msg False = (r', a)" by fastforce
        from 1(2) True True' m Some p have "active = a" "r = (if r' = R_Ok then R_Ok else R_Protocol)"
          by (auto simp: probe_answers.simps [of L deadline now])
        with p parse_activity_false [OF p] reads True' show ?thesis by (auto simp: answered_def)
      next
        case False
        with 1(2) True m Some have "probe_answers L deadline u rest = Some (r, active, t)"
          by (simp add: probe_answers.simps [of L deadline now])
        moreover have "probe_answers L deadline u rest = Some (r, active, t) \<Longrightarrow>
            (r = R_Ok \<longrightarrow> answered L rest active) \<and> (r \<noteq> R_Ok \<longrightarrow> \<not> active) \<and> r \<in> {R_Ok, R_Protocol, R_Network}"
          using 1(1) [OF True m refl Some refl False] by simp
        ultimately show ?thesis
          using answered_append [of L rest active pre "(d, Rd_Text msg)"] reads by auto
      qed
    qed
  qed
qed

text \<open>
  The probe never invents an answer: it reports success only when the server has sent a welcome
  and, after it, a \<open>has_activity\<close> message, whose flag it returns; in every other case
  (bad parameters, TLS, a failed or timed out step, a malformed answer) it
  returns an error and says that the channel is not active.
\<close>

theorem probe_answer_sound:
  assumes "checkChannelActivity L net reads params timeoutMs now = Some (r, active, t)"
  shows "(r = R_Ok \<longrightarrow> (\<exists>pre d welcome rest. reads = pre @ (d, Rd_Text welcome) # rest
            \<and> messageTypeIs L welcome ''welcome'' \<and> answered L rest active))
    \<and> (r \<noteq> R_Ok \<longrightarrow> \<not> active) \<and> r \<in> {R_Ok, R_InvalidArg, R_Unsupported, R_Network, R_Protocol}"
proof -
  have talk: ?thesis if talk: "probe_talk L net channel deadline u reads = Some (r, active, t)" for channel deadline u
  proof -
    obtain m v rest where m: "readWsText deadline u reads = Some (m, v, rest)"
      using talk by (cases "readWsText deadline u reads") (auto simp: probe_talk_def)
    show ?thesis
    proof (cases m)
      case None
      with talk m show ?thesis by (auto simp: probe_talk_def)
    next
      case (Some msg)
      obtain pre d where e: "reads = pre @ (d, Rd_Text msg) # rest"
        using readWsText_text m Some by blast
      show ?thesis
      proof (cases "messageTypeIs L msg ''welcome'' \<and> buildHasActivity L channel \<noteq> None \<and> pn_writeOk net")
        case True
        then have "probe_answers L deadline v rest = Some (r, active, t)"
          using talk m Some by (auto simp: probe_talk_def)
        from probe_answers_sound [OF this] True e show ?thesis by blast
      next
        case False
        then have "probe_talk L net channel deadline u reads = Some (R_Network, False, v)"
          using m Some by (auto simp: probe_talk_def)
        with talk show ?thesis by simp
      qed
    qed
  qed
  have "(\<exists>channel deadline u. probe_talk L net channel deadline u reads = Some (r, active, t))
      \<or> r \<in> {R_InvalidArg, R_Unsupported, R_Network} \<and> \<not> active"
    using assms unfolding checkChannelActivity_def Let_def
    by (simp split: if_splits option.splits prod.splits) blast+
  then show ?thesis using talk by auto
qed

section \<open>In time\<close>

definition reads_ns :: "(nat \<times> ws_read) list \<Rightarrow> int" where
  "reads_ns reads = (\<Sum>(d, r)\<leftarrow>reads. int d)"

definition slack_reads :: "int \<Rightarrow> (nat \<times> ws_read) list \<Rightarrow> bool" where
  "slack_reads slackNs reads \<longleftrightarrow> list_all (\<lambda>(d, r). int d \<le> kReadSliceMs * kNsPerMs + slackNs) reads"

lemma ms_left_pos: "now < deadline \<Longrightarrow> \<not> 0 < ms_left deadline now \<Longrightarrow> deadline - now < kNsPerMs"
  by (simp add: ms_left_def kNsPerMs_def signed_divide_int_def sgn_if)

text \<open>A read ends after the time that is left, and what remains of the list still covers the rest.\<close>

lemma readWsText_ends:
  assumes "deadline \<le> now + reads_ns reads" and "slack_reads slackNs reads" and "0 \<le> slackNs"
  shows "\<exists>m t rest. readWsText deadline now reads = Some (m, t, rest) \<and> now \<le> t
    \<and> t \<le> max now (deadline + kReadSliceMs * kNsPerMs + slackNs)
    \<and> deadline \<le> t + reads_ns rest \<and> slack_reads slackNs rest"
  using assms
proof (induction deadline now reads rule: readWsText.induct)
  case (1 deadline now)
  then show ?case by (auto simp: reads_ns_def)
next
  case (2 deadline now d r reads)
  have d: "0 \<le> int d" "int d \<le> kReadSliceMs * kNsPerMs + slackNs" "slack_reads slackNs reads"
    using 2(3) by (auto simp: slack_reads_def)
  have s: "deadline \<le> now + int d + reads_ns reads" using 2(2) by (simp add: reads_ns_def)
  show ?case
  proof (cases "now < deadline \<and> ms_left deadline now > 0")
    case True
    show ?thesis
    proof (cases r)
      case Rd_Timeout
      from 2(1) [OF True Rd_Timeout s d(3) 2(4)] obtain m t rest where
        "readWsText deadline (now + int d) reads = Some (m, t, rest)" "now + int d \<le> t"
        "t \<le> max (now + int d) (deadline + kReadSliceMs * kNsPerMs + slackNs)"
        "deadline \<le> t + reads_ns rest" "slack_reads slackNs rest" by blast
      with True Rd_Timeout d show ?thesis by auto
    qed (use True s d in auto)
  next
    case False
    with 2 show ?thesis by auto
  qed
qed

lemma probe_answers_ends:
  assumes "deadline \<le> now + reads_ns reads" and "slack_reads slackNs reads" and "0 \<le> slackNs"
  shows "\<exists>r a t. probe_answers L deadline now reads = Some (r, a, t)
    \<and> t \<le> max now (deadline + kReadSliceMs * kNsPerMs + slackNs)"
  using assms
proof (induction L deadline now reads rule: probe_answers.induct)
  case (1 L deadline now reads)
  show ?case
  proof (cases "now < deadline")
    case False
    then show ?thesis by (auto simp: probe_answers.simps [of L deadline now])
  next
    case True
    obtain m u rest where m: "readWsText deadline now reads = Some (m, u, rest)" "now \<le> u"
      "u \<le> max now (deadline + kReadSliceMs * kNsPerMs + slackNs)"
      "deadline \<le> u + reads_ns rest" "slack_reads slackNs rest"
      using readWsText_ends [OF 1(2,3,4)] by blast
    show ?thesis
    proof (cases m)
      case None
      with True m show ?thesis by (auto simp: probe_answers.simps [of L deadline now])
    next
      case (Some msg)
      show ?thesis
      proof (cases "messageTypeIs L msg ''has_activity''")
        case True': True
        with True m Some show ?thesis
          by (cases "parseHasActivityResponse L msg False") (auto simp: probe_answers.simps [of L deadline now])
      next
        case False
        from 1(1) [OF True m(1) refl Some refl False m(4,5) 1(4)] True False m Some show ?thesis
          by (auto simp: probe_answers.simps [of L deadline now])
      qed
    qed
  qed
qed

text \<open>The three asynchronous steps, in an environment that respects the slices.\<close>

definition wait_ok :: "int \<Rightarrow> int \<Rightarrow> wait_env \<Rightarrow> bool" where
  "wait_ok sliceMs slackNs we \<longleftrightarrow> list_all (slice_ok (sliceMs * kNsPerMs) slackNs) (we_slices we)
     \<and> kProbeConnectTimeoutMs \<le> int (length (we_slices we)) * sliceMs
     \<and> 0 \<le> sl_ns (we_final we) \<and> sl_ns (we_final we) \<le> 100 * kNsPerMs + slackNs"

lemma probe_wait_ends:
  assumes "wait_ok sliceMs slackNs we" "0 < sliceMs" "sliceMs \<le> 100" "0 < ms" "ms \<le> kProbeConnectTimeoutMs" "0 \<le> slackNs"
  shows "\<exists>ok t. probe_wait ms now we = Some (ok, t) \<and> now \<le> t \<and> t \<le> now + ms * kNsPerMs + 200 * kNsPerMs + 2 * slackNs"
proof -
  have "ms * kNsPerMs \<le> int (length (we_slices we)) * (sliceMs * kNsPerMs)"
    using assms(1,5) by (simp add: wait_ok_def kNsPerMs_def)
  from await_ends [of "sliceMs * kNsPerMs" "ms * kNsPerMs" slackNs we "100 * kNsPerMs + slackNs" False now False]
  obtain c t st where "await False (ms * kNsPerMs) now False we = Some (c, t, st)" "now \<le> t"
    "t \<le> now + ms * kNsPerMs + sliceMs * kNsPerMs + slackNs + (100 * kNsPerMs + slackNs)"
    using assms \<open>ms * kNsPerMs \<le> _\<close> by (auto simp: wait_ok_def kNsPerMs_def)
  moreover have "sliceMs * kNsPerMs \<le> 100 * kNsPerMs" using assms(3) by (simp add: kNsPerMs_def)
  ultimately show ?thesis by (auto simp: probe_wait_def)
qed

definition probe_env_ok :: "int \<Rightarrow> probe_env \<Rightarrow> bool" where
  "probe_env_ok slackNs net \<longleftrightarrow> 0 \<le> slackNs \<and> wait_ok 100 slackNs (pn_resolve net)
     \<and> wait_ok 50 slackNs (pn_connect net) \<and> wait_ok 50 slackNs (pn_handshake net)"

lemma ms_left_bound: "0 < ms_left deadline t \<Longrightarrow> t + ms_left deadline t * kNsPerMs \<le> deadline \<and> t < deadline"
proof -
  assume p: "0 < ms_left deadline t"
  have lt: "t < deadline"
  proof (rule ccontr)
    assume "\<not> t < deadline"
    then have "ms_left deadline t = - ((t - deadline) div 1000000)"
      by (auto simp: ms_left_def kNsPerMs_def signed_divide_int_def sgn_if)
    moreover have "0 \<le> (t - deadline) div 1000000" using \<open>\<not> t < deadline\<close> by simp
    ultimately show False using p by simp
  qed
  then have "ms_left deadline t = (deadline - t) div 1000000"
    by (simp add: ms_left_def kNsPerMs_def signed_divide_int_def sgn_if)
  then show ?thesis using lt by (simp add: kNsPerMs_def)
qed

text \<open>
  The probe always returns, and in time: when the slices of its waits and the receive timeouts of
  its reads are respected up to a scheduling delay, it returns no later than its budget plus
  four tenths of a second (one read or the overshoot of one wait) plus twice the
  delay, whatever the server sends or withholds.
\<close>

theorem probe_in_time:
  assumes "probe_env_ok slackNs net" and "slack_reads slackNs reads"
    and "(if timeoutMs > 0 then timeoutMs else kDefaultTimeoutMs) * kNsPerMs \<le> reads_ns reads"
  shows "\<exists>r active t. checkChannelActivity L net reads params timeoutMs now = Some (r, active, t)
    \<and> t \<le> now + (if timeoutMs > 0 then timeoutMs else kDefaultTimeoutMs) * kNsPerMs + 400 * kNsPerMs + 2 * slackNs"
proof -
  let ?budget = "if timeoutMs > 0 then timeoutMs else kDefaultTimeoutMs"
  define deadline where "deadline = now + ?budget * kNsPerMs"
  let ?late = "deadline + 400 * kNsPerMs + 2 * slackNs"
  have b: "0 < ?budget" by (simp add: kDefaultTimeoutMs_def)
  have e: "0 \<le> slackNs" "wait_ok 100 slackNs (pn_resolve net)" "wait_ok 50 slackNs (pn_connect net)"
    "wait_ok 50 slackNs (pn_handshake net)" using assms(1) by (simp_all add: probe_env_ok_def)
  have wait: "\<exists>ok t'. probe_wait ms t we = Some (ok, t') \<and> t \<le> t' \<and> t' \<le> ?late"
    if "wait_ok sl slackNs we" "0 < sl" "sl \<le> 100" "0 < ms" "ms \<le> kProbeConnectTimeoutMs" "t + ms * kNsPerMs \<le> deadline"
    for sl we ms t
    using probe_wait_ends [OF that(1-5) e(1), of t] that(6) by (fastforce simp: kNsPerMs_def)
  have "min kProbeResolveTimeoutMs ?budget * kNsPerMs \<le> ?budget * kNsPerMs"
    by (intro mult_right_mono) (simp_all add: kNsPerMs_def)
  moreover have "min kProbeResolveTimeoutMs ?budget \<le> kProbeConnectTimeoutMs"
    by (simp add: kProbeResolveTimeoutMs_def kProbeConnectTimeoutMs_def min_le_iff_disj)
  ultimately obtain ok1 t1 where r: "probe_resolve net (min kProbeResolveTimeoutMs ?budget) now = Some (ok1, t1)"
    "now \<le> t1" "t1 \<le> ?late"
    using wait [OF e(2), of "min kProbeResolveTimeoutMs ?budget" now] b
    by (auto simp: probe_resolve_def deadline_def kProbeResolveTimeoutMs_def)
  have step: "\<exists>ok t'. probe_wait (min kProbeConnectTimeoutMs (ms_left deadline t)) t we = Some (ok, t') \<and> t \<le> t' \<and> t' \<le> ?late"
    if "\<not> ms_left deadline t \<le> 0" "wait_ok 50 slackNs we" for t we
  proof (rule wait [OF that(2)])
    have "min kProbeConnectTimeoutMs (ms_left deadline t) * kNsPerMs \<le> ms_left deadline t * kNsPerMs"
      by (intro mult_right_mono) (simp_all add: kNsPerMs_def)
    then show "t + min kProbeConnectTimeoutMs (ms_left deadline t) * kNsPerMs \<le> deadline"
      using ms_left_bound [of deadline t] that(1) by linarith
  qed (use that in \<open>simp_all add: kProbeConnectTimeoutMs_def\<close>)
  have talk: "\<exists>r a u. probe_talk L net channel deadline t reads = Some (r, a, u) \<and> u \<le> ?late"
    if nt: "now \<le> t" "t \<le> ?late" for channel t
  proof -
    have d: "deadline \<le> t + reads_ns reads" using assms(3) nt(1) by (simp add: deadline_def)
    obtain m u rest where m: "readWsText deadline t reads = Some (m, u, rest)" "u \<le> ?late"
      "deadline \<le> u + reads_ns rest" "slack_reads slackNs rest"
      using readWsText_ends [OF d assms(2) e(1)] nt(2) e(1) by (auto simp: kReadSliceMs_def)
    obtain r a v where "probe_answers L deadline u rest = Some (r, a, v)" "v \<le> ?late"
      using probe_answers_ends [OF m(3,4) e(1), of L] m(2) e(1) by (auto simp: kReadSliceMs_def)
    with m show ?thesis by (cases m) (auto simp: probe_talk_def)
  qed
  let ?params_ok = "\<not> (cp_host params = [] \<or> cp_port params < 1 \<or> cp_port params > 65535
    \<or> pr_host (probe_parseHostEndpoint (cp_host params)) = []
    \<or> cp_useTls params \<or> pr_useTls (probe_parseHostEndpoint (cp_host params)))"
  have "\<exists>r a u. checkChannelActivity L net reads params timeoutMs now = Some (r, a, u) \<and> u \<le> ?late"
  proof (cases ?params_ok)
    case False
    then show ?thesis using b e(1) by (auto simp: checkChannelActivity_def Let_def deadline_def kNsPerMs_def)
  next
    case True
    show ?thesis
    proof (cases "ok1 \<and> \<not> ms_left deadline t1 \<le> 0")
      case False
      with True r show ?thesis by (auto simp: checkChannelActivity_def Let_def deadline_def [symmetric])
    next
      case s1: True
      obtain ok2 t2 where c: "probe_connect net (min kProbeConnectTimeoutMs (ms_left deadline t1)) t1 = Some (ok2, t2)"
        "t1 \<le> t2" "t2 \<le> ?late" using step [of t1, OF _ e(3)] s1 by (auto simp: probe_connect_def)
      show ?thesis
      proof (cases "ok2 \<and> \<not> ms_left deadline t2 \<le> 0")
        case False
        with True r s1 c show ?thesis by (auto simp: checkChannelActivity_def Let_def deadline_def [symmetric])
      next
        case s2: True
        obtain ok3 t3 where h: "probe_handshake net (min kProbeConnectTimeoutMs (ms_left deadline t2)) t2 = Some (ok3, t3)"
          "t2 \<le> t3" "t3 \<le> ?late" using step [of t2, OF _ e(4)] s2 by (auto simp: probe_handshake_def)
        with True r s1 c s2 talk [of t3] show ?thesis
          by (auto simp: checkChannelActivity_def Let_def deadline_def [symmetric])
      qed
    qed
  qed
  then show ?thesis by (simp add: deadline_def)
qed

section \<open>A probe to try\<close>

definition demo_probe_lib :: "jv json_lib" where
  "demo_probe_lib = jv_lib (\<lambda>msg. if msg = ''w'' then Some (JObj [(''type'', JStr ''welcome'')])
       else if msg = ''a'' then Some (JObj [(''type'', JStr ''has_activity''), (''active'', JBool True)]) else None)
     (\<lambda>_. Some ''{}'')"

definition demo_wait_for :: "int \<Rightarrow> nat \<Rightarrow> wait_env" where
  "demo_wait_for ms n = \<lparr>we_slices = replicate n \<lparr>sl_ns = ms * kNsPerMs, sl_done = Some True, sl_stop = False\<rparr>,
     we_final = \<lparr>sl_ns = 0, sl_done = None, sl_stop = False\<rparr>\<rparr>"

definition demo_probe_env :: probe_env where
  "demo_probe_env = \<lparr>pn_resolve = demo_wait_for 100 35, pn_connect = demo_wait_for 50 70,
     pn_handshake = demo_wait_for 50 70, pn_writeOk = True\<rparr>"

definition demo_probe_params :: ConnectParams where
  "demo_probe_params = ConnectParams_default\<lparr>cp_host := ''relay.example'', cp_port := 5500\<rparr>"

definition demo_reads :: "(nat \<times> ws_read) list" where
  "demo_reads = [(1000000, Rd_Text ''w''), (400000000, Rd_Timeout), (1000000, Rd_Text ''a''), (400000000, Rd_Timeout),
     (400000000, Rd_Timeout)]"

definition demo_quick_reads :: "(nat \<times> ws_read) list" where
  "demo_quick_reads = [(3, Rd_Text ''w''), (5, Rd_Timeout), (2, Rd_Text ''a'')]"

theorem probe_answer_sound_witness:
  "\<exists>t. checkChannelActivity demo_probe_lib demo_probe_env demo_quick_reads demo_probe_params 1000 0 = Some (R_Ok, True, t)
     \<and> (\<exists>pre d welcome rest. demo_quick_reads = pre @ (d, Rd_Text welcome) # rest \<and> answered demo_probe_lib rest True)"
proof -
  have "map_option (\<lambda>(r, a, t). (r, a)) (checkChannelActivity demo_probe_lib demo_probe_env demo_quick_reads demo_probe_params 1000 0)
      = Some (R_Ok, True)" by code_simp
  then obtain t where "checkChannelActivity demo_probe_lib demo_probe_env demo_quick_reads demo_probe_params 1000 0 = Some (R_Ok, True, t)"
    by auto
  with probe_answer_sound [OF this] show ?thesis by blast
qed

theorem probe_in_time_witness:
  "\<exists>r active t. checkChannelActivity demo_probe_lib demo_probe_env demo_reads demo_probe_params 1000 0
     = Some (r, active, t) \<and> t \<le> 1400000000"
proof -
  have "probe_env_ok 0 demo_probe_env"
    by (simp add: probe_env_ok_def demo_probe_env_def wait_ok_def demo_wait_for_def slice_ok_def kNsPerMs_def
        kProbeConnectTimeoutMs_def list_all_iff)
  moreover have "slack_reads 0 demo_reads"
    by (simp add: slack_reads_def demo_reads_def kReadSliceMs_def kNsPerMs_def)
  ultimately show ?thesis
    using probe_in_time [of 0 demo_probe_env demo_reads 1000 demo_probe_lib demo_probe_params 0]
    by (simp add: reads_ns_def demo_reads_def kNsPerMs_def)
qed

end
