(* ===== verification/Signal_Pcm.thy ===== *)
theory Signal_Pcm
  imports OW_Types
begin

text \<open>
  \<open>owalkie-core/src/signal.cpp\<close>: the sample generator for roger and call signals. The arithmetic
  on \<open>double\<close>s is the machine's; its operations are the fields of \<open>flt\<close>, over a type \<open>'f\<close> of
  floating point values, and what is proved here holds for any of them (also in the presence
  of rounding, infinities and NaNs). The \<open>int\<close> products \<open>sampleRateHz * durationMs\<close> are computed
  on mathematical integers.
\<close>

record 'f flt =
  fl_int :: "int \<Rightarrow> 'f"
  fl_dec :: "int \<Rightarrow> nat \<Rightarrow> 'f"
  fl_add :: "'f \<Rightarrow> 'f \<Rightarrow> 'f"
  fl_sub :: "'f \<Rightarrow> 'f \<Rightarrow> 'f"
  fl_mul :: "'f \<Rightarrow> 'f \<Rightarrow> 'f"
  fl_div :: "'f \<Rightarrow> 'f \<Rightarrow> 'f"
  fl_lt :: "'f \<Rightarrow> 'f \<Rightarrow> bool"
  fl_le :: "'f \<Rightarrow> 'f \<Rightarrow> bool"
  fl_sin :: "'f \<Rightarrow> 'f"
  fl_lround :: "'f \<Rightarrow> int"
  fl_trunc :: "'f \<Rightarrow> nat"

text \<open>
  \<open>fl_dec F m k\<close> is the literal \<open>m * 10^-k\<close>; \<open>fl_trunc\<close> is the conversion of a non-negative value to
  \<open>size_t\<close>.
\<close>

definition kPi :: "'f flt \<Rightarrow> 'f" where
  "kPi F = fl_dec F 314159265358979323846 20"

definition envelope :: "'f flt \<Rightarrow> nat \<Rightarrow> nat \<Rightarrow> 'f" where
  "envelope F i n =
     (let envPos = fl_div F (fl_int F (int i)) (fl_int F (int n))
      in if fl_lt F envPos (fl_dec F 8 2) then fl_div F envPos (fl_dec F 8 2)
         else if fl_lt F (fl_dec F 92 2) envPos then fl_div F (fl_sub F (fl_dec F 10 1) envPos) (fl_dec F 8 2)
         else fl_dec F 10 1)"

text \<open>
  The inner loop: \<open>k\<close> samples are left of the \<open>n\<close> of the segment; the phase is carried on.
\<close>

fun segment_loop :: "'f flt \<Rightarrow> 'f \<Rightarrow> bool \<Rightarrow> 'f \<Rightarrow> nat \<Rightarrow> nat \<Rightarrow> 'f \<Rightarrow> pcm \<times> 'f" where
  "segment_loop F amplitude pause step n 0 phase = ([], phase)"
| "segment_loop F amplitude pause step n (Suc k) phase =
     (let i = n - Suc k;
          s = (if pause then fl_dec F 0 1
               else fl_mul F (fl_mul F (fl_sin F phase) (envelope F i n)) amplitude);
          v = fl_lround F (fl_mul F s (fl_dec F 327670 1));
          (rest, phase') = segment_loop F amplitude pause step n k (fl_add F phase step)
      in (std_clamp v (-32768) 32767 # rest, phase'))"

definition segment_samples :: "int \<Rightarrow> int \<Rightarrow> nat" where
  "segment_samples sampleRateHz durationMs = nat (max ((sampleRateHz * durationMs) sdiv 1000) 1)"

fun segments_loop :: "'f flt \<Rightarrow> int \<Rightarrow> 'f \<Rightarrow> 'f SignalPoint list \<Rightarrow> 'f \<Rightarrow> pcm" where
  "segments_loop F sampleRateHz amplitude [] phase = []"
| "segments_loop F sampleRateHz amplitude (seg # segs) phase =
     (let n = segment_samples sampleRateHz (sp_durationMs seg);
          pause = fl_le F (sp_freqHz seg) (fl_dec F 0 1);
          step = (if pause then fl_dec F 0 1
                  else fl_div F (fl_mul F (fl_mul F (fl_dec F 20 1) (kPi F)) (sp_freqHz seg))
                         (fl_int F sampleRateHz));
          (out, phase') = segment_loop F amplitude pause step n n phase
      in out @ segments_loop F sampleRateHz amplitude segs phase')"

definition generatePcm :: "'f flt \<Rightarrow> 'f SignalPattern \<Rightarrow> int \<Rightarrow> pcm" where
  "generatePcm F pattern sampleRateHz =
     (if sampleRateHz \<le> 0 \<or> sg_points pattern = [] then []
      else
        let reps = max 1 (sg_repeatCount pattern);
            segments = concat (replicate (nat reps) (sg_points pattern));
            tailSamples = (if sg_tailMs pattern > 0 then (sampleRateHz * sg_tailMs pattern) sdiv 1000 else 0)
        in segments_loop F sampleRateHz (sg_gain pattern) segments (fl_dec F 0 1)
           @ replicate (nat tailSamples) 0)"

lemma length_segment_loop [simp]: "length (fst (segment_loop F a p st n k ph)) = k"
  by (induction k arbitrary: ph) (simp_all add: Let_def split_beta)

lemma segment_loop_i16: "v \<in> set (fst (segment_loop F a p st n k ph)) \<Longrightarrow> i16 v"
  by (induction k arbitrary: ph)
    (auto simp: Let_def split_beta i16_def std_clamp_def)

lemma length_segments_loop:
  "length (segments_loop F sr a segs ph) = (\<Sum>g\<leftarrow>segs. segment_samples sr (sp_durationMs g))"
  by (induction segs arbitrary: ph) (simp_all add: Let_def split_beta)

lemma segments_loop_i16: "v \<in> set (segments_loop F sr a segs ph) \<Longrightarrow> i16 v"
  by (induction segs arbitrary: ph) (auto simp: Let_def split_beta dest: segment_loop_i16)

lemma sum_list_concat_replicate:
  "(\<Sum>x\<leftarrow>concat (replicate n xs). f x) = n * (\<Sum>x\<leftarrow>xs. (f x :: nat))"
  by (induction n) (simp_all add: algebra_simps)

text \<open>
  A signal has exactly the samples its pattern asks for: the segments' lengths (at least one
  sample each) times the repetitions plus the silent tail, every sample fits sixteen bits
  whatever the gain and the floating point unit do, and a pattern without points or a
  non-positive rate gives no sound at all.
\<close>

theorem generatePcm_samples:
  "let out = generatePcm F p sr;
       body = nat (max 1 (sg_repeatCount p)) * (\<Sum>g\<leftarrow>sg_points p. segment_samples sr (sp_durationMs g));
       tail = nat (if sg_tailMs p > 0 then (sr * sg_tailMs p) sdiv 1000 else 0)
   in if sr \<le> 0 \<or> sg_points p = [] then out = []
      else length out = body + tail \<and> drop body out = replicate tail 0 \<and> list_all i16 out
           \<and> length (sg_points p) \<le> body"
proof -
  define segs where "segs = concat (replicate (nat (max 1 (sg_repeatCount p))) (sg_points p))"
  define tail where "tail = nat (if sg_tailMs p > 0 then (sr * sg_tailMs p) sdiv 1000 else 0)"
  define body where
    "body = nat (max 1 (sg_repeatCount p)) * (\<Sum>g\<leftarrow>sg_points p. segment_samples sr (sp_durationMs g))"
  define out where "out = segments_loop F sr (sg_gain p) segs (fl_dec F 0 1)"
  have len: "length out = body"
    by (simp add: out_def length_segments_loop segs_def body_def sum_list_concat_replicate)
  have i16: "list_all i16 (out @ replicate tail 0)"
    using segments_loop_i16 [of _ F sr "sg_gain p" segs]
    by (auto simp: list_all_iff out_def i16_def)
  have "length (sg_points p) \<le> (\<Sum>g\<leftarrow>sg_points p. segment_samples sr (sp_durationMs g))"
    using sum_list_mono [of "sg_points p" "\<lambda>_. 1" "\<lambda>g. segment_samples sr (sp_durationMs g)"]
    by (simp add: segment_samples_def sum_list_triv)
  also have "\<dots> = 1 * \<dots>" by simp
  also have "\<dots> \<le> body" unfolding body_def by (rule mult_right_mono) simp_all
  finally have ge: "length (sg_points p) \<le> body" by simp
  show ?thesis
  proof (cases "sr \<le> 0 \<or> sg_points p = []")
    case True
    then show ?thesis by (simp add: generatePcm_def Let_def)
  next
    case False
    then have "generatePcm F p sr = out @ replicate tail 0"
      by (simp add: generatePcm_def out_def segs_def tail_def Let_def)
    with False show ?thesis
      unfolding Let_def body_def [symmetric] tail_def [symmetric] using i16 ge by (simp add: len)
  qed
qed

end
