(* ===== verification/Client_Events.thy ===== *)
theory Client_Events
  imports OW_Types
begin

text \<open>
  \<open>owalkie/client_events.hpp\<close>: which session events reach the application, and under which public
  number, with the C enumerations of \<open>owalkie_core.h\<close> they are mapped to.
\<close>

datatype owalkie_event_type =
    OWALKIE_EV_CONNECTED | OWALKIE_EV_DISCONNECTED | OWALKIE_EV_PROTOCOL_ERROR
  | OWALKIE_EV_CONNECTION_FAILED | OWALKIE_EV_RX_BROADCAST_START | OWALKIE_EV_RX_BROADCAST_END
  | OWALKIE_EV_PTT_LOCKED | OWALKIE_EV_PTT_UNLOCKED | OWALKIE_EV_TX_COUNTDOWN_START
  | OWALKIE_EV_TX_STOP | OWALKIE_EV_CONNECTION_LOST

datatype owalkie_result =
    OWALKIE_OK | OWALKIE_ERR_INVALID_ARG | OWALKIE_ERR_ALREADY_CONNECTED | OWALKIE_ERR_NOT_CONNECTED
  | OWALKIE_ERR_PROTOCOL | OWALKIE_ERR_NETWORK | OWALKIE_ERR_INTERNAL | OWALKIE_ERR_UNSUPPORTED
  | OWALKIE_ERR_BUFFER_TOO_SMALL | OWALKIE_ERR_NOT_READY | OWALKIE_ERR_QUEUE_FULL

datatype owalkie_tx_op =
    OWALKIE_TX_OPEN | OWALKIE_TX_PCM | OWALKIE_TX_OPUS | OWALKIE_TX_VOICE_END | OWALKIE_TX_CLOSE
  | OWALKIE_TX_ABORT

fun owalkie_result_int :: "owalkie_result \<Rightarrow> int" where
  "owalkie_result_int OWALKIE_OK = 0"
| "owalkie_result_int OWALKIE_ERR_INVALID_ARG = 1"
| "owalkie_result_int OWALKIE_ERR_ALREADY_CONNECTED = 2"
| "owalkie_result_int OWALKIE_ERR_NOT_CONNECTED = 3"
| "owalkie_result_int OWALKIE_ERR_PROTOCOL = 4"
| "owalkie_result_int OWALKIE_ERR_NETWORK = 5"
| "owalkie_result_int OWALKIE_ERR_INTERNAL = 6"
| "owalkie_result_int OWALKIE_ERR_UNSUPPORTED = 7"
| "owalkie_result_int OWALKIE_ERR_BUFFER_TOO_SMALL = 8"
| "owalkie_result_int OWALKIE_ERR_NOT_READY = 9"
| "owalkie_result_int OWALKIE_ERR_QUEUE_FULL = 10"

fun isVisible :: "EventType \<Rightarrow> bool" where
  "isVisible Ev_Connected = True"
| "isVisible Ev_Disconnected = True"
| "isVisible Ev_ProtocolError = True"
| "isVisible Ev_ConnectionFailed = True"
| "isVisible Ev_RxBroadcastStart = True"
| "isVisible Ev_RxBroadcastEnd = True"
| "isVisible Ev_PttLocked = True"
| "isVisible Ev_PttUnlocked = True"
| "isVisible Ev_TxCountdownStart = True"
| "isVisible Ev_TxStop = True"
| "isVisible Ev_ConnectionLost = True"
| "isVisible _ = False"

fun toPublic :: "EventType \<Rightarrow> owalkie_event_type" where
  "toPublic Ev_Connected = OWALKIE_EV_CONNECTED"
| "toPublic Ev_Disconnected = OWALKIE_EV_DISCONNECTED"
| "toPublic Ev_ProtocolError = OWALKIE_EV_PROTOCOL_ERROR"
| "toPublic Ev_ConnectionFailed = OWALKIE_EV_CONNECTION_FAILED"
| "toPublic Ev_RxBroadcastStart = OWALKIE_EV_RX_BROADCAST_START"
| "toPublic Ev_RxBroadcastEnd = OWALKIE_EV_RX_BROADCAST_END"
| "toPublic Ev_PttLocked = OWALKIE_EV_PTT_LOCKED"
| "toPublic Ev_PttUnlocked = OWALKIE_EV_PTT_UNLOCKED"
| "toPublic Ev_TxCountdownStart = OWALKIE_EV_TX_COUNTDOWN_START"
| "toPublic Ev_TxStop = OWALKIE_EV_TX_STOP"
| "toPublic Ev_ConnectionLost = OWALKIE_EV_CONNECTION_LOST"
| "toPublic _ = OWALKIE_EV_CONNECTED"

lemma toPublic_inj_visible: "isVisible a \<Longrightarrow> isVisible b \<Longrightarrow> toPublic a = toPublic b \<longleftrightarrow> a = b"
  by (cases a; cases b) simp_all

lemma toPublic_onto_visible: "\<exists>t. isVisible t \<and> toPublic t = p"
  by (cases p) (metis isVisible.simps toPublic.simps)+

lemma isVisible_server_events:
  "isVisible Ev_Welcome = False" "isVisible Ev_UdpTransportLost = False" "isVisible Ev_UdpTransportReady = False"
  by simp_all

end
