(* ===== verification/C_Api.thy ===== *)
theory C_Api
  imports Session_Manager Activity_Probe Signal_Pcm Client_Events
begin

text \<open>
  \<open>owalkie-core/src/c_api.cpp\<close>, the C interface: conversions, the stateless utilities, the bridge
  that hands session events to the application, and the calls on the session manager. A pointer
  argument is an option, \<open>None\<close> for the null pointer. A returned string pointer says what it
  points to: nothing, the caller's buffer, or a \<open>std::string\<close> of the library that serves as
  scratch memory. An output parameter is part of the result; \<open>None\<close> there means it was not
  written.
\<close>

datatype c_str = C_Null | C_Buffer string | C_Scratch string

section \<open>Conversions\<close>

fun toC :: "Result \<Rightarrow> owalkie_result" where
  "toC R_Ok = OWALKIE_OK"
| "toC R_InvalidArg = OWALKIE_ERR_INVALID_ARG"
| "toC R_AlreadyConnected = OWALKIE_ERR_ALREADY_CONNECTED"
| "toC R_NotConnected = OWALKIE_ERR_NOT_CONNECTED"
| "toC R_Protocol = OWALKIE_ERR_PROTOCOL"
| "toC R_Network = OWALKIE_ERR_NETWORK"
| "toC R_Internal = OWALKIE_ERR_INTERNAL"
| "toC R_Unsupported = OWALKIE_ERR_UNSUPPORTED"
| "toC R_BufferTooSmall = OWALKIE_ERR_BUFFER_TOO_SMALL"
| "toC R_NotReady = OWALKIE_ERR_NOT_READY"
| "toC R_QueueFull = OWALKIE_ERR_QUEUE_FULL"
| "toC R_NoEvent = OWALKIE_OK"

text \<open>A buffer is its size; the result is what it then holds, without the terminating NUL.\<close>

definition copyToBuf :: "string \<Rightarrow> nat option \<Rightarrow> string option" where
  "copyToBuf src buf =
     (case buf of None \<Rightarrow> None
      | Some n \<Rightarrow> if n = 0 then None else if length src + 1 > n then None else Some src)"

definition c_int :: "bool \<Rightarrow> int" where
  "c_int b = (if b then 1 else 0)"

record owalkie_welcome_config =
  ow_session_id :: u32
  ow_protocol_version :: int
  ow_sample_rate :: int
  ow_packet_ms :: int
  ow_opus_bitrate :: int
  ow_opus_complexity :: int
  ow_opus_fec :: int
  ow_opus_dtx :: int
  ow_opus_application :: c_str
  ow_busy_mode :: int
  ow_transmit_timeout_sec :: int

definition welcome_zero :: owalkie_welcome_config where
  "welcome_zero = \<lparr>ow_session_id = 0, ow_protocol_version = 0, ow_sample_rate = 0, ow_packet_ms = 0,
     ow_opus_bitrate = 0, ow_opus_complexity = 0, ow_opus_fec = 0, ow_opus_dtx = 0,
     ow_opus_application = C_Null, ow_busy_mode = 0, ow_transmit_timeout_sec = 0\<rparr>"

definition fillWelcomeC :: "WelcomeConfig \<Rightarrow> owalkie_welcome_config" where
  "fillWelcomeC cfg =
     \<lparr>ow_session_id = wc_sessionId cfg, ow_protocol_version = wc_protocolVersion cfg,
      ow_sample_rate = wc_sampleRate cfg, ow_packet_ms = wc_packetMs cfg,
      ow_opus_bitrate = oc_bitrate (wc_opus cfg), ow_opus_complexity = oc_complexity (wc_opus cfg),
      ow_opus_fec = c_int (oc_fec (wc_opus cfg)), ow_opus_dtx = c_int (oc_dtx (wc_opus cfg)),
      ow_opus_application = C_Scratch (oc_application (wc_opus cfg)),
      ow_busy_mode = c_int (wc_busyMode cfg), ow_transmit_timeout_sec = wc_transmitTimeoutSec cfg\<rparr>"

record owalkie_session_info =
  oi_ready :: int
  oi_connected :: int
  oi_udp_ready :: int
  oi_connection_lost :: int
  oi_receiving :: int
  oi_local_tx_active :: int
  oi_ptt_server_locked :: int
  oi_ptt_lock_display_sec :: int
  oi_has_config :: int
  oi_config :: owalkie_welcome_config

definition fillSessionInfoC :: "bool \<Rightarrow> SessionState \<Rightarrow> owalkie_session_info" where
  "fillSessionInfoC ready st =
     \<lparr>oi_ready = c_int ready, oi_connected = c_int (st_connected st), oi_udp_ready = c_int (st_udpReady st),
      oi_connection_lost = c_int (st_connectionLost st), oi_receiving = c_int (st_receiving st),
      oi_local_tx_active = c_int (st_localTxActive st), oi_ptt_server_locked = c_int (st_pttServerLocked st),
      oi_ptt_lock_display_sec = st_pttLockDisplaySec st, oi_has_config = c_int (st_hasWelcome st),
      oi_config = (if st_hasWelcome st then fillWelcomeC (st_welcome st) else welcome_zero)\<rparr>"

text \<open>The union of an event: the member that has been written, \<open>U_Zero\<close> after the \<open>memset\<close>.\<close>

datatype event_payload =
    U_Zero
  | U_Welcome owalkie_welcome_config
  | U_RxBroadcastStart int
  | U_RxBroadcastEnd int
  | U_PttLocked int
  | U_TxStop c_str
  | U_ProtocolError c_str
  | U_Disconnected int c_str

record owalkie_event =
  oe_type :: owalkie_event_type
  oe_u :: event_payload

definition fillManagedEventC :: "Event \<Rightarrow> owalkie_event" where
  "fillManagedEventC ev =
     \<lparr>oe_type = toPublic (ev_type ev),
      oe_u = (case ev_type ev of
          Ev_Connected \<Rightarrow> U_Welcome (fillWelcomeC (ev_welcome ev))
        | Ev_RxBroadcastStart \<Rightarrow> U_RxBroadcastStart (c_int (ev_rxBusyMode ev))
        | Ev_RxBroadcastEnd \<Rightarrow> U_RxBroadcastEnd (ev_rxEndDelayMs ev)
        | Ev_PttLocked \<Rightarrow> U_PttLocked (ev_pttDisplaySec ev)
        | Ev_TxStop \<Rightarrow> U_TxStop (C_Scratch (ev_txStopInfo ev))
        | Ev_ProtocolError \<Rightarrow> U_ProtocolError (C_Scratch (ev_protocolError ev))
        | Ev_ConnectionFailed \<Rightarrow> U_Disconnected (ev_disconnectCode ev)
            (if ev_disconnectReason ev = [] then C_Null else C_Scratch (ev_disconnectReason ev))
        | Ev_Disconnected \<Rightarrow> U_Disconnected (ev_disconnectCode ev)
            (if ev_disconnectReason ev = [] then C_Null else C_Scratch (ev_disconnectReason ev))
        | Ev_ConnectionLost \<Rightarrow> U_Disconnected (ev_disconnectCode ev)
            (if ev_disconnectReason ev = [] then C_Null else C_Scratch (ev_disconnectReason ev))
        | _ \<Rightarrow> U_Zero)\<rparr>"

section \<open>Utilities\<close>

text \<open>A text is the bytes at the pointer; a length of 0 asks for \<open>strlen\<close>.\<close>

definition text_view :: "string \<Rightarrow> nat \<Rightarrow> string" where
  "text_view json_text json_len =
     (if json_len = 0 then takeWhile (\<lambda>c. c \<noteq> CHR 0x00) json_text else take json_len json_text)"

definition owalkie_json_parse_welcome ::
  "'j json_lib \<Rightarrow> string option \<Rightarrow> nat \<Rightarrow> bool \<Rightarrow> nat option \<Rightarrow> owalkie_result \<times> owalkie_welcome_config option" where
  "owalkie_json_parse_welcome L json_text json_len have_out buf =
     (case json_text of
        None \<Rightarrow> (OWALKIE_ERR_INVALID_ARG, None)
      | Some msg \<Rightarrow>
          if \<not> have_out then (OWALKIE_ERR_INVALID_ARG, None)
          else (case parseWelcome L (text_view msg json_len) WelcomeConfig_default kProtocolVersion of (r, cfg) \<Rightarrow>
            if r \<noteq> R_Ok then (toC r, None)
            else if buf \<noteq> None \<and> buf \<noteq> Some 0 then
              (case copyToBuf (oc_application (wc_opus cfg)) buf of
                 None \<Rightarrow> (OWALKIE_ERR_BUFFER_TOO_SMALL, None)
               | Some s \<Rightarrow> (OWALKIE_OK, Some ((fillWelcomeC cfg)\<lparr>ow_opus_application := C_Buffer s\<rparr>)))
            else (OWALKIE_OK, Some (fillWelcomeC cfg))))"

text \<open>
  The payload of \<open>owalkie_json_parse_server_message\<close>, \<open>None\<close> when the buffer is too small.
\<close>

definition server_payload :: "Event \<Rightarrow> nat option \<Rightarrow> event_payload option" where
  "server_payload ev buf =
     (if ev_type ev = Ev_Welcome \<or> ev_type ev = Ev_Connected then
        (if buf \<noteq> None \<and> buf \<noteq> Some 0 then
           map_option (\<lambda>s. U_Welcome ((fillWelcomeC (ev_welcome ev))\<lparr>ow_opus_application := C_Buffer s\<rparr>))
             (copyToBuf (oc_application (wc_opus (ev_welcome ev))) buf)
         else Some (U_Welcome (fillWelcomeC (ev_welcome ev))))
      else (case ev_type ev of
          Ev_RxBroadcastStart \<Rightarrow> Some (U_RxBroadcastStart (c_int (ev_rxBusyMode ev)))
        | Ev_RxBroadcastEnd \<Rightarrow> Some (U_RxBroadcastEnd (ev_rxEndDelayMs ev))
        | Ev_PttLocked \<Rightarrow> Some (U_PttLocked (ev_pttDisplaySec ev))
        | Ev_TxStop \<Rightarrow> map_option (\<lambda>s. U_TxStop (C_Buffer s)) (copyToBuf (ev_txStopInfo ev) buf)
        | Ev_ProtocolError \<Rightarrow> map_option (\<lambda>s. U_ProtocolError (C_Buffer s)) (copyToBuf (ev_protocolError ev) buf)
        | Ev_Disconnected \<Rightarrow>
            if ev_disconnectReason ev \<noteq> [] then
              map_option (\<lambda>s. U_Disconnected (ev_disconnectCode ev) (C_Buffer s)) (copyToBuf (ev_disconnectReason ev) buf)
            else Some (U_Disconnected (ev_disconnectCode ev) C_Null)
        | _ \<Rightarrow> Some U_Zero))"

definition event_zero :: owalkie_event where
  "event_zero = \<lparr>oe_type = OWALKIE_EV_CONNECTED, oe_u = U_Zero\<rparr>"

text \<open>
  With a buffer that is too small the type has been written already, as has the code of a
  \<open>Disconnected\<close> event, which no server message gives.
\<close>

definition owalkie_json_parse_server_message ::
  "'j json_lib \<Rightarrow> string option \<Rightarrow> nat \<Rightarrow> bool \<Rightarrow> nat option \<Rightarrow> owalkie_result \<times> owalkie_event option" where
  "owalkie_json_parse_server_message L json_text json_len have_out buf =
     (case json_text of
        None \<Rightarrow> (OWALKIE_ERR_INVALID_ARG, None)
      | Some msg \<Rightarrow>
          if \<not> have_out then (OWALKIE_ERR_INVALID_ARG, None)
          else (case parseServerMessage L (text_view msg json_len) Event_default of (r, ev) \<Rightarrow>
            if r = R_NoEvent then (OWALKIE_OK, Some event_zero)
            else if r \<noteq> R_Ok then (toC r, None)
            else if ev_type ev \<noteq> Ev_Welcome \<and> \<not> isVisible (ev_type ev) then (OWALKIE_OK, Some event_zero)
            else
              let ty = (if ev_type ev = Ev_Welcome then OWALKIE_EV_CONNECTED else toPublic (ev_type ev))
              in (case server_payload ev buf of
                    None \<Rightarrow> (OWALKIE_ERR_BUFFER_TOO_SMALL, Some \<lparr>oe_type = ty, oe_u = U_Zero\<rparr>)
                  | Some u \<Rightarrow> (OWALKIE_OK, Some \<lparr>oe_type = ty, oe_u = u\<rparr>))))"

record 'f c_pattern =
  cpt_points :: "('f \<times> int) list option"
  cpt_tail_ms :: int
  cpt_repeat_count :: int
  cpt_gain :: 'f

text \<open>\<open>have_outs\<close> says that neither output pointer is null, \<open>malloc_ok\<close> that \<open>malloc\<close> succeeds.\<close>

definition owalkie_signal_generate_pcm ::
  "'f flt \<Rightarrow> 'f c_pattern option \<Rightarrow> int \<Rightarrow> bool \<Rightarrow> bool \<Rightarrow> owalkie_result \<times> pcm option" where
  "owalkie_signal_generate_pcm F pattern sample_rate_hz have_outs malloc_ok =
     (case pattern of
        None \<Rightarrow> (OWALKIE_ERR_INVALID_ARG, None)
      | Some p \<Rightarrow>
          (case cpt_points p of
             None \<Rightarrow> (OWALKIE_ERR_INVALID_ARG, None)
           | Some pts \<Rightarrow>
               if \<not> have_outs \<or> pts = [] then (OWALKIE_ERR_INVALID_ARG, None)
               else
                 let cpp = \<lparr>sg_points = map (\<lambda>(f, d). \<lparr>sp_freqHz = f, sp_durationMs = d\<rparr>) pts,
                            sg_tailMs = cpt_tail_ms p, sg_repeatCount = cpt_repeat_count p, sg_gain = cpt_gain p\<rparr>;
                     pcm = generatePcm F cpp sample_rate_hz
                 in if pcm = [] then (OWALKIE_ERR_INVALID_ARG, None)
                    else if \<not> malloc_ok then (OWALKIE_ERR_INTERNAL, None)
                    else (OWALKIE_OK, Some pcm)))"

record c_packet =
  cpk_session_id :: u32
  cpk_sequence :: u32
  cpk_signal_strength :: u8
  cpk_opus :: "u8 list option"

definition owalkie_udp_pack :: "c_packet option \<Rightarrow> nat option \<Rightarrow> owalkie_result \<times> u8 list option" where
  "owalkie_udp_pack packet out_buf =
     (case (packet, out_buf) of
        (Some p, Some capacity) \<Rightarrow>
          let cpp = \<lparr>up_sessionId = cpk_session_id p, up_sequence = cpk_sequence p,
                     up_signalStrength = cpk_signal_strength p,
                     up_opus = (case cpk_opus p of None \<Rightarrow> [] | Some bs \<Rightarrow> bs)\<rparr>
          in (case udp_pack cpp [] of (r, packed) \<Rightarrow>
                if r \<noteq> R_Ok then (toC r, None)
                else if length packed > capacity then (OWALKIE_ERR_BUFFER_TOO_SMALL, None)
                else (OWALKIE_OK, Some packed))
      | _ \<Rightarrow> (OWALKIE_ERR_INVALID_ARG, None))"

definition owalkie_udp_unpack :: "u8 list option \<Rightarrow> bool \<Rightarrow> owalkie_result \<times> c_packet option" where
  "owalkie_udp_unpack buf have_out =
     (case buf of
        None \<Rightarrow> (OWALKIE_ERR_INVALID_ARG, None)
      | Some bs \<Rightarrow>
          if \<not> have_out then (OWALKIE_ERR_INVALID_ARG, None)
          else (case udp_unpack bs UdpAudioPacket_default of (r, cpp) \<Rightarrow>
            if r \<noteq> R_Ok then (toC r, None)
            else (OWALKIE_OK, Some \<lparr>cpk_session_id = up_sessionId cpp, cpk_sequence = up_sequence cpp,
                    cpk_signal_strength = up_signalStrength cpp,
                    cpk_opus = (if up_opus cpp = [] then None else Some (up_opus cpp))\<rparr>)))"

definition owalkie_udp_is_keepalive_signal :: "u8 list option \<Rightarrow> int" where
  "owalkie_udp_is_keepalive_signal buf =
     (case buf of None \<Rightarrow> 0 | Some bs \<Rightarrow> c_int (Udp_Packet.isKeepaliveSignal bs))"

definition owalkie_udp_is_keepalive_ack :: "u8 list option \<Rightarrow> u32 \<Rightarrow> int" where
  "owalkie_udp_is_keepalive_ack buf session_id =
     (case buf of None \<Rightarrow> 0 | Some bs \<Rightarrow> c_int (Udp_Packet.isKeepaliveAck bs session_id))"

definition owalkie_udp_is_tx_eof_marker :: "u8 list option \<Rightarrow> int" where
  "owalkie_udp_is_tx_eof_marker buf =
     (case buf of None \<Rightarrow> 0 | Some bs \<Rightarrow> c_int (Udp_Packet.isTxEofMarker bs))"

section \<open>The bridge to the application\<close>

text \<open>
  \<open>br_id\<close> is the identity of the shared \<open>ManagedBridge\<close>; the event callback is always there, as
  \<open>owalkie_prepare_connection\<close> asks for it. \<open>Cl_Event\<close> and \<open>Cl_Pcm\<close> are calls of the
  application's functions.
\<close>

record bridge =
  br_id :: nat
  br_on_rx_pcm :: bool

datatype client_obs = Cl_Event session_id owalkie_event | Cl_Pcm session_id pcm int int

type_synonym bridges = "(session_id \<times> bridge) list"

definition bridge_sid :: "bridge \<Rightarrow> bridges \<Rightarrow> session_id" where
  "bridge_sid b bs = (case filter (\<lambda>e. br_id (snd e) = br_id b) bs of [] \<Rightarrow> kInvalidSessionId | e # _ \<Rightarrow> fst e)"

definition bridge_rx_pcm :: "bridge \<Rightarrow> pcm \<Rightarrow> int \<Rightarrow> int \<Rightarrow> bridges \<Rightarrow> client_obs list" where
  "bridge_rx_pcm b pcm sampleRate packetMs bs =
     (if \<not> br_on_rx_pcm b \<or> pcm = [] then []
      else if bridge_sid b bs = kInvalidSessionId then []
      else [Cl_Pcm (bridge_sid b bs) pcm sampleRate packetMs])"

definition bridge_terminal :: "EventType \<Rightarrow> bool" where
  "bridge_terminal ty \<longleftrightarrow> ty = Ev_ConnectionFailed \<or> ty = Ev_Disconnected \<or> ty = Ev_ProtocolError"

definition bridge_event :: "bridge \<Rightarrow> Event \<Rightarrow> bridges \<Rightarrow> client_obs list \<times> bridges" where
  "bridge_event b ev bs =
     (if \<not> isVisible (ev_type ev) then ([], bs)
      else
        let sid = bridge_sid b bs
        in if sid = kInvalidSessionId then ([], bs)
           else ([Cl_Event sid (fillManagedEventC ev)],
                 if bridge_terminal (ev_type ev) then um_erase sid bs else bs))"

text \<open>What the session does that its callbacks hear, in order.\<close>

definition deliver :: "bridge \<Rightarrow> obs \<Rightarrow> bridges \<Rightarrow> client_obs list \<times> bridges" where
  "deliver b ob bs =
     (case ob of
        O_Event ev \<Rightarrow> bridge_event b ev bs
      | O_RxPcm pcm sampleRate packetMs \<Rightarrow> (bridge_rx_pcm b pcm sampleRate packetMs bs, bs)
      | _ \<Rightarrow> ([], bs))"

fun deliver_all :: "bridge \<Rightarrow> obs list \<Rightarrow> bridges \<Rightarrow> client_obs list \<times> bridges" where
  "deliver_all b [] bs = ([], bs)"
| "deliver_all b (ob # obs) bs =
     (case deliver b ob bs of (now, bs) \<Rightarrow> (case deliver_all b obs bs of (later, bs) \<Rightarrow> (now @ later, bs)))"

section \<open>Managed sessions\<close>

record 'c api =
  ap_manager :: "'c manager"
  ap_bridges :: bridges
  ap_nextBridge :: nat
  ap_signal :: Registry

definition api_init :: "'c api" where
  "api_init = \<lparr>ap_manager = manager_init, ap_bridges = [], ap_nextBridge = 0, ap_signal = Registry_init\<rparr>"

text \<open>An exception of the C++ code would leave the \<open>extern "C"\<close> function.\<close>

datatype c_outcome = C_Returned owalkie_result | C_Raised | C_Running

fun outcome_c :: "outcome \<Rightarrow> c_outcome" where
  "outcome_c (Returned r) = C_Returned (toC r)"
| "outcome_c Raised = C_Raised"
| "outcome_c Running = C_Running"

record c_connect_params =
  cc_host :: "string option"
  cc_port :: int
  cc_channel :: "string option"
  cc_use_tls :: int
  cc_repeater_mode :: int

text \<open>The conversion of the parameters; \<open>None\<close> for a missing host.\<close>

definition connect_params_of :: "c_connect_params \<Rightarrow> ConnectParams option" where
  "connect_params_of p =
     (case cc_host p of None \<Rightarrow> None
      | Some host \<Rightarrow> Some \<lparr>cp_host = host, cp_port = cc_port p,
          cp_channel = (case cc_channel p of None \<Rightarrow> ''global'' | Some ch \<Rightarrow> ch),
          cp_useTls = (cc_use_tls p \<noteq> 0), cp_repeaterMode = (cc_repeater_mode p \<noteq> 0)\<rparr>)"

definition owalkie_check_channel_activity ::
  "'j json_lib \<Rightarrow> probe_env \<Rightarrow> (nat \<times> ws_read) list \<Rightarrow> c_connect_params option \<Rightarrow> int \<Rightarrow> bool \<Rightarrow> int \<Rightarrow>
   (owalkie_result \<times> int option \<times> int) option" where
  "owalkie_check_channel_activity L net reads params timeout_ms have_out now =
     (case Option.bind params connect_params_of of
        None \<Rightarrow> Some (OWALKIE_ERR_INVALID_ARG, None, now)
      | Some cpp \<Rightarrow>
          if \<not> have_out then Some (OWALKIE_ERR_INVALID_ARG, None, now)
          else map_option (\<lambda>(r, active, t). (toC r, if r = R_Ok then Some (c_int active) else None, t))
                 (checkChannelActivity L net reads cpp timeout_ms now))"

definition owalkie_prepare_connection ::
  "c_connect_params option \<Rightarrow> (bool \<times> bool) option \<Rightarrow> 'c api \<Rightarrow> session_id \<times> 'c api" where
  "owalkie_prepare_connection params callbacks a =
     (case (Option.bind params connect_params_of, callbacks) of
        (Some cpp, Some (on_session_event, on_rx_pcm)) \<Rightarrow>
          if \<not> on_session_event then (kInvalidSessionId, a)
          else
            let bridge = \<lparr>br_id = ap_nextBridge a, br_on_rx_pcm = on_rx_pcm\<rparr>;
                (sid, m) = prepareConnection cpp True False (ap_manager a);
                a = a\<lparr>ap_manager := m, ap_nextBridge := ap_nextBridge a + 1\<rparr>
            in if sid = kInvalidSessionId then (kInvalidSessionId, a)
               else (sid, a\<lparr>ap_bridges := um_emplace sid bridge (um_erase sid (ap_bridges a))\<rparr>)
      | _ \<Rightarrow> (kInvalidSessionId, a))"

text \<open>The signal registry is one global object; the sessions read it when they send.\<close>

definition with_signal :: "('j, 'c) env \<Rightarrow> 'c api \<Rightarrow> ('j, 'c) env" where
  "with_signal E a = E\<lparr>e_registry := ap_signal a\<rparr>"

definition owalkie_connect ::
  "('j, 'c) env \<Rightarrow> 'c connect_sched \<Rightarrow> session_id \<Rightarrow> int \<Rightarrow> 'c api \<Rightarrow> c_outcome \<times> 'c api" where
  "owalkie_connect E sch sid timeout_ms a =
     (if sid = kInvalidSessionId then (C_Returned OWALKIE_ERR_INVALID_ARG, a)
      else (case connect (with_signal E a) sch sid timeout_ms (ap_manager a) of (oc, m) \<Rightarrow>
        let a = a\<lparr>ap_manager := m\<rparr>
        in if oc = Returned R_Ok \<and> isSessionReady sid m then (C_Returned OWALKIE_OK, a) else (outcome_c oc, a)))"

text \<open>The bridge goes first, so the \<open>Disconnected\<close> event of the session finds none.\<close>

definition owalkie_disconnect ::
  "session_id \<Rightarrow> (nat \<Rightarrow> ('c manager \<Rightarrow> 'c manager) list \<times> ('c manager \<Rightarrow> 'c manager)) \<Rightarrow> 'c api \<Rightarrow> 'c api" where
  "owalkie_disconnect sid attempt a =
     (if sid = kInvalidSessionId then a
      else
        let a = a\<lparr>ap_bridges := um_erase sid (ap_bridges a)\<rparr>
        in a\<lparr>ap_manager := disconnect sid attempt (ap_manager a)\<rparr>)"

definition owalkie_disconnect_all ::
  "(session_id \<Rightarrow> nat \<Rightarrow> ('c manager \<Rightarrow> 'c manager) list \<times> ('c manager \<Rightarrow> 'c manager)) \<Rightarrow> 'c api \<Rightarrow> 'c api" where
  "owalkie_disconnect_all attempt a = a\<lparr>ap_manager := disconnectAll attempt (ap_manager a)\<rparr>"

text \<open>The rounds stand for the given timeout, or for 3000 ms when it is negative.\<close>

definition owalkie_disconnect_all_and_wait ::
  "(session_id \<Rightarrow> nat \<Rightarrow> ('c manager \<Rightarrow> 'c manager) list \<times> ('c manager \<Rightarrow> 'c manager)) \<Rightarrow>
   (int \<Rightarrow> ('c manager \<Rightarrow> 'c manager) list) \<Rightarrow> int \<Rightarrow> 'c api \<Rightarrow> 'c api" where
  "owalkie_disconnect_all_and_wait attempt rounds timeout_ms a =
     a\<lparr>ap_manager := disconnectAllAndWait attempt (rounds (if timeout_ms < 0 then 3000 else timeout_ms)) (ap_manager a)\<rparr>"

definition owalkie_session_id_valid :: "session_id \<Rightarrow> 'c api \<Rightarrow> int" where
  "owalkie_session_id_valid sid a = c_int (isValid sid (ap_manager a))"

definition owalkie_session_id_ready :: "session_id \<Rightarrow> 'c api \<Rightarrow> int" where
  "owalkie_session_id_ready sid a = c_int (isSessionReady sid (ap_manager a))"

definition owalkie_get_session_info ::
  "session_id \<Rightarrow> bool \<Rightarrow> nat option \<Rightarrow> 'c api \<Rightarrow> owalkie_result \<times> owalkie_session_info option" where
  "owalkie_get_session_info sid have_out buf a =
     (if sid = kInvalidSessionId \<or> \<not> have_out then (OWALKIE_ERR_INVALID_ARG, None)
      else (case getSessionInfo sid (ap_manager a) of
              (r, None) \<Rightarrow> (toC r, None)
            | (r, Some (st, ready)) \<Rightarrow>
                if r \<noteq> R_Ok then (toC r, None)
                else
                  let info = fillSessionInfoC ready st
                  in if oi_has_config info \<noteq> 0 \<and> buf \<noteq> None \<and> buf \<noteq> Some 0 then
                       (case copyToBuf (oc_application (wc_opus (st_welcome st))) buf of
                          None \<Rightarrow> (OWALKIE_ERR_BUFFER_TOO_SMALL, Some info)
                        | Some s \<Rightarrow> (OWALKIE_OK, Some (info\<lparr>oi_config := (oi_config info)\<lparr>ow_opus_application := C_Buffer s\<rparr>\<rparr>)))
                     else (OWALKIE_OK, Some info)))"

text \<open>The C enumerations arrive as integers; \<open>None\<close> is a value outside of them.\<close>

definition tx_op_of :: "int \<Rightarrow> TxSubmitOp option" where
  "tx_op_of op = (if op = 0 then Some Op_Open else if op = 1 then Some Op_Pcm else if op = 2 then Some Op_Opus
     else if op = 3 then Some Op_VoiceEnd else if op = 4 then Some Op_Close else if op = 5 then Some Op_Abort else None)"

definition owalkie_tx_submit ::
  "('j, 'c) env \<Rightarrow> nat list \<Rightarrow> session_id \<Rightarrow> int \<Rightarrow> pcm option \<Rightarrow> u8 list option \<Rightarrow> 'c api \<Rightarrow> owalkie_result \<times> 'c api" where
  "owalkie_tx_submit E polls sid op pcm opus a =
     (if sid = kInvalidSessionId then (OWALKIE_ERR_INVALID_ARG, a)
      else (case tx_op_of op of
              None \<Rightarrow> (OWALKIE_ERR_INVALID_ARG, a)
            | Some cppOp \<Rightarrow>
                if cppOp = Op_Pcm \<and> (pcm = None \<or> pcm = Some []) then (OWALKIE_ERR_INVALID_ARG, a)
                else if cppOp = Op_Opus \<and> (opus = None \<or> opus = Some []) then (OWALKIE_ERR_INVALID_ARG, a)
                else (case manager_submitTx (with_signal E a) cppOp (case pcm of None \<Rightarrow> [] | Some xs \<Rightarrow> xs)
                             (case opus of None \<Rightarrow> [] | Some xs \<Rightarrow> xs) polls sid (ap_manager a) of
                        (r, m) \<Rightarrow> (toC r, a\<lparr>ap_manager := m\<rparr>))))"

definition owalkie_tx_wait_idle ::
  "('j, 'c) env \<Rightarrow> (nat \<times> nat) list \<Rightarrow> session_id \<Rightarrow> int \<Rightarrow> 'c api \<Rightarrow> int \<times> 'c api" where
  "owalkie_tx_wait_idle E polls sid timeout_ms a =
     (if sid = kInvalidSessionId then (0, a)
      else (case manager_waitTxQueueIdle (with_signal E a) (if timeout_ms > 0 then timeout_ms else 0) polls sid (ap_manager a) of
              (idle, m) \<Rightarrow> (c_int idle, a\<lparr>ap_manager := m\<rparr>)))"

definition owalkie_set_repeater_mode :: "('j, 'c) env \<Rightarrow> session_id \<Rightarrow> int \<Rightarrow> 'c api \<Rightarrow> c_outcome \<times> 'c api" where
  "owalkie_set_repeater_mode E sid enabled a =
     (if sid = kInvalidSessionId then (C_Returned OWALKIE_ERR_INVALID_ARG, a)
      else (case manager_setRepeaterMode (with_signal E a) (enabled \<noteq> 0) sid (ap_manager a) of
              (oc, m) \<Rightarrow> (outcome_c oc, a\<lparr>ap_manager := m\<rparr>)))"

definition owalkie_set_power_profile :: "session_id \<Rightarrow> int \<Rightarrow> 'c api \<Rightarrow> 'c api" where
  "owalkie_set_power_profile sid profile a =
     (if sid = kInvalidSessionId then a
      else
        let cpp = (if profile = 1 then Background else if profile = 2 then ActiveTx else Foreground)
        in a\<lparr>ap_manager := manager_setPowerProfile cpp sid (ap_manager a)\<rparr>)"

definition owalkie_punch_nat :: "session_id \<Rightarrow> 'c api \<Rightarrow> owalkie_result \<times> 'c api" where
  "owalkie_punch_nat sid a =
     (if sid = kInvalidSessionId then (OWALKIE_ERR_INVALID_ARG, a)
      else (case manager_punchNat sid (ap_manager a) of (r, m) \<Rightarrow> (toC r, a\<lparr>ap_manager := m\<rparr>)))"

definition signal_mode_of :: "int \<Rightarrow> Mode option" where
  "signal_mode_of mode = (if mode = 0 then Some Wifi else if mode = 1 then Some Cell else None)"

definition owalkie_report_signal :: "int \<Rightarrow> int \<Rightarrow> 'c api \<Rightarrow> owalkie_result \<times> 'c api" where
  "owalkie_report_signal mode v a =
     (case signal_mode_of mode of
        None \<Rightarrow> (OWALKIE_ERR_INVALID_ARG, a)
      | Some cpp \<Rightarrow> (case Registry_report (ap_signal a) cpp v of (r, reg) \<Rightarrow> (toC r, a\<lparr>ap_signal := reg\<rparr>)))"

definition owalkie_clear_signal :: "int \<Rightarrow> 'c api \<Rightarrow> owalkie_result \<times> 'c api" where
  "owalkie_clear_signal mode a =
     (case signal_mode_of mode of
        None \<Rightarrow> (OWALKIE_ERR_INVALID_ARG, a)
      | Some cpp \<Rightarrow> (case Registry_clear (ap_signal a) cpp of (r, reg) \<Rightarrow> (toC r, a\<lparr>ap_signal := reg\<rparr>)))"

definition owalkie_get_uplink_signal_byte :: "'c api \<Rightarrow> int" where
  "owalkie_get_uplink_signal_byte a = combinedByte (ap_signal a)"

end
