(* ===== verification/Session_Io_Props.thy ===== *)
theory Session_Io_Props
  imports Session_Reach
begin

text \<open>
  Properties of single operations of the session's transport: waiting for the transport to stop
  ends in time and leaves no workers, a welcome brings the session up in the right order, a
  failed connect leaves nothing open, and what the keepalive loop does with one lost datagram.
\<close>

section \<open>The clock\<close>

definition time_passes :: "'c session \<Rightarrow> 'c session \<Rightarrow> bool" where
  "time_passes s t \<longleftrightarrow> s_clk s \<le> s_clk t"

interpretation clk: session_relation E time_passes for E :: "('j, 'c) env"
  by unfold_locales
    (auto simp: time_passes_def emitEvent_def emit_loss_def observe_def emitDisconnectedOnce_def
      push_item_def ensureTxWorkerStarted_def Let_def)

lemma clk_tick: "s_clk s \<le> s_clk (tick s)"
  using clk.tick_R [OF clk.refl, of s] by (simp add: time_passes_def)

lemma clk_join: "s_clk s \<le> s_clk (joinTeardownThread E s)"
  using clk.teardown_R(2) [OF clk.refl, of s E] by (simp add: time_passes_def)

lemma clk_ws: "s_clk s \<le> s_clk (on_thread T_Ws (wsThreadExit E) s)"
  using clk.ws_background_R [OF clk.refl, of s E] by (simp add: time_passes_def)

section \<open>Waiting\<close>

lemma wait_loop_ends:
  assumes "0 \<le> ms" and "deadline - s_clk s \<le> int (length polls) * (10 * kNsPerMs)"
  shows "\<exists>t. wait_loop E ms deadline polls s = Some t"
  using assms(2)
proof (induction polls arbitrary: s)
  case Nil
  then show ?case using clk_tick [of s] assms(1) by (subst wait_loop.simps) (simp add: Let_def)
next
  case (Cons p polls)
  obtain d b where p: "p = (d, b)" by (cases p)
  let ?s1 = "joinTeardownThread E (tick s)"
  let ?s2 = "?s1\<lparr>s_clk := s_clk ?s1 + 10 * kNsPerMs + int d\<rparr>"
  let ?s3 = "if b then on_thread T_Ws (wsThreadExit E) ?s2 else ?s2"
  have "s_clk s + 10 * kNsPerMs \<le> s_clk ?s3"
    using clk_tick [of s] clk_join [of "tick s" E] clk_ws [of ?s2 E] by auto
  then have "deadline - s_clk ?s3 \<le> int (length polls) * (10 * kNsPerMs)"
    using Cons.prems by (simp add: algebra_simps)
  from Cons.IH [OF this] show ?case
    using assms(1) by (cases b) (subst wait_loop.simps, simp add: Let_def p)+
qed

lemma teardown_frame [simp]:
  "s_teardownThread (clearTransportState E s) = s_teardownThread s"
  "s_teardownThread (endLocalTxIfNeeded E s) = s_teardownThread s"
  "s_teardownThread (emitDisconnectedOnce s) = s_teardownThread s"
  "s_teardownThread (joinUdpKeepaliveThreadsUnlessCaller s) = s_teardownThread s"
  using clear_worker_frame(1,2) [of s E] emitDisconnectedOnce_frame [of s]
  by (simp_all add: worker_frame_def joinUdpKeepaliveThreadsUnlessCaller_def Let_def)

lemma teardown_ws_exit: "s_teardownThread (on_thread T_Ws (wsThreadExit E) s) = s_teardownThread s"
  by (simp add: on_thread_def wsThreadExit_def finalize_rest_def Let_def)

lemma wait_loop_unbounded_ends:
  assumes "ms < 0" and "polls \<noteq> []"
  shows "\<exists>t. wait_loop E ms deadline polls s = Some t"
proof -
  obtain d b rest where p: "polls = (d, b) # rest" using assms(2) by (cases polls) auto
  have 1: "\<exists>t. wait_loop E ms deadline qs u = Some t" if "\<not> s_teardownThread u" for qs u
    using that assms(1) by (subst wait_loop.simps) (simp add: Let_def joinTeardownThread_def)
  have joined: "\<not> s_teardownThread (joinTeardownThread E s)"
    by (simp add: joinTeardownThread_def Let_def)
  show ?thesis
    using assms(1) joined by (subst wait_loop.simps) (auto simp: Let_def p intro!: 1 simp: teardown_ws_exit)
qed

lemma wait_done:
  assumes "waitUntilTransportStopped E ms polls s = Some t"
  shows "s_transportFullyStopped t"
  using assms by (auto simp: waitUntilTransportStopped_def wait_finish_def Let_def)

lemma wait_ends:
  assumes "if ms < 0 then polls \<noteq> [] else ms \<le> int (length polls) * 10"
  shows "\<exists>t. waitUntilTransportStopped E ms polls s = Some t \<and> s_transportFullyStopped t
           \<and> (\<not> on_worker s \<longrightarrow> no_workers t)"
proof -
  let ?d = "s_clk (tick s) + ms * kNsPerMs"
  have "\<exists>u. wait_loop E ms ?d polls (tick s) = Some u"
  proof (cases "ms < 0")
    case True
    with assms show ?thesis by (intro wait_loop_unbounded_ends) auto
  next
    case False
    then have "?d - s_clk (tick s) \<le> int (length polls) * (10 * kNsPerMs)"
      using assms by (simp add: kNsPerMs_def)
    with False show ?thesis by (intro wait_loop_ends) auto
  qed
  then obtain t where t: "waitUntilTransportStopped E ms polls s = Some t"
    by (auto simp: waitUntilTransportStopped_def Let_def)
  with wait_done [OF t] no_workers_wait [OF t] show ?thesis by blast
qed



section \<open>A failed connect\<close>

lemma clear_closes [simp]:
  "s_wsStream (clearTransportState E s) = None" "s_udpSocket (clearTransportState E s) = None"
  "\<not> s_connected (clearTransportState E s)" "s_wsOutboundQueue (clearTransportState E s) = []"
  by (simp_all add: clearTransportState_def releaseWsStream_def resetIoContext_def Let_def split: option.split)

lemma joinThreads_closes [simp]:
  "s_wsStream (joinThreads E s) = None" "s_udpSocket (joinThreads E s) = None"
  "\<not> s_connected (joinThreads E s)" "s_wsOutboundQueue (joinThreads E s) = []"
  by (simp_all add: joinThreads_def)

text \<open>What a connect that did not succeed leaves, and what a successful one has opened.\<close>

definition closed_down :: "'c session \<Rightarrow> bool" where
  "closed_down s \<longleftrightarrow> \<not> s_connected s \<and> s_wsStream s = None \<and> s_udpSocket s = None \<and> s_wsOutboundQueue s = []"

definition brought_up :: "'c session \<Rightarrow> bool" where
  "brought_up s \<longleftrightarrow> s_connected s \<and> \<not> s_connectionLostSignaled s
     \<and> (\<exists>u. s_udpSocket s = Some u \<and> us_is_open u) \<and> s_wsThread s \<and> s_udpThread s \<and> s_keepaliveThread s
     \<and> s_udpRecoveryUntilNs s = s_clk s + kUdpKeepaliveRecoveryWindowNs"

lemma joinThreads_closed_down: "closed_down (joinThreads E s)"
  by (simp add: closed_down_def)

lemma connect_failed_closed: "connect_failed E s = (oc, t) \<Longrightarrow> oc = Returned R_Network \<and> closed_down t"
  by (auto simp: connect_failed_def joinThreads_closed_down)

lemma start_workers_up:
  "s_connected (start_workers s) = s_connected s" "s_udpSocket (start_workers s) = s_udpSocket s"
  "s_connectionLostSignaled (start_workers s) = s_connectionLostSignaled s"
  "s_udpRecoveryUntilNs (start_workers s) = s_udpRecoveryUntilNs s" "s_clk (start_workers s) = s_clk s"
  "s_wsThread (start_workers s)" "s_udpThread (start_workers s)" "s_keepaliveThread (start_workers s)"
  by (simp_all add: start_workers_def start_thread_def Let_def)

lemma connect_established_cases:
  assumes "connect_established E net params s = (oc, t)"
  shows "oc = Returned R_Network \<and> closed_down t \<or> oc = Returned R_Ok \<and> brought_up t"
  using assms
  by (auto simp: connect_established_def connect_failed_closed brought_up_def start_workers_up
      enterUdpRecovery_def tick_def Let_def split: if_splits list.splits dest: connect_failed_closed)

lemma connect_attempt_cases:
  assumes "connect_attempt E net params ms s = (oc, t)"
  shows "oc = Running \<or> oc = Returned R_Network \<and> closed_down t \<or> oc = Returned R_Ok \<and> brought_up t"
  using assms
  by (auto simp: connect_attempt_def Let_def split: prod.splits option.splits if_splits
      dest: connect_failed_closed connect_established_cases)

text \<open>The outcomes of \<open>connectInternal\<close> once it looks at its parameters.\<close>

lemma connect_params_cases:
  assumes "connect_params E net params ms s = (oc, t)"
  shows "oc = Running \<or> oc = Returned R_Network \<and> closed_down t \<or> oc = Returned R_Ok \<and> brought_up t
       \<or> oc \<in> {Raised, Returned R_InvalidArg, Returned R_Unsupported} \<and> t = s\<lparr>s_connectParams := params\<rparr>"
  using assms
  by (auto simp: connect_params_def Let_def split: option.splits if_splits dest: connect_attempt_cases)

text \<open>
  C16. A connect that returns either brought the session up (connected, UDP socket open, the three
  worker threads started, the recovery window of ninety seconds open, no loss signaled) or left it
  fully closed (not connected, no socket, nothing queued), with one of the codes Ok, Network,
  InvalidArg and Unsupported telling which.
\<close>

theorem connect_all_or_nothing:
  assumes "Session_connect E net params s = (Returned r, t)"
  shows "r = R_Ok \<and> brought_up t \<or> r \<in> {R_Network, R_InvalidArg, R_Unsupported} \<and> closed_down t"
proof -
  obtain u where u: "connect_params E net params kConnectTimeoutMs (resetIoContext (joinThreads E u)) = (Returned r, t)"
    using assms by (auto simp: Session_connect_def connectInternal_def Let_def split: option.splits)
  have "closed_down ((resetIoContext (joinThreads E u))\<lparr>s_connectParams := params\<rparr>)"
    by (simp add: closed_down_def resetIoContext_def Let_def)
  with connect_params_cases [OF u] show ?thesis by auto
qed

theorem connect_all_or_nothing_witness:
  "\<exists>t. Session_connect demo_env demo_net demo_params Session_init = (Returned R_Ok, t) \<and> brought_up t"
proof -
  have "fst (Session_connect demo_env demo_net demo_params Session_init) = Returned R_Ok" by code_simp
  then obtain t where "Session_connect demo_env demo_net demo_params Session_init = (Returned R_Ok, t)"
    by (metis prod.collapse)
  with connect_all_or_nothing [OF this] show ?thesis by auto
qed

section \<open>The keepalive loop and a lost datagram\<close>

abbreviation keepalive_frame :: "u32 \<Rightarrow> u8 list" where
  "keepalive_frame n \<equiv> be32_bytes n @ [0, 0, 0, 0] @ [kKeepaliveSignal]"

text \<open>A connected session whose keepalive is due now, outside recovery and transmission.\<close>

definition keepalive_due :: "('j, 'c) env \<Rightarrow> 'c session \<Rightarrow> bool" where
  "keepalive_due E s \<longleftrightarrow>
     s_connected s \<and> \<not> s_stopRequested s \<and> wc_sessionId (s_welcome s) \<noteq> 0
     \<and> (\<exists>u. s_udpSocket s = Some u \<and> us_is_open u) \<and> s_curThread s = T_Keepalive
     \<and> s_lastUdpKeepalivePendingSinceNs s = 0 \<and> s_udpRecoveryUntilNs s \<le> s_clk s \<and> 0 < s_clk s
     \<and> \<not> st_localTxActive (s_sessionState s) \<and> s_powerProfile s \<noteq> ActiveTx
     \<and> kt_idleIntervalNs (keepaliveTimingsFor (s_powerProfile s)) \<le> s_clk s - s_lastUdpKeepaliveSentNs s
     \<and> s_clkDelays s = [] \<and> s_sleepHalts s = [] \<and> \<not> s_disconnectStarted s
     \<and> \<not> s_connectionLostSignaled s \<and> buildHeartbeat (e_json E) \<noteq> None"

lemma interval_sec:
  "kt_idleIntervalNs (keepaliveTimingsFor p) div kNsPerSec * kNsPerSec = kt_idleIntervalNs (keepaliveTimingsFor p)"
  "kt_idleIntervalNs (keepaliveTimingsFor p) sdiv kNsPerSec = kt_idleIntervalNs (keepaliveTimingsFor p) div kNsPerSec"
  by (cases p; simp add: ns_defs signed_divide_int_def)+

text \<open>What the keepalive loop does to the connection besides its keepalive: nothing.\<close>

definition same_link :: "'c session \<Rightarrow> 'c session \<Rightarrow> bool" where
  "same_link s t \<longleftrightarrow>
     s_connected t = s_connected s \<and> s_stopRequested t = s_stopRequested s \<and> s_welcome t = s_welcome s
     \<and> s_powerProfile t = s_powerProfile s \<and> s_sessionState t = s_sessionState s
     \<and> s_disconnectStarted t = s_disconnectStarted s \<and> s_sleepHalts t = s_sleepHalts s
     \<and> s_connectionLostSignaled t = s_connectionLostSignaled s \<and> s_onSessionEvent t = s_onSessionEvent s
     \<and> s_clkDelays t = s_clkDelays s \<and> s_udpRecoveryUntilNs t = s_udpRecoveryUntilNs s
     \<and> s_curThread t = s_curThread s"

lemma heartbeat_same:
  assumes "s_curThread s = T_Keepalive" and "buildHeartbeat (e_json E) \<noteq> None"
  shows "same_link s (keepalive_heartbeat E now s)"
    "s_trace (keepalive_heartbeat E now s) = s_trace s" "s_clk (keepalive_heartbeat E now s) = s_clk s"
    "s_lastUdpKeepalivePendingSinceNs (keepalive_heartbeat E now s) = s_lastUdpKeepalivePendingSinceNs s"
  using assms unfolding keepalive_heartbeat_def sendWsText_def same_link_def Let_def
  by (auto split: if_splits)

lemma keepalive_sent:
  assumes "keepalive_due E s"
  shows "same_link s (sendUdpKeepalive s)" "s_clk (sendUdpKeepalive s) = s_clk s"
    "s_trace (sendUdpKeepalive s) = s_trace s @ [O_Udp (keepalive_frame (wc_sessionId (s_welcome s)))]"
    "s_lastUdpKeepalivePendingSinceNs (sendUdpKeepalive s) = s_clk s"
  using assms
  by (auto simp: sendUdpKeepalive_def sendUdpPayload_def keepalive_due_def same_link_def Let_def
      observe_def tick_def)

definition idle_delay :: "'c session \<Rightarrow> int \<Rightarrow> int" where
  "idle_delay s e = jitteredKeepaliveDelayMs
     (kt_idleIntervalNs (keepaliveTimingsFor (s_powerProfile s)) div kNsPerSec) e"

lemma idle_delay_long: "0 < idle_delay s e"
  "kt_lostNs (keepaliveTimingsFor (s_powerProfile s)) < idle_delay s e * kNsPerMs"
proof -
  show *: "kt_lostNs (keepaliveTimingsFor (s_powerProfile s)) < idle_delay s e * kNsPerMs"
    unfolding idle_delay_def by (rule keepalive_schedule(6))
  have "0 < kt_lostNs (keepaliveTimingsFor (s_powerProfile s))"
    using timings_order(1,2) [of "s_powerProfile s"] by linarith
  with * show "0 < idle_delay s e" by (simp add: kNsPerMs_def)
qed

text \<open>A turn that finds the keepalive due sends it once and sleeps the jittered interval.\<close>

lemma due_turn:
  assumes due: "keepalive_due E s"
  obtains t where "keepaliveTurn E e s = (True, t)" "same_link s t"
    "s_clk t = s_clk s + idle_delay s e * kNsPerMs" "s_lastUdpKeepalivePendingSinceNs t = s_clk s"
    "s_trace t = s_trace s @ [O_Udp (keepalive_frame (wc_sessionId (s_welcome s))), O_Sleep (idle_delay s e)]"
proof -
  let ?k = "sendUdpKeepalive s"
  let ?h = "keepalive_heartbeat E (s_clk s) ?k"
  let ?t = "interruptibleSleepMs (idle_delay s e) ?h"
  note k = keepalive_sent [OF due]
  have h: "same_link ?k ?h" "s_trace ?h = s_trace ?k" "s_clk ?h = s_clk ?k"
    "s_lastUdpKeepalivePendingSinceNs ?h = s_lastUdpKeepalivePendingSinceNs ?k"
    using due k(1) by (intro heartbeat_same; simp add: keepalive_due_def same_link_def)+
  have turn: "keepaliveTurn E e s = (True, ?t)"
    using due unfolding keepalive_due_def
    by (simp add: keepaliveTurn_def Let_def tick_def interval_sec idle_delay_def)
  have sleep: "?t = (observe (O_Sleep (idle_delay s e)) ?h)\<lparr>s_clk := s_clk ?h + idle_delay s e * kNsPerMs\<rparr>"
    using due h(1) k(1) idle_delay_long(1) [of s e]
    by (simp add: interruptibleSleepMs_def same_link_def keepalive_due_def Let_def observe_def)
  show ?thesis
    by (rule that [OF turn]; use h k in \<open>simp add: sleep observe_def same_link_def\<close>)
qed

text \<open>The next turn: with the keepalive still unanswered, the connection is given up at once.\<close>

lemma unanswered_turn:
  assumes "keepalive_due E s" "same_link s t" "s_clk t = s_clk s + idle_delay s e * kNsPerMs"
    "s_lastUdpKeepalivePendingSinceNs t = s_clk s"
  shows "keepaliveTurn E e' t =
    (False, signalRecoverableLoss ''keepalive_lost'' (t\<lparr>s_lastUdpKeepalivePendingSinceNs := 0\<rparr>))"
  using assms idle_delay_long(2) [of s e] unfolding keepalive_due_def same_link_def
  by (simp add: keepaliveTurn_def Let_def tick_def)

lemma loss_signaled:
  assumes "\<not> s_disconnectStarted t" "\<not> s_connectionLostSignaled t" "s_onSessionEvent t"
  shows "s_trace (signalRecoverableLoss r t) = s_trace t @ [O_Event (plain_event Ev_RxBroadcastEnd),
      O_Event (Event_default\<lparr>ev_type := Ev_ConnectionLost, ev_disconnectReason := r\<rparr>)]"
    "\<not> s_connected (signalRecoverableLoss r t)"
  using assms by (auto simp: signalRecoverableLoss_def emit_loss_def emitEvent_def observe_def
      haltTransport_def closeSockets_def shutdownWsTcp_def Let_def split: option.split)

text \<open>With the acknowledgement in time the next turn goes on instead.\<close>

definition keepalive_ack :: "u32 \<Rightarrow> u8 list" where
  "keepalive_ack n = be32_bytes n @ [0, 0, 0, 0] @ [kKeepaliveAckSignal]"

text \<open>
  C39. What one lost keepalive does. When the keepalive is due outside recovery and transmission,
  the loop sends exactly one datagram and sleeps its jittered interval, which is longer than the
  time after which an unanswered keepalive counts as lost; so if no answer comes, its very next
  turn gives the connection up (RxBroadcastEnd, ConnectionLost) and ends, without the
  retransmission the loop has for this case ever being reached.
\<close>

theorem keepalive_single_loss_is_fatal:
  assumes "keepalive_due E s" and "s_onSessionEvent s"
  shows "\<exists>t u d. keepaliveTurn E e s = (True, t) \<and> keepaliveTurn E e' t = (False, u) \<and> \<not> s_connected u
    \<and> s_trace u = s_trace s @ [O_Udp (keepalive_frame (wc_sessionId (s_welcome s))), O_Sleep d,
        O_Event (plain_event Ev_RxBroadcastEnd),
        O_Event (Event_default\<lparr>ev_type := Ev_ConnectionLost, ev_disconnectReason := ''keepalive_lost''\<rparr>)]"
proof -
  obtain t where t: "keepaliveTurn E e s = (True, t)" "same_link s t"
    "s_clk t = s_clk s + idle_delay s e * kNsPerMs" "s_lastUdpKeepalivePendingSinceNs t = s_clk s"
    "s_trace t = s_trace s @ [O_Udp (keepalive_frame (wc_sessionId (s_welcome s))), O_Sleep (idle_delay s e)]"
    using due_turn [OF assms(1)] by metis
  let ?t = "t\<lparr>s_lastUdpKeepalivePendingSinceNs := 0\<rparr>"
  have "\<not> s_disconnectStarted ?t" "\<not> s_connectionLostSignaled ?t" "s_onSessionEvent ?t"
    using assms t(2) by (simp_all add: keepalive_due_def same_link_def)
  from loss_signaled [OF this, of "''keepalive_lost''"] unanswered_turn [OF assms(1) t(2,3,4), of e'] t(1,5)
  show ?thesis
    by (intro exI [of _ t] exI [of _ "signalRecoverableLoss ''keepalive_lost'' ?t"] exI [of _ "idle_delay s e"]) auto
qed

text \<open>The demonstration session with its keepalive due.\<close>

definition demo_due :: "unit session" where
  "demo_due = demo_session\<lparr>s_curThread := T_Keepalive, s_clk := 20 * kNsPerSec\<rparr>"

lemma demo_due: "keepalive_due demo_env demo_due" "s_onSessionEvent demo_due"
  by (auto simp: keepalive_due_def demo_due_def demo_session_def Session_init_def ns_defs demo_env_def
      buildHeartbeat_def jv_lib_def WelcomeConfig_default_def SessionState_default_def)

theorem keepalive_single_loss_is_fatal_witness:
  "\<exists>t u. keepaliveTurn demo_env 3 demo_due = (True, t) \<and> keepaliveTurn demo_env 4 t = (False, u) \<and> \<not> s_connected u"
  using keepalive_single_loss_is_fatal [OF demo_due, of 3 4] by blast

text \<open>
  An acknowledgement that arrives while the loop sleeps clears the pending keepalive: the next
  turn goes on, and the connection stays as it was.
\<close>

theorem keepalive_acknowledged_goes_on:
  assumes "keepalive_due E s" and "keepaliveTurn E e s = (True, t)"
  shows "s_lastUdpKeepalivePendingSinceNs (udpReceive E (keepalive_ack (wc_sessionId (s_welcome s))) t) = 0
    \<and> fst (keepaliveTurn E e' (udpReceive E (keepalive_ack (wc_sessionId (s_welcome s))) t))
    \<and> s_connected (udpReceive E (keepalive_ack (wc_sessionId (s_welcome s))) t)"
proof -
  have t: "same_link s t" using due_turn [OF assms(1), of e] assms(2) by (metis prod.inject)
  let ?u = "udpReceive E (keepalive_ack (wc_sessionId (s_welcome s))) t"
  have ack: "isKeepaliveAck (keepalive_ack n) n" for n
    using marker_simps(2) [of n 0 kKeepaliveAckSignal n] by (simp add: keepalive_ack_def be32_bytes_eq)
  have u: "?u = t\<lparr>s_lastInboundNs := s_clk t, s_lastUdpKeepalivePendingSinceNs := 0\<rparr>"
    using assms(1) t by (simp add: udpReceive_def ack same_link_def keepalive_due_def tick_def)
  show ?thesis
    using assms(1) t unfolding u same_link_def keepalive_due_def
    by (simp add: keepaliveTurn_def Let_def tick_def)
qed

theorem keepalive_acknowledged_goes_on_witness:
  "fst (keepaliveTurn demo_env 4 (udpReceive demo_env (keepalive_ack 9) (snd (keepaliveTurn demo_env 3 demo_due))))"
proof -
  have n: "wc_sessionId (s_welcome demo_due) = 9" by (simp add: demo_due_def demo_session_def)
  obtain t where "keepaliveTurn demo_env 3 demo_due = (True, t)"
    using keepalive_single_loss_is_fatal [OF demo_due] by blast
  with keepalive_acknowledged_goes_on [OF demo_due(1) this, of 4] n show ?thesis by simp
qed

section \<open>The welcome\<close>

text \<open>The WebSocket thread of a connected session with nothing to write.\<close>

definition ws_idle :: "'c session \<Rightarrow> bool" where
  "ws_idle s \<longleftrightarrow> s_connected s \<and> \<not> s_stopRequested s \<and> s_curThread s = T_Ws
     \<and> s_wsOutboundQueue s = [] \<and> \<not> s_wsWriteInProgress s
     \<and> (\<exists>w. s_wsStream s = Some w \<and> ws_is_open w) \<and> s_onSessionEvent s"

lemma first_message_written:
  assumes "ws_idle s" and "m \<noteq> []"
  shows "sendWsText m s = s\<lparr>s_wsWriteInProgress := True, s_trace := s_trace s @ [O_WsWrite m]\<rparr>"
  using assms by (auto simp: ws_idle_def sendWsText_def pumpWsAsyncWrites_def observe_def Let_def)

lemma next_message_queued:
  assumes "s_wsWriteInProgress s" "s_connected s" "\<not> s_stopRequested s" "s_curThread s = T_Ws" and "m \<noteq> []"
  shows "sendWsText m s = s\<lparr>s_wsOutboundQueue := s_wsOutboundQueue s @ [m]\<rparr>"
  using assms by (simp add: sendWsText_def pumpWsAsyncWrites_def Let_def)

lemma written_next:
  assumes "s_wsOutboundQueue s = m # ms" "s_connected s" "\<not> s_stopRequested s"
    "s_wsStream s = Some w" "ws_is_open w"
  shows "onWsWriteDone None s =
    s\<lparr>s_wsWriteInProgress := True, s_wsOutboundQueue := ms, s_trace := s_trace s @ [O_WsWrite m]\<rparr>"
  using assms by (simp add: onWsWriteDone_def pumpWsAsyncWrites_def observe_def Let_def)

text \<open>What \<open>welcome_ready\<close> leaves alone.\<close>

definition same_ws :: "'c session \<Rightarrow> 'c session \<Rightarrow> bool" where
  "same_ws s t \<longleftrightarrow> s_connected t = s_connected s \<and> s_stopRequested t = s_stopRequested s
     \<and> s_wsOutboundQueue t = s_wsOutboundQueue s \<and> s_wsStream t = s_wsStream s
     \<and> s_welcome t = s_welcome s \<and> s_onSessionEvent t = s_onSessionEvent s \<and> s_udpSocket t = s_udpSocket s"

lemma ready_steps:
  "same_ws s (tick s) \<and> s_trace (tick s) = s_trace s"
  "same_ws s (enterUdpRecovery s) \<and> s_trace (enterUdpRecovery s) = s_trace s"
  "same_ws s (emitEvent ev s)"
  "s_onSessionEvent s \<Longrightarrow> s_trace (emitEvent ev s) = s_trace s @ [O_Event ev]"
  by (auto simp: same_ws_def tick_def enterUdpRecovery_def emitEvent_def observe_def Let_def split: list.split)

lemma ping_step:
  assumes "s_connected s" "s_udpSocket s = Some u" "us_is_open u" "wc_sessionId (s_welcome s) \<noteq> 0"
  shows "same_ws s (sendUdpKeepalive s)"
    "s_trace (sendUdpKeepalive s) = s_trace s @ [O_Udp (keepalive_frame (wc_sessionId (s_welcome s)))]"
  using assms by (auto simp: same_ws_def sendUdpKeepalive_def sendUdpPayload_def tick_def observe_def Let_def
      split: list.split)

lemma ready_effect:
  assumes "s_connected s" "s_udpSocket s = Some u" "us_is_open u" "s_welcome s = cfg" "wc_sessionId cfg \<noteq> 0"
    "s_onSessionEvent s"
  shows "same_ws s (welcome_ready cfg s)" "st_udpReady (s_sessionState (welcome_ready cfg s))"
    "s_trace (welcome_ready cfg s) = s_trace s @ [O_Udp (keepalive_frame (wc_sessionId cfg)),
       O_Event (Event_default\<lparr>ev_type := Ev_Connected, ev_welcome := cfg\<rparr>),
       O_Event (plain_event Ev_UdpTransportReady)]"
proof -
  let ?c = "Event_default\<lparr>ev_type := Ev_Connected, ev_welcome := cfg\<rparr>"
  let ?r = "enterUdpRecovery s"
  let ?k = "sendUdpKeepalive ?r"
  let ?e = "emitEvent ?c ?k"
  have r: "same_ws s ?r" "s_trace ?r = s_trace s" using ready_steps(2) by auto
  have k: "same_ws ?r ?k" "s_trace ?k = s_trace ?r @ [O_Udp (keepalive_frame (wc_sessionId cfg))]"
    using ping_step [of ?r u] r(1) assms by (auto simp: same_ws_def)
  have e: "same_ws ?k ?e" "same_ws ?e (emitEvent (plain_event Ev_UdpTransportReady) ?e)"
    by (rule ready_steps(3))+
  have on: "s_onSessionEvent ?k" "s_onSessionEvent ?e" using r k e assms(6) by (auto simp: same_ws_def)
  show "same_ws s (welcome_ready cfg s)"
    using r k e by (simp add: welcome_ready_def Let_def same_ws_def)
  show "s_trace (welcome_ready cfg s) = s_trace s @ [O_Udp (keepalive_frame (wc_sessionId cfg)),
       O_Event ?c, O_Event (plain_event Ev_UdpTransportReady)]"
    using r k on by (simp add: welcome_ready_def Let_def ready_steps(4))
  show "st_udpReady (s_sessionState (welcome_ready cfg s))"
    by (simp add: welcome_ready_def Let_def emitEvent_def applyEventState_def observe_def)
qed

text \<open>
  C33. A welcome brings the session up: the event Welcome, then the join message is written, the
  first keepalive goes out, and the events Connected and UdpTransportReady follow; the session is
  ready, and as the writes complete the UDP hello with the local port and the repeater mode are
  written after the join, in this order.
\<close>

theorem welcome_brings_up:
  assumes idle: "ws_idle s" and sock: "s_udpSocket s = Some u" "us_is_open u" and id: "wc_sessionId cfg \<noteq> 0"
    and msgs: "buildJoin (e_json E) (cp_channel (s_connectParams s)) = Some j" "j \<noteq> []"
      "buildUdpHello (e_json E) (us_port u) = Some h" "h \<noteq> []"
      "buildRepeaterMode (e_json E) (s_repeaterMode s) = Some r" "r \<noteq> []"
  shows "\<exists>t. handleWelcome E cfg s = (True, t) \<and> Session_isSessionReady t
    \<and> st_udpReady (s_sessionState t) \<and> s_welcome t = cfg
    \<and> s_trace (onWsWriteDone None (onWsWriteDone None t)) = s_trace s
        @ [O_Event (Event_default\<lparr>ev_type := Ev_Welcome, ev_welcome := cfg\<rparr>), O_WsWrite j,
           O_Udp (keepalive_frame (wc_sessionId cfg)),
           O_Event (Event_default\<lparr>ev_type := Ev_Connected, ev_welcome := cfg\<rparr>),
           O_Event (plain_event Ev_UdpTransportReady), O_WsWrite h, O_WsWrite r]"
proof -
  let ?w = "Event_default\<lparr>ev_type := Ev_Welcome, ev_welcome := cfg\<rparr>"
  let ?s0 = "s\<lparr>s_welcome := cfg,
      s_opus := snd (Codec_configure (e_opus E) cfg (s_opus s)), s_txPcmBuffer := []\<rparr>"
  let ?s1 = "emitEvent ?w ?s0"
  have s1: "ws_idle ?s1" "s_trace ?s1 = s_trace s @ [O_Event ?w]" "s_welcome ?s1 = cfg"
    "s_udpSocket ?s1 = Some u" "s_connectParams ?s1 = s_connectParams s" "s_repeaterMode ?s1 = s_repeaterMode s"
    using idle sock by (simp_all add: ws_idle_def emitEvent_def observe_def)
  let ?s2 = "?s1\<lparr>s_wsWriteInProgress := True, s_trace := s_trace ?s1 @ [O_WsWrite j]\<rparr>"
  let ?s3 = "?s2\<lparr>s_wsOutboundQueue := [h]\<rparr>"
  let ?s4 = "?s3\<lparr>s_wsOutboundQueue := [h, r]\<rparr>"
  define t where "t = welcome_ready cfg ?s4"
  have q: "sendWsText j ?s1 = ?s2" using s1(1) msgs(2) by (rule first_message_written)
  have c: "s_wsOutboundQueue ?s1 = []" "s_connected ?s1" "\<not> s_stopRequested ?s1" "s_curThread ?s1 = T_Ws"
    "s_onSessionEvent ?s1"
    using s1(1) by (auto simp: ws_idle_def)
  have q2: "sendWsText h ?s2 = ?s3" "sendWsText r ?s3 = ?s4"
    using c msgs by (simp_all add: next_message_queued)
  have run: "handleWelcome E cfg s = (True, t)"
    using s1 msgs q q2 sock unfolding t_def
    by (simp add: handleWelcome_def send_built_def localPort_def Let_def)
  obtain w where w: "s_wsStream ?s1 = Some w" "ws_is_open w" using s1(1) by (auto simp: ws_idle_def)
  note eff = ready_effect [of ?s4 u cfg, folded t_def]
  have t: "same_ws ?s4 t" "st_udpReady (s_sessionState t)"
    "s_trace t = s_trace s @ [O_Event ?w, O_WsWrite j, O_Udp (keepalive_frame (wc_sessionId cfg)),
           O_Event (Event_default\<lparr>ev_type := Ev_Connected, ev_welcome := cfg\<rparr>),
           O_Event (plain_event Ev_UdpTransportReady)]"
    using eff c s1 sock id by simp_all
  then have t': "s_connected t" "\<not> s_stopRequested t" "s_wsOutboundQueue t = [h, r]" "s_wsStream t = Some w"
    "s_welcome t = cfg"
    using c w(1) s1(3) by (simp_all add: same_ws_def)
  then have "s_trace (onWsWriteDone None (onWsWriteDone None t)) = s_trace t @ [O_WsWrite h, O_WsWrite r]"
    using w(2) by (simp add: written_next)
  with run t t' id show ?thesis by (intro exI [of _ t]) (simp add: Session_isSessionReady_def)
qed

theorem welcome_brings_up_witness:
  "\<exists>t. handleWelcome demo_env (WelcomeConfig_default\<lparr>wc_sessionId := 9\<rparr>) (demo_session\<lparr>s_curThread := T_Ws\<rparr>)
     = (True, t) \<and> Session_isSessionReady t"
proof -
  let ?s = "demo_session\<lparr>s_curThread := T_Ws\<rparr>"
  have "ws_idle ?s" by (simp add: ws_idle_def demo_session_def Session_init_def)
  from welcome_brings_up [OF this, of "\<lparr>us_is_open = True, us_port = 40000\<rparr>"
      "WelcomeConfig_default\<lparr>wc_sessionId := 9\<rparr>" demo_env "''{}''" "''{}''" "''{}''"]
  show ?thesis
    by (auto simp: demo_session_def demo_env_def jv_lib_def buildJoin_def buildUdpHello_def buildRepeaterMode_def)
qed

end
