(* ===== verification/Manager_Props.thy ===== *)
theory Manager_Props
  imports Session_Manager Session_Io_Props
begin

text \<open>
  Properties of the session registry. \<open>id_table\<close> is the interface of the table the registry is
  kept in; the operations of the manager are shown to be sequences of \<open>manager_step\<close>s, along
  which the registry's invariant holds, and what connect and disconnect promise is proved of
  the operations themselves.
\<close>

section \<open>The interface of the table\<close>

locale id_table =
  fixes find_in :: "'k \<Rightarrow> 't \<Rightarrow> 'v option"
    and emplace :: "'k \<Rightarrow> 'v \<Rightarrow> 't \<Rightarrow> 't"
    and erase :: "'k \<Rightarrow> 't \<Rightarrow> 't"
    and replace :: "'k \<Rightarrow> 'v \<Rightarrow> 't \<Rightarrow> 't"
    and keys :: "'t \<Rightarrow> 'k list"
  assumes find_keys: "find_in k t = None \<longleftrightarrow> k \<notin> set (keys t)"
    and find_emplace: "find_in k (emplace j v t) = (if k = j \<and> find_in j t = None then Some v else find_in k t)"
    and find_erase: "find_in k (erase j t) = (if k = j then None else find_in k t)"
    and find_replace: "find_in k (replace j v t) = (if k = j \<and> find_in j t \<noteq> None then Some v else find_in k t)"
    and keys_emplace: "find_in k t = None \<Longrightarrow> keys (emplace k v t) = keys t @ [k]"
    and keys_erase: "keys (erase k t) = filter (\<lambda>j. j \<noteq> k) (keys t)"
    and keys_replace: "keys (replace k v t) = keys t"
begin

text \<open>A table whose keys are distinct, at most \<open>n\<close>, and satisfy \<open>P\<close>.\<close>

definition keys_ok :: "nat \<Rightarrow> ('k \<Rightarrow> bool) \<Rightarrow> 't \<Rightarrow> bool" where
  "keys_ok n P t \<longleftrightarrow> distinct (keys t) \<and> length (keys t) \<le> n \<and> list_all P (keys t)"

lemma keys_ok_erase: "keys_ok n P t \<Longrightarrow> keys_ok n P (erase k t)"
  by (auto simp: keys_ok_def keys_erase list_all_iff intro: le_trans [OF length_filter_le])

lemma keys_ok_replace: "keys_ok n P t \<Longrightarrow> keys_ok n P (replace k v t)"
  by (simp add: keys_ok_def keys_replace)

lemma keys_ok_emplace:
  assumes "keys_ok n P t" and "length (keys t) < n" and "P k" and "find_in k t = None"
  shows "keys_ok n P (emplace k v t)"
  using assms by (auto simp: keys_ok_def keys_emplace find_keys)

lemma keys_ok_mono: "keys_ok n P t \<Longrightarrow> (\<And>k. P k \<Longrightarrow> Q k) \<Longrightarrow> keys_ok n Q t"
  by (auto simp: keys_ok_def list_all_iff)

text \<open>A predicate on all values, and what keeps it.\<close>

definition all_values :: "('v \<Rightarrow> bool) \<Rightarrow> 't \<Rightarrow> bool" where
  "all_values P t \<longleftrightarrow> (\<forall>k v. find_in k t = Some v \<longrightarrow> P v)"

lemma all_values_erase: "all_values P t \<Longrightarrow> all_values P (erase k t)"
  by (simp add: all_values_def find_erase)

lemma all_values_replace: "all_values P t \<Longrightarrow> P v \<Longrightarrow> all_values P (replace k v t)"
  by (simp add: all_values_def find_replace)

lemma all_values_emplace: "all_values P t \<Longrightarrow> P v \<Longrightarrow> all_values P (emplace k v t)"
  by (simp add: all_values_def find_emplace)

end

lemma um_find_erase: "um_find k (um_erase j t) = (if k = j then None else um_find k t)"
  by (induction t) (auto simp: um_find_def um_erase_def)

lemma um_find_replace:
  "um_find k (um_replace j v t) = (if k = j \<and> um_find j t \<noteq> None then Some v else um_find k t)"
  by (induction t) (auto simp: um_find_def um_replace_def)

interpretation tbl: id_table um_find um_emplace um_erase um_replace "map fst"
proof unfold_locales
  show "um_find k t = None \<longleftrightarrow> k \<notin> set (map fst t)" for k :: 'k and t :: "('k \<times> 'v) list"
    by (simp add: um_find_def map_of_eq_None_iff)
  show "um_find k (um_emplace j v t) = (if k = j \<and> um_find j t = None then Some v else um_find k t)"
    for k j :: 'k and v :: 'v and t by (auto simp: um_emplace_def um_find_def map_add_def split: option.split)
  show "map fst (um_emplace k v t) = map fst t @ [k]" if "um_find k t = None" for k :: 'k and v :: 'v and t
    using that by (simp add: um_emplace_def)
  show "map fst (um_erase k t) = filter (\<lambda>j. j \<noteq> k) (map fst t)" for k :: 'k and t :: "('k \<times> 'v) list"
    by (induction t) (auto simp: um_erase_def)
  show "map fst (um_replace k v t) = map fst t" for k :: 'k and v :: 'v and t
    by (auto simp: um_replace_def)
qed (rule um_find_erase um_find_replace)+

lemma find_put:
  "find_managed k (put_managed j mg m) = (if k = j \<and> find_managed j m \<noteq> None then Some mg else find_managed k m)"
  by (simp add: find_managed_def put_managed_def tbl.find_replace)

lemma find_erase: "find_managed k (erase_managed j m) = (if k = j then None else find_managed k m)"
  by (simp add: find_managed_def erase_managed_def tbl.find_erase)

lemma find_cleanup [simp]: "find_managed k (scheduleSessionCleanup s m) = find_managed k m"
  by (simp add: find_managed_def scheduleSessionCleanup_def)

section \<open>What a connect does to its session\<close>

text \<open>What the other threads do to a session meanwhile: steps of it, and taking the intent away.\<close>

definition background :: "('j, 'c) env \<Rightarrow> 'c managed \<Rightarrow> 'c managed \<Rightarrow> bool" where
  "background E mg mg' \<longleftrightarrow> session_run False E (mg_session mg) (mg_session mg')
     \<and> mg_opLocked mg' = mg_opLocked mg \<and> (mg_userIntent mg' \<longrightarrow> mg_userIntent mg)"

definition admissible :: "('j, 'c) env \<Rightarrow> 'c connect_sched \<Rightarrow> bool" where
  "admissible E sch \<longleftrightarrow> (\<forall>n mg. background E mg (cs_between sch n mg))
     \<and> (\<forall>f \<in> set (cs_early sch) \<union> set (cs_welcome sch). \<forall>mg. background E mg (f mg))"

lemma background_refl: "background E mg mg"
  by (simp add: background_def session_run_def)

lemma background_trans: "background E a b \<Longrightarrow> background E b c \<Longrightarrow> background E a c"
  by (auto simp: background_def session_run_def)

lemma welcome_background:
  assumes "\<forall>f \<in> set fs. \<forall>mg. background E mg (f mg)"
  shows "background E mg (welcome_wait fs mg)"
  using assms
proof (induction fs arbitrary: mg)
  case (Cons f fs)
  then have "background E mg (f mg)" "background E (f mg) (welcome_wait fs (f mg))" by auto
  then show ?case by (auto simp: background_refl intro: background_trans)
qed (simp add: background_refl)

lemma welcome_admissible:
  assumes "admissible E sch"
  shows "background E mg (welcome_wait (cs_early sch) mg)" "background E mg (welcome_wait (cs_welcome sch) mg)"
  using assms by (auto simp: admissible_def intro: welcome_background)

text \<open>No step starts a worker thread or leaves the application's thread.\<close>

definition stays_idle :: "'c session \<Rightarrow> 'c session \<Rightarrow> bool" where
  "stays_idle s t \<longleftrightarrow> (no_workers s \<longrightarrow> no_workers t)"

interpretation idl: session_relation E stays_idle for E :: "('j, 'c) env"
  by unfold_locales
    (auto simp: stays_idle_def no_workers_def emit_loss_def emitEvent_def observe_def
      emitDisconnectedOnce_def push_item_def ensureTxWorkerStarted_def Let_def)

lemma run_idle:
  assumes "session_run False E s t"
  shows "on_worker t = on_worker s" "no_workers s \<Longrightarrow> no_workers t"
  using cur.run_R [OF assms] idl.run_R [OF assms]
  by (auto simp: same_thread_def on_worker_def stays_idle_def)

lemma close_cur [simp]: "s_curThread (closeSockets s) = s_curThread s"
  by (simp add: closeSockets_def shutdownWsTcp_def Let_def split: option.split)

lemma reconnectConnect_params:
  "reconnectConnect E net params ms s = connect_params E net params
     (if ms > 0 then ms else kReconnectConnectTimeoutMs) (s\<lparr>s_stopRequested := False\<rparr>)"
  by (simp add: reconnectConnect_def connectInternal_def)

context connect_relation
begin

definition reached_idle :: "'c session \<Rightarrow> 'c managed \<Rightarrow> bool" where
  "reached_idle s mg \<longleftrightarrow> R s (mg_session mg) \<and> \<not> on_worker (mg_session mg) \<and> no_workers (mg_session mg)"

lemma idle_background: "reached_idle s mg \<Longrightarrow> background E mg mg' \<Longrightarrow> reached_idle s mg'"
  using trans run_R run_idle unfolding reached_idle_def background_def by blast

lemma background_R: "R s (mg_session mg) \<Longrightarrow> background E mg mg' \<Longrightarrow> R s (mg_session mg')"
  using trans run_R unfolding background_def by blast

lemma manager_attempt_R:
  assumes "admissible E sch" and "reached_idle s mg"
  shows "R s (mg_session (snd (snd (manager_attempt E sch ms mg))))"
proof -
  obtain oc u where u: "reconnectConnect E (cs_net sch) (mg_params mg) ms (mg_session mg) = (oc, u)"
    by fastforce
  have "R s (snd (reconnectConnect E (cs_net sch) (mg_params mg) ms (mg_session mg)))"
    unfolding reconnectConnect_params
    using assms(2) by (intro params_R) (simp_all add: reached_idle_def R_rules no_workers_def)
  then have "R s u" by (simp add: u)
  then have "R s (mg_session (welcome_wait (cs_welcome sch) (mg\<lparr>mg_session := u\<rparr>)))"
    by (intro background_R [OF _ welcome_admissible(2) [OF assms(1)]]) simp
  with \<open>R s u\<close> show ?thesis
    by (auto simp: manager_attempt_def u Let_def on_session_def R_rules split: outcome.split)
qed

lemma manager_teardown_R:
  assumes "admissible E sch" and "reached_idle s mg"
  shows "R s (mg_session (snd (snd (manager_teardown E sch ms mg))))"
proof -
  obtain oc u where u: "reconnectTeardown E (cs_teardownPolls sch) (mg_session mg) = (oc, u)" by fastforce
  have f: "R s u" "\<not> on_worker u" "oc = Returned R_Ok \<Longrightarrow> no_workers u"
    using reconnectTeardown_R [OF _ _ _ u, of s] assms(2) by (auto simp: reached_idle_def)
  have oc: "oc = Running \<or> oc = Returned R_Ok" using u
    by (auto simp: reconnectTeardown_def Let_def split: option.splits if_splits)
  let ?m1 = "mg\<lparr>mg_session := Session_clearConnectionLostSignaled u\<rparr>"
  let ?m2 = "cs_between sch 2 ?m1"
  let ?m3 = "cs_between sch 3 ?m2"
  let ?m4 = "cs_between sch 4 ?m3"
  have b: "background E x (cs_between sch n x)" for n x using assms(1) by (simp add: admissible_def)
  have "reached_idle s ?m1" if "oc = Returned R_Ok"
    using f that by (simp add: reached_idle_def Session_clearConnectionLostSignaled_def R_rules on_worker_def no_workers_def)
  then have i: "reached_idle s ?m2" "reached_idle s ?m3" "reached_idle s ?m4" if "oc = Returned R_Ok"
    using that idle_background b by blast+
  with manager_attempt_R [OF assms(1) i(3)] f oc show ?thesis
    by (auto simp: manager_teardown_def u Let_def reached_idle_def)
qed

lemma connect_locked_R:
  assumes "admissible E sch" and "\<not> on_worker (mg_session mg)"
  shows "R (mg_session mg) (mg_session (snd (snd (connect_locked E sch ms mg))))"
proof -
  let ?s = "mg_session mg"
  let ?h = "haltTransport (cancelOngoingConnect ?s)"
  have h: "R ?s ?h" "\<not> on_worker ?h"
    using assms(2) by (simp_all add: R_rules refl on_worker_def cancelOngoingConnect_def)
  have b: "background E x (cs_between sch n x)" for n x using assms(1) by (simp add: admissible_def)
  {
    fix u assume u: "waitUntilTransportStopped E kConnectTransportWaitMs (cs_polls sch) ?h = Some u"
    have "R ?s u" "no_workers u" "\<not> on_worker u"
      using wait_R [OF u h] no_workers_wait [OF u h(2)] cur_wait [OF u] h(2) by (auto simp: on_worker_def)
    then have "reached_idle ?s (mg\<lparr>mg_session := u\<rparr>)" by (simp add: reached_idle_def)
    then have i: "reached_idle ?s (cs_between sch 1 (mg\<lparr>mg_session := u\<rparr>))" using idle_background b by blast
    note j = idle_background [OF i welcome_admissible(1) [OF assms(1)]]
    note i j manager_teardown_R [OF assms(1) i] manager_teardown_R [OF assms(1) j]
  }
  note after = this
  show ?thesis
  proof (cases "waitUntilTransportStopped E kConnectTransportWaitMs (cs_polls sch) ?h")
    case None
    with h show ?thesis by (simp add: connect_locked_def on_session_def Let_def refl)
  next
    case (Some u)
    from after [OF Some] show ?thesis
      unfolding connect_locked_def Let_def on_session_def by (simp add: Some refl reached_idle_def)
  qed
qed

end

section \<open>Steps of the registry\<close>

inductive manager_step :: "('j, 'c) env \<Rightarrow> 'c manager \<Rightarrow> 'c manager \<Rightarrow> bool" for E where
  ms_prepare: "manager_step E m (snd (prepareConnection params b c m))"
| ms_background: "find_managed sid m = Some mg \<Longrightarrow> background E mg mg' \<Longrightarrow>
    manager_step E m (put_managed sid mg' m)"
| ms_lock: "find_managed sid m = Some mg \<Longrightarrow> manager_step E m (put_managed sid (mg\<lparr>mg_opLocked := b\<rparr>) m)"
| ms_connect: "find_managed sid m = Some mg \<Longrightarrow> admissible E sch \<Longrightarrow>
    manager_step E m (put_managed sid (snd (snd (connect_locked E sch ms mg))) m)"
| ms_disconnect: "find_managed sid m = Some mg \<Longrightarrow> \<not> mg_opLocked mg \<Longrightarrow>
    manager_step E m (scheduleSessionCleanup (disconnectSession (mg_session mg)) (erase_managed sid m))"
| ms_release: "find_managed sid m = Some mg \<Longrightarrow> \<not> mg_opLocked mg \<Longrightarrow>
    manager_step E m (scheduleSessionCleanup (disconnectSession (no_callbacks (mg_session mg))) (erase_managed sid m))"
| ms_halt: "find_managed sid m = Some mg \<Longrightarrow> \<not> mg_opLocked mg \<Longrightarrow>
    manager_step E m (scheduleSessionCleanup (haltTransport (no_callbacks (mg_session mg))) (erase_managed sid m))"
| ms_cleanup: "manager_step E m (cleanupThread E polls polls' k m)"
| ms_hook: "manager_step E m (setPreConnectHook b m)"

text \<open>Threads in order and the queue bounded, for every session the manager knows.\<close>

definition managed_inv :: "'c managed \<Rightarrow> bool" where
  "managed_inv mg \<longleftrightarrow> session_inv (mg_session mg) \<and> pcm_items (mg_session mg) \<le> kTxQueueCapacity"

definition manager_inv :: "nat \<Rightarrow> 'c manager \<Rightarrow> bool" where
  "manager_inv n m \<longleftrightarrow>
     tbl.keys_ok kMaxManagedSessions (\<lambda>k. 0 < unat k \<and> unat k < unat (sm_nextId m)) (sm_sessions m)
     \<and> tbl.all_values managed_inv (sm_sessions m) \<and> list_all session_inv (sm_cleanups m)
     \<and> 0 < unat (sm_nextId m) \<and> unat (sm_nextId m) \<le> n + 1"

lemma session_inv_run:
  assumes "session_run False E s t" "buildHeartbeat (e_json E) \<noteq> None" "session_inv s"
  shows "session_inv t"
  using session_inv_preserved [OF thr.run_R [OF assms(1)] cur.run_R [OF assms(1)] nsf.run_R [OF assms(1)]] assms
  by blast

lemma managed_inv_background:
  assumes "background E mg mg'" "buildHeartbeat (e_json E) \<noteq> None" "managed_inv mg"
  shows "managed_inv mg'"
  using assms session_inv_run [of E "mg_session mg" "mg_session mg'"] bq.run_R [of E "mg_session mg" "mg_session mg'"]
  by (auto simp: managed_inv_def background_def bounded_queue_def)

lemma managed_inv_connect:
  assumes "admissible E sch" "buildHeartbeat (e_json E) \<noteq> None" "managed_inv mg"
  shows "managed_inv (snd (snd (connect_locked E sch ms mg)))"
proof -
  have w: "\<not> on_worker (mg_session mg)" using assms(3) session_inv_worker by (auto simp: managed_inv_def)
  show ?thesis
    using session_inv_preserved [OF thrc.connect_locked_R [OF assms(1) w] cur.connect_locked_R [OF assms(1) w]
        nsfc.connect_locked_R [OF assms(1) w] assms(2)] bqc.connect_locked_R [OF assms(1) w] assms(3)
    by (auto simp: managed_inv_def bounded_queue_def)
qed

lemma find_all_values: "tbl.all_values P (sm_sessions m) \<Longrightarrow> find_managed k m = Some v \<Longrightarrow> P v"
  by (auto simp: tbl.all_values_def find_managed_def)

lemma manager_inv_put:
  "manager_inv n m \<Longrightarrow> managed_inv mg \<Longrightarrow> manager_inv (n + 1) (put_managed k mg m)"
  by (simp add: manager_inv_def put_managed_def tbl.keys_ok_replace tbl.all_values_replace)

lemma manager_inv_take:
  "manager_inv n m \<Longrightarrow> session_inv s \<Longrightarrow> manager_inv (n + 1) (scheduleSessionCleanup s (erase_managed k m))"
  by (simp add: manager_inv_def erase_managed_def scheduleSessionCleanup_def tbl.keys_ok_erase tbl.all_values_erase)

lemma fresh_session_inv: "session_inv (wrapCallbacks b c Session_init)"
  by (simp add: session_inv_def threads_ok_def workers_gone_def wrapCallbacks_def Session_setCallbacks_def Session_init_def)

lemma manager_inv_prepare:
  assumes "manager_inv n m" and n: "n + 2 < 2 ^ 64"
  shows "manager_inv (n + 1) (snd (prepareConnection params b c m))"
proof (cases "length (sm_sessions m) \<ge> kMaxManagedSessions")
  case True
  with assms(1) show ?thesis by (simp add: prepareConnection_def manager_inv_def)
next
  case False
  let ?i = "sm_nextId m"
  let ?mg = "\<lparr>mg_session = wrapCallbacks b c Session_init, mg_params = params, mg_userIntent = True, mg_opLocked = False\<rparr>"
  have nxt: "unat (?i + 1) = unat ?i + 1"
    using assms by (simp add: manager_inv_def unat_word_ariths)
  have new: "um_find ?i (sm_sessions m) = None"
    using assms(1) by (auto simp: tbl.find_keys manager_inv_def tbl.keys_ok_def list_all_iff)
  have keys: "tbl.keys_ok kMaxManagedSessions (\<lambda>k. 0 < unat k \<and> unat k < unat (?i + 1)) (um_emplace ?i ?mg (sm_sessions m))"
    using assms(1) False new nxt
    by (auto simp: manager_inv_def tbl.keys_ok_def tbl.keys_emplace [OF new] list_all_iff tbl.find_keys)
  have "managed_inv ?mg"
    using fresh_session_inv
    by (simp add: managed_inv_def pcm_items_def wrapCallbacks_def Session_setCallbacks_def Session_init_def)
  then have "tbl.all_values managed_inv (um_emplace ?i ?mg (sm_sessions m))"
    using assms(1) by (intro tbl.all_values_emplace) (simp_all add: manager_inv_def)
  with assms(1) False keys nxt show ?thesis by (simp add: prepareConnection_def manager_inv_def Let_def)
qed

lemma no_callbacks_inv [simp]: "session_inv (no_callbacks s) = session_inv s"
  by (simp add: no_callbacks_def Session_setCallbacks_def session_inv_def threads_ok_def workers_gone_def)

lemma session_inv_step:
  "session_step False E s t \<Longrightarrow> buildHeartbeat (e_json E) \<noteq> None \<Longrightarrow> session_inv s \<Longrightarrow> session_inv t"
  by (rule session_inv_run) (auto simp: session_run_def)

lemma session_inv_ends:
  fixes E :: "('j, 'c) env" and s :: "'c session"
  assumes "buildHeartbeat (e_json E) \<noteq> None" and "session_inv s"
  shows "session_inv (disconnectSession s)" "session_inv (haltTransport s)"
proof -
  have "\<not> (s_wsThread s \<and> s_curThread s = T_Ws)" using assms(2) by (simp add: session_inv_def)
  then show "session_inv (disconnectSession s)" by (rule session_inv_step [OF st_disconnect [where E = E]]) (rule assms)+
  show "session_inv (haltTransport s)" by (rule session_inv_step [OF st_halt [where E = E]]) (rule assms)+
qed

lemma manager_inv_step:
  assumes "manager_step E m m'" and hb: "buildHeartbeat (e_json E) \<noteq> None" and "manager_inv n m" and "n + 2 < 2 ^ 64"
  shows "manager_inv (n + 1) m'"
proof -
  have managed: "managed_inv mg" if "find_managed sid m = Some mg" for sid mg
    by (rule find_all_values [OF _ that]) (use assms(3) in \<open>simp add: manager_inv_def\<close>)
  have session: "session_inv (mg_session mg)" if "find_managed sid m = Some mg" for sid mg
    using managed [OF that] by (simp add: managed_inv_def)
  from assms(1) show ?thesis
  proof cases
  case (ms_prepare params b c)
  with manager_inv_prepare [OF assms(3,4)] show ?thesis by simp
next
  case (ms_background sid mg mg')
  from managed [OF ms_background(2)] managed_inv_background [OF ms_background(3) hb] show ?thesis
    unfolding ms_background(1) by (intro manager_inv_put assms(3)) blast
next
  case (ms_lock sid mg b)
  from managed [OF ms_lock(2)] show ?thesis
    unfolding ms_lock(1) by (intro manager_inv_put assms(3)) (simp add: managed_inv_def)
next
  case (ms_connect sid mg sch ms)
  from managed [OF ms_connect(2)] managed_inv_connect [OF ms_connect(3) hb] show ?thesis
    unfolding ms_connect(1) by (intro manager_inv_put assms(3)) blast
next
  case (ms_disconnect sid mg)
  from session [OF ms_disconnect(2)] session_inv_ends(1) [OF hb] show ?thesis
    unfolding ms_disconnect(1) by (intro manager_inv_take assms(3)) blast
next
  case (ms_release sid mg)
  from session [OF ms_release(2)] session_inv_ends(1) [OF hb, of "no_callbacks (mg_session mg)"] show ?thesis
    unfolding ms_release(1) by (intro manager_inv_take assms(3)) simp
next
  case (ms_halt sid mg)
  from session [OF ms_halt(2)] session_inv_ends(2) [OF hb, of "no_callbacks (mg_session mg)"] show ?thesis
    unfolding ms_halt(1) by (intro manager_inv_take assms(3)) simp
next
  case (ms_cleanup polls polls' k)
  have "list_all session_inv (take k (sm_cleanups m) @ drop (Suc k) (sm_cleanups m))"
    using assms(3) by (auto simp: manager_inv_def list_all_iff dest: in_set_takeD in_set_dropD)
  with ms_cleanup assms(3) show ?thesis
    by (auto simp: cleanupThread_def manager_inv_def split: option.split)
next
  case (ms_hook b)
  with assms(3) show ?thesis by (simp add: setPreConnectHook_def manager_inv_def)
qed
qed

lemma manager_inv_run:
  assumes "(manager_step E ^^ n) manager_init m" and "buildHeartbeat (e_json E) \<noteq> None" and "n + 1 < 2 ^ 64"
  shows "manager_inv n m"
  using assms(1,3)
proof (induction n arbitrary: m)
  case 0
  then show ?case
    by (auto simp: manager_inv_def manager_init_def tbl.keys_ok_def tbl.all_values_def um_find_def)
next
  case (Suc n)
  then obtain u where u: "(manager_step E ^^ n) manager_init u" "manager_step E u m" by auto
  from Suc.IH [OF u(1)] Suc.prems(2) manager_inv_step [OF u(2) assms(2)] show ?case by simp
qed



section \<open>Operations are runs of steps\<close>

definition manager_run :: "('j, 'c) env \<Rightarrow> 'c manager \<Rightarrow> 'c manager \<Rightarrow> bool" where
  "manager_run E = (manager_step E)\<^sup>*\<^sup>*"

definition all_run :: "('j, 'c) env \<Rightarrow> ('c manager \<Rightarrow> 'c manager) set \<Rightarrow> bool" where
  "all_run E fs \<longleftrightarrow> (\<forall>f \<in> fs. \<forall>m. manager_run E m (f m))"

lemma run_refl [simp]: "manager_run E m m"
  by (simp add: manager_run_def)

lemma run_step: "manager_run E m u \<Longrightarrow> manager_step E u v \<Longrightarrow> manager_run E m v"
  by (simp add: manager_run_def)

lemma run_trans: "manager_run E m u \<Longrightarrow> manager_run E u v \<Longrightarrow> manager_run E m v"
  by (simp add: manager_run_def)

lemma session_background:
  "session_step False E (mg_session mg) s \<Longrightarrow> background E mg (mg\<lparr>mg_session := s\<rparr>)"
  by (simp add: background_def session_run_def)

lemma cancel_background: "background E mg (on_session cancelOngoingConnect mg)"
  using session_background [OF st_cancel, where mg = mg] by (simp add: on_session_def)

lemma signal_background: "background E mg (signalUserDisconnect mg)"
proof -
  have "background E mg (mg\<lparr>mg_userIntent := False\<rparr>)" by (simp add: background_def session_run_def)
  from background_trans [OF this cancel_background] show ?thesis by (simp add: signalUserDisconnect_def)
qed

lemma put_find: "find_managed k m = Some mg \<Longrightarrow> find_managed k (put_managed k mg' m) = Some mg'"
  by (simp add: find_put)

text \<open>Taking a session out: what has happened before, and that the session had lost its intent.\<close>

lemma take_run:
  assumes "all_run E (set fs)" and "takeSessionForTeardown sid fs m = (r, m')"
  shows "case r of None \<Rightarrow> manager_run E m m'
    | Some mg \<Rightarrow> \<exists>u. manager_run E m u \<and> find_managed sid u = Some mg \<and> \<not> mg_opLocked mg
        \<and> \<not> mg_userIntent mg \<and> m' = erase_managed sid u"
  using assms
proof (induction fs arbitrary: m)
  case (Cons f fs)
  show ?case
  proof (cases "find_managed sid m")
    case None
    with Cons.prems show ?thesis by auto
  next
    case (Some mg)
    let ?u = "put_managed sid (signalUserDisconnect mg) m"
    have u: "manager_run E m ?u" "find_managed sid ?u = Some (signalUserDisconnect mg)"
      using run_step [OF run_refl ms_background [OF Some signal_background]] put_find [OF Some] by auto
    have lost: "\<not> mg_userIntent (signalUserDisconnect mg)" "mg_opLocked (signalUserDisconnect mg) = mg_opLocked mg"
      by (simp_all add: signalUserDisconnect_def on_session_def)
    show ?thesis
    proof (cases "mg_opLocked mg")
      case True
      have "manager_run E m (f ?u)"
        using Cons.prems(1) by (intro run_trans [OF u(1)]) (simp add: all_run_def)
      moreover have "all_run E (set fs)" "takeSessionForTeardown sid fs (f ?u) = (r, m')"
        using Cons.prems Some True lost by (auto simp: all_run_def Let_def)
      ultimately show ?thesis using Cons.IH [of "f ?u"] run_trans by (fastforce split: option.splits)
    next
      case False
      then have r: "r = Some (signalUserDisconnect mg)" and m': "m' = erase_managed sid ?u"
        using Cons.prems(2) Some lost by (auto simp: Let_def)
      show ?thesis unfolding r m' using u lost False by auto
    qed
  qed
qed simp

lemma release_run:
  assumes "all_run E (set fs)"
  shows "manager_run E m (releaseSession sid fs m)" "manager_run E m (haltAndRelease sid fs m)"
proof -
  obtain r u where t: "takeSessionForTeardown sid fs m = (r, u)" by fastforce
  from take_run [OF assms t] show "manager_run E m (releaseSession sid fs m)"
    by (auto simp: releaseSession_def t split: option.splits intro: run_step ms_release)
  from take_run [OF assms t] show "manager_run E m (haltAndRelease sid fs m)"
    by (auto simp: haltAndRelease_def t split: option.splits intro: run_step ms_halt)
qed

lemma attempts_run:
  assumes "\<forall>(fs, f) \<in> set as. all_run E (insert f (set fs))"
  shows "manager_run E m (disconnect_attempts sid as m)"
  using assms
proof (induction as arbitrary: m)
  case (Cons a as)
  obtain fs f where a: "a = (fs, f)" by (cases a)
  obtain r u where t: "takeSessionForTeardown sid fs m = (r, u)" by fastforce
  have fs: "all_run E (set fs)" and f: "manager_run E v (f v)" for v
    using Cons.prems by (auto simp: a all_run_def)
  note r = take_run [OF fs t]
  show ?case
  proof (cases r)
    case None
    have "manager_run E m (f (put_managed sid (on_session cancelOngoingConnect mg) u))"
      if "find_managed sid u = Some mg" for mg
      using r None run_trans [OF run_step f] ms_background [OF that cancel_background] by fastforce
    with Cons.IH Cons.prems r None run_trans show ?thesis
      by (fastforce simp: a t split: option.split)
  next
    case (Some mg)
    with r show ?thesis by (auto simp: a t intro: run_step ms_disconnect)
  qed
qed simp

lemma disconnect_run:
  assumes "\<And>n. all_run E (insert (snd (attempt n)) (set (fst (attempt n))))"
  shows "manager_run E m (disconnect sid attempt m)"
  unfolding disconnect_def using assms by (intro attempts_run) (auto simp: case_prod_beta)

lemma unlock_run:
  "manager_run E m u \<Longrightarrow> manager_run E m
     (case find_managed sid u of None \<Rightarrow> u | Some mg \<Rightarrow> put_managed sid (mg\<lparr>mg_opLocked := b\<rparr>) u)"
  by (auto split: option.split intro: run_step ms_lock)

lemma connect_run:
  assumes adm: "admissible E sch" and others: "all_run E (insert (cs_wait sch) (set (cs_release sch)))"
  shows "manager_run E m (snd (connect E sch sid timeoutMs m))"
proof (cases "find_managed sid m")
  case None
  then show ?thesis by (simp add: connect_def)
next
  case (Some managed)
  let ?t = "if timeoutMs > 0 then timeoutMs else kDefaultReconnectTimeoutMs"
  define u where "u = cs_wait sch m"
  have u: "manager_run E m u" using others by (simp add: all_run_def u_def)
  have after: "manager_run E m (put_managed sid mg' u)
      \<and> manager_run E m (releaseSession sid (cs_release sch) (put_managed sid mg' u))"
    if f: "find_managed sid u = Some mg" and c: "connect_locked E sch ?t (mg\<lparr>mg_opLocked := True\<rparr>) = (oc, rel, mg')"
    for mg oc rel mg'
  proof -
    let ?l = "put_managed sid (mg\<lparr>mg_opLocked := True\<rparr>) u"
    have "manager_step E ?l (put_managed sid mg' ?l)"
      using ms_connect [OF put_find [OF f] adm, of "mg\<lparr>mg_opLocked := True\<rparr>" ?t] c by simp
    then have "manager_run E m (put_managed sid mg' ?l)"
      using run_step [OF run_step [OF u ms_lock [OF f]]] by blast
    moreover have "put_managed sid mg' ?l = put_managed sid mg' u"
      by (auto simp: put_managed_def um_replace_def)
    ultimately have r: "manager_run E m (put_managed sid mg' u)" by simp
    moreover have "all_run E (set (cs_release sch))" using others by (simp add: all_run_def)
    ultimately show ?thesis using run_trans release_run(1) by blast
  qed
  show ?thesis
  proof (cases "find_managed sid u")
    case None
    with Some u show ?thesis by (simp add: connect_def Let_def u_def [symmetric])
  next
    case (Some mg)
    obtain oc rel mg' where c: "connect_locked E sch ?t (mg\<lparr>mg_opLocked := True\<rparr>) = (oc, rel, mg')"
      by (metis prod_cases3)
    from after [OF Some c] have "manager_run E m (put_managed sid mg' u)"
      "manager_run E m (if rel then releaseSession sid (cs_release sch) (put_managed sid mg' u) else put_managed sid mg' u)"
      by auto
    with u unlock_run [OF this(2), of sid False] show ?thesis
      unfolding connect_def Let_def u_def [symmetric]
      by (simp add: \<open>find_managed sid m = Some managed\<close> Some c split: outcome.split)
  qed
qed

lemma with_session_run:
  assumes "\<And>s. session_run False E s (snd (f s))"
  shows "manager_run E m (snd (with_session none f sid m))"
proof (cases "find_managed sid m")
  case (Some mg)
  have "background E mg (mg\<lparr>mg_session := snd (f (mg_session mg))\<rparr>)"
    using assms by (simp add: background_def)
  from run_step [OF run_refl ms_background [OF Some this]] Some show ?thesis
    by (simp add: with_session_def split_beta)
qed (simp add: with_session_def)

lemma session_ops_run:
  "manager_run E m (snd (manager_submitTx E op pcm opus polls sid m))"
  "manager_run E m (snd (manager_waitTxQueueIdle E ms idles sid m))"
  "manager_run E m (manager_setPowerProfile p sid m)"
  "manager_run E m (snd (manager_punchNat sid m))"
  unfolding manager_submitTx_def manager_waitTxQueueIdle_def manager_setPowerProfile_def manager_punchNat_def
  by (rule with_session_run; auto simp: session_run_def intro!: r_into_rtranclp
      intro: st_submit st_wait_idle st_power st_punch)+

lemma repeater_run: "manager_run E m (snd (manager_setRepeaterMode E b sid m))"
proof (cases "find_managed sid m")
  case (Some mg)
  let ?mg = "mg\<lparr>mg_params := (mg_params mg)\<lparr>cp_repeaterMode := b\<rparr>,
               mg_session := snd (Session_setRepeaterMode E b (mg_session mg))\<rparr>"
  have "background E mg ?mg"
    by (auto simp: background_def session_run_def intro: r_into_rtranclp st_repeater)
  from run_step [OF run_refl ms_background [OF Some this]] Some show ?thesis
    by (simp add: manager_setRepeaterMode_def Let_def split_beta)
qed (simp add: manager_setRepeaterMode_def)


text \<open>A schedule in which nobody interferes and the network answers at once.\<close>

definition demo_sched :: "unit connect_sched" where
  "demo_sched = \<lparr>cs_wait = (\<lambda>m. m), cs_between = (\<lambda>_ mg. mg), cs_polls = replicate 80 (0, False),
     cs_teardownPolls = [], cs_net = demo_net, cs_early = [],
     cs_welcome = [\<lambda>mg. if s_wsThread (mg_session mg)
       then on_session (on_thread T_Ws (wsIoTurn demo_env (Io_Read (Inr ''welcome'')))) mg else mg], cs_release = []\<rparr>"

definition demo_manager :: "unit manager" where
  "demo_manager = snd (prepareConnection demo_params True False manager_init)"

lemma demo_admissible: "admissible demo_env demo_sched"
  using session_background [OF st_ws]
  by (auto simp: admissible_def demo_sched_def background_refl on_session_def)


section \<open>Connecting\<close>

text \<open>What a call of \<open>connect_locked\<close> guarantees by its result.\<close>

lemma welcome_wait_params:
  "\<forall>f \<in> set fs. \<forall>mg. mg_opLocked (f mg) = mg_opLocked mg \<Longrightarrow> mg_opLocked (welcome_wait fs mg) = mg_opLocked mg"
  by (induction fs arbitrary: mg) auto

lemma attempt_ok_ready:
  "manager_attempt E sch ms mg = (Returned R_Ok, rel, mg') \<Longrightarrow> managed_ready mg' \<and> \<not> rel"
  by (auto simp: manager_attempt_def Let_def split: prod.splits outcome.splits if_splits)

lemma teardown_ok_ready:
  "manager_teardown E sch ms mg = (Returned R_Ok, rel, mg') \<Longrightarrow> managed_ready mg' \<and> \<not> rel"
  by (auto simp: manager_teardown_def Let_def split: prod.splits outcome.splits if_splits dest: attempt_ok_ready)

lemma locked_ok_ready:
  "connect_locked E sch ms mg = (Returned R_Ok, rel, mg') \<Longrightarrow> managed_ready mg' \<and> \<not> rel"
  unfolding connect_locked_def Let_def
  by (auto split: if_splits option.splits dest: teardown_ok_ready)

lemma ready_lock [simp]: "managed_ready (mg\<lparr>mg_opLocked := b\<rparr>) = managed_ready mg"
  by (simp add: managed_ready_def)



section \<open>The user's intent\<close>

definition intent_gone :: "session_id \<Rightarrow> 'c manager \<Rightarrow> bool" where
  "intent_gone sid m \<longleftrightarrow> (\<forall>mg. find_managed sid m = Some mg \<longrightarrow> \<not> mg_userIntent mg)"

lemma background_intent: "background E mg mg' \<Longrightarrow> mg_userIntent mg' \<Longrightarrow> mg_userIntent mg"
  by (simp add: background_def)

lemma on_session_intent [simp]: "mg_userIntent (on_session f mg) = mg_userIntent mg"
  by (simp add: on_session_def)

lemma connect_locked_intent: "mg_userIntent (snd (snd (connect_locked E sch ms mg))) \<Longrightarrow> mg_userIntent mg"
  by (rule ccontr) (simp add: connect_locked_def)

lemma intent_gone_step:
  assumes "manager_step E m m'" and "intent_gone sid m" and "sid \<noteq> sm_nextId m"
  shows "intent_gone sid m'"
  using assms(1)
proof cases
  case (ms_prepare params b c)
  with assms(2,3) show ?thesis
    by (auto simp: prepareConnection_def intent_gone_def find_managed_def tbl.find_emplace Let_def)
next
  case (ms_cleanup polls polls' k)
  with assms(2) show ?thesis
    by (auto simp: cleanupThread_def intent_gone_def find_managed_def split: option.splits)
next
  case (ms_hook b)
  with assms(2) show ?thesis by (simp add: setPreConnectHook_def intent_gone_def find_managed_def)
qed (use assms(2) in \<open>auto simp: intent_gone_def find_put find_erase split: if_splits
      dest: background_intent connect_locked_intent\<close>)

lemma nextId_step:
  assumes "manager_step E m m'" and "manager_inv n m" and "n + 2 < 2 ^ 64"
  shows "unat (sm_nextId m) \<le> unat (sm_nextId m')"
  using assms(1)
proof cases
  case (ms_prepare params b c)
  with assms(2,3) show ?thesis by (simp add: prepareConnection_def manager_inv_def Let_def unat_word_ariths)
next
  case (ms_cleanup polls polls' k)
  then show ?thesis by (simp add: cleanupThread_def split: option.split)
qed (simp_all add: put_managed_def erase_managed_def scheduleSessionCleanup_def setPreConnectHook_def)

lemma intent_gone_run:
  assumes "(manager_step E ^^ k) m m'" and "manager_inv n m" and "intent_gone sid m"
    and "unat sid < unat (sm_nextId m)" and "n + k + 1 < 2 ^ 64" and hb: "buildHeartbeat (e_json E) \<noteq> None"
  shows "intent_gone sid m'"
  using assms(1,5)
proof (induction k arbitrary: m')
  case (Suc k)
  then obtain u where u: "(manager_step E ^^ k) m u" "manager_step E u m'" by auto
  have inv: "manager_inv (n + k) u \<and> unat (sm_nextId m) \<le> unat (sm_nextId u)"
    using u(1) Suc.prems(2)
  proof (induction k arbitrary: u)
    case (Suc k)
    then obtain v where v: "(manager_step E ^^ k) m v" "manager_step E v u" by auto
    from Suc.IH [OF v(1)] Suc.prems(2) manager_inv_step [OF v(2) hb] nextId_step [OF v(2)] show ?case by force
  qed (use assms(2) in simp)
  show ?case
    by (rule intent_gone_step [OF u(2)])
      (use Suc.IH [OF u(1)] Suc.prems(2) inv assms(4) in auto)
qed (use assms(3) in simp)

text \<open>
  C3. A user's disconnect is final: once the intent of a session has been taken away (or the session
  is no longer registered), then whatever steps the application and all threads take, a
  connect of its id is refused with \<open>InvalidArg\<close> and changes nothing; also no later session gets
  the id.
\<close>

theorem disconnected_stays_disconnected:
  assumes "(manager_step E ^^ n) manager_init m" and "(manager_step E ^^ k) m m'"
    and "intent_gone sid m" and "unat sid < unat (sm_nextId m)" and "n + k + 1 < 2 ^ 64"
    and "buildHeartbeat (e_json E) \<noteq> None"
  shows "connect E sch sid timeoutMs m' = (Returned R_InvalidArg, m')"
proof -
  have "manager_inv n m" using manager_inv_run [OF assms(1,6)] assms(5) by simp
  from intent_gone_run [OF assms(2) this assms(3-6)] show ?thesis
    by (auto simp: connect_def intent_gone_def split: option.split)
qed

theorem disconnected_stays_disconnected_witness:
  "connect demo_env demo_sched 1 0 (haltAndRelease 1 [\<lambda>m. m] demo_manager)
     = (Returned R_InvalidArg, haltAndRelease 1 [\<lambda>m. m] demo_manager)"
proof -
  have f: "find_managed 1 demo_manager = Some (snd (hd (sm_sessions demo_manager)))"
    "\<not> mg_opLocked (snd (hd (sm_sessions demo_manager)))" and n: "unat (sm_nextId demo_manager) = 2"
    by (simp_all add: demo_manager_def prepareConnection_def manager_init_def Let_def kMaxManagedSessions_def
        um_emplace_def um_find_def find_managed_def)
  have one: "(manager_step demo_env ^^ 1) manager_init demo_manager"
    using ms_prepare [of demo_env manager_init demo_params True False] by (simp add: demo_manager_def relcompp_apply)
  let ?u = "put_managed 1 (signalUserDisconnect (snd (hd (sm_sessions demo_manager)))) demo_manager"
  have "(manager_step demo_env ^^ 1) demo_manager ?u"
    using ms_background [OF f(1) signal_background] by (simp add: relcompp_apply)
  then have two: "(manager_step demo_env ^^ (1 + 1)) manager_init ?u" by (rule relpowp_trans [OF one])
  have u: "find_managed 1 ?u = Some (signalUserDisconnect (snd (hd (sm_sessions demo_manager))))"
    by (rule put_find [OF f(1)])
  have "haltAndRelease 1 [\<lambda>m. m] demo_manager = scheduleSessionCleanup
      (haltTransport (no_callbacks (mg_session (signalUserDisconnect (snd (hd (sm_sessions demo_manager))))))) (erase_managed 1 ?u)"
    using f by (simp add: haltAndRelease_def Let_def signalUserDisconnect_def on_session_def)
  then have "(manager_step demo_env ^^ 1) ?u (haltAndRelease 1 [\<lambda>m. m] demo_manager)"
    using ms_halt [OF u] f(2) by (simp add: signalUserDisconnect_def on_session_def relcompp_apply)
  then show ?thesis
    by (rule disconnected_stays_disconnected [OF two])
      (use u n in \<open>auto simp: intent_gone_def signalUserDisconnect_def put_managed_def demo_heartbeat\<close>)
qed

section \<open>Disconnecting\<close>

lemma um_erase_replace: "um_erase k (um_replace k v t) = um_erase k t"
  by (induction t) (auto simp: um_erase_def um_replace_def)

lemma erase_put: "erase_managed sid (put_managed sid mg m) = erase_managed sid m"
  by (simp add: erase_managed_def put_managed_def um_erase_replace)

lemma take_free:
  assumes "find_managed sid m = Some mg" and "\<not> mg_opLocked mg"
  shows "takeSessionForTeardown sid (f # fs) m = (Some (signalUserDisconnect mg), erase_managed sid m)"
  using assms by (simp add: Let_def erase_put signalUserDisconnect_def on_session_def)

text \<open>While somebody else holds the lock, every round tells the session and leaves it registered.\<close>

definition keeps_held :: "session_id \<Rightarrow> ('c manager \<Rightarrow> 'c manager) set \<Rightarrow> bool" where
  "keeps_held sid fs \<longleftrightarrow> (\<forall>f \<in> fs. \<forall>m mg. find_managed sid m = Some mg \<and> mg_opLocked mg \<and> \<not> mg_userIntent mg \<longrightarrow>
     (\<exists>mg'. find_managed sid (f m) = Some mg' \<and> mg_opLocked mg' \<and> \<not> mg_userIntent mg'
        \<and> (\<exists>new. s_trace (mg_session mg') = s_trace (mg_session mg) @ new)))"

lemma cancel_trace [simp]: "s_trace (cancelOngoingConnect s) = s_trace s"
  by (simp add: cancelOngoingConnect_def closeSockets_def shutdownWsTcp_def Let_def split: option.split)

lemma halt_trace [simp]: "s_trace (haltTransport s) = s_trace s"
  by (simp add: haltTransport_def closeSockets_def shutdownWsTcp_def Let_def split: option.split)

lemma take_held:
  assumes "find_managed sid m = Some mg" and "mg_opLocked mg" and "keeps_held sid (set fs)" and "fs \<noteq> []"
  shows "\<exists>m' mg'. takeSessionForTeardown sid fs m = (None, m') \<and> find_managed sid m' = Some mg'
    \<and> mg_opLocked mg' \<and> \<not> mg_userIntent mg' \<and> (\<exists>new. s_trace (mg_session mg') = s_trace (mg_session mg) @ new)"
  using assms
proof (induction fs arbitrary: m mg)
  case (Cons f fs)
  let ?s = "signalUserDisconnect mg"
  let ?u = "put_managed sid ?s m"
  have s: "mg_opLocked ?s" "\<not> mg_userIntent ?s" "s_trace (mg_session ?s) = s_trace (mg_session mg)"
    using Cons.prems(2) by (simp_all add: signalUserDisconnect_def on_session_def)
  have step: "takeSessionForTeardown sid (f # fs) m = takeSessionForTeardown sid fs (f ?u)"
    using Cons.prems(1) s by (simp add: Let_def)
  obtain mg' where n: "find_managed sid (f ?u) = Some mg'" "mg_opLocked mg'" "\<not> mg_userIntent mg'"
    "\<exists>new. s_trace (mg_session mg') = s_trace (mg_session mg) @ new"
    using Cons.prems(3) put_find [OF Cons.prems(1), of ?s] s unfolding keeps_held_def by fastforce
  show ?case
  proof (cases "fs = []")
    case True
    with n step show ?thesis by auto
  next
    case False
    have "keeps_held sid (set fs)" using Cons.prems(3) by (auto simp: keeps_held_def)
    from Cons.IH [OF n(1,2) this False] n(4) step show ?thesis by fastforce
  qed
qed simp

definition disconnects :: "obs list \<Rightarrow> nat" where
  "disconnects tr = count_events Ev_Disconnected tr"

lemma disconnect_effect:
  assumes "s_onSessionEvent s" and "\<not> (s_wsThread s \<and> s_curThread s = T_Ws)" and "\<not> s_disconnectStarted s"
  shows "\<not> s_connected (disconnectSession s)" "s_disconnectStarted (disconnectSession s)"
    "s_trace (disconnectSession s) = s_trace s @
       (if s_disconnectEventEmitted s then [] else [O_Event (plain_event Ev_Disconnected)])"
  using assms
  by (auto simp: disconnectSession_def emitDisconnectedOnce_def emitEvent_def observe_def haltTransport_def
      closeSockets_def shutdownWsTcp_def detachTeardownThread_def Let_def split: option.split)

text \<open>
  Disconnecting a session whose lock is free takes it out of the registry at once, leaves every
  other session alone, hands the session to exactly one cleanup thread, and by then it is
  halted, its disconnect is under way, and the application has been told \<open>Disconnected\<close> exactly
  once.
\<close>

theorem disconnect_spec:
  assumes "find_managed sid m = Some mg" and "\<not> mg_opLocked mg" and "fst (attempt 0) \<noteq> []"
    and "s_onSessionEvent (mg_session mg)" and "s_curThread (mg_session mg) \<noteq> T_Ws"
    and "\<not> s_disconnectStarted (mg_session mg)" and "\<not> s_disconnectEventEmitted (mg_session mg)"
  shows "\<exists>s. sm_cleanups (disconnect sid attempt m) = sm_cleanups m @ [s]
    \<and> \<not> isValid sid (disconnect sid attempt m)
    \<and> (\<forall>k. k \<noteq> sid \<longrightarrow> find_managed k (disconnect sid attempt m) = find_managed k m)
    \<and> \<not> s_connected s \<and> s_disconnectStarted s
    \<and> s_trace s = s_trace (mg_session mg) @ [O_Event (plain_event Ev_Disconnected)]"
proof -
  obtain f fs g where a: "attempt 0 = (f # fs, g)" using assms(3) by (cases "attempt 0") (auto simp: neq_Nil_conv)
  let ?s = "cancelOngoingConnect (mg_session mg)"
  have d: "disconnect sid attempt m = scheduleSessionCleanup (disconnectSession ?s) (erase_managed sid m)"
    using take_free [OF assms(1,2)] a
    by (simp add: disconnect_def upt_rec [of 0] signalUserDisconnect_def on_session_def del: takeSessionForTeardown.simps)
  have "s_onSessionEvent ?s" "\<not> (s_wsThread ?s \<and> s_curThread ?s = T_Ws)" "\<not> s_disconnectStarted ?s"
    "\<not> s_disconnectEventEmitted ?s"
    using assms(4-7)
    by (simp_all add: cancelOngoingConnect_def closeSockets_def shutdownWsTcp_def Let_def split: option.split)
  then show ?thesis
    using disconnect_effect [of ?s]
    by (intro exI [of _ "disconnectSession ?s"])
      (simp add: d isValid_def find_erase, simp add: scheduleSessionCleanup_def erase_managed_def)
qed

lemma demo_found:
  obtains mg where "find_managed 1 demo_manager = Some mg" "\<not> mg_opLocked mg" "mg_userIntent mg"
    "mg_session mg = wrapCallbacks True False Session_init" "mg_params mg = demo_params"
  by (rule that [of "\<lparr>mg_session = wrapCallbacks True False Session_init, mg_params = demo_params,
        mg_userIntent = True, mg_opLocked = False\<rparr>"])
    (simp_all add: demo_manager_def prepareConnection_def manager_init_def Let_def kMaxManagedSessions_def
      um_emplace_def um_find_def find_managed_def)

theorem disconnect_spec_witness:
  "\<not> isValid 1 (disconnect 1 (\<lambda>_. ([\<lambda>m. m], \<lambda>m. m)) demo_manager)"
proof -
  obtain mg where f: "find_managed 1 demo_manager = Some mg" "\<not> mg_opLocked mg"
    and s: "mg_session mg = wrapCallbacks True False Session_init" using demo_found by blast
  have "s_onSessionEvent (mg_session mg)" "s_curThread (mg_session mg) \<noteq> T_Ws"
    "\<not> s_disconnectStarted (mg_session mg)" "\<not> s_disconnectEventEmitted (mg_session mg)"
    by (simp_all add: s wrapCallbacks_def Session_setCallbacks_def Session_init_def)
  from disconnect_spec [OF f _ this, of "\<lambda>_. ([\<lambda>m. m], \<lambda>m. m)"] show ?thesis by auto
qed

section \<open>A rejected connect\<close>

lemma wait_not_connected:
  fixes E :: "('j, 'c) env"
  assumes "waitUntilTransportStopped E ms polls s = Some t" and "\<not> on_worker s" and "\<not> s_connected s"
  shows "\<not> s_connected t"
  using calm.wait_R [where E = E, OF assms(1) calm.refl assms(2)] assms(3) by (simp add: calm_def)

text \<open>A schedule in which nobody interferes with the call, and its waits are given their time.\<close>

definition quiet :: "session_id \<Rightarrow> 'c connect_sched \<Rightarrow> bool" where
  "quiet sid sch \<longleftrightarrow> (\<forall>m. cs_wait sch m = m) \<and> (\<forall>n mg. cs_between sch n mg = mg)
     \<and> 80 \<le> length (cs_polls sch) \<and> cs_release sch \<noteq> [] \<and> keeps_held sid (set (cs_release sch))"

lemma quiet_rejected:
  assumes "quiet sid sch" and "mg_userIntent mg" and "\<not> managed_ready mg" and "\<not> on_worker (mg_session mg)"
    and host: "parseHostEndpoint (cp_host (mg_params mg)) (cp_port (mg_params mg)) \<noteq> None"
    and port: "cp_port (mg_params mg) < 1 \<or> cp_port (mg_params mg) > 65535"
  shows "\<exists>s. connect_locked E sch ms mg = (Returned R_InvalidArg, True,
    mg\<lparr>mg_session := emitConnectionFailed ''invalid connect parameters'' s\<rparr>)"
proof -
  let ?h = "haltTransport (cancelOngoingConnect (mg_session mg))"
  have h: "\<not> on_worker ?h" "\<not> s_connected ?h"
    using assms(4) by (simp_all add: on_worker_def cancelOngoingConnect_def)
      (simp add: haltTransport_def closeSockets_def shutdownWsTcp_def Let_def split: option.split)
  obtain t where t: "waitUntilTransportStopped E kConnectTransportWaitMs (cs_polls sch) ?h = Some t"
    "s_transportFullyStopped t"
    using wait_ends [of kConnectTransportWaitMs "cs_polls sch" E ?h] assms(1)
    by (auto simp: kConnectTransportWaitMs_def quiet_def)
  have c: "\<not> s_connected t" by (rule wait_not_connected [OF t(1) h])
  obtain u where u: "reconnectTeardown E (cs_teardownPolls sch) t = (Returned R_Ok, u)"
    using t(2) by (simp add: reconnectTeardown_def Let_def)
  let ?v = "Session_clearConnectionLostSignaled u"
  have r: "reconnectConnect E (cs_net sch) (mg_params mg) ms ?v
      = (Returned R_InvalidArg, ?v\<lparr>s_stopRequested := False, s_connectParams := mg_params mg\<rparr>)"
    using host port by (auto simp: reconnectConnect_params connect_params_def Let_def)
  have "\<not> managed_ready (mg\<lparr>mg_session := t\<rparr>)" "\<not> Session_isConnected t"
    using c by (simp_all add: managed_ready_def Session_isSessionReady_def Session_isConnected_def)
  then have "connect_locked E sch ms mg = manager_teardown E sch ms (mg\<lparr>mg_session := t\<rparr>)"
    using assms(1-3) t(1) by (simp add: connect_locked_def Let_def on_session_def quiet_def)
  also have "\<dots> = (Returned R_InvalidArg, True, mg\<lparr>mg_session := emitConnectionFailed
      ''invalid connect parameters'' (?v\<lparr>s_stopRequested := False, s_connectParams := mg_params mg\<rparr>)\<rparr>)"
    using assms(1,2) u r by (simp add: manager_teardown_def manager_attempt_def Let_def quiet_def on_session_def)
  finally show ?thesis by blast
qed

text \<open>
  What a connect with an impossible port does: it announces \<open>ConnectionFailed\<close> and returns
  \<open>InvalidArg\<close>; but the release it attempts needs the lock that the call itself holds, so
  every round of it fails and the session stays registered, its slot taken and
  its intent gone: no connect can ever revive it, and only a further disconnect frees the slot.
\<close>

theorem rejected_connect_keeps_slot:
  assumes "find_managed sid m = Some mg" and "mg_userIntent mg" and "\<not> mg_opLocked mg" and "\<not> managed_ready mg"
    and "\<not> on_worker (mg_session mg)" and "quiet sid sch"
    and "parseHostEndpoint (cp_host (mg_params mg)) (cp_port (mg_params mg)) \<noteq> None"
    and "cp_port (mg_params mg) < 1 \<or> cp_port (mg_params mg) > 65535"
  shows "\<exists>m' mg'. connect E sch sid timeoutMs m = (Returned R_InvalidArg, m')
    \<and> find_managed sid m' = Some mg' \<and> \<not> mg_userIntent mg' \<and> \<not> mg_opLocked mg'
    \<and> connect E sch sid timeoutMs m' = (Returned R_InvalidArg, m')"
proof -
  let ?t = "if timeoutMs > 0 then timeoutMs else kDefaultReconnectTimeoutMs"
  let ?l = "mg\<lparr>mg_opLocked := True\<rparr>"
  obtain s where c: "connect_locked E sch ?t ?l = (Returned R_InvalidArg, True,
      ?l\<lparr>mg_session := emitConnectionFailed ''invalid connect parameters'' s\<rparr>)"
    using quiet_rejected [of sid sch ?l E ?t] assms by auto
  let ?r = "?l\<lparr>mg_session := emitConnectionFailed ''invalid connect parameters'' s\<rparr>"
  obtain v mg' where v: "takeSessionForTeardown sid (cs_release sch) (put_managed sid ?r m) = (None, v)"
    "find_managed sid v = Some mg'" "\<not> mg_userIntent mg'"
    using take_held [OF put_find [OF assms(1), of ?r], of "cs_release sch"] assms(6) by (auto simp: quiet_def)
  have "connect E sch sid timeoutMs m = (Returned R_InvalidArg, put_managed sid (mg'\<lparr>mg_opLocked := False\<rparr>) v)"
    using assms(1-4,6) c v by (simp add: connect_def Let_def quiet_def releaseSession_def)
  moreover have f: "find_managed sid (put_managed sid (mg'\<lparr>mg_opLocked := False\<rparr>) v) = Some (mg'\<lparr>mg_opLocked := False\<rparr>)"
    by (rule put_find [OF v(2)])
  moreover have "connect E sch sid timeoutMs (put_managed sid (mg'\<lparr>mg_opLocked := False\<rparr>) v)
      = (Returned R_InvalidArg, put_managed sid (mg'\<lparr>mg_opLocked := False\<rparr>) v)"
    using f v(3) by (simp add: connect_def)
  ultimately show ?thesis
    using v(3) by (intro exI [of _ "put_managed sid (mg'\<lparr>mg_opLocked := False\<rparr>) v"]
        exI [of _ "mg'\<lparr>mg_opLocked := False\<rparr>"]) simp
qed

definition demo_bad_manager :: "unit manager" where
  "demo_bad_manager = snd (prepareConnection (demo_params\<lparr>cp_port := 0\<rparr>) True False manager_init)"

theorem rejected_connect_keeps_slot_witness:
  "\<exists>m'. connect demo_env (demo_sched\<lparr>cs_release := [\<lambda>m. m]\<rparr>) 1 0 demo_bad_manager = (Returned R_InvalidArg, m')
     \<and> find_managed 1 m' \<noteq> None"
proof -
  let ?mg = "\<lparr>mg_session = wrapCallbacks True False Session_init, mg_params = demo_params\<lparr>cp_port := 0\<rparr>,
        mg_userIntent = True, mg_opLocked = False\<rparr> :: unit managed"
  have f: "find_managed 1 demo_bad_manager = Some ?mg"
    by (simp add: demo_bad_manager_def prepareConnection_def manager_init_def Let_def kMaxManagedSessions_def
        um_emplace_def um_find_def find_managed_def)
  have q: "quiet 1 (demo_sched\<lparr>cs_release := [\<lambda>m. m]\<rparr>)"
    by (auto simp: quiet_def demo_sched_def keeps_held_def)
  have h: "parseHostEndpoint (cp_host (mg_params ?mg)) (cp_port (mg_params ?mg)) \<noteq> None" by code_simp
  have "\<not> managed_ready ?mg" "\<not> on_worker (mg_session ?mg)"
    by (simp_all add: managed_ready_def Session_isSessionReady_def on_worker_def wrapCallbacks_def
        Session_setCallbacks_def Session_init_def)
  from rejected_connect_keeps_slot [OF f _ _ this q h, of demo_env 0] show ?thesis by auto
qed

end
