(* ===== verification/C_Api_Props.thy ===== *)
theory C_Api_Props
  imports C_Api Manager_Props
begin

text \<open>
  Properties of the C interface: the tagged unions it fills are well typed, which returned string
  pointers outlive the call, what reaches the application and what no longer does, and the
  round trip of packets through its buffers.
\<close>

section \<open>Tagged unions\<close>

text \<open>The member that the type of an event promises.\<close>

definition payload_ok :: "owalkie_event_type \<Rightarrow> event_payload \<Rightarrow> bool" where
  "payload_ok ty u = (case u of
       U_Welcome _ \<Rightarrow> ty = OWALKIE_EV_CONNECTED
     | U_RxBroadcastStart _ \<Rightarrow> ty = OWALKIE_EV_RX_BROADCAST_START
     | U_RxBroadcastEnd _ \<Rightarrow> ty = OWALKIE_EV_RX_BROADCAST_END
     | U_PttLocked _ \<Rightarrow> ty = OWALKIE_EV_PTT_LOCKED
     | U_TxStop info \<Rightarrow> ty = OWALKIE_EV_TX_STOP \<and> info \<noteq> C_Null
     | U_ProtocolError message \<Rightarrow> ty = OWALKIE_EV_PROTOCOL_ERROR \<and> message \<noteq> C_Null
     | U_Disconnected _ _ \<Rightarrow> ty \<in> {OWALKIE_EV_CONNECTION_FAILED, OWALKIE_EV_DISCONNECTED, OWALKIE_EV_CONNECTION_LOST}
     | U_Zero \<Rightarrow> ty \<in> {OWALKIE_EV_PTT_UNLOCKED, OWALKIE_EV_TX_COUNTDOWN_START})"

lemma managed_event_ok: "isVisible (ev_type ev) \<Longrightarrow> payload_ok (oe_type (fillManagedEventC ev)) (oe_u (fillManagedEventC ev))"
  by (cases "ev_type ev") (simp_all add: fillManagedEventC_def payload_ok_def)

lemma server_payload_ok:
  assumes "ev_type ev \<in> set server_event_types" "server_payload ev buf = Some u"
  shows "payload_ok (if ev_type ev = Ev_Welcome then OWALKIE_EV_CONNECTED else toPublic (ev_type ev)) u"
  using assms by (auto simp: server_event_types_def server_payload_def payload_ok_def split: if_splits)

lemma server_message_ok:
  assumes "owalkie_json_parse_server_message L (Some msg) n True buf = (OWALKIE_OK, Some e)"
  shows "payload_ok (oe_type e) (oe_u e)
         \<or> e = event_zero \<and> fst (parseServerMessage L (text_view msg n) Event_default) = R_NoEvent"
proof (cases "parseServerMessage L (text_view msg n) Event_default")
  case (Pair r ev)
  show ?thesis
  proof (cases "r = R_NoEvent")
    case False
    have r: "r = R_Ok"
      using assms False by (cases r) (simp_all add: owalkie_json_parse_server_message_def Pair)
    have t: "ev_type ev \<in> set server_event_types"
      using Pair r by (auto intro: parseServerMessage_type)
    then have vis: "ev_type ev = Ev_Welcome \<or> isVisible (ev_type ev)"
      by (auto simp: server_event_types_def)
    then obtain u where "server_payload ev buf = Some u"
        "e = \<lparr>oe_type = (if ev_type ev = Ev_Welcome then OWALKIE_EV_CONNECTED else toPublic (ev_type ev)), oe_u = u\<rparr>"
      using assms Pair r by (auto simp: owalkie_json_parse_server_message_def Let_def split: option.splits if_splits)
    then show ?thesis using server_payload_ok [OF t] by simp
  qed (use assms Pair in \<open>simp add: owalkie_json_parse_server_message_def\<close>)
qed

text \<open>
  C32. Every event the C interface hands out is well typed: the union member written is the one the
  event's type announces, and the strings a type promises are not null. This holds of the events
  delivered to callbacks and of those parsed from server messages, with one exception: for an
  acknowledgement (no event) the call also succeeds, and the zeroed structure it leaves carries
  the type number of a \<open>CONNECTED\<close> event without a welcome.
\<close>

theorem public_event_well_typed:
  "(isVisible (ev_type ev) \<longrightarrow> payload_ok (oe_type (fillManagedEventC ev)) (oe_u (fillManagedEventC ev)))
   \<and> (owalkie_json_parse_server_message L (Some msg) n True buf = (OWALKIE_OK, Some e) \<longrightarrow>
        payload_ok (oe_type e) (oe_u e)
        \<or> fst (parseServerMessage L (text_view msg n) Event_default) = R_NoEvent
          \<and> oe_type e = OWALKIE_EV_CONNECTED \<and> oe_u e = U_Zero \<and> \<not> payload_ok (oe_type e) (oe_u e))"
  using managed_event_ok [of ev] server_message_ok [of L msg n buf e]
  by (auto simp: event_zero_def payload_ok_def)

definition demo_ack_lib :: "jv json_lib" where
  "demo_ack_lib = jv_lib (\<lambda>t. Some (JObj [(''type'', JStr (if t = ''{p}'' then ''pong'' else ''ptt_lock'')), (''displaySec'', JInt 4)])) (\<lambda>_. None)"

lemma demo_ack_parse:
  "parseServerMessage demo_ack_lib ''{p}'' Event_default = (R_NoEvent, Event_default)"
  "parseServerMessage demo_ack_lib ''{q}'' Event_default
     = (R_Ok, Event_default\<lparr>ev_type := Ev_PttLocked, ev_pttDisplaySec := 4\<rparr>)"
  by (simp_all add: parseServerMessage_def demo_ack_lib_def jv_lib_def jv_value_def)

theorem public_event_well_typed_witness:
  "\<exists>p q. owalkie_json_parse_server_message demo_ack_lib (Some ''{p}'') 3 True None = (OWALKIE_OK, Some p)
     \<and> oe_type p = OWALKIE_EV_CONNECTED \<and> oe_u p = U_Zero
     \<and> owalkie_json_parse_server_message demo_ack_lib (Some ''{q}'') 3 True None = (OWALKIE_OK, Some q)
     \<and> payload_ok (oe_type q) (oe_u q)"
proof -
  have p: "owalkie_json_parse_server_message demo_ack_lib (Some ''{p}'') 3 True None = (OWALKIE_OK, Some event_zero)"
    by (simp add: owalkie_json_parse_server_message_def text_view_def demo_ack_parse)
  have q: "owalkie_json_parse_server_message demo_ack_lib (Some ''{q}'') 3 True None
      = (OWALKIE_OK, Some \<lparr>oe_type = OWALKIE_EV_PTT_LOCKED, oe_u = U_PttLocked 4\<rparr>)"
    by (simp add: owalkie_json_parse_server_message_def text_view_def demo_ack_parse server_payload_def)
  show ?thesis
    using public_event_well_typed [of Event_default demo_ack_lib "''{q}''" 3 None
        "\<lparr>oe_type = OWALKIE_EV_PTT_LOCKED, oe_u = U_PttLocked 4\<rparr>"] p q
    by (simp add: text_view_def demo_ack_parse event_zero_def)
qed

section \<open>String pointers\<close>

text \<open>Whether a buffer was given, as the code tests it.\<close>

definition no_buffer :: "nat option \<Rightarrow> bool" where
  "no_buffer buf \<longleftrightarrow> buf = None \<or> buf = Some 0"

lemma no_buffer_test: "(buf \<noteq> None \<and> buf \<noteq> Some 0) \<longleftrightarrow> \<not> no_buffer buf"
  by (simp add: no_buffer_def)

lemma copyToBuf_given:
  "\<not> no_buffer buf \<Longrightarrow> copyToBuf src buf = (if length src < the buf then Some src else None)"
  by (auto simp: copyToBuf_def no_buffer_def split: option.splits)

lemma parse_welcome_pointer:
  assumes "owalkie_json_parse_welcome L (Some msg) n True buf = (OWALKIE_OK, Some cfg)"
    and P: "parseWelcome L (text_view msg n) WelcomeConfig_default kProtocolVersion = (r, w)"
  shows "if no_buffer buf then ow_opus_application cfg = C_Scratch (oc_application (wc_opus w))
         else ow_opus_application cfg = C_Buffer (oc_application (wc_opus w)) \<and> length (oc_application (wc_opus w)) < the buf"
proof (cases "r = R_Ok")
  case True
  show ?thesis
    using assms(1) True
    unfolding owalkie_json_parse_welcome_def no_buffer_test
    by (simp add: P fillWelcomeC_def copyToBuf_given split: if_splits) (auto simp: copyToBuf_given split: if_splits)
next
  case False
  then show ?thesis using assms(1) by (cases r) (simp_all add: owalkie_json_parse_welcome_def P)
qed

lemma fill_simps [simp]:
  "ow_opus_application (fillWelcomeC cfg) = C_Scratch (oc_application (wc_opus cfg))"
  "oi_has_config (fillSessionInfoC ready st) = c_int (st_hasWelcome st)"
  "st_hasWelcome st \<Longrightarrow> oi_config (fillSessionInfoC ready st) = fillWelcomeC (st_welcome st)"
  by (simp_all add: fillWelcomeC_def fillSessionInfoC_def)

lemma c_int_simps [simp]: "c_int b = 1 \<longleftrightarrow> b" "c_int b = 0 \<longleftrightarrow> \<not> b"
  by (simp_all add: c_int_def)

lemma session_info_result:
  assumes "getSessionInfo sid (ap_manager a) = (R_Ok, Some (st, ready))" "sid \<noteq> kInvalidSessionId"
  shows "owalkie_get_session_info sid True buf a =
    (let info = fillSessionInfoC ready st; app = oc_application (wc_opus (st_welcome st))
     in if st_hasWelcome st \<and> \<not> no_buffer buf then
          if length app < the buf
          then (OWALKIE_OK, Some (info\<lparr>oi_config := (oi_config info)\<lparr>ow_opus_application := C_Buffer app\<rparr>\<rparr>))
          else (OWALKIE_ERR_BUFFER_TOO_SMALL, Some info)
        else (OWALKIE_OK, Some info))"
  using assms unfolding owalkie_get_session_info_def no_buffer_test
  by (simp add: Let_def copyToBuf_given)

lemma session_info_pointer:
  assumes "owalkie_get_session_info sid True buf a = (r, Some info)" "oi_has_config info = 1"
    and S: "getSessionInfo sid (ap_manager a) = (R_Ok, Some (st, ready))"
  shows "let app = oc_application (wc_opus (st_welcome st))
         in if no_buffer buf then r = OWALKIE_OK \<and> ow_opus_application (oi_config info) = C_Scratch app
            else if length app < the buf then r = OWALKIE_OK \<and> ow_opus_application (oi_config info) = C_Buffer app
            else r = OWALKIE_ERR_BUFFER_TOO_SMALL \<and> ow_opus_application (oi_config info) = C_Scratch app"
proof -
  have sid: "sid \<noteq> kInvalidSessionId"
    using assms(1) by (auto simp: owalkie_get_session_info_def)
  show ?thesis
    using assms(1,2) unfolding session_info_result [OF S sid]
    by (auto simp: Let_def split: if_splits)
qed

text \<open>
  C34. The string pointer of a successfully parsed welcome is the caller's buffer exactly when one
  was given, and then it holds the whole Opus application with room for its NUL; without a
  buffer the pointer is into a string local to the call, dangling on return. The session
  information behaves alike, but a buffer that is too small is reported after the structure has
  been filled, so the caller then holds the dangling pointer as well.
\<close>

theorem returned_strings_need_buffer:
  "(owalkie_json_parse_welcome L (Some msg) n True buf = (OWALKIE_OK, Some cfg) \<longrightarrow>
     (let app = oc_application (wc_opus (snd (parseWelcome L (text_view msg n) WelcomeConfig_default kProtocolVersion)))
      in if buf = None \<or> buf = Some 0 then ow_opus_application cfg = C_Scratch app
         else ow_opus_application cfg = C_Buffer app \<and> length app < the buf))
   \<and> (owalkie_get_session_info sid True buf a = (r, Some info) \<and> oi_has_config info = 1 \<longrightarrow>
     (\<exists>st ready. getSessionInfo sid (ap_manager a) = (R_Ok, Some (st, ready)) \<and>
       (let app = oc_application (wc_opus (st_welcome st))
        in if buf = None \<or> buf = Some 0 then r = OWALKIE_OK \<and> ow_opus_application (oi_config info) = C_Scratch app
           else if length app < the buf then r = OWALKIE_OK \<and> ow_opus_application (oi_config info) = C_Buffer app
           else r = OWALKIE_ERR_BUFFER_TOO_SMALL \<and> ow_opus_application (oi_config info) = C_Scratch app)))"
proof (intro conjI impI)
  assume "owalkie_json_parse_welcome L (Some msg) n True buf = (OWALKIE_OK, Some cfg)"
  from parse_welcome_pointer [OF this prod.collapse [symmetric]]
  show "let app = oc_application (wc_opus (snd (parseWelcome L (text_view msg n) WelcomeConfig_default kProtocolVersion)))
      in if buf = None \<or> buf = Some 0 then ow_opus_application cfg = C_Scratch app
         else ow_opus_application cfg = C_Buffer app \<and> length app < the buf"
    by (simp add: no_buffer_def Let_def)
next
  assume got: "owalkie_get_session_info sid True buf a = (r, Some info) \<and> oi_has_config info = 1"
  then obtain st ready where S: "getSessionInfo sid (ap_manager a) = (R_Ok, Some (st, ready))"
    by (auto simp: owalkie_get_session_info_def split: prod.splits option.splits if_splits)
  with session_info_pointer [of sid buf a r info, OF _ _ S] got
  show "\<exists>st ready. getSessionInfo sid (ap_manager a) = (R_Ok, Some (st, ready)) \<and>
       (let app = oc_application (wc_opus (st_welcome st))
        in if buf = None \<or> buf = Some 0 then r = OWALKIE_OK \<and> ow_opus_application (oi_config info) = C_Scratch app
           else if length app < the buf then r = OWALKIE_OK \<and> ow_opus_application (oi_config info) = C_Buffer app
           else r = OWALKIE_ERR_BUFFER_TOO_SMALL \<and> ow_opus_application (oi_config info) = C_Scratch app)"
    by (simp add: no_buffer_def)
qed

text \<open>A minimal welcome, for which the Opus application stays \<open>voip\<close>.\<close>

definition demo_welcome_lib :: "jv json_lib" where
  "demo_welcome_lib = jv_lib (\<lambda>_. Some (JObj [(''protocolVersion'', JInt 2), (''sampleRate'', JInt 8000)])) (\<lambda>_. None)"

lemma demo_welcome_parse:
  "fst (parseWelcome demo_welcome_lib ''{}'' WelcomeConfig_default kProtocolVersion) = R_Ok"
  "oc_application (wc_opus (snd (parseWelcome demo_welcome_lib ''{}'' WelcomeConfig_default kProtocolVersion))) = ''voip''"
  by (simp_all add: demo_welcome_lib_def jv_lib_def jv_value_def parseWelcome_def parseWelcome_fields_def
      parseWelcome_timeout_def assigning_def WelcomeConfig_default_def OpusConfig_default_def kProtocolVersion_def)

theorem returned_strings_need_buffer_witness:
  "\<exists>cfg cfg'. owalkie_json_parse_welcome demo_welcome_lib (Some ''{}'') 2 True None = (OWALKIE_OK, Some cfg)
     \<and> ow_opus_application cfg = C_Scratch ''voip''
     \<and> owalkie_json_parse_welcome demo_welcome_lib (Some ''{}'') 2 True (Some 16) = (OWALKIE_OK, Some cfg')
     \<and> ow_opus_application cfg' = C_Buffer ''voip''"
proof -
  obtain cfg where "owalkie_json_parse_welcome demo_welcome_lib (Some ''{}'') 2 True None = (OWALKIE_OK, Some cfg)"
    using demo_welcome_parse by (auto simp: owalkie_json_parse_welcome_def text_view_def split_beta)
  moreover obtain cfg' where
    "owalkie_json_parse_welcome demo_welcome_lib (Some ''{}'') 2 True (Some 16) = (OWALKIE_OK, Some cfg')"
    using demo_welcome_parse by (auto simp: owalkie_json_parse_welcome_def text_view_def split_beta copyToBuf_def)
  ultimately show ?thesis
    using returned_strings_need_buffer [of demo_welcome_lib "''{}''" 2 None cfg, THEN conjunct1]
      returned_strings_need_buffer [of demo_welcome_lib "''{}''" 2 "Some 16" cfg', THEN conjunct1]
    by (simp add: text_view_def demo_welcome_parse)
qed

section \<open>What reaches the application\<close>

text \<open>
  The invariant of the table of bridges: no bridge is registered twice, none is newer than the
  counter, and none is under the invalid id.
\<close>

definition bridges_ok :: "nat \<Rightarrow> bridges \<Rightarrow> bool" where
  "bridges_ok n bs \<longleftrightarrow> distinct (map (br_id \<circ> snd) bs)
     \<and> (\<forall>(sid, b) \<in> set bs. br_id b < n \<and> sid \<noteq> kInvalidSessionId)"

lemma bridges_ok_erase: "bridges_ok n bs \<Longrightarrow> bridges_ok n (um_erase sid bs)"
  by (auto simp: bridges_ok_def um_erase_def distinct_map inj_on_def)

lemma bridges_ok_event: "bridges_ok n bs \<Longrightarrow> bridges_ok n (snd (bridge_event b ev bs))"
  by (simp add: bridge_event_def bridges_ok_erase Let_def)

lemma bridges_ok_deliver: "bridges_ok n bs \<Longrightarrow> bridges_ok n (snd (deliver_all b obs bs))"
proof (induction obs arbitrary: bs)
  case (Cons ob obs)
  have "bridges_ok n (snd (deliver b ob bs))"
    using Cons.prems by (cases ob) (simp_all add: deliver_def bridges_ok_event)
  from Cons.IH [OF this] show ?case by (simp add: split_beta)
qed simp

lemma bridges_ok_add:
  assumes "bridges_ok n bs" "sid \<noteq> kInvalidSessionId" "br_id b = n"
  shows "bridges_ok (Suc n) (um_emplace sid b (um_erase sid bs))"
  using bridges_ok_erase [OF assms(1), of sid] assms(2,3)
  by (auto simp: bridges_ok_def um_emplace_def distinct_map less_Suc_eq)

lemma bridges_ok_mono: "bridges_ok n bs \<Longrightarrow> bridges_ok (Suc n) bs"
  by (auto simp: bridges_ok_def)

text \<open>A bridge that is in no entry delivers nothing.\<close>

lemma deliver_unregistered:
  assumes "br_id b \<notin> set (map (br_id \<circ> snd) bs)"
  shows "deliver_all b obs bs = ([], bs)"
proof -
  have sid: "bridge_sid b bs = kInvalidSessionId"
  proof -
    have "filter (\<lambda>e. br_id (snd e) = br_id b) bs = []"
      using assms by (force simp: filter_empty_conv)
    then show ?thesis by (simp add: bridge_sid_def)
  qed
  have "deliver b ob bs = ([], bs)" for ob
    by (cases ob) (simp_all add: deliver_def bridge_event_def bridge_rx_pcm_def sid)
  then show ?thesis by (induction obs) simp_all
qed

lemma bridge_sid_entry:
  assumes "bridge_sid b bs \<noteq> kInvalidSessionId"
  shows "\<exists>c. (bridge_sid b bs, c) \<in> set bs \<and> br_id c = br_id b"
  using assms by (auto simp: bridge_sid_def split: list.splits dest!: filter_eq_ConsD)

lemma bridge_sid_gone:
  assumes "bridges_ok n bs"
  shows "br_id b \<notin> set (map (br_id \<circ> snd) (um_erase (bridge_sid b bs) bs))"
proof
  assume "br_id b \<in> set (map (br_id \<circ> snd) (um_erase (bridge_sid b bs) bs))"
  then obtain sid c where c: "(sid, c) \<in> set bs" "br_id c = br_id b" "sid \<noteq> bridge_sid b bs"
    by (auto simp: um_erase_def)
  have valid: "sid \<noteq> kInvalidSessionId" using c(1) assms by (auto simp: bridges_ok_def)
  have inj: "inj_on (br_id \<circ> snd) (set bs)" using assms by (simp add: bridges_ok_def distinct_map)
  obtain e es where f: "filter (\<lambda>e. br_id (snd e) = br_id b) bs = e # es"
    using c(1,2) by (cases "filter (\<lambda>e. br_id (snd e) = br_id b) bs") (auto simp: filter_empty_conv)
  have "e \<in> set bs" "br_id (snd e) = br_id b"
    using filter_eq_ConsD [OF f] by auto
  then have "e = (sid, c)" using c inj by (auto simp: inj_on_def)
  then show False using c(3) f by (simp add: bridge_sid_def)
qed

definition terminal_types :: "owalkie_event_type set" where
  "terminal_types = {OWALKIE_EV_CONNECTION_FAILED, OWALKIE_EV_DISCONNECTED, OWALKIE_EV_PROTOCOL_ERROR}"

fun client_terminal :: "client_obs \<Rightarrow> bool" where
  "client_terminal (Cl_Event sid e) \<longleftrightarrow> oe_type e \<in> terminal_types"
| "client_terminal (Cl_Pcm sid pcm rate ms) \<longleftrightarrow> False"

fun client_sid :: "client_obs \<Rightarrow> session_id" where
  "client_sid (Cl_Event sid e) = sid"
| "client_sid (Cl_Pcm sid pcm rate ms) = sid"

lemma oe_type_fill [simp]: "oe_type (fillManagedEventC ev) = toPublic (ev_type ev)"
  by (simp add: fillManagedEventC_def)

lemma terminal_type:
  "isVisible ty \<Longrightarrow> toPublic ty \<in> terminal_types \<longleftrightarrow> bridge_terminal ty"
  by (cases ty) (simp_all add: bridge_terminal_def terminal_types_def)

text \<open>One observation: nothing, or a call under the registered id, the last one if terminal.\<close>

lemma deliver_one:
  obtains "deliver b ob bs = ([], bs)"
  | c where "deliver b ob bs = ([c], bs)" "\<not> client_terminal c" "client_sid c = bridge_sid b bs"
      "bridge_sid b bs \<noteq> kInvalidSessionId"
  | c where "deliver b ob bs = ([c], um_erase (bridge_sid b bs) bs)" "client_terminal c"
      "client_sid c = bridge_sid b bs" "bridge_sid b bs \<noteq> kInvalidSessionId"
proof (cases ob)
  case (O_Event ev)
  consider "\<not> isVisible (ev_type ev) \<or> bridge_sid b bs = kInvalidSessionId"
    | "isVisible (ev_type ev)" "bridge_sid b bs \<noteq> kInvalidSessionId" "bridge_terminal (ev_type ev)"
    | "isVisible (ev_type ev)" "bridge_sid b bs \<noteq> kInvalidSessionId" "\<not> bridge_terminal (ev_type ev)"
    by blast
  then show ?thesis
  proof cases
    case 1
    then show ?thesis by (intro that(1)) (auto simp: O_Event deliver_def bridge_event_def)
  next
    case 2
    then show ?thesis
      by (intro that(3) [of "Cl_Event (bridge_sid b bs) (fillManagedEventC ev)"])
         (simp_all add: O_Event deliver_def bridge_event_def terminal_type Let_def)
  next
    case 3
    then show ?thesis
      by (intro that(2) [of "Cl_Event (bridge_sid b bs) (fillManagedEventC ev)"])
         (simp_all add: O_Event deliver_def bridge_event_def terminal_type Let_def)
  qed
next
  case (O_RxPcm x y z)
  show ?thesis
  proof (cases "deliver b ob bs = ([], bs)")
    case False
    then show ?thesis
      by (intro that(2) [of "Cl_Pcm (bridge_sid b bs) x y z"])
         (auto simp: O_RxPcm deliver_def bridge_rx_pcm_def split: if_splits)
  qed (rule that(1))
qed (use that in \<open>simp_all add: deliver_def\<close>)

lemma deliver_all_shape:
  assumes "bridges_ok n bs"
  shows "\<forall>c \<in> set (fst (deliver_all b obs bs)). client_sid c = bridge_sid b bs \<and> bridge_sid b bs \<noteq> kInvalidSessionId"
    and "\<forall>c \<in> set (butlast (fst (deliver_all b obs bs))). \<not> client_terminal c"
    and "(\<exists>c \<in> set (fst (deliver_all b obs bs)). client_terminal c) \<Longrightarrow>
           br_id b \<notin> set (map (br_id \<circ> snd) (snd (deliver_all b obs bs)))"
    and "(\<forall>c \<in> set (fst (deliver_all b obs bs)). \<not> client_terminal c) \<Longrightarrow> snd (deliver_all b obs bs) = bs"
proof (induction obs)
  case (Cons ob obs)
  { case 1 show ?case
      by (cases rule: deliver_one [of b ob bs])
         (use Cons deliver_unregistered [OF bridge_sid_gone [OF assms, of b]] in \<open>auto simp: split_beta\<close>)
  next
    case 2 show ?case
      by (cases rule: deliver_one [of b ob bs])
         (use Cons deliver_unregistered [OF bridge_sid_gone [OF assms, of b]] in \<open>auto simp: split_beta\<close>)
  next
    case 3 then show ?case
      by (cases rule: deliver_one [of b ob bs])
         (use Cons bridge_sid_gone [OF assms, of b] deliver_unregistered [OF bridge_sid_gone [OF assms, of b]]
           in \<open>auto simp: split_beta\<close>)
  next
    case 4 then show ?case
      by (cases rule: deliver_one [of b ob bs]) (use Cons in \<open>auto simp: split_beta\<close>)
  }
qed simp_all


definition demo_bridge :: bridge where
  "demo_bridge = \<lparr>br_id = 0, br_on_rx_pcm = True\<rparr>"

definition demo_ending :: "obs list" where
  "demo_ending = [O_RxPcm [3] 8000 20, O_Event (Event_default\<lparr>ev_type := Ev_Disconnected\<rparr>), O_RxPcm [4] 8000 20]"

lemma demo_bridges_ok: "bridges_ok 1 [(5, demo_bridge)]"
  by (simp add: bridges_ok_def demo_bridge_def kInvalidSessionId_def)


section \<open>The calls of the application\<close>

lemma prepare_bridges:
  "bridges_ok (ap_nextBridge a) (ap_bridges a) \<Longrightarrow>
   owalkie_prepare_connection params callbacks a = (sid, a') \<Longrightarrow>
   bridges_ok (ap_nextBridge a') (ap_bridges a')"
  by (auto simp: owalkie_prepare_connection_def Let_def bridges_ok_mono bridges_ok_add
      split: option.splits prod.splits if_splits)

lemma other_bridges:
  "ap_nextBridge (snd (owalkie_connect E sch sid ms a)) = ap_nextBridge a"
  "ap_bridges (snd (owalkie_connect E sch sid ms a)) = ap_bridges a"
  "ap_nextBridge (owalkie_disconnect sid att a) = ap_nextBridge a"
  "ap_bridges (owalkie_disconnect sid att a) = (if sid = kInvalidSessionId then ap_bridges a else um_erase sid (ap_bridges a))"
  by (simp_all add: owalkie_connect_def owalkie_disconnect_def Let_def split: prod.splits)

text \<open>
  The table that connects sessions to the application stays sound: whatever the application
  calls and whatever events arrive, every bridge is registered at most once, under a valid id,
  and a new connection gets a bridge no other session has.
\<close>

theorem bridges_stay_sound:
  assumes "bridges_ok (ap_nextBridge a) (ap_bridges a)"
  shows "(case owalkie_prepare_connection params callbacks a of (sid, a') \<Rightarrow>
            bridges_ok (ap_nextBridge a') (ap_bridges a')
            \<and> (if sid = kInvalidSessionId then ap_bridges a' = ap_bridges a
               else um_find sid (ap_bridges a') \<noteq> None))
    \<and> (case owalkie_connect E sch sid timeout_ms a of (oc, a') \<Rightarrow> bridges_ok (ap_nextBridge a') (ap_bridges a'))
    \<and> (let a' = owalkie_disconnect sid attempt a
       in bridges_ok (ap_nextBridge a') (ap_bridges a') \<and> (sid \<noteq> kInvalidSessionId \<longrightarrow> um_find sid (ap_bridges a') = None))
    \<and> bridges_ok (ap_nextBridge a) (snd (deliver_all b obs (ap_bridges a)))"
proof (intro conjI)
  obtain id' a' where p: "owalkie_prepare_connection params callbacks a = (id', a')" by fastforce
  then have "if id' = kInvalidSessionId then ap_bridges a' = ap_bridges a else um_find id' (ap_bridges a') \<noteq> None"
    by (auto simp: owalkie_prepare_connection_def Let_def tbl.find_emplace
        split: option.splits prod.splits if_splits)
  then show "case owalkie_prepare_connection params callbacks a of (sid, a') \<Rightarrow>
            bridges_ok (ap_nextBridge a') (ap_bridges a')
            \<and> (if sid = kInvalidSessionId then ap_bridges a' = ap_bridges a
               else um_find sid (ap_bridges a') \<noteq> None)"
    using prepare_bridges [OF assms p] by (simp add: p)
  show "case owalkie_connect E sch sid timeout_ms a of (oc, a') \<Rightarrow> bridges_ok (ap_nextBridge a') (ap_bridges a')"
    using assms other_bridges(1,2) [of E sch sid timeout_ms a] by (simp add: split_beta)
  show "let a' = owalkie_disconnect sid attempt a
       in bridges_ok (ap_nextBridge a') (ap_bridges a') \<and> (sid \<noteq> kInvalidSessionId \<longrightarrow> um_find sid (ap_bridges a') = None)"
    using assms by (simp add: other_bridges bridges_ok_erase tbl.find_erase)
  show "bridges_ok (ap_nextBridge a) (snd (deliver_all b obs (ap_bridges a)))"
    by (rule bridges_ok_deliver [OF assms])
qed

theorem bridges_stay_sound_witness:
  "bridges_ok (ap_nextBridge (api_init :: unit api)) (snd (deliver_all demo_bridge demo_ending []))
   \<and> bridges_ok 0 (ap_bridges (owalkie_disconnect 7 (\<lambda>_. ([], \<lambda>m. m)) (api_init :: unit api)))"
proof -
  have init: "bridges_ok (ap_nextBridge (api_init :: unit api)) (ap_bridges (api_init :: unit api))"
    by (simp add: api_init_def bridges_ok_def)
  show ?thesis
    using bridges_stay_sound [OF init, where b = demo_bridge and obs = demo_ending and sid = 7
        and attempt = "\<lambda>_. ([], \<lambda>m. m)", THEN conjunct2, THEN conjunct2]
    by (simp add: Let_def other_bridges kInvalidSessionId_def api_init_def)
qed



text \<open>
  A packet packed through the C interface into a buffer of exactly its size comes back from
  \<open>owalkie_udp_unpack\<close> with an empty payload turned into a null pointer and else unchanged; one
  byte less and the call says so and writes nothing, and a payload over 65535 bytes is refused.
\<close>

theorem c_packet_round_trip:
  "(let payload = (case cpk_opus p of None \<Rightarrow> [] | Some bs \<Rightarrow> bs); size_needed = 9 + length payload
    in (if length payload > 65535 then owalkie_udp_pack (Some p) (Some capacity) = (OWALKIE_ERR_INVALID_ARG, None)
        else if capacity < size_needed then owalkie_udp_pack (Some p) (Some capacity) = (OWALKIE_ERR_BUFFER_TOO_SMALL, None)
        else \<exists>packed. owalkie_udp_pack (Some p) (Some capacity) = (OWALKIE_OK, Some packed) \<and> length packed = size_needed
               \<and> owalkie_udp_unpack (Some packed) True
                   = (OWALKIE_OK, Some (p\<lparr>cpk_opus := (if payload = [] then None else Some payload)\<rparr>))))"
proof -
  define payload where "payload = (case cpk_opus p of None \<Rightarrow> [] | Some bs \<Rightarrow> bs)"
  define pkt where "pkt = \<lparr>up_sessionId = cpk_session_id p, up_sequence = cpk_sequence p,
      up_signalStrength = cpk_signal_strength p, up_opus = payload\<rparr>"
  have pack: "owalkie_udp_pack (Some p) (Some capacity)
      = (case udp_pack pkt [] of (r, packed) \<Rightarrow> if r \<noteq> R_Ok then (toC r, None)
         else if length packed > capacity then (OWALKIE_ERR_BUFFER_TOO_SMALL, None) else (OWALKIE_OK, Some packed))"
    by (simp add: owalkie_udp_pack_def pkt_def payload_def Let_def)
  show ?thesis
  proof (cases "length payload > 65535")
    case True
    then have "udp_pack pkt [] = (R_InvalidArg, [])" by (simp add: udp_pack_def pkt_def)
    then show ?thesis using True by (simp add: pack Let_def flip: payload_def)
  next
    case False
    then obtain buf where pk: "udp_pack pkt [] = (R_Ok, buf)" by (simp add: udp_pack_def pkt_def)
    then have len: "length buf = 9 + length payload" using udp_pack_length [OF pk] by (simp add: pkt_def)
    have "owalkie_udp_unpack (Some buf) True
        = (OWALKIE_OK, Some (p\<lparr>cpk_opus := (if payload = [] then None else Some payload)\<rparr>))"
      using udp_unpack_pack [OF pk, of UdpAudioPacket_default] by (simp add: owalkie_udp_unpack_def pkt_def)
    then show ?thesis using False pk len by (simp add: pack Let_def flip: payload_def)
  qed
qed

theorem c_packet_round_trip_witness:
  "\<exists>packed. owalkie_udp_pack (Some \<lparr>cpk_session_id = 1, cpk_sequence = 2, cpk_signal_strength = 3, cpk_opus = Some []\<rparr>) (Some 9)
      = (OWALKIE_OK, Some packed)
    \<and> owalkie_udp_unpack (Some packed) True
      = (OWALKIE_OK, Some \<lparr>cpk_session_id = 1, cpk_sequence = 2, cpk_signal_strength = 3, cpk_opus = None\<rparr>)"
  using c_packet_round_trip
    [of "\<lparr>cpk_session_id = 1, cpk_sequence = 2, cpk_signal_strength = 3, cpk_opus = Some []\<rparr>" 9]
  by (auto simp: Let_def)

end
