(* ===== verification/Relay_Client.thy ===== *)
theory Relay_Client
  imports Session_Manager Client_Events
begin

text \<open>
  \<open>windows-client-cpp/src/RelayClient.cpp\<close>: the desktop client's one connection. It owns a session
  id of the manager and a thread that connects again after a loss, and it turns session events
  into calls of the user interface, which are the \<open>ui_call\<close>s an operation returns. An operation
  that gives \<open>None\<close> has thrown: \<open>std::thread::join\<close> throws when a thread joins itself, and assigning
  to a joinable \<open>std::thread\<close> ends the program.
\<close>

section \<open>Data\<close>

record client_welcome =
  cw_sessionId :: u32
  cw_sampleRate :: int
  cw_packetMs :: int
  cw_bitrate :: int
  cw_complexity :: int
  cw_fec :: bool
  cw_dtx :: bool
  cw_application :: string
  cw_busyMode :: bool
  cw_busyTimeoutSec :: int
  cw_transmitTimeoutSec :: int

definition client_welcome_default :: client_welcome where
  "client_welcome_default = \<lparr>cw_sessionId = 0, cw_sampleRate = 8000, cw_packetMs = 20, cw_bitrate = 12000,
     cw_complexity = 5, cw_fec = True, cw_dtx = False, cw_application = ''voip'', cw_busyMode = False,
     cw_busyTimeoutSec = 0, cw_transmitTimeoutSec = 60\<rparr>"

definition MapWelcome :: "WelcomeConfig \<Rightarrow> client_welcome" where
  "MapWelcome src = \<lparr>cw_sessionId = wc_sessionId src, cw_sampleRate = wc_sampleRate src,
     cw_packetMs = wc_packetMs src, cw_bitrate = oc_bitrate (wc_opus src),
     cw_complexity = oc_complexity (wc_opus src), cw_fec = oc_fec (wc_opus src), cw_dtx = oc_dtx (wc_opus src),
     cw_application = oc_application (wc_opus src), cw_busyMode = wc_busyMode src, cw_busyTimeoutSec = 0,
     cw_transmitTimeoutSec = wc_transmitTimeoutSec src\<rparr>"

text \<open>The callbacks that are set, and their calls.\<close>

datatype callback = Cb_Status | Cb_Connected | Cb_Welcome | Cb_PcmFrame | Cb_TxCountdownStart
  | Cb_ServerPttLock | Cb_ServerPttUnlock | Cb_RxBroadcastStart | Cb_RxBroadcastEnd | Cb_TxStop

datatype ui_call = Ui_Status string | Ui_Connected bool | Ui_Welcome client_welcome | Ui_PcmFrame pcm
  | Ui_TxCountdownStart | Ui_ServerPttLock int | Ui_ServerPttUnlock | Ui_RxBroadcastStart bool
  | Ui_RxBroadcastEnd | Ui_TxStop

fun callback_of :: "ui_call \<Rightarrow> callback" where
  "callback_of (Ui_Status msg) = Cb_Status"
| "callback_of (Ui_Connected b) = Cb_Connected"
| "callback_of (Ui_Welcome cfg) = Cb_Welcome"
| "callback_of (Ui_PcmFrame samples) = Cb_PcmFrame"
| "callback_of Ui_TxCountdownStart = Cb_TxCountdownStart"
| "callback_of (Ui_ServerPttLock sec) = Cb_ServerPttLock"
| "callback_of Ui_ServerPttUnlock = Cb_ServerPttUnlock"
| "callback_of (Ui_RxBroadcastStart b) = Cb_RxBroadcastStart"
| "callback_of Ui_RxBroadcastEnd = Cb_RxBroadcastEnd"
| "callback_of Ui_TxStop = Cb_TxStop"

record relay =
  rl_sessionId :: session_id
  rl_cfg :: client_welcome
  rl_notify :: bool
  rl_thread :: bool
  rl_loopRunning :: bool
  rl_inFlight :: bool
  rl_backoffMs :: int
  rl_callbacks :: "callback list"

definition relay_init :: relay where
  "relay_init = \<lparr>rl_sessionId = kInvalidSessionId, rl_cfg = client_welcome_default, rl_notify = True,
     rl_thread = False, rl_loopRunning = False, rl_inFlight = False, rl_backoffMs = 1500, rl_callbacks = []\<rparr>"

text \<open>The calls of those callbacks that are set.\<close>

definition calls :: "relay \<Rightarrow> ui_call list \<Rightarrow> ui_call list" where
  "calls r cs = filter (\<lambda>c. callback_of c \<in> set (rl_callbacks r)) cs"

definition setCallback :: "callback \<Rightarrow> relay \<Rightarrow> relay" where
  "setCallback cb r = r\<lparr>rl_callbacks := List.insert cb (rl_callbacks r)\<rparr>"

definition DetachUiCallbacks :: "relay \<Rightarrow> relay" where
  "DetachUiCallbacks r = r\<lparr>rl_callbacks := []\<rparr>"

definition clearManagedSession :: "relay \<Rightarrow> relay" where
  "clearManagedSession r = r\<lparr>rl_sessionId := kInvalidSessionId\<rparr>"

section \<open>The thread\<close>

text \<open>\<open>self\<close> says that the caller is the reconnect thread.\<close>

definition StopReconnectLoop :: "bool \<Rightarrow> relay \<Rightarrow> relay option" where
  "StopReconnectLoop self r =
     (if \<not> rl_loopRunning r then Some r
      else
        let r = r\<lparr>rl_loopRunning := False\<rparr>
        in if rl_thread r then (if self then None else Some (r\<lparr>rl_thread := False\<rparr>)) else Some r)"

definition StartReconnectLoop :: "relay \<Rightarrow> relay option" where
  "StartReconnectLoop r =
     (if rl_loopRunning r then Some r
      else
        let r = r\<lparr>rl_loopRunning := True, rl_backoffMs := 1500\<rparr>
        in if rl_thread r then None else Some (r\<lparr>rl_thread := True\<rparr>))"

section \<open>Events\<close>

text \<open>An ending: the loop is stopped, the session forgotten, the interface told if it wants to be.\<close>

definition session_ended :: "bool \<Rightarrow> ui_call list \<Rightarrow> relay \<Rightarrow> (ui_call list \<times> relay) option" where
  "session_ended self cs r =
     (case StopReconnectLoop self r of
        None \<Rightarrow> None
      | Some r \<Rightarrow>
          let r = clearManagedSession r
          in Some (if rl_notify r then calls r cs else [], r))"

definition HandleSessionEvent :: "bool \<Rightarrow> Event \<Rightarrow> relay \<Rightarrow> (ui_call list \<times> relay) option" where
  "HandleSessionEvent self ev r =
     (if \<not> isVisible (ev_type ev) then Some ([], r)
      else (case ev_type ev of
          Ev_ConnectionLost \<Rightarrow>
            Some (calls r [Ui_Status (if ev_disconnectReason ev = [] then ''reconnecting'' else ev_disconnectReason ev)], r)
        | Ev_Connected \<Rightarrow>
            let cfg = MapWelcome (ev_welcome ev); r = r\<lparr>rl_cfg := cfg\<rparr>
            in Some (calls r [Ui_Welcome cfg, Ui_Connected True, Ui_Status ''connected''], r)
        | Ev_ConnectionFailed \<Rightarrow>
            session_ended self (Ui_Connected False #
              (if ev_disconnectReason ev \<noteq> [] then [Ui_Status (''connect failed: '' @ ev_disconnectReason ev)] else [])) r
        | Ev_Disconnected \<Rightarrow>
            session_ended self (Ui_Connected False #
              (if ev_disconnectReason ev \<noteq> [] then [Ui_Status (''ws ended: '' @ ev_disconnectReason ev)] else [])) r
        | Ev_ProtocolError \<Rightarrow>
            session_ended self
              [Ui_Status (if ev_protocolError ev = [] then ''Protocol mismatch'' else ev_protocolError ev), Ui_Connected False] r
        | Ev_RxBroadcastStart \<Rightarrow> Some (calls r [Ui_RxBroadcastStart (ev_rxBusyMode ev)], r)
        | Ev_RxBroadcastEnd \<Rightarrow> Some (calls r [Ui_RxBroadcastEnd], r)
        | Ev_PttLocked \<Rightarrow> Some (calls r [Ui_ServerPttLock (ev_pttDisplaySec ev)], r)
        | Ev_PttUnlocked \<Rightarrow> Some (calls r [Ui_ServerPttUnlock], r)
        | Ev_TxCountdownStart \<Rightarrow> Some (calls r [Ui_TxCountdownStart], r)
        | Ev_TxStop \<Rightarrow> Some (calls r [Ui_TxStop], r)
        | _ \<Rightarrow> Some ([], r)))"

text \<open>The callback for received samples.\<close>

definition onRxPcm :: "pcm \<Rightarrow> relay \<Rightarrow> ui_call list" where
  "onRxPcm samples r = (if samples = [] then [] else calls r [Ui_PcmFrame samples])"

section \<open>Connecting\<close>

definition IsConnected :: "relay \<Rightarrow> 'c manager \<Rightarrow> bool" where
  "IsConnected r m \<longleftrightarrow> rl_sessionId r \<noteq> kInvalidSessionId \<and> isValid (rl_sessionId r) m
     \<and> isSessionReady (rl_sessionId r) m"

text \<open>
  The result, \<open>None\<close> for a call that is still waiting, with \<open>connectInFlight_\<close> set, or that an
  exception has left, with the flag cleared by the guard. What the session emits meanwhile
  reaches \<open>HandleSessionEvent\<close> as a step of its own.
\<close>

definition TryReconnect ::
  "('j, 'c) env \<Rightarrow> 'c connect_sched \<Rightarrow> int \<Rightarrow> relay \<Rightarrow> 'c manager \<Rightarrow> bool option \<times> relay \<times> 'c manager" where
  "TryReconnect E sch timeoutMs r m =
     (if rl_sessionId r = kInvalidSessionId then (Some False, r, m)
      else if rl_inFlight r then (Some (IsConnected r m), r, m)
      else if \<not> isValid (rl_sessionId r) m then (Some False, r, m)
      else (case connect E sch (rl_sessionId r) timeoutMs m of
              (Returned result, m) \<Rightarrow> (Some (result = R_Ok \<and> isSessionReady (rl_sessionId r) m), r, m)
            | (Raised, m) \<Rightarrow> (None, r, m)
            | (Running, m) \<Rightarrow> (None, r\<lparr>rl_inFlight := True\<rparr>, m)))"

text \<open>
  One turn of the reconnect loop: how long it sleeps at its end, in milliseconds, \<open>None\<close> when the
  loop has ended or the turn does not come to its end.
\<close>

definition reconnect_turn ::
  "('j, 'c) env \<Rightarrow> 'c connect_sched \<Rightarrow> relay \<Rightarrow> 'c manager \<Rightarrow> int option \<times> relay \<times> 'c manager" where
  "reconnect_turn E sch r m =
     (if \<not> rl_loopRunning r then (None, r, m)
      else if rl_sessionId r = kInvalidSessionId then (Some 200, r, m)
      else
        let transportUp = (case getSessionInfo (rl_sessionId r) m of
                             (R_Ok, Some (st, ready)) \<Rightarrow> st_connected st
                           | _ \<Rightarrow> False)
        in if IsConnected r m \<or> transportUp then (Some 500, r\<lparr>rl_backoffMs := 1500\<rparr>, m)
           else if rl_inFlight r then (Some 200, r, m)
           else (case TryReconnect E sch 3500 r m of
                   (None, r, m) \<Rightarrow> (None, r, m)
                 | (Some _, r, m) \<Rightarrow>
                     let backoff = rl_backoffMs r
                     in (Some backoff, r\<lparr>rl_backoffMs := min (backoff * 2) 30000\<rparr>, m)))"

text \<open>On the thread of the user interface.\<close>

definition Disconnect ::
  "('c manager \<Rightarrow> 'c manager) list \<Rightarrow> bool \<Rightarrow> relay \<Rightarrow> 'c manager \<Rightarrow> (ui_call list \<times> relay \<times> 'c manager) option" where
  "Disconnect rounds notifyCallbacks r m =
     (case StopReconnectLoop False r of
        None \<Rightarrow> None
      | Some r \<Rightarrow>
          let r = r\<lparr>rl_notify := notifyCallbacks\<rparr>;
              (r, m) = (if rl_sessionId r \<noteq> kInvalidSessionId
                        then (r\<lparr>rl_sessionId := kInvalidSessionId\<rparr>, haltAndRelease (rl_sessionId r) rounds m)
                        else (r, m))
          in Some (if notifyCallbacks then calls r [Ui_Connected False] else [], r, m))"

definition relay_Connect ::
  "('j, 'c) env \<Rightarrow> ('c manager \<Rightarrow> 'c manager) list \<Rightarrow> 'c connect_sched \<Rightarrow> string \<Rightarrow> int \<Rightarrow> string \<Rightarrow> bool \<Rightarrow>
   relay \<Rightarrow> 'c manager \<Rightarrow> (bool option \<times> relay \<times> 'c manager) option" where
  "relay_Connect E rounds sch host serverPort channel repeater r m =
     (case Disconnect rounds False r m of
        None \<Rightarrow> None
      | Some (_, r, m) \<Rightarrow>
          let params = ConnectParams_default\<lparr>cp_host := host, cp_port := serverPort,
                         cp_channel := (if channel = [] then ''global'' else channel), cp_repeaterMode := repeater\<rparr>;
              (sid, m) = prepareConnection params True False m
          in if sid = kInvalidSessionId then Some (Some False, r, m)
             else
               let r = r\<lparr>rl_sessionId := sid, rl_notify := True\<rparr>;
                   m = manager_setPowerProfile Foreground sid m
               in (case StartReconnectLoop r of
                     None \<Rightarrow> None
                   | Some r \<Rightarrow> (case TryReconnect E sch 10000 r m of (q, r, m) \<Rightarrow> Some (map_option (\<lambda>_. True) q, r, m))))"

text \<open>The destructor.\<close>

definition relay_destroy ::
  "('c manager \<Rightarrow> 'c manager) list \<Rightarrow> relay \<Rightarrow> 'c manager \<Rightarrow> (ui_call list \<times> relay \<times> 'c manager) option" where
  "relay_destroy rounds r m = Option.bind (StopReconnectLoop False r) (\<lambda>r. Disconnect rounds False r m)"

section \<open>Transmitting\<close>

definition TxOpen :: "('j, 'c) env \<Rightarrow> nat list \<Rightarrow> relay \<Rightarrow> 'c manager \<Rightarrow> bool \<times> 'c manager" where
  "TxOpen E polls r m =
     (if \<not> IsConnected r m then (False, m)
      else (case manager_submitTx E Op_Open [] [] polls (rl_sessionId r) m of (q, m) \<Rightarrow> (q = R_Ok, m)))"

definition TxPcm :: "('j, 'c) env \<Rightarrow> nat list \<Rightarrow> pcm \<Rightarrow> relay \<Rightarrow> 'c manager \<Rightarrow> 'c manager" where
  "TxPcm E polls samples r m =
     (if \<not> IsConnected r m \<or> samples = [] then m
      else snd (manager_submitTx E Op_Pcm samples [] polls (rl_sessionId r) m))"

definition TxClose :: "('j, 'c) env \<Rightarrow> nat list \<Rightarrow> relay \<Rightarrow> 'c manager \<Rightarrow> 'c manager" where
  "TxClose E polls r m =
     (if rl_sessionId r = kInvalidSessionId then m
      else snd (manager_submitTx E Op_Close [] [] polls (rl_sessionId r) m))"

definition TxAbort :: "('j, 'c) env \<Rightarrow> nat list \<Rightarrow> relay \<Rightarrow> 'c manager \<Rightarrow> 'c manager" where
  "TxAbort E polls r m =
     (if rl_sessionId r = kInvalidSessionId then m
      else snd (manager_submitTx E Op_Abort [] [] polls (rl_sessionId r) m))"

definition SetRepeaterMode :: "('j, 'c) env \<Rightarrow> bool \<Rightarrow> relay \<Rightarrow> 'c manager \<Rightarrow> 'c manager" where
  "SetRepeaterMode E enabled r m =
     (if rl_sessionId r = kInvalidSessionId then m
      else snd (manager_setRepeaterMode E enabled (rl_sessionId r) m))"

end
