(* ===== verification/Relay_Props.thy ===== *)
theory Relay_Props
  imports Relay_Client Manager_Props
begin

text \<open>
  Properties of the desktop client's connection: its thread is joined and started in order, the
  back-off grows as it should, and what an ending does with the session's slot.
\<close>

section \<open>The step relation\<close>

text \<open>
  What happens to the client: calls from the user interface, events, turns of the reconnect loop,
  and whatever the rest of the program does to the manager.
\<close>

inductive relay_step :: "('j, 'c) env \<Rightarrow> relay \<times> 'c manager \<Rightarrow> relay \<times> 'c manager \<Rightarrow> bool" for E where
  rs_connect: "relay_Connect E rounds sch host port channel repeater r m = Some (q, r', m') \<Longrightarrow> relay_step E (r, m) (r', m')"
| rs_disconnect: "Disconnect rounds b r m = Some (cs, r', m') \<Longrightarrow> relay_step E (r, m) (r', m')"
| rs_event: "HandleSessionEvent self ev r = Some (cs, r') \<Longrightarrow> relay_step E (r, m) (r', m)"
| rs_turn: "reconnect_turn E sch r m = (q, r', m') \<Longrightarrow> relay_step E (r, m) (r', m')"
| rs_returned: "relay_step E (r, m) (r\<lparr>rl_inFlight := False\<rparr>, m)"
| rs_callback: "relay_step E (r, m) (setCallback cb r, m)"
| rs_detach: "relay_step E (r, m) (DetachUiCallbacks r, m)"
| rs_manager: "relay_step E (r, m) (r, m')"

definition relay_inv :: "relay \<Rightarrow> bool" where
  "relay_inv r \<longleftrightarrow> rl_thread r = rl_loopRunning r \<and> 1500 \<le> rl_backoffMs r \<and> rl_backoffMs r \<le> 30000"

lemma relay_inv_fields [simp]:
  "relay_inv (r\<lparr>rl_sessionId := x1\<rparr>) = relay_inv r" "relay_inv (r\<lparr>rl_notify := x2\<rparr>) = relay_inv r"
  "relay_inv (r\<lparr>rl_inFlight := x3\<rparr>) = relay_inv r" "relay_inv (r\<lparr>rl_cfg := x4\<rparr>) = relay_inv r"
  "relay_inv (clearManagedSession r) = relay_inv r" "relay_inv (setCallback cb r) = relay_inv r"
  "relay_inv (DetachUiCallbacks r) = relay_inv r"
  by (simp_all add: relay_inv_def clearManagedSession_def setCallback_def DetachUiCallbacks_def)

lemma stop_inv: "relay_inv r \<Longrightarrow> StopReconnectLoop self r = Some r' \<Longrightarrow> relay_inv r' \<and> \<not> rl_loopRunning r'"
  by (auto simp: StopReconnectLoop_def relay_inv_def Let_def split: if_splits)

lemma stop_none: "relay_inv r \<Longrightarrow> StopReconnectLoop self r = None \<longleftrightarrow> self \<and> rl_loopRunning r"
  by (auto simp: StopReconnectLoop_def relay_inv_def Let_def)

lemma start_inv: "relay_inv r \<Longrightarrow> \<exists>r'. StartReconnectLoop r = Some r' \<and> relay_inv r'"
  by (auto simp: StartReconnectLoop_def relay_inv_def Let_def)

definition event_ends :: "Event \<Rightarrow> bool" where
  "event_ends ev \<longleftrightarrow> ev_type ev \<in> {Ev_ConnectionFailed, Ev_Disconnected, Ev_ProtocolError}"

lemma event_none:
  assumes "relay_inv r"
  shows "HandleSessionEvent self ev r = None \<longleftrightarrow> self \<and> rl_loopRunning r \<and> event_ends ev"
  using stop_none [OF assms, of self]
  by (cases "ev_type ev") (auto simp: HandleSessionEvent_def session_ended_def event_ends_def Let_def split: option.splits)

lemma ended_inv: "relay_inv r \<Longrightarrow> session_ended self cs r = Some (out, r') \<Longrightarrow> relay_inv r'"
  by (auto simp: session_ended_def Let_def dest: stop_inv split: option.splits)

lemma event_inv: "relay_inv r \<Longrightarrow> HandleSessionEvent self ev r = Some (out, r') \<Longrightarrow> relay_inv r'"
  by (cases "ev_type ev") (auto simp: HandleSessionEvent_def Let_def dest: ended_inv)

lemma try_frame:
  "TryReconnect E sch ms r m = (q, r', m') \<Longrightarrow> \<exists>b. r' = r\<lparr>rl_inFlight := b\<rparr>"
proof -
  have same: "\<exists>b. r = r\<lparr>rl_inFlight := b\<rparr>" by (rule exI [of _ "rl_inFlight r"]) simp
  then show "TryReconnect E sch ms r m = (q, r', m') \<Longrightarrow> \<exists>b. r' = r\<lparr>rl_inFlight := b\<rparr>"
    by (auto simp: TryReconnect_def split: if_splits prod.splits outcome.splits)
qed

lemma try_inv: "relay_inv r \<Longrightarrow> TryReconnect E sch ms r m = (q, r', m') \<Longrightarrow> relay_inv r'"
  by (auto dest!: try_frame)

lemma turn_inv: "relay_inv r \<Longrightarrow> reconnect_turn E sch r m = (q, r', m') \<Longrightarrow> relay_inv r'"
  by (auto simp: reconnect_turn_def Let_def relay_inv_def dest!: try_frame split: if_splits prod.splits option.splits)

lemma disconnect_some:
  assumes "relay_inv r"
  shows "\<exists>cs r' m'. Disconnect rounds b r m = Some (cs, r', m') \<and> relay_inv r'"
proof -
  obtain r1 where "StopReconnectLoop False r = Some r1" using stop_none [OF assms, of False] by auto
  moreover from stop_inv [OF assms this] have "relay_inv r1" by simp
  ultimately show ?thesis by (simp add: Disconnect_def Let_def)
qed

text \<open>The whole of \<open>Connect\<close> from its disconnect and its start of the thread.\<close>

lemma connect_some:
  assumes "relay_inv r"
  shows "\<exists>q r' m'. relay_Connect E rounds sch host port channel repeater r m = Some (q, r', m') \<and> relay_inv r'"
proof -
  obtain cs r1 m1 where d: "Disconnect rounds False r m = Some (cs, r1, m1)" "relay_inv r1"
    using disconnect_some [OF assms] by blast
  let ?params = "ConnectParams_default\<lparr>cp_host := host, cp_port := port,
      cp_channel := (if channel = [] then ''global'' else channel), cp_repeaterMode := repeater\<rparr>"
  obtain sid m2 where p: "prepareConnection ?params True False m1 = (sid, m2)" by fastforce
  obtain r2 where r2: "StartReconnectLoop (r1\<lparr>rl_sessionId := sid, rl_notify := True\<rparr>) = Some r2" "relay_inv r2"
    using start_inv [of "r1\<lparr>rl_sessionId := sid, rl_notify := True\<rparr>"] d(2) by auto
  obtain q r3 m3 where t: "TryReconnect E sch 10000 r2 (manager_setPowerProfile Foreground sid m2) = (q, r3, m3)"
    by (rule prod_cases3)
  from try_inv [OF r2(2) t] have "relay_inv r3" .
  with d p r2(1) t show ?thesis by (simp add: relay_Connect_def Let_def)
qed

lemma relay_inv_step:
  assumes "relay_step E rm rm'" "relay_inv (fst rm)"
  shows "relay_inv (fst rm')"
  using assms(1)
proof cases
  case (rs_connect rounds sch host port channel repeater r m q r' m')
  with assms(2) connect_some [of r E rounds sch host port channel repeater m] show ?thesis by auto
next
  case (rs_disconnect rounds b r m cs r' m')
  with assms(2) disconnect_some [of r rounds b m] show ?thesis by auto
qed (use assms(2) in \<open>auto dest: event_inv turn_inv\<close>)

lemma relay_inv_run:
  assumes "(relay_step E)\<^sup>*\<^sup>* (relay_init, m0) (r, m)"
  shows "relay_inv r"
proof -
  have "relay_inv (fst x)" if "(relay_step E)\<^sup>*\<^sup>* (relay_init, m0) x" for x
    using that
  proof (induction rule: rtranclp_induct)
    case base
    show ?case by (simp add: relay_inv_def relay_init_def)
  next
    case (step y z)
    with relay_inv_step show ?case by blast
  qed
  from this [OF assms] show ?thesis by simp
qed


text \<open>A first connect leaves the loop running, whatever the attempt came to.\<close>

lemma demo_connected:
  "\<exists>q r m. relay_Connect E [] sch host port channel repeater relay_init (manager_init :: 'c manager) = Some (q, r, m)
     \<and> rl_loopRunning r \<and> rl_sessionId r = 1"
proof -
  let ?params = "ConnectParams_default\<lparr>cp_host := host, cp_port := port,
      cp_channel := (if channel = [] then ''global'' else channel), cp_repeaterMode := repeater\<rparr>"
  have d: "Disconnect [] False relay_init (manager_init :: 'c manager) = Some ([], relay_init\<lparr>rl_notify := False\<rparr>, manager_init)"
    by (simp add: Disconnect_def StopReconnectLoop_def relay_init_def)
  obtain m where p: "prepareConnection ?params True False (manager_init :: 'c manager) = (1, m)"
    by (simp add: prepareConnection_def manager_init_def kMaxManagedSessions_def)
  let ?r = "relay_init\<lparr>rl_sessionId := 1, rl_notify := True, rl_thread := True, rl_loopRunning := True\<rparr>"
  obtain q r m' where t: "TryReconnect E sch 10000 ?r (manager_setPowerProfile Foreground 1 m) = (q, r, m')"
    by (rule prod_cases3)
  from try_frame [OF t] have "rl_loopRunning r" "rl_sessionId r = 1" by auto
  with d p t show ?thesis
    by (simp add: relay_Connect_def Let_def kInvalidSessionId_def StartReconnectLoop_def relay_init_def)
qed


section \<open>The back-off\<close>

text \<open>The sleeps of the loop in turn, while each turn makes an attempt that comes to its end.\<close>

definition attempting :: "relay \<Rightarrow> 'c manager \<Rightarrow> bool" where
  "attempting r m \<longleftrightarrow> rl_loopRunning r \<and> rl_sessionId r \<noteq> kInvalidSessionId \<and> \<not> rl_inFlight r \<and> \<not> IsConnected r m
     \<and> \<not> (case getSessionInfo (rl_sessionId r) m of (R_Ok, Some (st, ready)) \<Rightarrow> st_connected st | _ \<Rightarrow> False)"

fun reconnect_sleeps :: "('j, 'c) env \<Rightarrow> 'c connect_sched list \<Rightarrow> relay \<Rightarrow> 'c manager \<Rightarrow> int list" where
  "reconnect_sleeps E [] r m = []"
| "reconnect_sleeps E (sch # schs) r m =
     (case reconnect_turn E sch r m of
        (None, r, m) \<Rightarrow> []
      | (Some ms, r, m) \<Rightarrow> ms # reconnect_sleeps E schs r m)"

fun all_attempts :: "('j, 'c) env \<Rightarrow> 'c connect_sched list \<Rightarrow> relay \<Rightarrow> 'c manager \<Rightarrow> bool" where
  "all_attempts E [] r m = True"
| "all_attempts E (sch # schs) r m =
     (attempting r m \<and> (case reconnect_turn E sch r m of
        (None, r, m) \<Rightarrow> False
      | (Some ms, r, m) \<Rightarrow> all_attempts E schs r m))"

lemma turn_attempt:
  assumes "attempting r m" "reconnect_turn E sch r m = (Some ms, r', m')"
  shows "ms = rl_backoffMs r \<and> rl_backoffMs r' = min (rl_backoffMs r * 2) 30000"
  using assms unfolding attempting_def reconnect_turn_def Let_def
  by (auto dest!: try_frame split: prod.splits option.splits)

lemma double_capped: "min (min (b * 2) c * 2 ^ i) c = min (b * 2 ^ Suc i) (c :: int)" if "0 < b" "b \<le> c"
proof (cases "b * 2 \<le> c")
  case False
  have "c \<le> c * 2 ^ i" "c \<le> b * 2 * 2 ^ i"
    using that False mult_left_mono [of 1 "2 ^ i" c] mult_mono [of c "b * 2" 1 "2 ^ i"] by auto
  with False show ?thesis by (simp add: min_def mult.assoc)
qed (simp add: min_def mult.assoc)

lemma sleeps_closed:
  assumes "all_attempts E schs r m" "0 < rl_backoffMs r" "rl_backoffMs r \<le> 30000"
  shows "reconnect_sleeps E schs r m = map (\<lambda>i. min (rl_backoffMs r * 2 ^ i) 30000) [0..<length schs]"
  using assms
proof (induction schs arbitrary: r m)
  case (Cons sch schs)
  obtain ms r' m' where t: "reconnect_turn E sch r m = (Some ms, r', m')"
    using Cons.prems(1) by (auto split: prod.splits option.splits)
  have att: "attempting r m" "all_attempts E schs r' m'" using Cons.prems(1) t by auto
  note b = turn_attempt [OF att(1) t]
  have "reconnect_sleeps E schs r' m' = map (\<lambda>i. min (rl_backoffMs r' * 2 ^ i) 30000) [0..<length schs]"
    using Cons.prems b by (intro Cons.IH att(2)) auto
  also have "\<dots> = map (\<lambda>i. min (rl_backoffMs r * 2 ^ Suc i) 30000) [0..<length schs]"
    using Cons.prems(2,3) b by (simp only: double_capped)
  finally show ?case
    using b Cons.prems(3) t by (simp add: upt_conv_Cons map_Suc_upt [symmetric] min_def del: upt_Suc)
qed simp

text \<open>
  The back-off between failing connection attempts is exponential with a cap: the sleeps after
  the first, second, ... attempt are 1.5 s, 3 s, 6 s, 12 s, 24 s and then 30 s each, whatever the
  attempts came to.
\<close>

theorem reconnect_backoff_doubles:
  assumes "all_attempts E schs r m" "rl_backoffMs r = 1500"
  shows "reconnect_sleeps E schs r m = map (\<lambda>i. min (1500 * 2 ^ i) 30000) [0..<length schs]"
  using sleeps_closed [OF assms(1)] assms(2) by simp

text \<open>A client whose connection attempts fail at once: its session has lost the user's intent.\<close>

definition demo_dead_session :: "unit manager" where
  "demo_dead_session = manager_init\<lparr>sm_sessions := [(1, \<lparr>mg_session = Session_init, mg_params = demo_params,
     mg_userIntent = False, mg_opLocked = False\<rparr>)]\<rparr>"

definition demo_relay :: relay where
  "demo_relay = relay_init\<lparr>rl_sessionId := 1, rl_thread := True, rl_loopRunning := True\<rparr>"

theorem reconnect_backoff_doubles_witness:
  "reconnect_sleeps demo_env (replicate 7 demo_sched) demo_relay demo_dead_session
     = [1500, 3000, 6000, 12000, 24000, 30000, 30000]"
proof -
  have "all_attempts demo_env (replicate 7 demo_sched) demo_relay demo_dead_session" by code_simp
  from reconnect_backoff_doubles [OF this] show ?thesis
    by (simp add: demo_relay_def relay_init_def upt_rec)
qed

section \<open>Endings and slots\<close>

lemma ended_forgets:
  assumes "HandleSessionEvent self ev r = Some (cs, r')" "event_ends ev"
  shows "rl_sessionId r' = kInvalidSessionId"
  using assms
  by (auto simp: HandleSessionEvent_def session_ended_def event_ends_def clearManagedSession_def Let_def
      split: option.splits)

lemma disconnect_forgotten:
  assumes "rl_sessionId r = kInvalidSessionId" "Disconnect rounds b r m = Some (cs, r', m')"
  shows "m' = m \<and> rl_sessionId r' = kInvalidSessionId"
  using assms
  by (auto simp: Disconnect_def StopReconnectLoop_def Let_def split: if_splits)

text \<open>
  When a session ends by itself the client forgets its id without releasing it: no later
  disconnect, nor the destructor, gives the slot back to the manager, and once the 16 slots are
  gone every attempt to connect is refused at once and for good.
\<close>

theorem ending_leaks_slot:
  assumes "HandleSessionEvent self ev r = Some (cs, r')"
    and "ev_type ev \<in> {Ev_ConnectionFailed, Ev_Disconnected, Ev_ProtocolError}"
  shows "(\<forall>out r2 m2. Disconnect rounds b r' m = Some (out, r2, m2) \<longrightarrow> m2 = m)
    \<and> (\<forall>out r2 m2. relay_destroy rounds r' m = Some (out, r2, m2) \<longrightarrow> m2 = m)
    \<and> (length (sm_sessions m) = 16 \<longrightarrow>
        (\<forall>q r2 m2. relay_Connect E rounds sch host port channel repeater r' m = Some (q, r2, m2) \<longrightarrow>
           q = Some False \<and> m2 = m \<and> rl_sessionId r2 = kInvalidSessionId))"
proof (intro conjI allI impI)
  have sid: "rl_sessionId r' = kInvalidSessionId"
    by (rule ended_forgets [OF assms(1)]) (use assms(2) in \<open>simp add: event_ends_def\<close>)
  show "m2 = m" if "Disconnect rounds b r' m = Some (out, r2, m2)" for out r2 m2
    using disconnect_forgotten [OF sid that] by simp
  show "m2 = m" if destroyed: "relay_destroy rounds r' m = Some (out, r2, m2)" for out r2 m2
  proof -
    obtain r1 where r1: "StopReconnectLoop False r' = Some r1" "Disconnect rounds False r1 m = Some (out, r2, m2)"
      using destroyed by (auto simp: relay_destroy_def bind_eq_Some_conv)
    then have "rl_sessionId r1 = kInvalidSessionId"
      using sid by (auto simp: StopReconnectLoop_def Let_def split: if_splits)
    with r1(2) show ?thesis using disconnect_forgotten by blast
  qed
  fix q r2 m2
  assume full: "length (sm_sessions m) = 16"
    and c: "relay_Connect E rounds sch host port channel repeater r' m = Some (q, r2, m2)"
  then obtain out r1 m1 where d: "Disconnect rounds False r' m = Some (out, r1, m1)"
    by (auto simp: relay_Connect_def split: option.splits)
  from disconnect_forgotten [OF sid d] d c full
  show "q = Some False" "m2 = m" "rl_sessionId r2 = kInvalidSessionId"
    by (auto simp: relay_Connect_def prepareConnection_def kMaxManagedSessions_def Let_def split: if_splits)
qed

text \<open>The relay of \<open>demo_relay\<close> gets a protocol error; its session stays in the manager.\<close>

theorem ending_leaks_slot_witness:
  "\<exists>cs r' out r2. HandleSessionEvent False (Event_default\<lparr>ev_type := Ev_ProtocolError\<rparr>) demo_relay = Some (cs, r')
     \<and> Disconnect [] True r' demo_dead_session = Some (out, r2, demo_dead_session)
     \<and> isValid 1 demo_dead_session \<and> rl_sessionId demo_relay = 1"
proof -
  let ?ev = "Event_default\<lparr>ev_type := Ev_ProtocolError\<rparr>"
  obtain cs r' where h: "HandleSessionEvent False ?ev demo_relay = Some (cs, r')"
    by (simp add: HandleSessionEvent_def session_ended_def demo_relay_def relay_init_def StopReconnectLoop_def Let_def)
  then have "relay_inv r'" using event_inv [of demo_relay] by (simp add: demo_relay_def relay_init_def relay_inv_def)
  then obtain out r2 m2 where d: "Disconnect [] True r' demo_dead_session = Some (out, r2, m2)"
    using disconnect_some by blast
  have ev: "ev_type ?ev \<in> {Ev_ConnectionFailed, Ev_Disconnected, Ev_ProtocolError}" by simp
  from ending_leaks_slot [OF h ev, of "[]" True demo_dead_session] d have "m2 = demo_dead_session" by blast
  moreover have "isValid 1 demo_dead_session" "rl_sessionId demo_relay = 1" by code_simp+
  ultimately show ?thesis using h d by blast
qed

end
