(* ===== verification/Audio_Pcm.thy ===== *)
theory Audio_Pcm
  imports Signal_Pcm
begin

text \<open>
  The sample processing of \<open>windows-client-cpp/src/AudioEngine.cpp\<close>: the reader for WAV files, the
  resampler, tones, silence, gain, and the synthesis of signal patterns. Bytes out of the buffer
  have no value here, a read of one makes the parser give \<open>Wav_OutOfBounds\<close>.
\<close>

definition kRogerTailMs :: int where "kRogerTailMs = 40"
definition kUiSignalPlaybackRate :: int where "kUiSignalPlaybackRate = 48000"
definition kLocalSignalSynthesisRate :: int where "kLocalSignalSynthesisRate = 48000"
definition kRxVolumeMinPercent :: int where "kRxVolumeMinPercent = 0"
definition kRxVolumeMaxPercent :: int where "kRxVolumeMaxPercent = 200"
definition kRxVolumeDefaultPercent :: int where "kRxVolumeDefaultPercent = 100"

section \<open>WAV files\<close>

record WavPcm =
  wv_samples :: pcm
  wv_sampleRate :: int

definition WavPcm_empty :: WavPcm where
  "WavPcm_empty = \<lparr>wv_samples = [], wv_sampleRate = 0\<rparr>"

datatype wav_result = Wav_OutOfBounds | Wav_Parsed WavPcm

definition byte_at :: "u8 list \<Rightarrow> nat \<Rightarrow> u8 option" where
  "byte_at bs i = (if i < length bs then Some (bs ! i) else None)"

definition ReadLeI32 :: "u8 list \<Rightarrow> nat \<Rightarrow> int option" where
  "ReadLeI32 bs i =
     (case (byte_at bs i, byte_at bs (i + 1), byte_at bs (i + 2), byte_at bs (i + 3)) of
        (Some a, Some b, Some c, Some d) \<Rightarrow>
          Some (sint (ucast a OR push_bit 8 (ucast b) OR push_bit 16 (ucast c) OR push_bit 24 (ucast d) :: 32 word))
      | _ \<Rightarrow> None)"

definition ReadLeI16 :: "u8 list \<Rightarrow> nat \<Rightarrow> int option" where
  "ReadLeI16 bs i =
     (case (byte_at bs i, byte_at bs (i + 1)) of
        (Some a, Some b) \<Rightarrow> Some (sint (ucast a OR push_bit 8 (ucast b) :: 16 word))
      | _ \<Rightarrow> None)"

text \<open>\<open>memcmp\<close> of four bytes with a tag, \<open>None\<close> when they are not all there.\<close>

definition tag_at :: "u8 list \<Rightarrow> nat \<Rightarrow> string \<Rightarrow> bool option" where
  "tag_at bs i tag =
     (if i + 4 \<le> length bs then Some (take 4 (drop i bs) = map (\<lambda>c. of_nat (of_char c)) tag) else None)"

text \<open>What the loop over the chunks has found.\<close>

record wav_format =
  wf_sampleRate :: int
  wf_channels :: int
  wf_bits :: int
  wf_dataStart :: nat
  wf_dataSize :: nat

datatype wav_scan = Scan_OutOfBounds | Scan_NotPcm | Scan_Done wav_format

text \<open>The contents of a \<open>fmt\<close> chunk whose payload starts at \<open>p\<close>; \<open>None\<close> for an outside read.\<close>

definition read_fmt :: "u8 list \<Rightarrow> nat \<Rightarrow> wav_format \<Rightarrow> (bool \<times> wav_format) option" where
  "read_fmt bs p f =
     (case (ReadLeI16 bs p, ReadLeI16 bs (p + 2), ReadLeI32 bs (p + 4), ReadLeI16 bs (p + 14)) of
        (Some audioFmt, Some channels, Some sampleRate, Some bits) \<Rightarrow>
          Some (audioFmt = 1, f\<lparr>wf_channels := channels, wf_sampleRate := sampleRate, wf_bits := bits\<rparr>)
      | _ \<Rightarrow> None)"

function wav_chunks :: "u8 list \<Rightarrow> nat \<Rightarrow> wav_format \<Rightarrow> wav_scan" where
  "wav_chunks bs offset f =
     (if offset + 8 \<le> length bs then
        (case (ReadLeI32 bs (offset + 4), tag_at bs offset ''fmt '', tag_at bs offset ''data'') of
           (Some chunkSize, Some isFmt, Some isData) \<Rightarrow>
             let payloadStart = offset + 8;
                 follow = payloadStart + nat chunkSize + nat chunkSize mod 2
             in if chunkSize < 0 \<or> payloadStart + nat chunkSize > length bs then Scan_Done f
                else if isFmt \<and> chunkSize \<ge> 16 then
                  (case read_fmt bs payloadStart f of
                     None \<Rightarrow> Scan_OutOfBounds
                   | Some (isPcm, f) \<Rightarrow> if \<not> isPcm then Scan_NotPcm else wav_chunks bs follow f)
                else if isData then Scan_Done (f\<lparr>wf_dataStart := payloadStart, wf_dataSize := nat chunkSize\<rparr>)
                else wav_chunks bs follow f
         | _ \<Rightarrow> Scan_OutOfBounds)
      else Scan_Done f)"
  by pat_completeness auto
termination
  by (relation "measure (\<lambda>(bs, offset, f). length bs - offset)") auto

declare wav_chunks.simps [simp del]

text \<open>The samples of the data chunk: \<open>n\<close> of them, two bytes each.\<close>

fun read_samples :: "u8 list \<Rightarrow> nat \<Rightarrow> nat \<Rightarrow> pcm option" where
  "read_samples bs i 0 = Some []"
| "read_samples bs i (Suc n) =
     (case (ReadLeI16 bs i, read_samples bs (i + 2) n) of
        (Some v, Some vs) \<Rightarrow> Some (v # vs)
      | _ \<Rightarrow> None)"

definition ParseWavPcm :: "u8 list \<Rightarrow> wav_result" where
  "ParseWavPcm bs =
     (if length bs < 44 then Wav_Parsed WavPcm_empty
      else if tag_at bs 0 ''RIFF'' \<noteq> Some True \<or> tag_at bs 8 ''WAVE'' \<noteq> Some True then Wav_Parsed WavPcm_empty
      else (case wav_chunks bs 12 \<lparr>wf_sampleRate = 0, wf_channels = 0, wf_bits = 0, wf_dataStart = 0, wf_dataSize = 0\<rparr> of
              Scan_OutOfBounds \<Rightarrow> Wav_OutOfBounds
            | Scan_NotPcm \<Rightarrow> Wav_Parsed WavPcm_empty
            | Scan_Done f \<Rightarrow>
                if wf_sampleRate f \<le> 0 \<or> wf_channels f \<noteq> 1 \<or> wf_bits f \<noteq> 16 \<or> wf_dataSize f < 2
                   \<or> wf_dataStart f + wf_dataSize f > length bs then Wav_Parsed WavPcm_empty
                else (case read_samples bs (wf_dataStart f) (wf_dataSize f div 2) of
                        None \<Rightarrow> Wav_OutOfBounds
                      | Some samples \<Rightarrow> Wav_Parsed \<lparr>wv_samples = samples, wv_sampleRate = wf_sampleRate f\<rparr>)))"

section \<open>Resampling, tones and gain\<close>

definition resample_length :: "nat \<Rightarrow> int \<Rightarrow> int \<Rightarrow> nat" where
  "resample_length n srcRate dstRate = max 1 (n * nat dstRate div nat srcRate)"

text \<open>
  One output sample; \<open>None\<close> when the position is not in the input, which \<open>resample_position\<close> below
  excludes for a floating point unit that does not round up to it.
\<close>

definition resample_at :: "'f flt \<Rightarrow> pcm \<Rightarrow> 'f \<Rightarrow> nat \<Rightarrow> int option" where
  "resample_at F xs scale i =
     (let srcPos = fl_mul F (fl_int F (int i)) scale;
          i0 = fl_trunc F srcPos;
          i1 = min (i0 + 1) (length xs - 1);
          t = fl_sub F srcPos (fl_int F (int i0))
      in if i0 < length xs then
           let v = fl_add F (fl_mul F (fl_sub F (fl_dec F 10 1) t) (fl_int F (xs ! i0)))
                     (fl_mul F t (fl_int F (xs ! i1)))
           in Some (std_clamp (fl_lround F v) (-32768) 32767)
         else None)"

definition ResampleLinear :: "'f flt \<Rightarrow> pcm \<Rightarrow> int \<Rightarrow> int \<Rightarrow> pcm option" where
  "ResampleLinear F xs srcRate dstRate =
     (if xs = [] \<or> srcRate \<le> 0 \<or> dstRate \<le> 0 then Some []
      else if srcRate = dstRate then Some xs
      else
        let outN = resample_length (length xs) srcRate dstRate;
            scale = fl_div F (fl_int F srcRate) (fl_int F dstRate)
        in those (map (resample_at F xs scale) [0..<outN]))"

definition AppendSilence :: "pcm \<Rightarrow> int \<Rightarrow> int \<Rightarrow> pcm" where
  "AppendSilence out sampleRate durationMs =
     (if sampleRate \<le> 0 \<or> durationMs \<le> 0 then out
      else out @ replicate (nat ((sampleRate * durationMs) sdiv 1000)) 0)"

definition tone_at :: "'f flt \<Rightarrow> 'f \<Rightarrow> 'f \<Rightarrow> nat \<Rightarrow> nat \<Rightarrow> int" where
  "tone_at F w gain n i =
     (let env = fl_sin F (fl_div F (fl_mul F (kPi F) (fl_int F (int i))) (fl_int F (max (int n - 1) 1)));
          s = fl_mul F (fl_mul F (fl_sin F (fl_mul F w (fl_int F (int i)))) env) gain
      in std_clamp (fl_lround F (fl_mul F s (fl_dec F 327670 1))) (-32768) 32767)"

definition AppendTone :: "'f flt \<Rightarrow> pcm \<Rightarrow> int \<Rightarrow> 'f \<Rightarrow> int \<Rightarrow> 'f \<Rightarrow> pcm" where
  "AppendTone F out sampleRate freqHz durationMs gain =
     (if sampleRate \<le> 0 \<or> durationMs \<le> 0 \<or> fl_le F freqHz (fl_dec F 0 1) then out
      else
        let n = nat ((sampleRate * durationMs) sdiv 1000);
            w = fl_div F (fl_mul F (fl_mul F (fl_dec F 20 1) (kPi F)) freqHz) (fl_int F sampleRate)
        in out @ map (tone_at F w gain n) [0..<n])"

text \<open>Tone and silence in turn; a duration that is not positive takes no turn.\<close>

fun vibration_loop :: "'f flt \<Rightarrow> int \<Rightarrow> 'f \<Rightarrow> 'f \<Rightarrow> bool \<Rightarrow> int list \<Rightarrow> pcm \<Rightarrow> pcm" where
  "vibration_loop F sampleRate freqHz gain toneOn [] out = out"
| "vibration_loop F sampleRate freqHz gain toneOn (d # ds) out =
     (if d \<le> 0 then vibration_loop F sampleRate freqHz gain toneOn ds out
      else vibration_loop F sampleRate freqHz gain (\<not> toneOn) ds
             (if toneOn then AppendTone F out sampleRate freqHz d gain else AppendSilence out sampleRate d))"

definition AppendDesktopVibrationPattern :: "'f flt \<Rightarrow> pcm \<Rightarrow> int \<Rightarrow> 'f \<Rightarrow> 'f \<Rightarrow> int list \<Rightarrow> pcm" where
  "AppendDesktopVibrationPattern F out sampleRate freqHz gain patternMs =
     vibration_loop F sampleRate freqHz gain True patternMs out"

definition scale_sample :: "'f flt \<Rightarrow> 'f \<Rightarrow> int \<Rightarrow> int" where
  "scale_sample F gain s = std_clamp (fl_lround F (fl_mul F (fl_int F s) gain)) (-32768) 32767"

definition ApplyGain :: "'f flt \<Rightarrow> pcm \<Rightarrow> 'f \<Rightarrow> pcm" where
  "ApplyGain F xs gain =
     (if fl_le F gain (fl_dec F 10 1) \<and> fl_le F (fl_dec F 10 1) gain then xs else map (scale_sample F gain) xs)"

text \<open>The volume in percent, as for received sound; 100 leaves the samples alone.\<close>

definition apply_percent :: "'f flt \<Rightarrow> int \<Rightarrow> pcm \<Rightarrow> pcm" where
  "apply_percent F pct xs =
     (if pct \<noteq> 100 then map (scale_sample F (fl_div F (fl_int F pct) (fl_dec F 1000 1))) xs else xs)"

section \<open>Signal patterns\<close>

record 'f client_pattern =
  pa_id :: string
  pa_name :: string
  pa_points :: "'f SignalPoint list"
  pa_appendTail :: bool
  pa_repeatCount :: int

text \<open>The desktop's own copy of the generator, with its fixed amplitude and tail.\<close>

definition GenerateSignalPcm :: "'f flt \<Rightarrow> int \<Rightarrow> 'f client_pattern \<Rightarrow> pcm" where
  "GenerateSignalPcm F sampleRate pattern =
     (if sampleRate \<le> 0 \<or> pa_points pattern = [] then []
      else
        let reps = max 1 (pa_repeatCount pattern);
            segments = concat (replicate (nat reps) (pa_points pattern));
            out = segments_loop F sampleRate (fl_dec F 26 2) segments (fl_dec F 0 1)
        in if pa_appendTail pattern then AppendSilence out sampleRate kRogerTailMs else out)"

definition mk_pattern :: "'f flt \<Rightarrow> string \<Rightarrow> string \<Rightarrow> (int \<times> int) list \<Rightarrow> bool \<Rightarrow> int \<Rightarrow> 'f client_pattern" where
  "mk_pattern F pid name pts tail reps =
     \<lparr>pa_id = pid, pa_name = name,
      pa_points = map (\<lambda>(f, d). \<lparr>sp_freqHz = fl_dec F (f * 10) 1, sp_durationMs = d\<rparr>) pts,
      pa_appendTail = tail, pa_repeatCount = reps\<rparr>"

definition RogerPatterns :: "'f flt \<Rightarrow> 'f client_pattern list" where
  "RogerPatterns F =
     [mk_pattern F ''none'' ''No signal'' [] True 1,
      mk_pattern F ''variant_1'' ''Variant 1'' [(890, 20), (670, 20), (890, 45), (1000, 28)] True 1,
      mk_pattern F ''variant_2'' ''Variant 2'' [(1000, 88), (800, 64)] True 1,
      mk_pattern F ''variant_3'' ''Variant 3'' [(1330, 68), (1600, 56)] True 1]"

definition CallPatterns :: "'f flt \<Rightarrow> 'f client_pattern list" where
  "CallPatterns F =
     [mk_pattern F ''call_variant_1'' ''Variant 1'' [(2300, 70), (1850, 70), (1450, 70)] False 9,
      mk_pattern F ''call_variant_2'' ''Variant 2''
        [(1150, 35), (1350, 35), (1550, 35), (1750, 35), (1550, 35), (1350, 35)] False 14,
      mk_pattern F ''call_variant_3'' ''Variant 3'' [(2000, 60), (1000, 60)] False 32]"

text \<open>By id among the built-in and then the custom patterns, else the first built-in one.\<close>

definition find_pattern :: "'f client_pattern list \<Rightarrow> 'f client_pattern list \<Rightarrow> string \<Rightarrow> 'f client_pattern" where
  "find_pattern builtin custom pid =
     (case find (\<lambda>p. pa_id p = pid) builtin of
        Some p \<Rightarrow> p
      | None \<Rightarrow> (case find (\<lambda>p. pa_id p = pid) custom of Some p \<Rightarrow> p | None \<Rightarrow> hd builtin))"

end
