(* ===== verification/Audio_Engine.thy ===== *)
theory Audio_Engine
  imports Audio_Pcm Relay_Client
begin

text \<open>
  The class \<open>AudioEngine\<close> of \<open>windows-client-cpp/src/AudioEngine.cpp\<close>: capture and its pump thread,
  playback, the streaming of roger and call signals, local sounds, and the detection of a
  parallel transmission. The record has the class's members; \<open>au_trace\<close> is what the engine
  hands to its callbacks, plays, or queues for playback. What the audio library and the disk
  answer is in \<open>audio_env\<close>. Times are nanoseconds of the steady clock.
\<close>

section \<open>State\<close>

datatype audio_obs =
    A_Status string
  | A_Level int
  | A_Frame pcm
  | A_Collision bool
  | A_OneShot pcm bool
  | A_Playback pcm

record 'f audio =
  au_contextReady :: bool
  au_captureActive :: bool
  au_captureDevice :: "int option"
  au_playbackActive :: bool
  au_playbackDevice :: "int option"
  au_ringReady :: bool
  au_ring :: pcm
  au_sampleRate :: int
  au_packetMs :: int
  au_preferredInput :: int
  au_preferredOutput :: int
  au_rogerId :: string
  au_callId :: string
  au_customRoger :: "'f client_pattern list"
  au_customCall :: "'f client_pattern list"
  au_fifo :: pcm
  au_pumpThread :: bool
  au_pumpStop :: bool
  au_txNextFrameAtNs :: int
  au_transmitting :: bool
  au_shuttingDown :: bool
  au_streaming :: bool
  au_abortRequested :: bool
  au_lastInboundNs :: int
  au_lastRxDuringTxNs :: int
  au_lastPulseNs :: int
  au_collision :: bool
  au_rxVolume :: int
  au_vibrationHz :: 'f
  au_vibrationVolume :: int
  au_onPcmFrame :: bool
  au_onStatus :: bool
  au_onLevel :: bool
  au_onCollision :: bool
  au_outOfBounds :: bool
  au_trace :: "audio_obs list"

text \<open>\<open>au_outOfBounds\<close> is a ghost: it is set where a sample outside a vector would be read.\<close>

record 'f audio_env =
  ae_flt :: "'f flt"
  ae_file :: "string \<Rightarrow> u8 list"
  ae_contextOk :: bool
  ae_captureDevices :: nat
  ae_playbackDevices :: nat
  ae_captureInitOk :: bool
  ae_captureStartOk :: bool
  ae_ringOk :: bool
  ae_playbackInitOk :: bool
  ae_playbackStartOk :: bool

definition kParallelRxDuringTxStaleNs :: int where "kParallelRxDuringTxStaleNs = 250000000"
definition kParallelPulseMinGapNs :: int where "kParallelPulseMinGapNs = 55000000"
definition kParallelCollisionPulseMs :: int where "kParallelCollisionPulseMs = 24"

definition audio_init :: "'f flt \<Rightarrow> 'f audio" where
  "audio_init F = \<lparr>au_contextReady = False, au_captureActive = False, au_captureDevice = None,
     au_playbackActive = False, au_playbackDevice = None, au_ringReady = False, au_ring = [],
     au_sampleRate = 8000, au_packetMs = 20, au_preferredInput = -1, au_preferredOutput = -1,
     au_rogerId = ''variant_1'', au_callId = ''call_variant_1'', au_customRoger = [], au_customCall = [],
     au_fifo = [], au_pumpThread = False, au_pumpStop = False, au_txNextFrameAtNs = 0,
     au_transmitting = False, au_shuttingDown = False, au_streaming = False, au_abortRequested = False,
     au_lastInboundNs = 0, au_lastRxDuringTxNs = 0, au_lastPulseNs = 0, au_collision = False,
     au_rxVolume = 100, au_vibrationHz = fl_dec F 1000 1, au_vibrationVolume = 40,
     au_onPcmFrame = False, au_onStatus = False, au_onLevel = False, au_onCollision = False,
     au_outOfBounds = False, au_trace = []\<rparr>"

definition emit_audio :: "audio_obs \<Rightarrow> 'f audio \<Rightarrow> 'f audio" where
  "emit_audio ob a = a\<lparr>au_trace := au_trace a @ [ob]\<rparr>"

definition audio_status :: "string \<Rightarrow> 'f audio \<Rightarrow> 'f audio" where
  "audio_status msg a = (if au_onStatus a then emit_audio (A_Status msg) a else a)"

definition FrameSamples :: "'f audio \<Rightarrow> int" where
  "FrameSamples a = (au_sampleRate a * au_packetMs a) sdiv 1000"

text \<open>A wanted device that is there, or the default device.\<close>

definition pick_device :: "int \<Rightarrow> nat \<Rightarrow> int option" where
  "pick_device want n = (if want \<ge> 0 \<and> want < int n then Some want else None)"

section \<open>Devices\<close>

definition CloseOutputStreamLocked :: "'f audio \<Rightarrow> 'f audio" where
  "CloseOutputStreamLocked a = a\<lparr>au_playbackActive := False, au_ringReady := False, au_ring := []\<rparr>"

definition CloseCaptureDeviceLocked :: "'f audio \<Rightarrow> 'f audio" where
  "CloseCaptureDeviceLocked a = a\<lparr>au_captureActive := False, au_fifo := [], au_txNextFrameAtNs := 0\<rparr>"

definition StopTxPumpThreadLocked :: "'f audio \<Rightarrow> 'f audio" where
  "StopTxPumpThreadLocked a = a\<lparr>au_pumpStop := True\<rparr>"

definition StartTxPumpThreadLocked :: "'f audio \<Rightarrow> 'f audio" where
  "StartTxPumpThreadLocked a =
     (if au_pumpThread a then a
      else a\<lparr>au_pumpStop := False, au_txNextFrameAtNs := 0, au_pumpThread := True\<rparr>)"

text \<open>Stopping and joining the pump thread; the join is done when the thread has seen the flag.\<close>

definition end_pump :: "'f audio \<Rightarrow> 'f audio" where
  "end_pump a = (StopTxPumpThreadLocked a)\<lparr>au_pumpThread := False\<rparr>"

definition EnsurePlaybackDeviceLocked :: "'f audio_env \<Rightarrow> 'f audio \<Rightarrow> 'f audio" where
  "EnsurePlaybackDeviceLocked V a =
     (if au_playbackActive a \<and> au_ringReady a then a
      else
        let a = CloseOutputStreamLocked a
        in if \<not> ae_ringOk V then a
           else if \<not> ae_playbackInitOk V \<or> \<not> ae_playbackStartOk V then a
           else a\<lparr>au_ringReady := True, au_playbackActive := True,
                  au_playbackDevice := pick_device (au_preferredOutput a) (ae_playbackDevices V)\<rparr>)"

definition Initialize :: "'f audio_env \<Rightarrow> 'f audio \<Rightarrow> bool \<times> 'f audio" where
  "Initialize V a =
     (let a = a\<lparr>au_shuttingDown := False\<rparr>
      in if \<not> au_contextReady a \<and> \<not> ae_contextOk V then (False, audio_status ''miniaudio: context init failed'' a)
         else (True, audio_status ''Audio initialized (miniaudio)'' (a\<lparr>au_contextReady := True\<rparr>)))"

text \<open>\<open>locks\<close> are the results of the attempts to take \<open>mu_\<close>, in order.\<close>

definition PrepareForExit :: "bool list \<Rightarrow> 'f audio \<Rightarrow> 'f audio" where
  "PrepareForExit locks a =
     (let a = a\<lparr>au_shuttingDown := True, au_transmitting := False, au_streaming := False\<rparr>
      in if True \<in> set (take 50 locks) then CloseOutputStreamLocked (CloseCaptureDeviceLocked a) else a)"

definition Reconfigure :: "'f audio_env \<Rightarrow> client_welcome \<Rightarrow> 'f audio \<Rightarrow> 'f audio" where
  "Reconfigure V cfg a =
     (let a = a\<lparr>au_shuttingDown := False\<rparr>;
          a = (if au_captureActive a then CloseCaptureDeviceLocked (end_pump (a\<lparr>au_transmitting := False\<rparr>)) else a);
          timingChanged = (cw_sampleRate cfg \<noteq> au_sampleRate a \<or> cw_packetMs cfg \<noteq> au_packetMs a);
          a = a\<lparr>au_sampleRate := cw_sampleRate cfg, au_packetMs := cw_packetMs cfg\<rparr>;
          a = (if timingChanged then CloseOutputStreamLocked a else a)
      in EnsurePlaybackDeviceLocked V a)"

definition SetPreferredInputDevice :: "int \<Rightarrow> 'f audio \<Rightarrow> 'f audio" where
  "SetPreferredInputDevice i a = a\<lparr>au_preferredInput := i\<rparr>"

definition SetPreferredOutputDevice :: "int \<Rightarrow> 'f audio \<Rightarrow> 'f audio" where
  "SetPreferredOutputDevice i a =
     (if au_preferredOutput a \<noteq> i then CloseOutputStreamLocked (a\<lparr>au_preferredOutput := i\<rparr>) else a)"

definition SetRogerPatternId :: "string \<Rightarrow> 'f audio \<Rightarrow> 'f audio" where
  "SetRogerPatternId pid a = a\<lparr>au_rogerId := pid\<rparr>"

definition SetCallPatternId :: "string \<Rightarrow> 'f audio \<Rightarrow> 'f audio" where
  "SetCallPatternId pid a = a\<lparr>au_callId := pid\<rparr>"

definition SetCustomSignalPatterns :: "'f client_pattern list \<Rightarrow> 'f client_pattern list \<Rightarrow> 'f audio \<Rightarrow> 'f audio" where
  "SetCustomSignalPatterns roger call a = a\<lparr>au_customRoger := roger, au_customCall := call\<rparr>"

definition FindRogerPatternLocked :: "'f flt \<Rightarrow> 'f audio \<Rightarrow> 'f client_pattern" where
  "FindRogerPatternLocked F a = find_pattern (RogerPatterns F) (au_customRoger a) (au_rogerId a)"

definition FindCallPatternLocked :: "'f flt \<Rightarrow> 'f audio \<Rightarrow> 'f client_pattern" where
  "FindCallPatternLocked F a = find_pattern (CallPatterns F) (au_customCall a) (au_callId a)"

section \<open>Parallel transmissions\<close>

definition PollParallelTxCollisionState :: "int \<Rightarrow> 'f audio \<Rightarrow> 'f audio" where
  "PollParallelTxCollisionState now a =
     (let txOn = (au_transmitting a \<or> au_streaming a);
          lastNs = au_lastRxDuringTxNs a;
          active = (txOn \<and> lastNs \<noteq> 0 \<and> now - lastNs \<le> kParallelRxDuringTxStaleNs)
      in if au_collision a \<noteq> active then
           let a = a\<lparr>au_collision := active\<rparr>
           in if au_onCollision a then emit_audio (A_Collision active) a else a
         else a)"

section \<open>Local sounds\<close>

text \<open>\<open>PlayOneShotHighQuality\<close>: the samples at the playback rate, and whether they are queued.\<close>

definition PlayOneShotHighQuality :: "'f flt \<Rightarrow> pcm \<Rightarrow> int \<Rightarrow> bool \<Rightarrow> 'f audio \<Rightarrow> 'f audio" where
  "PlayOneShotHighQuality F pcm srcRate useQueue a =
     (if pcm = [] \<or> srcRate \<le> 0 then a
      else (case ResampleLinear F pcm srcRate kUiSignalPlaybackRate of
              None \<Rightarrow> a\<lparr>au_outOfBounds := True\<rparr>
            | Some out \<Rightarrow> if out = [] then a else emit_audio (A_OneShot out useQueue) a))"

text \<open>The device callback of a sound: what it plays of it, from an offset, and the new offset.\<close>

definition OneShotPlaybackCallback :: "pcm \<Rightarrow> nat \<Rightarrow> nat \<Rightarrow> pcm \<times> nat" where
  "OneShotPlaybackCallback pcm offset frameCount =
     (let toCopy = min frameCount (length pcm - offset)
      in (take toCopy (drop offset pcm) @ replicate (frameCount - toCopy) 0, offset + toCopy))"

text \<open>The worker of the sound queue: a turn plays the front, or ends the worker after an idle wait.\<close>

record sound_queue =
  sq_sounds :: "pcm list"
  sq_running :: bool

definition sound_enqueue :: "pcm \<Rightarrow> sound_queue \<Rightarrow> sound_queue" where
  "sound_enqueue pcm q = q\<lparr>sq_sounds := sq_sounds q @ [pcm], sq_running := True\<rparr>"

definition sound_worker_turn :: "sound_queue \<Rightarrow> pcm option \<times> sound_queue" where
  "sound_worker_turn q =
     (if \<not> sq_running q then (None, q)
      else (case sq_sounds q of
              [] \<Rightarrow> (None, q\<lparr>sq_running := False\<rparr>)
            | pcm # rest \<Rightarrow> (Some pcm, q\<lparr>sq_sounds := rest\<rparr>)))"

text \<open>The first candidate file that holds sound, at the wanted rate; \<open>None\<close> for an outside read.\<close>

fun load_candidates :: "'f flt \<Rightarrow> (string \<Rightarrow> u8 list) \<Rightarrow> int \<Rightarrow> string list \<Rightarrow> pcm option" where
  "load_candidates F files rate [] = Some []"
| "load_candidates F files rate (p # ps) =
     (if files p = [] then load_candidates F files rate ps
      else (case ParseWavPcm (files p) of
              Wav_OutOfBounds \<Rightarrow> None
            | Wav_Parsed wav \<Rightarrow>
                if wv_samples wav = [] then load_candidates F files rate ps
                else ResampleLinear F (wv_samples wav) (wv_sampleRate wav) rate))"

definition LoadSoundFromExeDir :: "'f audio_env \<Rightarrow> string \<Rightarrow> int \<Rightarrow> pcm option" where
  "LoadSoundFromExeDir V baseName targetRate =
     (if targetRate \<le> 0 then Some []
      else load_candidates (ae_flt V) (ae_file V) targetRate [baseName @ ''.wav'', baseName])"

text \<open>Tones and pauses one after the other: a pause has no frequency.\<close>

fun tones :: "'f flt \<Rightarrow> ('f option \<times> int \<times> 'f) list \<Rightarrow> pcm \<Rightarrow> pcm" where
  "tones F [] out = out"
| "tones F ((hz, ms, gain) # ts) out =
     tones F ts (case hz of None \<Rightarrow> AppendSilence out kLocalSignalSynthesisRate ms
                 | Some f \<Rightarrow> AppendTone F out kLocalSignalSynthesisRate f ms gain)"

definition PlayConnectedSignal :: "'f audio_env \<Rightarrow> bool \<Rightarrow> 'f audio \<Rightarrow> 'f audio" where
  "PlayConnectedSignal V useQueue a =
     (let F = ae_flt V; g = fl_dec F 22 2
      in PlayOneShotHighQuality F
           (tones F [(Some (fl_dec F 14000 1), 40, g), (None, 50, g), (Some (fl_dec F 17000 1), 50, g)] [])
           kLocalSignalSynthesisRate useQueue a)"

definition PlayConnectionErrorSignal :: "'f audio_env \<Rightarrow> 'f audio \<Rightarrow> 'f audio" where
  "PlayConnectionErrorSignal V a =
     (let F = ae_flt V; g = fl_dec F 2 1
      in PlayOneShotHighQuality F
           (tones F [(Some (fl_dec F 8900 1), 192, g), (None, 300, g), (Some (fl_dec F 8900 1), 200, g)] [])
           kLocalSignalSynthesisRate False a)"

definition PlayManualConnectStartSignal :: "'f audio_env \<Rightarrow> bool \<Rightarrow> 'f audio \<Rightarrow> 'f audio" where
  "PlayManualConnectStartSignal V useQueue a =
     (let F = ae_flt V; g = fl_dec F 22 2
      in PlayOneShotHighQuality F
           (tones F [(Some (fl_dec F 93233 2), 50, g), (Some (fl_dec F 117466 2), 50, g),
                     (Some (fl_dec F 139691 2), 50, g), (Some (fl_dec F 186466 2), 70, g)] [])
           kLocalSignalSynthesisRate useQueue a)"

definition PlayManualDisconnectSignal :: "'f audio_env \<Rightarrow> 'f audio \<Rightarrow> 'f audio" where
  "PlayManualDisconnectSignal V a =
     (let F = ae_flt V; g = fl_dec F 22 2
      in PlayOneShotHighQuality F
           (tones F [(Some (fl_dec F 186466 2), 70, g), (Some (fl_dec F 139691 2), 50, g),
                     (Some (fl_dec F 117466 2), 50, g), (Some (fl_dec F 93233 2), 50, g)] [])
           kLocalSignalSynthesisRate False a)"

text \<open>A sound from the disk, or tones in its place.\<close>

definition sound_or_tones ::
  "'f audio_env \<Rightarrow> string \<Rightarrow> ('f option \<times> int \<times> 'f) list \<Rightarrow> 'f audio \<Rightarrow> pcm \<times> 'f audio" where
  "sound_or_tones V name ts a =
     (case LoadSoundFromExeDir V name kLocalSignalSynthesisRate of
        None \<Rightarrow> ([], a\<lparr>au_outOfBounds := True\<rparr>)
      | Some pcm \<Rightarrow> (if pcm = [] then tones (ae_flt V) ts [] else pcm, a))"

definition PlayPttPressSignal :: "'f audio_env \<Rightarrow> 'f audio \<Rightarrow> 'f audio" where
  "PlayPttPressSignal V a =
     (let F = ae_flt V; g = fl_dec F 18 2;
          (pcm, a) = sound_or_tones V ''selfpttup_002'' [(Some (fl_dec F 12600 1), 24, g), (None, 10, g)] a
      in PlayOneShotHighQuality F pcm kLocalSignalSynthesisRate False a)"

definition PlaySwitchNavSignal :: "'f audio_env \<Rightarrow> bool \<Rightarrow> 'f audio \<Rightarrow> 'f audio" where
  "PlaySwitchNavSignal V useQueue a =
     (let F = ae_flt V;
          (pcm, a) = sound_or_tones V ''switch_nav'' [(Some (fl_dec F 13200 1), 18, fl_dec F 14 2)] a
      in PlayOneShotHighQuality F pcm kLocalSignalSynthesisRate useQueue a)"

definition PlayRxVolumePreviewSignal :: "'f audio_env \<Rightarrow> int \<Rightarrow> 'f audio \<Rightarrow> 'f audio" where
  "PlayRxVolumePreviewSignal V volumePercent a =
     (let F = ae_flt V; safePercent = std_clamp volumePercent 0 200;
          (pcm, a) = sound_or_tones V ''spin_wt'' [(Some (fl_dec F 9800 1), 80, fl_dec F 2 1)] a
      in if pcm = [] then a
         else PlayOneShotHighQuality F (apply_percent F safePercent pcm) kLocalSignalSynthesisRate False a)"

definition PlaySignalPatternPreview :: "'f audio_env \<Rightarrow> 'f client_pattern \<Rightarrow> 'f audio \<Rightarrow> 'f audio" where
  "PlaySignalPatternPreview V pattern a =
     (if pa_points pattern = [] then a
      else
        let pcm = GenerateSignalPcm (ae_flt V) kLocalSignalSynthesisRate pattern
        in if pcm = [] then a else PlayOneShotHighQuality (ae_flt V) pcm kLocalSignalSynthesisRate False a)"

definition clamp_hz :: "'f flt \<Rightarrow> 'f \<Rightarrow> 'f" where
  "clamp_hz F hz = (if fl_lt F hz (fl_dec F 300 1) then fl_dec F 300 1
     else if fl_lt F (fl_dec F 5000 1) hz then fl_dec F 5000 1 else hz)"

definition vibration_gain :: "'f flt \<Rightarrow> int \<Rightarrow> 'f" where
  "vibration_gain F volume = fl_mul F (fl_div F (fl_int F volume) (fl_dec F 1000 1)) (fl_dec F 45 2)"

definition PlayVibrationImitationPattern :: "'f audio_env \<Rightarrow> int list \<Rightarrow> 'f audio \<Rightarrow> 'f audio" where
  "PlayVibrationImitationPattern V patternMs a =
     (let F = ae_flt V
      in if patternMs = [] \<or> au_vibrationVolume a \<le> 0 then a
         else PlayOneShotHighQuality F
                (AppendDesktopVibrationPattern F [] kLocalSignalSynthesisRate (clamp_hz F (au_vibrationHz a))
                   (vibration_gain F (au_vibrationVolume a)) patternMs)
                kLocalSignalSynthesisRate False a)"

definition PlayVibrationImitationPulse :: "'f audio_env \<Rightarrow> int \<Rightarrow> 'f audio \<Rightarrow> 'f audio" where
  "PlayVibrationImitationPulse V durationMs a =
     (if durationMs \<le> 0 then a else PlayVibrationImitationPattern V [durationMs] a)"

definition SetVibrationImitation :: "'f flt \<Rightarrow> 'f \<Rightarrow> int \<Rightarrow> 'f audio \<Rightarrow> 'f audio" where
  "SetVibrationImitation F freqHz volumePercent a =
     a\<lparr>au_vibrationHz := clamp_hz F freqHz, au_vibrationVolume := std_clamp volumePercent 0 100\<rparr>"

definition PlayVibrationImitationPreview :: "'f audio_env \<Rightarrow> 'f \<Rightarrow> int \<Rightarrow> 'f audio \<Rightarrow> 'f audio" where
  "PlayVibrationImitationPreview V freqHz volumePercent a =
     (let F = ae_flt V; vol = std_clamp volumePercent 0 100
      in if vol \<le> 0 then a
         else PlayOneShotHighQuality F
                (AppendDesktopVibrationPattern F [] kLocalSignalSynthesisRate (clamp_hz F freqHz)
                   (vibration_gain F vol) [35, 55, 35, 55, 35])
                kLocalSignalSynthesisRate False a)"

section \<open>Transmitting\<close>

definition StartTransmit :: "'f audio_env \<Rightarrow> 'f audio \<Rightarrow> bool \<times> 'f audio" where
  "StartTransmit V a =
     (if au_captureActive a \<or> au_streaming a \<or> \<not> au_contextReady a then (False, a)
      else if \<not> ae_captureInitOk V then (False, a)
      else
        let a = a\<lparr>au_captureDevice := pick_device (au_preferredInput a) (ae_captureDevices V), au_fifo := [],
                  au_lastRxDuringTxNs := 0, au_lastPulseNs := 0, au_transmitting := True\<rparr>
        in if \<not> ae_captureStartOk V then (False, a\<lparr>au_transmitting := False\<rparr>)
           else (True, StartTxPumpThreadLocked (a\<lparr>au_captureActive := True\<rparr>)))"

definition StopTransmit :: "bool list \<Rightarrow> int \<Rightarrow> 'f audio \<Rightarrow> 'f audio" where
  "StopTransmit locks now a =
     (let a = PollParallelTxCollisionState now (a\<lparr>au_transmitting := False\<rparr>)
      in if au_shuttingDown a \<and> True \<notin> set (take 50 locks) then a
         else CloseCaptureDeviceLocked (end_pump a))"

definition Shutdown :: "bool list \<Rightarrow> bool list \<Rightarrow> int \<Rightarrow> 'f audio \<Rightarrow> 'f audio" where
  "Shutdown stop_locks locks now a =
     (let a = StopTransmit stop_locks now (a\<lparr>au_shuttingDown := True\<rparr>);
          a = (if au_collision a \<and> au_onCollision a then emit_audio (A_Collision False) (a\<lparr>au_collision := False\<rparr>)
               else a\<lparr>au_collision := False\<rparr>);
          a = a\<lparr>au_lastRxDuringTxNs := 0\<rparr>
      in if True \<in> set (take 100 locks) then (CloseOutputStreamLocked a)\<lparr>au_contextReady := False\<rparr> else a)"

definition OnCaptureFrames :: "pcm \<Rightarrow> 'f audio \<Rightarrow> 'f audio" where
  "OnCaptureFrames samples a =
     (if \<not> au_transmitting a \<or> samples = [] then a else a\<lparr>au_fifo := au_fifo a @ samples\<rparr>)"

definition level_percent :: "pcm \<Rightarrow> int" where
  "level_percent frame = std_clamp ((foldl (\<lambda>peak v. max peak \<bar>v\<bar>) 0 frame * 100) sdiv 32767) 0 100"

text \<open>A turn of the pump thread; true when the thread ends.\<close>

definition TxPumpTurn :: "int \<Rightarrow> 'f audio \<Rightarrow> bool \<times> 'f audio" where
  "TxPumpTurn now a =
     (if au_pumpStop a then (True, a)
      else if \<not> au_transmitting a then (False, a)
      else
        let frame = FrameSamples a
        in if frame \<le> 0 \<or> int (length (au_fifo a)) < frame then (False, a)
           else
             let framePcm = take (nat frame) (au_fifo a);
                 a = a\<lparr>au_fifo := drop (nat frame) (au_fifo a)\<rparr>;
                 a = PollParallelTxCollisionState now a;
                 a = (if au_onLevel a then emit_audio (A_Level (level_percent framePcm)) a else a)
             in (False, if au_onPcmFrame a then emit_audio (A_Frame framePcm) a else a))"

definition RequestAbortOutgoingSignalStream :: "'f audio \<Rightarrow> 'f audio" where
  "RequestAbortOutgoingSignalStream a = a\<lparr>au_abortRequested := True\<rparr>"

text \<open>
  The frames of a generated signal, the last one filled up with silence; \<open>abort k\<close> says that an
  abort has been requested before the \<open>k\<close>-th frame.
\<close>

function stream_loop :: "nat \<Rightarrow> (nat \<Rightarrow> bool) \<Rightarrow> nat \<Rightarrow> pcm \<Rightarrow> 'f audio \<Rightarrow> bool \<times> 'f audio" where
  "stream_loop frame abort k pcm a =
     (if pcm = [] \<or> frame = 0 then (True, a)
      else
        let a = (if abort k then RequestAbortOutgoingSignalStream a else a)
        in if au_abortRequested a then (False, a\<lparr>au_abortRequested := False\<rparr>)
           else
             let copyN = min frame (length pcm);
                 out = take copyN pcm @ replicate (frame - copyN) 0
             in stream_loop frame abort (Suc k) (drop copyN pcm)
                  (if au_onPcmFrame a then emit_audio (A_Frame out) a else a))"
  by pat_completeness auto
termination
  by (relation "measure (\<lambda>(frame, abort, k, pcm, a). length pcm)") (auto simp: min_def)

declare stream_loop.simps [simp del]

definition StreamGeneratedSignal :: "(nat \<Rightarrow> bool) \<Rightarrow> pcm \<Rightarrow> 'f audio \<Rightarrow> bool \<times> 'f audio" where
  "StreamGeneratedSignal abort pcm a =
     (if pcm = [] then (False, a)
      else if \<not> au_contextReady a then (False, a)
      else if FrameSamples a \<le> 0 \<or> au_packetMs a \<le> 0 then (False, a)
      else stream_loop (nat (FrameSamples a)) abort 0 pcm a)"

text \<open>The flags before and after the streaming of a signal.\<close>

definition begin_stream :: "'f audio \<Rightarrow> 'f audio" where
  "begin_stream a = a\<lparr>au_streaming := True, au_abortRequested := False, au_lastRxDuringTxNs := 0, au_lastPulseNs := 0\<rparr>"

definition end_stream :: "int \<Rightarrow> 'f audio \<Rightarrow> 'f audio" where
  "end_stream now a = PollParallelTxCollisionState now (a\<lparr>au_streaming := False\<rparr>)"

definition StreamRogerSignal :: "'f audio_env \<Rightarrow> (nat \<Rightarrow> bool) \<Rightarrow> int \<Rightarrow> 'f audio \<Rightarrow> bool \<times> 'f audio" where
  "StreamRogerSignal V abort now a =
     (if au_transmitting a \<or> au_streaming a then (False, if au_transmitting a then a else a\<lparr>au_streaming := True\<rparr>)
      else
        let F = ae_flt V; a = begin_stream a; pattern = FindRogerPatternLocked F a;
            (pttRelease, a) = sound_or_tones V ''selfttdown_002''
              [(Some (fl_dec F 7600 1), 28, fl_dec F 18 2), (None, 18, fl_dec F 18 2)] a;
            roger = (if pa_points pattern = [] then [] else GenerateSignalPcm F kLocalSignalSynthesisRate pattern);
            localPcm = pttRelease @ (if pa_points pattern = [] then [] else ApplyGain F roger (fl_dec F 9 1));
            remote = (if pa_points pattern = [] then Some []
                      else ResampleLinear F roger kLocalSignalSynthesisRate (au_sampleRate a));
            a = PlayOneShotHighQuality F localPcm kLocalSignalSynthesisRate False a
        in (case remote of
              None \<Rightarrow> (False, a\<lparr>au_outOfBounds := True\<rparr>)
            | Some remotePcm \<Rightarrow>
                (case (if remotePcm \<noteq> [] then StreamGeneratedSignal abort remotePcm a else (True, a)) of
                   (ok, a) \<Rightarrow> (ok, end_stream now a))))"

definition StreamCallSignal :: "'f audio_env \<Rightarrow> (nat \<Rightarrow> bool) \<Rightarrow> int \<Rightarrow> 'f audio \<Rightarrow> bool \<times> 'f audio" where
  "StreamCallSignal V abort now a =
     (if au_transmitting a \<or> au_streaming a then (False, if au_transmitting a then a else a\<lparr>au_streaming := True\<rparr>)
      else
        let F = ae_flt V; a = begin_stream a; pattern = FindCallPatternLocked F a
        in if pa_points pattern = [] then (False, end_stream now a)
           else
             let call = GenerateSignalPcm F kLocalSignalSynthesisRate pattern
             in (case ResampleLinear F call kLocalSignalSynthesisRate (au_sampleRate a) of
                   None \<Rightarrow> (False, a\<lparr>au_outOfBounds := True\<rparr>)
                 | Some remotePcm \<Rightarrow>
                     let a = PlayOneShotHighQuality F (ApplyGain F call (fl_dec F 55 2)) kLocalSignalSynthesisRate False a
                     in (case StreamGeneratedSignal abort remotePcm a of (ok, a) \<Rightarrow> (ok, end_stream now a))))"

section \<open>Receiving\<close>

text \<open>The chunks the ring buffer grants, until it grants none: what is written of the samples.\<close>

fun queue_loop :: "nat list \<Rightarrow> pcm \<Rightarrow> pcm" where
  "queue_loop [] pcm = []"
| "queue_loop (g # gs) pcm =
     (let chunk = min g (length pcm)
      in if chunk = 0 then [] else take chunk pcm @ queue_loop gs (drop chunk pcm))"

definition QueuePcmForPlaybackLocked :: "'f audio_env \<Rightarrow> nat list \<Rightarrow> pcm \<Rightarrow> 'f audio \<Rightarrow> 'f audio" where
  "QueuePcmForPlaybackLocked V grants pcm a =
     (if pcm = [] then a
      else
        let a = EnsurePlaybackDeviceLocked V a
        in if \<not> au_ringReady a \<or> \<not> au_playbackActive a then a
           else
             let written = queue_loop grants pcm
             in emit_audio (A_Playback written) (a\<lparr>au_ring := au_ring a @ written\<rparr>))"

definition SetRxVolumePercent :: "int \<Rightarrow> 'f audio \<Rightarrow> 'f audio" where
  "SetRxVolumePercent percent a = a\<lparr>au_rxVolume := std_clamp percent kRxVolumeMinPercent kRxVolumeMaxPercent\<rparr>"

definition OnIncomingPcmFrame :: "'f audio_env \<Rightarrow> nat list \<Rightarrow> int \<Rightarrow> pcm \<Rightarrow> 'f audio \<Rightarrow> 'f audio" where
  "OnIncomingPcmFrame V grants now samples a =
     (if samples = [] \<or> au_shuttingDown a then a
      else
        let a = a\<lparr>au_lastInboundNs := now\<rparr>
        in if au_transmitting a \<or> au_streaming a then
             let a = a\<lparr>au_lastRxDuringTxNs := now\<rparr>;
                 a = (if now - au_lastPulseNs a \<ge> kParallelPulseMinGapNs
                      then PlayVibrationImitationPulse V kParallelCollisionPulseMs (a\<lparr>au_lastPulseNs := now\<rparr>)
                      else a)
             in PollParallelTxCollisionState now a
           else
             let a = EnsurePlaybackDeviceLocked V a
             in if \<not> au_ringReady a \<or> \<not> au_playbackActive a then a
                else QueuePcmForPlaybackLocked V grants (apply_percent (ae_flt V) (au_rxVolume a) samples) a)"

text \<open>The playback device asks for \<open>n\<close> samples: what the ring hands out chunk by chunk, then silence.\<close>

fun playback_loop :: "nat list \<Rightarrow> nat \<Rightarrow> pcm \<Rightarrow> pcm \<times> pcm" where
  "playback_loop [] n ring = ([], ring)"
| "playback_loop (g # gs) n ring =
     (let chunk = min g (min n (length ring))
      in if n = 0 \<or> chunk = 0 then ([], ring)
         else (case playback_loop gs (n - chunk) (drop chunk ring) of (out, ring') \<Rightarrow> (take chunk ring @ out, ring')))"

definition PlaybackCallback :: "nat list \<Rightarrow> nat \<Rightarrow> 'f audio \<Rightarrow> pcm \<times> 'f audio" where
  "PlaybackCallback grants n a =
     (case playback_loop grants n (au_ring a) of (out, ring) \<Rightarrow>
        (out @ replicate (n - length out) 0, a\<lparr>au_ring := ring\<rparr>))"

end
