(* ===== verification/Hotkeys.thy ===== *)
theory Hotkeys
  imports OW_Prelude
begin

text \<open>
  The hot key of the desktop client (\<open>MainFrame.cpp\<close>): the masks of modifier keys, the dialog that
  captures a combination from the low-level keyboard hook, and the test by which the global hook
  recognises it again. The state of the keyboard (\<open>GetAsyncKeyState\<close>) is a predicate on virtual
  keys; translations and the system's key names are arguments.
\<close>

section \<open>Keys and masks\<close>

abbreviation VK_SHIFT :: int where "VK_SHIFT \<equiv> 0x10"
abbreviation VK_CONTROL :: int where "VK_CONTROL \<equiv> 0x11"
abbreviation VK_MENU :: int where "VK_MENU \<equiv> 0x12"
abbreviation VK_LSHIFT :: int where "VK_LSHIFT \<equiv> 0xA0"
abbreviation VK_RSHIFT :: int where "VK_RSHIFT \<equiv> 0xA1"
abbreviation VK_LCONTROL :: int where "VK_LCONTROL \<equiv> 0xA2"
abbreviation VK_RCONTROL :: int where "VK_RCONTROL \<equiv> 0xA3"
abbreviation VK_LMENU :: int where "VK_LMENU \<equiv> 0xA4"
abbreviation VK_RMENU :: int where "VK_RMENU \<equiv> 0xA5"

definition kPttModShift :: u32 where "kPttModShift = 1"
definition kPttModCtrl :: u32 where "kPttModCtrl = 2"
definition kPttModAlt :: u32 where "kPttModAlt = 4"
definition kPttModLShift :: u32 where "kPttModLShift = push_bit 3 1"
definition kPttModRShift :: u32 where "kPttModRShift = push_bit 4 1"
definition kPttModLCtrl :: u32 where "kPttModLCtrl = push_bit 5 1"
definition kPttModRCtrl :: u32 where "kPttModRCtrl = push_bit 6 1"
definition kPttModLAlt :: u32 where "kPttModLAlt = push_bit 7 1"
definition kPttModRAlt :: u32 where "kPttModRAlt = push_bit 8 1"

lemmas mod_masks = kPttModShift_def kPttModCtrl_def kPttModAlt_def kPttModLShift_def kPttModRShift_def
  kPttModLCtrl_def kPttModRCtrl_def kPttModLAlt_def kPttModRAlt_def

definition CurrentModifierMask :: "(int \<Rightarrow> bool) \<Rightarrow> u32" where
  "CurrentModifierMask down =
     (let mods = 0;
          mods = (if down VK_LSHIFT \<or> down VK_RSHIFT then mods OR kPttModShift else mods);
          mods = (if down VK_LCONTROL \<or> down VK_RCONTROL then mods OR kPttModCtrl else mods);
          mods = (if down VK_LMENU \<or> down VK_RMENU then mods OR kPttModAlt else mods);
          mods = (if down VK_LSHIFT then mods OR kPttModLShift else mods);
          mods = (if down VK_RSHIFT then mods OR kPttModRShift else mods);
          mods = (if down VK_LCONTROL then mods OR kPttModLCtrl else mods);
          mods = (if down VK_RCONTROL then mods OR kPttModRCtrl else mods);
          mods = (if down VK_LMENU then mods OR kPttModLAlt else mods)
      in if down VK_RMENU then mods OR kPttModRAlt else mods)"

definition IsModifierVKey :: "int \<Rightarrow> bool" where
  "IsModifierVKey vkey \<longleftrightarrow> vkey = VK_SHIFT \<or> vkey = VK_LSHIFT \<or> vkey = VK_RSHIFT \<or>
     vkey = VK_CONTROL \<or> vkey = VK_LCONTROL \<or> vkey = VK_RCONTROL \<or>
     vkey = VK_MENU \<or> vkey = VK_LMENU \<or> vkey = VK_RMENU"

definition ModifierBitsForVKey :: "int \<Rightarrow> u32" where
  "ModifierBitsForVKey vkey =
     (if vkey = VK_LSHIFT then kPttModShift OR kPttModLShift
      else if vkey = VK_RSHIFT then kPttModShift OR kPttModRShift
      else if vkey = VK_SHIFT then kPttModShift
      else if vkey = VK_LCONTROL then kPttModCtrl OR kPttModLCtrl
      else if vkey = VK_RCONTROL then kPttModCtrl OR kPttModRCtrl
      else if vkey = VK_CONTROL then kPttModCtrl
      else if vkey = VK_LMENU then kPttModAlt OR kPttModLAlt
      else if vkey = VK_RMENU then kPttModAlt OR kPttModRAlt
      else if vkey = VK_MENU then kPttModAlt
      else 0)"

definition NormalizeModifierMask :: "u32 \<Rightarrow> u32" where
  "NormalizeModifierMask mods =
     (let mods = mods AND NOT (kPttModShift OR kPttModCtrl OR kPttModAlt);
          mods = (if mods AND (kPttModLShift OR kPttModRShift) \<noteq> 0 then mods OR kPttModShift else mods);
          mods = (if mods AND (kPttModLCtrl OR kPttModRCtrl) \<noteq> 0 then mods OR kPttModCtrl else mods)
      in if mods AND (kPttModLAlt OR kPttModRAlt) \<noteq> 0 then mods OR kPttModAlt else mods)"

definition StripPrimaryModifierFamily :: "u32 \<Rightarrow> int \<Rightarrow> u32" where
  "StripPrimaryModifierFamily mods vkey =
     (if vkey = VK_SHIFT \<or> vkey = VK_LSHIFT \<or> vkey = VK_RSHIFT
        then mods AND NOT (kPttModShift OR kPttModLShift OR kPttModRShift)
      else if vkey = VK_CONTROL \<or> vkey = VK_LCONTROL \<or> vkey = VK_RCONTROL
        then mods AND NOT (kPttModCtrl OR kPttModLCtrl OR kPttModRCtrl)
      else if vkey = VK_MENU \<or> vkey = VK_LMENU \<or> vkey = VK_RMENU
        then mods AND NOT (kPttModAlt OR kPttModLAlt OR kPttModRAlt)
      else mods)"

section \<open>Display names\<close>

text \<open>\<open>tr\<close> is \<open>wxGetTranslation\<close>, \<open>keyName\<close> the system's name of a key.\<close>

definition VKeyToDisplayName :: "(string \<Rightarrow> string) \<Rightarrow> (int \<Rightarrow> string option) \<Rightarrow> int \<Rightarrow> string" where
  "VKeyToDisplayName tr keyName vkey =
     (if vkey \<le> 0 then tr ''Not set''
      else (case keyName vkey of Some name \<Rightarrow> name | None \<Rightarrow> ''VK '' @ std_to_string vkey))"

definition PttComboToDisplayName ::
  "(string \<Rightarrow> string) \<Rightarrow> (int \<Rightarrow> string option) \<Rightarrow> int \<Rightarrow> u32 \<Rightarrow> string" where
  "PttComboToDisplayName tr keyName vkey mods =
     (let part = (\<lambda>b name. if b then tr name else []) in
      if vkey \<le> 0 then tr ''Not set''
      else
        part (mods AND kPttModLCtrl \<noteq> 0) ''Left Ctrl+'' @
        part (mods AND kPttModRCtrl \<noteq> 0) ''Right Ctrl+'' @
        part (mods AND (kPttModLCtrl OR kPttModRCtrl) = 0 \<and> mods AND kPttModCtrl \<noteq> 0) ''Ctrl+'' @
        part (mods AND kPttModLAlt \<noteq> 0) ''Left Alt+'' @
        part (mods AND kPttModRAlt \<noteq> 0) ''Right Alt+'' @
        part (mods AND (kPttModLAlt OR kPttModRAlt) = 0 \<and> mods AND kPttModAlt \<noteq> 0) ''Alt+'' @
        part (mods AND kPttModLShift \<noteq> 0) ''Left Shift+'' @
        part (mods AND kPttModRShift \<noteq> 0) ''Right Shift+'' @
        part (mods AND (kPttModLShift OR kPttModRShift) = 0 \<and> mods AND kPttModShift \<noteq> 0) ''Shift+'' @
        VKeyToDisplayName tr keyName vkey)"

section \<open>Recognising a combination\<close>

definition IsPrimaryKeyMatch :: "int \<Rightarrow> int \<Rightarrow> bool" where
  "IsPrimaryKeyMatch saved pressed \<longleftrightarrow>
     (if saved = pressed then True
      else if saved = VK_SHIFT then pressed = VK_LSHIFT \<or> pressed = VK_RSHIFT
      else if saved = VK_CONTROL then pressed = VK_LCONTROL \<or> pressed = VK_RCONTROL
      else if saved = VK_MENU then pressed = VK_LMENU \<or> pressed = VK_RMENU
      else False)"

definition AreRequiredModsPressed :: "u32 \<Rightarrow> u32 \<Rightarrow> bool" where
  "AreRequiredModsPressed required current \<longleftrightarrow>
     (let hasAll = (\<lambda>mask. current AND mask = mask) in
      if required AND kPttModLCtrl \<noteq> 0 \<and> \<not> hasAll kPttModLCtrl then False
      else if required AND kPttModRCtrl \<noteq> 0 \<and> \<not> hasAll kPttModRCtrl then False
      else if required AND kPttModLShift \<noteq> 0 \<and> \<not> hasAll kPttModLShift then False
      else if required AND kPttModRShift \<noteq> 0 \<and> \<not> hasAll kPttModRShift then False
      else if required AND kPttModLAlt \<noteq> 0 \<and> \<not> hasAll kPttModLAlt then False
      else if required AND kPttModRAlt \<noteq> 0 \<and> \<not> hasAll kPttModRAlt then False
      else if required AND kPttModCtrl \<noteq> 0 \<and> required AND (kPttModLCtrl OR kPttModRCtrl) = 0
        \<and> current AND (kPttModLCtrl OR kPttModRCtrl) = 0 then False
      else if required AND kPttModShift \<noteq> 0 \<and> required AND (kPttModLShift OR kPttModRShift) = 0
        \<and> current AND (kPttModLShift OR kPttModRShift) = 0 then False
      else if required AND kPttModAlt \<noteq> 0 \<and> required AND (kPttModLAlt OR kPttModRAlt) = 0
        \<and> current AND (kPttModLAlt OR kPttModRAlt) = 0 then False
      else True)"

section \<open>Capturing a combination\<close>

record hotkey_dialog =
  hk_active :: bool
  hk_vkey :: int
  hk_mods :: u32
  hk_heldMods :: u32
  hk_pendingVKey :: int
  hk_pendingMods :: u32
  hk_label :: "int \<times> u32"

text \<open>\<open>hk_label\<close> is the combination whose display name the dialog shows.\<close>

definition hotkey_dialog_init :: hotkey_dialog where
  "hotkey_dialog_init = \<lparr>hk_active = True, hk_vkey = 0, hk_mods = 0, hk_heldMods = 0, hk_pendingVKey = 0,
     hk_pendingMods = 0, hk_label = (0, 0)\<rparr>"

definition CommitCapture :: "int \<Rightarrow> u32 \<Rightarrow> hotkey_dialog \<Rightarrow> hotkey_dialog" where
  "CommitCapture rawVKey currentMods d =
     (let mods = StripPrimaryModifierFamily (NormalizeModifierMask currentMods) rawVKey
      in d\<lparr>hk_vkey := rawVKey, hk_mods := mods, hk_label := (rawVKey, mods), hk_active := False\<rparr>)"

definition OnLowLevelKey :: "int \<Rightarrow> bool \<Rightarrow> bool \<Rightarrow> hotkey_dialog \<Rightarrow> hotkey_dialog" where
  "OnLowLevelKey rawVKey isKeyDown isKeyUp d =
     (if rawVKey \<le> 0 then d
      else if IsModifierVKey rawVKey then
        let bits = ModifierBitsForVKey rawVKey
        in if isKeyDown then
             let held = NormalizeModifierMask (hk_heldMods d OR bits);
                 pending = StripPrimaryModifierFamily held rawVKey
             in d\<lparr>hk_heldMods := held, hk_pendingVKey := rawVKey, hk_pendingMods := pending,
                  hk_label := (rawVKey, pending)\<rparr>
           else if isKeyUp then
             if hk_pendingVKey d = rawVKey then CommitCapture rawVKey (hk_pendingMods d) d
             else d\<lparr>hk_heldMods := NormalizeModifierMask (hk_heldMods d AND NOT bits)\<rparr>
           else d
      else if isKeyDown then CommitCapture rawVKey (hk_heldMods d) d
      else d)"

text \<open>A key event at the hook: the key, and whether it goes down or up. True: the event is swallowed.\<close>

definition CaptureKeyboardProc :: "int \<times> bool \<Rightarrow> hotkey_dialog \<Rightarrow> bool \<times> hotkey_dialog" where
  "CaptureKeyboardProc e d =
     (if hk_active d then (True, OnLowLevelKey (fst e) (snd e) (\<not> snd e) d) else (False, d))"

definition capture_all :: "(int \<times> bool) list \<Rightarrow> hotkey_dialog \<Rightarrow> hotkey_dialog" where
  "capture_all es d = foldl (\<lambda>d e. snd (CaptureKeyboardProc e d)) d es"

section \<open>A captured combination is the one that is recognised\<close>

text \<open>The modifier keys down after a sequence of key events.\<close>

definition keys_down :: "(int \<times> bool) list \<Rightarrow> int \<Rightarrow> bool" where
  "keys_down es = foldl (\<lambda>down (k, b). down(k := b)) (\<lambda>_. False) es"

definition sided :: "int \<Rightarrow> bool" where
  "sided k \<longleftrightarrow> k \<in> {VK_LSHIFT, VK_RSHIFT, VK_LCONTROL, VK_RCONTROL, VK_LMENU, VK_RMENU}"

lemma mod_bits:
  "bit kPttModShift n \<longleftrightarrow> n = 0" "bit kPttModCtrl n \<longleftrightarrow> n = 1" "bit kPttModAlt n \<longleftrightarrow> n = 2"
  "bit kPttModLShift n \<longleftrightarrow> n = 3" "bit kPttModRShift n \<longleftrightarrow> n = 4" "bit kPttModLCtrl n \<longleftrightarrow> n = 5"
  "bit kPttModRCtrl n \<longleftrightarrow> n = 6" "bit kPttModLAlt n \<longleftrightarrow> n = 7" "bit kPttModRAlt n \<longleftrightarrow> n = 8"
proof -
  have one: "bit (push_bit k (1 :: u32)) n \<longleftrightarrow> n = k" if "k < 32" for k
    using that unfolding bit_push_bit_iff bit_1_iff by (auto simp del: push_bit_of_1)
  have "(1 :: u32) = push_bit 0 1" "(2 :: u32) = push_bit 1 1" "(4 :: u32) = push_bit 2 1"
    by simp_all
  then show "bit kPttModShift n \<longleftrightarrow> n = 0" "bit kPttModCtrl n \<longleftrightarrow> n = 1" "bit kPttModAlt n \<longleftrightarrow> n = 2"
    "bit kPttModLShift n \<longleftrightarrow> n = 3" "bit kPttModRShift n \<longleftrightarrow> n = 4" "bit kPttModLCtrl n \<longleftrightarrow> n = 5"
    "bit kPttModRCtrl n \<longleftrightarrow> n = 6" "bit kPttModLAlt n \<longleftrightarrow> n = 7" "bit kPttModRAlt n \<longleftrightarrow> n = 8"
    unfolding mod_masks by (simp_all only: one bit_1_iff)
qed

text \<open>Tests of a mask against one flag and against two.\<close>

lemma flag_test:
  fixes w f :: u32
  assumes "\<And>n. bit f n \<longleftrightarrow> n = k" and "k < 32"
  shows "w AND f = 0 \<longleftrightarrow> \<not> bit w k" and "w AND f = f \<longleftrightarrow> bit w k"
  using assms(2) unfolding bit_eq_iff [of "w AND f"] bit_and_iff assms(1) by auto

lemma flags_test:
  fixes w f g :: u32
  assumes "\<And>n. bit f n \<longleftrightarrow> n = k" and "\<And>n. bit g n \<longleftrightarrow> n = l" and "k < 32" and "l < 32"
  shows "w AND (f OR g) = 0 \<longleftrightarrow> \<not> bit w k \<and> \<not> bit w l"
  using assms(3,4) unfolding bit_eq_iff [of "w AND (f OR g)"] bit_and_iff bit_or_iff assms(1,2) by auto

lemmas flag_tests =
  flag_test [OF mod_bits(1)] flag_test [OF mod_bits(2)] flag_test [OF mod_bits(3)]
  flag_test [OF mod_bits(4)] flag_test [OF mod_bits(5)] flag_test [OF mod_bits(6)]
  flag_test [OF mod_bits(7)] flag_test [OF mod_bits(8)] flag_test [OF mod_bits(9)]
  flags_test [OF mod_bits(4) mod_bits(5)] flags_test [OF mod_bits(6) mod_bits(7)]
  flags_test [OF mod_bits(8) mod_bits(9)]

text \<open>Masks are compared flag by flag.\<close>

lemma mask_eqI:
  fixes v w :: u32
  assumes "bit v 0 = bit w 0" "bit v 1 = bit w 1" "bit v 2 = bit w 2" "bit v 3 = bit w 3" "bit v 4 = bit w 4"
    "bit v 5 = bit w 5" "bit v 6 = bit w 6" "bit v 7 = bit w 7" "bit v 8 = bit w 8"
    and "\<And>n. 8 < n \<Longrightarrow> bit v n = bit w n"
  shows "v = w"
proof (rule bit_word_eqI)
  fix n :: nat
  have "n = 0 \<or> n = 1 \<or> n = 2 \<or> n = 3 \<or> n = 4 \<or> n = 5 \<or> n = 6 \<or> n = 7 \<or> n = 8 \<or> 8 < n" by arith
  with assms show "bit v n = bit w n" by (elim disjE) simp_all
qed

lemma bit_mask:
  "bit (CurrentModifierMask p) n \<longleftrightarrow>
     (n = 0 \<and> (p VK_LSHIFT \<or> p VK_RSHIFT)) \<or> (n = 1 \<and> (p VK_LCONTROL \<or> p VK_RCONTROL)) \<or>
     (n = 2 \<and> (p VK_LMENU \<or> p VK_RMENU)) \<or> (n = 3 \<and> p VK_LSHIFT) \<or> (n = 4 \<and> p VK_RSHIFT) \<or>
     (n = 5 \<and> p VK_LCONTROL) \<or> (n = 6 \<and> p VK_RCONTROL) \<or> (n = 7 \<and> p VK_LMENU) \<or> (n = 8 \<and> p VK_RMENU)"
  unfolding CurrentModifierMask_def Let_def if_distrib [of "\<lambda>w. bit w n"] bit_or_iff mod_bits by auto

lemma bit_normalize:
  "bit (NormalizeModifierMask w) n \<longleftrightarrow>
     (n = 0 \<and> (bit w 3 \<or> bit w 4)) \<or> (n = 1 \<and> (bit w 5 \<or> bit w 6)) \<or> (n = 2 \<and> (bit w 7 \<or> bit w 8)) \<or>
     (2 < n \<and> bit w n)"
proof -
  define u where "u = w AND NOT (kPttModShift OR kPttModCtrl OR kPttModAlt)"
  have u: "bit u n \<longleftrightarrow> 2 < n \<and> bit w n" for n
    unfolding u_def by (auto simp: bit_and_iff bit_not_iff bit_or_iff mod_bits dest: bit_imp_le_length)
  show ?thesis
    unfolding NormalizeModifierMask_def u_def [symmetric]
    by (auto simp: Let_def flag_tests bit_or_iff mod_bits u)
qed

lemma bit_strip:
  "bit (StripPrimaryModifierFamily w k) n \<longleftrightarrow> bit w n \<and>
     \<not> (k \<in> {VK_SHIFT, VK_LSHIFT, VK_RSHIFT} \<and> n \<in> {0, 3, 4}) \<and>
     \<not> (k \<in> {VK_CONTROL, VK_LCONTROL, VK_RCONTROL} \<and> n \<in> {1, 5, 6}) \<and>
     \<not> (k \<in> {VK_MENU, VK_LMENU, VK_RMENU} \<and> n \<in> {2, 7, 8})"
  unfolding StripPrimaryModifierFamily_def
  by (auto simp: bit_and_iff bit_not_iff bit_or_iff mod_bits dest: bit_imp_le_length)

text \<open>Between masks of keyboards the test says that the keys of the one are down on the other.\<close>

lemma required_mods_of_keyboard:
  "AreRequiredModsPressed (CurrentModifierMask p) (CurrentModifierMask q) \<longleftrightarrow> (\<forall>k. sided k \<longrightarrow> p k \<longrightarrow> q k)"
  unfolding AreRequiredModsPressed_def Let_def sided_def
  by (simp add: flag_tests bit_mask) blast

text \<open>The dialog's mask of held keys is the mask of the keyboard it has seen.\<close>

lemma bit_key:
  "sided k \<Longrightarrow> bit (ModifierBitsForVKey k) n \<longleftrightarrow>
     n = (if k \<in> {VK_LSHIFT, VK_RSHIFT} then 0 else if k \<in> {VK_LCONTROL, VK_RCONTROL} then 1 else 2) \<or>
     n = (if k = VK_LSHIFT then 3 else if k = VK_RSHIFT then 4 else if k = VK_LCONTROL then 5
          else if k = VK_RCONTROL then 6 else if k = VK_LMENU then 7 else 8)"
  unfolding sided_def ModifierBitsForVKey_def by (auto simp: bit_or_iff mod_bits)

lemma normalize_press:
  assumes "sided k"
  shows "NormalizeModifierMask (CurrentModifierMask p OR ModifierBitsForVKey k) = CurrentModifierMask (p(k := True))"
  using assms
  by (intro mask_eqI) (auto simp: bit_normalize bit_or_iff bit_mask bit_key sided_def)

lemma normalize_release:
  assumes "sided k"
  shows "NormalizeModifierMask (CurrentModifierMask p AND NOT (ModifierBitsForVKey k)) = CurrentModifierMask (p(k := False))"
  using assms
  by (intro mask_eqI) (auto simp: bit_normalize bit_and_iff bit_not_iff bit_mask bit_key sided_def)

lemma normalize_mask: "NormalizeModifierMask (CurrentModifierMask p) = CurrentModifierMask p"
  by (rule mask_eqI) (auto simp: bit_normalize bit_mask)

text \<open>The keys of the same family as a modifier key, on either side.\<close>

definition same_family :: "int \<Rightarrow> int \<Rightarrow> bool" where
  "same_family k l \<longleftrightarrow>
     {k, l} \<subseteq> {VK_SHIFT, VK_LSHIFT, VK_RSHIFT} \<or> {k, l} \<subseteq> {VK_CONTROL, VK_LCONTROL, VK_RCONTROL} \<or>
     {k, l} \<subseteq> {VK_MENU, VK_LMENU, VK_RMENU}"

lemma strip_mask:
  "StripPrimaryModifierFamily (CurrentModifierMask p) k = CurrentModifierMask (\<lambda>x. p x \<and> \<not> same_family k x)"
  by (rule mask_eqI) (auto simp: bit_strip bit_mask same_family_def)

text \<open>The dialog follows the modifier keys it is told of, as long as it waits.\<close>

definition following :: "(int \<Rightarrow> bool) \<Rightarrow> hotkey_dialog \<Rightarrow> bool" where
  "following p d \<longleftrightarrow> hk_heldMods d = CurrentModifierMask p \<and> (\<forall>k. p k \<longrightarrow> sided k) \<and>
     (hk_pendingVKey d = 0 \<or> (sided (hk_pendingVKey d) \<and>
        (\<exists>q. hk_pendingMods d = CurrentModifierMask q)))"

lemma sided_facts: "sided k \<Longrightarrow> IsModifierVKey k" "sided k \<Longrightarrow> 0 < k"
  by (auto simp: sided_def IsModifierVKey_def)

lemma key_keeps_following:
  assumes "following p d" and "sided k" and "hk_active (OnLowLevelKey k b (\<not> b) d)" and "hk_active d"
  shows "following (p(k := b)) (OnLowLevelKey k b (\<not> b) d)"
  using assms sided_facts [of k]
  by (auto simp: following_def OnLowLevelKey_def CommitCapture_def Let_def normalize_press normalize_release
      strip_mask split: if_splits)

lemma capture_all_snoc: "capture_all (es @ [e]) d = snd (CaptureKeyboardProc e (capture_all es d))"
  by (simp add: capture_all_def)

lemma keys_down_snoc: "keys_down (es @ [(k, b)]) = (keys_down es)(k := b)"
  by (simp add: keys_down_def)

lemma capture_follows:
  assumes "\<forall>e \<in> set es. sided (fst e)" and "hk_active (capture_all es hotkey_dialog_init)"
  shows "following (keys_down es) (capture_all es hotkey_dialog_init)"
  using assms
proof (induction es rule: rev_induct)
  case Nil
  then show ?case
    by (simp add: capture_all_def keys_down_def following_def hotkey_dialog_init_def CurrentModifierMask_def)
next
  case (snoc e es)
  obtain k b where e: "e = (k, b)" by (cases e)
  let ?d = "capture_all es hotkey_dialog_init"
  from snoc.prems have "hk_active ?d"
    by (cases "hk_active ?d") (simp_all add: capture_all_snoc CaptureKeyboardProc_def)
  with snoc e show ?case
    by (simp add: capture_all_snoc keys_down_snoc CaptureKeyboardProc_def key_keeps_following del: fun_upd_apply)
qed

text \<open>
  A captured combination is exactly the one the global hook recognises: after any presses and
  releases of modifier keys, a key that is not a modifier ends the capture, and the saved
  combination then fires when that key comes with at least the modifiers that were down, the left
  and the right ones told apart, and on no other key.
\<close>

theorem captured_combo_fires:
  assumes "\<forall>e \<in> set es. sided (fst e)" and "hk_active (capture_all es hotkey_dialog_init)"
    and "\<not> IsModifierVKey k" and "0 < k"
  shows "let d = capture_all (es @ [(k, True)]) hotkey_dialog_init in
    \<not> hk_active d \<and> hk_vkey d = k \<and>
    (\<forall>p. IsPrimaryKeyMatch (hk_vkey d) p \<longleftrightarrow> p = k) \<and>
    (\<forall>down. AreRequiredModsPressed (hk_mods d) (CurrentModifierMask down) \<longleftrightarrow>
       (\<forall>m. keys_down es m \<longrightarrow> down m))"
proof -
  let ?c = "capture_all es hotkey_dialog_init"
  have f: "following (keys_down es) ?c" by (rule capture_follows) fact+
  have strip: "StripPrimaryModifierFamily w k = w" for w
    using assms(3) by (auto simp: StripPrimaryModifierFamily_def IsModifierVKey_def)
  have d: "capture_all (es @ [(k, True)]) hotkey_dialog_init = CommitCapture k (hk_heldMods ?c) ?c"
    using assms by (simp add: capture_all_snoc CaptureKeyboardProc_def OnLowLevelKey_def)
  have "IsPrimaryKeyMatch k p \<longleftrightarrow> p = k" for p
    using assms(3) by (auto simp: IsPrimaryKeyMatch_def IsModifierVKey_def)
  moreover have "(\<forall>m. sided m \<longrightarrow> keys_down es m \<longrightarrow> down m) \<longleftrightarrow> (\<forall>m. keys_down es m \<longrightarrow> down m)" for down
    using f by (auto simp: following_def)
  ultimately show ?thesis
    using f by (simp add: d CommitCapture_def Let_def strip following_def normalize_mask required_mods_of_keyboard)
qed

theorem captured_combo_fires_witness:
  "hk_mods (capture_all [(VK_LCONTROL, True), (VK_RSHIFT, True), (0x41, True)] hotkey_dialog_init) = 0x33 \<and>
   AreRequiredModsPressed
     (hk_mods (capture_all ([(VK_LCONTROL, True), (VK_RSHIFT, True)] @ [(0x41, True)]) hotkey_dialog_init))
     (CurrentModifierMask (\<lambda>k. k \<in> {VK_LCONTROL, VK_RSHIFT, VK_LMENU}))"
proof -
  have a: "\<forall>e \<in> set [(VK_LCONTROL, True), (VK_RSHIFT, True)]. sided (fst e)"
    by (simp add: sided_def)
  have b: "hk_active (capture_all [(VK_LCONTROL, True), (VK_RSHIFT, True)] hotkey_dialog_init)"
    by code_simp
  have k: "\<not> IsModifierVKey 0x41" by (simp add: IsModifierVKey_def)
  have m: "\<forall>m. keys_down [(VK_LCONTROL, True), (VK_RSHIFT, True)] m \<longrightarrow> m \<in> {VK_LCONTROL, VK_RSHIFT, VK_LMENU}"
    by (simp add: keys_down_def)
  have "hk_mods (capture_all [(VK_LCONTROL, True), (VK_RSHIFT, True), (0x41, True)] hotkey_dialog_init) = 0x33"
    by code_simp
  with captured_combo_fires [OF a b k] m show ?thesis
    unfolding Let_def by simp
qed

end
