(* ===== verification/Client_Ptt.thy ===== *)
theory Client_Ptt
  imports Audio_Engine Hotkeys
begin

text \<open>
  Push to talk in the desktop client: the part of the class \<open>MainFrame\<close> (\<open>MainFrame.cpp\<close>) that
  connects the buttons, the hot key and the events of the relay client with the audio engine. The
  record has the members concerned, with the relay client, the session manager and the audio engine
  inside. \<open>CallAfter\<close> appends to \<open>fr_queue\<close>, which the thread of the user interface works off;
  detached timer threads are steps of their own. \<open>fr_trace\<close> is what the frame asks of the relay
  client and the statuses it sets. The tickets are counters of 64 bits, numbers here: they count
  actions of the user.
\<close>

section \<open>State\<close>

datatype frame_obs =
    Fo_Status string
  | Fo_Open bool
  | Fo_Pcm pcm
  | Fo_Close
  | Fo_Abort

text \<open>The closures given to \<open>CallAfter\<close>.\<close>

datatype posted =
    Post_RelayStatus string
  | Post_Connected bool
  | Post_Welcome client_welcome
  | Post_TxCountdownStart
  | Post_RxBroadcastStart bool
  | Post_RxBroadcastEnd
  | Post_ServerPttLock int
  | Post_ServerPttUnlock
  | Post_TxStop
  | Post_AudioStatus string
  | Post_Level int
  | Post_Collision bool
  | Post_BlockedStatus
  | Post_BurstSync
  | Post_BurstDecay nat
  | Post_TxPulse nat
  | Post_BusyTick nat
  | Post_Toggle
  | Post_Begin
  | Post_End

record ('c, 'f) frame =
  fr_relay :: relay
  fr_manager :: "'c manager"
  fr_audio :: "'f audio"
  fr_connected :: bool
  fr_wantsSession :: bool
  fr_busyMode :: bool
  fr_rxBroadcast :: bool
  fr_pttLocked :: bool
  fr_lockSec :: int
  fr_toggleMode :: bool
  fr_suppressHold :: bool
  fr_globalPressed :: bool
  fr_toggleHookDown :: bool
  fr_hook :: bool
  fr_vkey :: int
  fr_mods :: u32
  fr_showLevel :: bool
  fr_level :: int
  fr_burstTicket :: nat
  fr_burstCount :: int
  fr_burstBlocked :: bool
  fr_burstTimers :: "nat list"
  fr_txTicket :: nat
  fr_txThreads :: "nat list"
  fr_busyTicket :: nat
  fr_busyThreads :: "(nat \<times> bool) list"
  fr_uplinkOpened :: bool
  fr_queue :: "posted list"
  fr_pttEnabled :: bool
  fr_pttLabel :: string
  fr_callEnabled :: bool
  fr_connectLabel :: string
  fr_trace :: "frame_obs list"

text \<open>
  The surroundings of an action: the network, the audio devices, and what the other threads do
  during each call that waits. \<open>ue_polls\<close> is indexed by the length of the trace at the call.
\<close>

record ('j, 'c, 'f) ui_env =
  ue_net :: "('j, 'c) env"
  ue_audio :: "'f audio_env"
  ue_polls :: "nat \<Rightarrow> nat list"
  ue_locks :: "bool list"
  ue_now :: int
  ue_sched :: "'c connect_sched"
  ue_rounds :: "('c manager \<Rightarrow> 'c manager) list"

definition kPttReleaseBurstTimerMs :: int where "kPttReleaseBurstTimerMs = 1000"
definition kPttReleaseBurstBlockThreshold :: int where "kPttReleaseBurstBlockThreshold = 3"

definition CallAfter :: "posted \<Rightarrow> ('c, 'f) frame \<Rightarrow> ('c, 'f) frame" where
  "CallAfter p f = f\<lparr>fr_queue := fr_queue f @ [p]\<rparr>"

definition frame_emit :: "frame_obs \<Rightarrow> ('c, 'f) frame \<Rightarrow> ('c, 'f) frame" where
  "frame_emit ob f = f\<lparr>fr_trace := fr_trace f @ [ob]\<rparr>"

definition frame_SetStatus :: "string \<Rightarrow> ('c, 'f) frame \<Rightarrow> ('c, 'f) frame" where
  "frame_SetStatus status f = frame_emit (Fo_Status status) f"

definition IsRelaySessionReady :: "('c, 'f) frame \<Rightarrow> bool" where
  "IsRelaySessionReady f \<longleftrightarrow> IsConnected (fr_relay f) (fr_manager f)"

section \<open>The uplink\<close>

definition uplink_open :: "('j, 'c, 'f) ui_env \<Rightarrow> ('c, 'f) frame \<Rightarrow> bool \<times> ('c, 'f) frame" where
  "uplink_open U f =
     (case TxOpen (ue_net U) (ue_polls U (length (fr_trace f))) (fr_relay f) (fr_manager f) of
        (ok, m) \<Rightarrow> (ok, frame_emit (Fo_Open ok) (f\<lparr>fr_manager := m\<rparr>)))"

definition uplink_pcm :: "('j, 'c, 'f) ui_env \<Rightarrow> pcm \<Rightarrow> ('c, 'f) frame \<Rightarrow> ('c, 'f) frame" where
  "uplink_pcm U samples f =
     frame_emit (Fo_Pcm samples)
       (f\<lparr>fr_manager := TxPcm (ue_net U) (ue_polls U (length (fr_trace f))) samples (fr_relay f) (fr_manager f)\<rparr>)"

definition uplink_close :: "('j, 'c, 'f) ui_env \<Rightarrow> ('c, 'f) frame \<Rightarrow> ('c, 'f) frame" where
  "uplink_close U f =
     frame_emit Fo_Close
       (f\<lparr>fr_manager := TxClose (ue_net U) (ue_polls U (length (fr_trace f))) (fr_relay f) (fr_manager f)\<rparr>)"

definition uplink_abort :: "('j, 'c, 'f) ui_env \<Rightarrow> ('c, 'f) frame \<Rightarrow> ('c, 'f) frame" where
  "uplink_abort U f =
     frame_emit Fo_Abort
       (f\<lparr>fr_manager := TxAbort (ue_net U) (ue_polls U (length (fr_trace f))) (fr_relay f) (fr_manager f)\<rparr>)"

text \<open>The frame callback of the audio engine: the first frame opens the uplink.\<close>

definition uplink_frame :: "('j, 'c, 'f) ui_env \<Rightarrow> pcm \<Rightarrow> ('c, 'f) frame \<Rightarrow> ('c, 'f) frame" where
  "uplink_frame U samples f =
     (if \<not> fr_uplinkOpened f then
        case uplink_open U f of (ok, f) \<Rightarrow>
          if \<not> ok then f else uplink_pcm U samples (f\<lparr>fr_uplinkOpened := True\<rparr>)
      else uplink_pcm U samples f)"

text \<open>What the engine has handed to its callbacks during an operation, in order.\<close>

fun audio_callback :: "('j, 'c, 'f) ui_env \<Rightarrow> audio_obs \<Rightarrow> ('c, 'f) frame \<Rightarrow> ('c, 'f) frame" where
  "audio_callback U (A_Frame samples) f = uplink_frame U samples f"
| "audio_callback U (A_Status msg) f = CallAfter (Post_AudioStatus msg) f"
| "audio_callback U (A_Level percent) f = CallAfter (Post_Level percent) f"
| "audio_callback U (A_Collision active) f = CallAfter (Post_Collision active) f"
| "audio_callback U (A_OneShot pcm q) f = f"
| "audio_callback U (A_Playback pcm) f = f"

definition with_audio ::
  "('j, 'c, 'f) ui_env \<Rightarrow> ('f audio \<Rightarrow> 'r \<times> 'f audio) \<Rightarrow> ('c, 'f) frame \<Rightarrow> 'r \<times> ('c, 'f) frame" where
  "with_audio U g f =
     (case g (fr_audio f) of (q, a) \<Rightarrow>
        (q, fold (audio_callback U) (drop (length (au_trace (fr_audio f))) (au_trace a)) (f\<lparr>fr_audio := a\<rparr>)))"

definition do_audio ::
  "('j, 'c, 'f) ui_env \<Rightarrow> ('f audio \<Rightarrow> 'f audio) \<Rightarrow> ('c, 'f) frame \<Rightarrow> ('c, 'f) frame" where
  "do_audio U g f = snd (with_audio U (\<lambda>a. ((), g a)) f)"

section \<open>The buttons\<close>

definition RefreshPttUi :: "('c, 'f) frame \<Rightarrow> ('c, 'f) frame" where
  "RefreshPttUi f =
     (let a = fr_audio f; relayReady = IsRelaySessionReady f; burstBlocked = fr_burstBlocked f;
          blockedByServerPtt = (relayReady \<and> fr_pttLocked f \<and> \<not> au_transmitting a \<and> \<not> au_streaming a);
          allowPtt = (relayReady \<and> \<not> burstBlocked \<and> \<not> blockedByServerPtt);
          label = (if \<not> allowPtt then
                     if blockedByServerPtt \<and> 0 < fr_lockSec f
                     then ''PTT in '' @ std_to_string (fr_lockSec f) @ '' s''
                     else ''PTT unavailable''
                   else if fr_toggleMode f then if au_transmitting a then ''Stop talking'' else ''Start talking''
                   else ''Hold to Talk'')
      in f\<lparr>fr_pttEnabled := allowPtt, fr_pttLabel := label,
           fr_callEnabled := relayReady \<and> \<not> fr_pttLocked f \<and> \<not> au_transmitting a \<and> \<not> au_streaming a\<rparr>)"

section \<open>The guard against quick releases\<close>

definition ResetPttReleaseBurstGuard :: "('c, 'f) frame \<Rightarrow> ('c, 'f) frame" where
  "ResetPttReleaseBurstGuard f =
     f\<lparr>fr_burstTicket := fr_burstTicket f + 1, fr_burstCount := 0, fr_burstBlocked := False\<rparr>"

text \<open>The timer thread sleeps for \<open>kPttReleaseBurstTimerMs\<close> and then posts its ticket.\<close>

definition ArmPttReleaseBurstDecay :: "nat \<Rightarrow> ('c, 'f) frame \<Rightarrow> ('c, 'f) frame" where
  "ArmPttReleaseBurstDecay ticket f = f\<lparr>fr_burstTimers := fr_burstTimers f @ [ticket]\<rparr>"

definition burst_timer_fires :: "nat \<Rightarrow> ('c, 'f) frame \<Rightarrow> ('c, 'f) frame" where
  "burst_timer_fires i f =
     (if i < length (fr_burstTimers f)
      then CallAfter (Post_BurstDecay (fr_burstTimers f ! i))
             (f\<lparr>fr_burstTimers := take i (fr_burstTimers f) @ drop (Suc i) (fr_burstTimers f)\<rparr>)
      else f)"

definition burst_decay :: "nat \<Rightarrow> ('c, 'f) frame \<Rightarrow> ('c, 'f) frame" where
  "burst_decay ticket f =
     (if fr_burstTicket f \<noteq> ticket then f
      else
        let f = RefreshPttUi (f\<lparr>fr_burstCount := 0, fr_burstBlocked := False\<rparr>)
        in if IsRelaySessionReady f then frame_SetStatus ''Connected'' f else f)"

definition ExtendPttReleaseBurstDecayTimer :: "('c, 'f) frame \<Rightarrow> ('c, 'f) frame" where
  "ExtendPttReleaseBurstDecayTimer f =
     (let ticket = fr_burstTicket f + 1 in ArmPttReleaseBurstDecay ticket (f\<lparr>fr_burstTicket := ticket\<rparr>))"

definition RecordPttReleaseBurst :: "('c, 'f) frame \<Rightarrow> ('c, 'f) frame" where
  "RecordPttReleaseBurst f =
     (let ticket = fr_burstTicket f + 1; n = fr_burstCount f + 1;
          f = f\<lparr>fr_burstTicket := ticket, fr_burstCount := n\<rparr>;
          f = (if n \<ge> kPttReleaseBurstBlockThreshold then f\<lparr>fr_burstBlocked := True\<rparr> else f)
      in CallAfter Post_BurstSync (ArmPttReleaseBurstDecay ticket f))"

text \<open>The dash of the status is one character of three bytes.\<close>

definition ptt_paused :: string where
  "ptt_paused = ''PTT paused '' @ [CHR 0xE2, CHR 0x80, CHR 0x94] @ '' too many quick releases''"

definition burst_sync :: "('c, 'f) frame \<Rightarrow> ('c, 'f) frame" where
  "burst_sync f =
     (let f = RefreshPttUi f in if fr_burstBlocked f then frame_SetStatus ptt_paused f else f)"

section \<open>Countdowns\<close>

definition StopTxCountdownFromServer :: "('c, 'f) frame \<Rightarrow> ('c, 'f) frame" where
  "StopTxCountdownFromServer f = f\<lparr>fr_txTicket := fr_txTicket f + 1\<rparr>"

definition StartTxCountdownFromServer :: "('c, 'f) frame \<Rightarrow> ('c, 'f) frame" where
  "StartTxCountdownFromServer f =
     (let f = StopTxCountdownFromServer f; ticket = fr_txTicket f + 1
      in f\<lparr>fr_txTicket := ticket, fr_txThreads := fr_txThreads f @ [ticket]\<rparr>)"

text \<open>A turn of a countdown thread: it ends, or posts a pulse and sleeps for a second.\<close>

definition tx_countdown_turn :: "nat \<Rightarrow> ('c, 'f) frame \<Rightarrow> ('c, 'f) frame" where
  "tx_countdown_turn i f =
     (if i < length (fr_txThreads f) then
        let ticket = fr_txThreads f ! i
        in if ticket \<noteq> fr_txTicket f then f\<lparr>fr_txThreads := take i (fr_txThreads f) @ drop (Suc i) (fr_txThreads f)\<rparr>
           else CallAfter (Post_TxPulse ticket) f
      else f)"

definition tx_pulse :: "('j, 'c, 'f) ui_env \<Rightarrow> nat \<Rightarrow> ('c, 'f) frame \<Rightarrow> ('c, 'f) frame" where
  "tx_pulse U ticket f =
     (if ticket \<noteq> fr_txTicket f then f
      else if \<not> IsRelaySessionReady f \<or> \<not> au_transmitting (fr_audio f) then f
      else do_audio U (PlayVibrationImitationPulse (ue_audio U) 35) f)"

definition StopBusyTimeoutCountdown :: "('c, 'f) frame \<Rightarrow> ('c, 'f) frame" where
  "StopBusyTimeoutCountdown f = f\<lparr>fr_busyTicket := fr_busyTicket f + 1\<rparr>"

definition StartBusyTimeoutCountdown :: "('c, 'f) frame \<Rightarrow> ('c, 'f) frame" where
  "StartBusyTimeoutCountdown f =
     (let f = StopBusyTimeoutCountdown f
      in if \<not> fr_pttLocked f \<or> fr_lockSec f \<le> 0 then f
         else
           let ticket = fr_busyTicket f + 1
           in f\<lparr>fr_busyTicket := ticket, fr_busyThreads := fr_busyThreads f @ [(ticket, False)]\<rparr>)"

text \<open>
  A turn of a countdown thread: it ends, or begins its second of sleep, after which (the flag) its
  next turn posts a tick without looking again.
\<close>

definition busy_countdown_turn :: "nat \<Rightarrow> ('c, 'f) frame \<Rightarrow> ('c, 'f) frame" where
  "busy_countdown_turn i f =
     (if i < length (fr_busyThreads f) then
        case fr_busyThreads f ! i of (ticket, slept) \<Rightarrow>
          if slept then CallAfter (Post_BusyTick ticket) (f\<lparr>fr_busyThreads := (fr_busyThreads f)[i := (ticket, False)]\<rparr>)
          else if ticket \<noteq> fr_busyTicket f
          then f\<lparr>fr_busyThreads := take i (fr_busyThreads f) @ drop (Suc i) (fr_busyThreads f)\<rparr>
          else f\<lparr>fr_busyThreads := (fr_busyThreads f)[i := (ticket, True)]\<rparr>
      else f)"

definition busy_tick :: "nat \<Rightarrow> ('c, 'f) frame \<Rightarrow> ('c, 'f) frame" where
  "busy_tick ticket f =
     (if ticket \<noteq> fr_busyTicket f then f
      else RefreshPttUi (if fr_pttLocked f \<and> 0 < fr_lockSec f then f\<lparr>fr_lockSec := fr_lockSec f - 1\<rparr> else f))"

end
