(* ===== verification/Client_Frame.thy ===== *)
theory Client_Frame
  imports Client_Ptt
begin

text \<open>
  The handlers of \<open>MainFrame\<close> (\<open>MainFrame.cpp\<close>) for push to talk, the call signal, the events of the
  relay client and of the audio engine, the global hot key and the connect button. A handler that
  returns \<open>None\<close> does not come to its end: an exception has left it, or it waits for good.
\<close>

section \<open>Push to talk\<close>

definition BeginPttTx :: "('j, 'c, 'f) ui_env \<Rightarrow> ('c, 'f) frame \<Rightarrow> ('c, 'f) frame" where
  "BeginPttTx U f =
     (if \<not> IsRelaySessionReady f \<or> au_streaming (fr_audio f) \<or> au_transmitting (fr_audio f) then f
      else if fr_pttLocked f then RefreshPttUi f
      else if fr_burstBlocked f then RefreshPttUi (CallAfter Post_BlockedStatus (ExtendPttReleaseBurstDecayTimer f))
      else
        let f = do_audio U (PlayPttPressSignal (ue_audio U)) f;
            f = f\<lparr>fr_uplinkOpened := False\<rparr>
        in (case with_audio U (StartTransmit (ue_audio U)) f of
              (ok, f) \<Rightarrow>
                if \<not> ok then RefreshPttUi f
                else
                  let f = StopTxCountdownFromServer f;
                      f = frame_SetStatus (if au_collision (fr_audio f) then ''parallel_tx_collision'' else ''Transmitting'') f
                  in RefreshPttUi f))"

definition EndPttTx :: "('j, 'c, 'f) ui_env \<Rightarrow> ('c, 'f) frame \<Rightarrow> ('c, 'f) frame" where
  "EndPttTx U f =
     (if \<not> IsRelaySessionReady f \<or> \<not> au_transmitting (fr_audio f) then RefreshPttUi f
      else
        let f = StopTxCountdownFromServer f;
            f = RecordPttReleaseBurst f;
            f = do_audio U (StopTransmit (ue_locks U) (ue_now U)) f;
            f = snd (with_audio U (StreamRogerSignal (ue_audio U) (\<lambda>_. False) (ue_now U)) f);
            f = uplink_close U f;
            f = f\<lparr>fr_uplinkOpened := False\<rparr>
        in RefreshPttUi (frame_SetStatus ''Connected'' f))"

definition TogglePttTx :: "('j, 'c, 'f) ui_env \<Rightarrow> ('c, 'f) frame \<Rightarrow> ('c, 'f) frame" where
  "TogglePttTx U f =
     (if \<not> IsRelaySessionReady f then f
      else if au_transmitting (fr_audio f) then EndPttTx U f
      else BeginPttTx U f)"

definition OnPttDown :: "('j, 'c, 'f) ui_env \<Rightarrow> ('c, 'f) frame \<Rightarrow> ('c, 'f) frame" where
  "OnPttDown U f = (if fr_toggleMode f \<or> fr_suppressHold f then f else BeginPttTx U f)"

definition OnPttUp :: "('j, 'c, 'f) ui_env \<Rightarrow> ('c, 'f) frame \<Rightarrow> ('c, 'f) frame" where
  "OnPttUp U f = (if fr_toggleMode f then f else EndPttTx U (f\<lparr>fr_suppressHold := False\<rparr>))"

definition OnPttButtonKeyDown :: "('j, 'c, 'f) ui_env \<Rightarrow> bool \<Rightarrow> ('c, 'f) frame \<Rightarrow> ('c, 'f) frame" where
  "OnPttButtonKeyDown U space f =
     (if fr_toggleMode f then f
      else if space \<and> IsRelaySessionReady f then if fr_suppressHold f then f else BeginPttTx U f
      else f)"

definition OnPttButtonKeyUp :: "('j, 'c, 'f) ui_env \<Rightarrow> bool \<Rightarrow> ('c, 'f) frame \<Rightarrow> ('c, 'f) frame" where
  "OnPttButtonKeyUp U space f =
     (if fr_toggleMode f then f
      else if space \<and> IsRelaySessionReady f then EndPttTx U (f\<lparr>fr_suppressHold := False\<rparr>)
      else f)"

definition OnPttButtonClicked :: "('j, 'c, 'f) ui_env \<Rightarrow> ('c, 'f) frame \<Rightarrow> ('c, 'f) frame" where
  "OnPttButtonClicked U f = (if \<not> fr_toggleMode f then f else TogglePttTx U f)"

section \<open>The call signal\<close>

definition OnCallSignalClicked :: "('j, 'c, 'f) ui_env \<Rightarrow> ('c, 'f) frame \<Rightarrow> ('c, 'f) frame" where
  "OnCallSignalClicked U f =
     (if \<not> IsRelaySessionReady f \<or> au_transmitting (fr_audio f) \<or> au_streaming (fr_audio f) then f
      else if fr_pttLocked f then f
      else
        let f = frame_SetStatus ''Sending call signal'' (f\<lparr>fr_callEnabled := False\<rparr>)
        in (case uplink_open U f of
              (txOpened, f) \<Rightarrow>
                let f = (if txOpened then f\<lparr>fr_uplinkOpened := True\<rparr> else f)
                in (case (if txOpened then with_audio U (StreamCallSignal (ue_audio U) (\<lambda>_. False) (ue_now U)) f
                          else (False, f)) of
                      (ok, f) \<Rightarrow>
                        RefreshPttUi
                          (if ok then frame_SetStatus ''Connected'' ((uplink_close U f)\<lparr>fr_uplinkOpened := False\<rparr>)
                           else frame_SetStatus ''Call signal failed'' f))))"

section \<open>Events of the server\<close>

definition OnTxStop :: "('j, 'c, 'f) ui_env \<Rightarrow> ('c, 'f) frame \<Rightarrow> ('c, 'f) frame" where
  "OnTxStop U f =
     (let f = StopTxCountdownFromServer f
      in if IsRelaySessionReady f \<and> au_transmitting (fr_audio f) then
           let f = (if \<not> fr_toggleMode f then f\<lparr>fr_suppressHold := True\<rparr> else f)
           in frame_SetStatus ''TX stopped by server'' (EndPttTx U f)
         else RefreshPttUi f)"

definition ForceAbortOutgoingForServerPttLock :: "('j, 'c, 'f) ui_env \<Rightarrow> ('c, 'f) frame \<Rightarrow> ('c, 'f) frame" where
  "ForceAbortOutgoingForServerPttLock U f =
     (let f = StopTxCountdownFromServer f;
          had = (au_transmitting (fr_audio f) \<or> au_streaming (fr_audio f));
          f = do_audio U RequestAbortOutgoingSignalStream f;
          f = (if au_transmitting (fr_audio f) then do_audio U (StopTransmit (ue_locks U) (ue_now U)) f else f)
      in if had then (uplink_abort U f)\<lparr>fr_uplinkOpened := False\<rparr> else f)"

definition OnRxBroadcastStartFromRelay :: "bool \<Rightarrow> ('c, 'f) frame \<Rightarrow> ('c, 'f) frame" where
  "OnRxBroadcastStartFromRelay bm f =
     frame_SetStatus ''Receiving'' (RefreshPttUi (f\<lparr>fr_rxBroadcast := True, fr_busyMode := bm\<rparr>))"

definition OnRxBroadcastEndFromRelay :: "('c, 'f) frame \<Rightarrow> ('c, 'f) frame" where
  "OnRxBroadcastEndFromRelay f =
     (let f = RefreshPttUi (f\<lparr>fr_rxBroadcast := False\<rparr>)
      in if IsRelaySessionReady f then frame_SetStatus ''Connected'' f else f)"

definition OnServerPttLockFromRelay :: "('j, 'c, 'f) ui_env \<Rightarrow> int \<Rightarrow> ('c, 'f) frame \<Rightarrow> ('c, 'f) frame" where
  "OnServerPttLockFromRelay U displaySec f =
     (let f = ForceAbortOutgoingForServerPttLock U f;
          f = f\<lparr>fr_pttLocked := True, fr_lockSec := max 0 displaySec\<rparr>
      in RefreshPttUi (StartBusyTimeoutCountdown f))"

definition OnServerPttUnlockFromRelay :: "('c, 'f) frame \<Rightarrow> ('c, 'f) frame" where
  "OnServerPttUnlockFromRelay f =
     RefreshPttUi (StopBusyTimeoutCountdown (f\<lparr>fr_pttLocked := False, fr_lockSec := 0\<rparr>))"

text \<open>The connected and the welcome callbacks.\<close>

definition on_connected :: "('j, 'c, 'f) ui_env \<Rightarrow> bool \<Rightarrow> ('c, 'f) frame \<Rightarrow> ('c, 'f) frame" where
  "on_connected U connected f =
     (let wasConnected = fr_connected f;
          f = f\<lparr>fr_connected := connected\<rparr>;
          f = (if \<not> connected then
                 let f = f\<lparr>fr_busyMode := False, fr_rxBroadcast := False, fr_pttLocked := False, fr_lockSec := 0\<rparr>;
                     f = StopBusyTimeoutCountdown f
                 in if fr_wantsSession f \<and> wasConnected
                    then do_audio U (PlayConnectionErrorSignal (ue_audio U)) f else f
               else f);
          f = f\<lparr>fr_hook := fr_connected f,
                fr_connectLabel := if connected \<or> fr_wantsSession f then ''Disconnect'' else ''Connect''\<rparr>
      in RefreshPttUi (ResetPttReleaseBurstGuard f))"

definition on_welcome :: "('j, 'c, 'f) ui_env \<Rightarrow> client_welcome \<Rightarrow> ('c, 'f) frame \<Rightarrow> ('c, 'f) frame" where
  "on_welcome U cfg f =
     (let f = do_audio U (Reconfigure (ue_audio U) cfg) f;
          f = f\<lparr>fr_busyMode := cw_busyMode cfg, fr_rxBroadcast := False, fr_pttLocked := False, fr_lockSec := 0\<rparr>;
          f = StopBusyTimeoutCountdown f
      in RefreshPttUi (do_audio U (PlayConnectedSignal (ue_audio U) True) f))"

definition on_relay_status :: "string \<Rightarrow> ('c, 'f) frame \<Rightarrow> ('c, 'f) frame" where
  "on_relay_status msg f =
     (let f = (if msg \<noteq> [] then frame_SetStatus msg f else f)
      in if msg = ''reconnecting'' then RefreshPttUi f else f)"

definition on_collision :: "bool \<Rightarrow> ('c, 'f) frame \<Rightarrow> ('c, 'f) frame" where
  "on_collision active f =
     (if active then frame_SetStatus ''parallel_tx_collision'' f
      else if fr_connected f then
        frame_SetStatus (if au_transmitting (fr_audio f) \<or> au_streaming (fr_audio f) then ''Transmitting'' else ''Connected'') f
      else f)"

section \<open>The queue of the user interface\<close>

fun run_posted :: "('j, 'c, 'f) ui_env \<Rightarrow> posted \<Rightarrow> ('c, 'f) frame \<Rightarrow> ('c, 'f) frame" where
  "run_posted U (Post_RelayStatus msg) f = on_relay_status msg f"
| "run_posted U (Post_Connected b) f = on_connected U b f"
| "run_posted U (Post_Welcome cfg) f = on_welcome U cfg f"
| "run_posted U Post_TxCountdownStart f = StartTxCountdownFromServer f"
| "run_posted U (Post_RxBroadcastStart b) f = OnRxBroadcastStartFromRelay b f"
| "run_posted U Post_RxBroadcastEnd f = OnRxBroadcastEndFromRelay f"
| "run_posted U (Post_ServerPttLock sec) f = OnServerPttLockFromRelay U sec f"
| "run_posted U Post_ServerPttUnlock f = OnServerPttUnlockFromRelay f"
| "run_posted U Post_TxStop f = OnTxStop U f"
| "run_posted U (Post_AudioStatus msg) f = (if msg \<noteq> [] then frame_SetStatus msg f else f)"
| "run_posted U (Post_Level percent) f = (if fr_showLevel f then f\<lparr>fr_level := percent\<rparr> else f)"
| "run_posted U (Post_Collision active) f = on_collision active f"
| "run_posted U Post_BlockedStatus f = frame_SetStatus ptt_paused f"
| "run_posted U Post_BurstSync f = burst_sync f"
| "run_posted U (Post_BurstDecay ticket) f = burst_decay ticket f"
| "run_posted U (Post_TxPulse ticket) f = tx_pulse U ticket f"
| "run_posted U (Post_BusyTick ticket) f = busy_tick ticket f"
| "run_posted U Post_Toggle f = TogglePttTx U f"
| "run_posted U Post_Begin f = BeginPttTx U f"
| "run_posted U Post_End f = EndPttTx U f"

definition run_queue :: "('j, 'c, 'f) ui_env \<Rightarrow> ('c, 'f) frame \<Rightarrow> ('c, 'f) frame" where
  "run_queue U f =
     (case fr_queue f of [] \<Rightarrow> f | p # ps \<Rightarrow> run_posted U p (f\<lparr>fr_queue := ps\<rparr>))"

text \<open>The relay client's callbacks post to the queue, but received samples go straight to the engine.\<close>

fun relay_callback :: "('j, 'c, 'f) ui_env \<Rightarrow> nat list \<Rightarrow> ui_call \<Rightarrow> ('c, 'f) frame \<Rightarrow> ('c, 'f) frame" where
  "relay_callback U grants (Ui_Status msg) f = CallAfter (Post_RelayStatus msg) f"
| "relay_callback U grants (Ui_Connected b) f = CallAfter (Post_Connected b) f"
| "relay_callback U grants (Ui_Welcome cfg) f = CallAfter (Post_Welcome cfg) f"
| "relay_callback U grants (Ui_PcmFrame samples) f =
     do_audio U (OnIncomingPcmFrame (ue_audio U) grants (ue_now U) samples) f"
| "relay_callback U grants Ui_TxCountdownStart f = CallAfter Post_TxCountdownStart f"
| "relay_callback U grants (Ui_ServerPttLock sec) f = CallAfter (Post_ServerPttLock sec) f"
| "relay_callback U grants Ui_ServerPttUnlock f = CallAfter Post_ServerPttUnlock f"
| "relay_callback U grants (Ui_RxBroadcastStart b) f = CallAfter (Post_RxBroadcastStart b) f"
| "relay_callback U grants Ui_RxBroadcastEnd f = CallAfter Post_RxBroadcastEnd f"
| "relay_callback U grants Ui_TxStop f = CallAfter Post_TxStop f"

text \<open>An event and a received frame of the session, on a thread of the session.\<close>

definition session_event ::
  "('j, 'c, 'f) ui_env \<Rightarrow> bool \<Rightarrow> Event \<Rightarrow> ('c, 'f) frame \<Rightarrow> ('c, 'f) frame option" where
  "session_event U self ev f =
     (case HandleSessionEvent self ev (fr_relay f) of
        None \<Rightarrow> None
      | Some (cs, r) \<Rightarrow> Some (fold (relay_callback U []) cs (f\<lparr>fr_relay := r\<rparr>)))"

definition session_pcm :: "('j, 'c, 'f) ui_env \<Rightarrow> nat list \<Rightarrow> pcm \<Rightarrow> ('c, 'f) frame \<Rightarrow> ('c, 'f) frame" where
  "session_pcm U grants samples f = fold (relay_callback U grants) (onRxPcm samples (fr_relay f)) f"

section \<open>The global hot key\<close>

definition GlobalPttKeyboardProc :: "int \<Rightarrow> bool \<Rightarrow> u32 \<Rightarrow> ('c, 'f) frame \<Rightarrow> ('c, 'f) frame" where
  "GlobalPttKeyboardProc pressedVKey isKeyUp currentMods f =
     (if fr_hook f \<and> 0 < fr_vkey f \<and> IsPrimaryKeyMatch (fr_vkey f) pressedVKey then
        if \<not> isKeyUp \<and> \<not> AreRequiredModsPressed (fr_mods f) currentMods then f
        else if fr_toggleMode f then
          if \<not> isKeyUp then
            if \<not> fr_toggleHookDown f then CallAfter Post_Toggle (f\<lparr>fr_toggleHookDown := True\<rparr>) else f
          else f\<lparr>fr_toggleHookDown := False\<rparr>
        else if \<not> isKeyUp \<and> \<not> fr_globalPressed f then
          let f = f\<lparr>fr_globalPressed := True\<rparr>
          in if fr_suppressHold f then f else CallAfter Post_Begin f
        else if isKeyUp \<and> fr_globalPressed f then
          CallAfter Post_End (f\<lparr>fr_globalPressed := False, fr_suppressHold := False\<rparr>)
        else f
      else f)"

section \<open>Connecting\<close>

text \<open>The fields of the connection; no port when the text is not a number.\<close>

record connect_fields =
  cf_host :: string
  cf_port :: "int option"
  cf_channel :: string
  cf_repeater :: bool

definition TryConnectWithCurrentFields ::
  "('j, 'c, 'f) ui_env \<Rightarrow> connect_fields \<Rightarrow> ('c, 'f) frame \<Rightarrow> (bool \<times> ('c, 'f) frame) option" where
  "TryConnectWithCurrentFields U cf f =
     (case cf_port cf of
        None \<Rightarrow> Some (False, frame_SetStatus ''Invalid port'' f)
      | Some port \<Rightarrow>
          (case relay_Connect (ue_net U) (ue_rounds U) (ue_sched U) (cf_host cf) port (cf_channel cf)
                  (cf_repeater cf) (fr_relay f) (fr_manager f) of
             Some (Some ok, r, m) \<Rightarrow> Some (ok, f\<lparr>fr_relay := r, fr_manager := m\<rparr>)
           | _ \<Rightarrow> None))"

definition frame_Disconnect ::
  "('j, 'c, 'f) ui_env \<Rightarrow> bool \<Rightarrow> ('c, 'f) frame \<Rightarrow> ('c, 'f) frame option" where
  "frame_Disconnect U notify f =
     (case Disconnect (ue_rounds U) notify (fr_relay f) (fr_manager f) of
        None \<Rightarrow> None
      | Some (cs, r, m) \<Rightarrow> Some (fold (relay_callback U []) cs (f\<lparr>fr_relay := r, fr_manager := m\<rparr>)))"

text \<open>What follows an attempt: the status, or giving up.\<close>

definition after_attempt ::
  "('j, 'c, 'f) ui_env \<Rightarrow> string \<Rightarrow> bool \<times> ('c, 'f) frame \<Rightarrow> ('c, 'f) frame" where
  "after_attempt U status attempt = (case attempt of (ok, f) \<Rightarrow>
     if ok then frame_SetStatus status f
     else frame_SetStatus ''Connect failed''
            (do_audio U (PlayConnectionErrorSignal (ue_audio U))
               (f\<lparr>fr_wantsSession := False, fr_connectLabel := ''Connect''\<rparr>)))"

definition OnConnectClicked ::
  "('j, 'c, 'f) ui_env \<Rightarrow> connect_fields \<Rightarrow> ('c, 'f) frame \<Rightarrow> ('c, 'f) frame option" where
  "OnConnectClicked U cf f =
     (let f = do_audio U (PlaySwitchNavSignal (ue_audio U) False) f
      in if fr_connected f \<or> fr_wantsSession f then
           let f = f\<lparr>fr_wantsSession := False\<rparr>;
               f = do_audio U (PlayManualDisconnectSignal (ue_audio U)) f;
               f = StopTxCountdownFromServer f;
               f = do_audio U (StopTransmit (ue_locks U) (ue_now U)) f
           in (case frame_Disconnect U True f of
                 None \<Rightarrow> None
               | Some f \<Rightarrow>
                   let f = ResetPttReleaseBurstGuard f;
                       f = f\<lparr>fr_connected := False, fr_connectLabel := ''Connect'', fr_globalPressed := False,
                             fr_toggleHookDown := False, fr_suppressHold := False, fr_hook := False\<rparr>
                   in Some (frame_SetStatus ''Disconnected'' (RefreshPttUi f)))
         else
           let f = f\<lparr>fr_wantsSession := True\<rparr>;
               f = do_audio U (PlayManualConnectStartSignal (ue_audio U) True) f;
               f = f\<lparr>fr_connectLabel := ''Disconnect''\<rparr>
           in map_option (after_attempt U ''Connecting...'') (TryConnectWithCurrentFields U cf f))"

text \<open>
  Leaving the running session for another one: another profile is chosen (\<open>Switching connection...\<close>,
  then \<open>Connecting...\<close>), or a link is imported (then \<open>Connected\<close> at once).
\<close>

definition reconnect_with ::
  "('j, 'c, 'f) ui_env \<Rightarrow> string option \<Rightarrow> string \<Rightarrow> connect_fields \<Rightarrow> ('c, 'f) frame \<Rightarrow> ('c, 'f) frame option" where
  "reconnect_with U before after cf f =
     (let f = do_audio U (StopTransmit (ue_locks U) (ue_now U)) f
      in (case frame_Disconnect U True f of
            None \<Rightarrow> None
          | Some f \<Rightarrow>
              let f = ResetPttReleaseBurstGuard f;
                  f = f\<lparr>fr_connected := False, fr_globalPressed := False, fr_toggleHookDown := False,
                        fr_connectLabel := ''Disconnect''\<rparr>;
                  f = RefreshPttUi f;
                  f = (case before of None \<Rightarrow> f | Some status \<Rightarrow> frame_SetStatus status f)
              in map_option (after_attempt U after) (TryConnectWithCurrentFields U cf f)))"

definition switch_profile ::
  "('j, 'c, 'f) ui_env \<Rightarrow> connect_fields \<Rightarrow> ('c, 'f) frame \<Rightarrow> ('c, 'f) frame option" where
  "switch_profile U cf f =
     (if \<not> fr_connected f \<and> \<not> fr_wantsSession f then Some f
      else reconnect_with U (Some ''Switching connection...'') ''Connecting...'' cf f)"

definition import_reconnect ::
  "('j, 'c, 'f) ui_env \<Rightarrow> connect_fields \<Rightarrow> ('c, 'f) frame \<Rightarrow> ('c, 'f) frame option" where
  "import_reconnect U cf f =
     (if \<not> fr_wantsSession f then Some f else reconnect_with U None ''Connected'' cf f)"

section \<open>Settings and the end\<close>

definition repeater_toggled :: "('j, 'c, 'f) ui_env \<Rightarrow> bool \<Rightarrow> ('c, 'f) frame \<Rightarrow> ('c, 'f) frame" where
  "repeater_toggled U v f =
     (if IsRelaySessionReady f then f\<lparr>fr_manager := SetRepeaterMode (ue_net U) v (fr_relay f) (fr_manager f)\<rparr> else f)"

text \<open>The settings that concern push to talk.\<close>

definition apply_ptt_settings ::
  "('j, 'c, 'f) ui_env \<Rightarrow> int \<Rightarrow> u32 \<Rightarrow> bool \<Rightarrow> bool \<Rightarrow> ('c, 'f) frame \<Rightarrow> ('c, 'f) frame" where
  "apply_ptt_settings U vkey mods showLevel newToggle f =
     (let f = f\<lparr>fr_vkey := vkey, fr_mods := mods, fr_showLevel := showLevel\<rparr>;
          f = (if fr_toggleMode f \<and> \<not> newToggle \<and> au_transmitting (fr_audio f) then EndPttTx U f else f);
          f = f\<lparr>fr_toggleMode := newToggle, fr_globalPressed := False, fr_toggleHookDown := False,
                fr_level := if showLevel then fr_level f else 0\<rparr>
      in frame_SetStatus ''Settings applied'' (RefreshPttUi f))"

definition frame_destroy :: "('j, 'c, 'f) ui_env \<Rightarrow> bool list \<Rightarrow> ('c, 'f) frame \<Rightarrow> ('c, 'f) frame option" where
  "frame_destroy U locks f =
     (let f = f\<lparr>fr_wantsSession := False\<rparr>;
          f = do_audio U (PrepareForExit (ue_locks U)) f;
          f = do_audio U (StopTransmit (ue_locks U) (ue_now U)) f;
          f = f\<lparr>fr_hook := False, fr_relay := DetachUiCallbacks (fr_relay f)\<rparr>
      in map_option (do_audio U (Shutdown (ue_locks U) locks (ue_now U))) (frame_Disconnect U False f))"

section \<open>The start\<close>

definition frame_init :: "'f flt \<Rightarrow> ('c, 'f) frame" where
  "frame_init F =
     \<lparr>fr_relay = fold setCallback [Cb_Status, Cb_Connected, Cb_Welcome, Cb_PcmFrame, Cb_TxCountdownStart,
          Cb_RxBroadcastStart, Cb_RxBroadcastEnd, Cb_ServerPttLock, Cb_ServerPttUnlock, Cb_TxStop] relay_init,
      fr_manager = manager_init,
      fr_audio = (audio_init F)\<lparr>au_onPcmFrame := True, au_onStatus := True, au_onLevel := True, au_onCollision := True\<rparr>,
      fr_connected = False, fr_wantsSession = False, fr_busyMode = False, fr_rxBroadcast = False,
      fr_pttLocked = False, fr_lockSec = 0, fr_toggleMode = False, fr_suppressHold = False,
      fr_globalPressed = False, fr_toggleHookDown = False, fr_hook = False, fr_vkey = 0, fr_mods = 0,
      fr_showLevel = False, fr_level = 0, fr_burstTicket = 0, fr_burstCount = 0, fr_burstBlocked = False,
      fr_burstTimers = [], fr_txTicket = 0, fr_txThreads = [], fr_busyTicket = 0, fr_busyThreads = [],
      fr_uplinkOpened = False, fr_queue = [], fr_pttEnabled = False, fr_pttLabel = ''Hold to Talk'',
      fr_callEnabled = False, fr_connectLabel = ''Connect'', fr_trace = [Fo_Status ''Disconnected'']\<rparr>"

end
