(* ===== verification/Audio_Pcm_Props.thy ===== *)
theory Audio_Pcm_Props
  imports Audio_Pcm Udp_Packet
begin

text \<open>
  Properties of the sample processing: the WAV reader is safe on any bytes and inverse to a writer
  of canonical files, the resampler stays inside its input, and the desktop's signal generator is
  the core's.
\<close>

section \<open>The WAV reader never leaves its buffer\<close>

lemma byte_at_in [simp]: "i < length bs \<Longrightarrow> byte_at bs i = Some (bs ! i)"
  by (simp add: byte_at_def)

lemma ReadLeI32_in: "i + 4 \<le> length bs \<Longrightarrow> \<exists>v. ReadLeI32 bs i = Some v"
  by (simp add: ReadLeI32_def)

lemma ReadLeI16_in: "i + 2 \<le> length bs \<Longrightarrow> \<exists>v. ReadLeI16 bs i = Some v \<and> i16 v"
proof -
  assume "i + 2 \<le> length bs"
  then have "ReadLeI16 bs i = Some (sint (ucast (bs ! i) OR push_bit 8 (ucast (bs ! (i + 1))) :: 16 word))"
    by (simp add: ReadLeI16_def)
  moreover have "i16 (sint (w :: 16 word))" for w
    using sint_range_size [of w] by (simp add: i16_def size_word.rep_eq)
  ultimately show ?thesis by blast
qed

lemma tag_at_in: "i + 4 \<le> length bs \<Longrightarrow> \<exists>b. tag_at bs i tag = Some b"
  by (simp add: tag_at_def)

lemma read_fmt_in: "p + 16 \<le> length bs \<Longrightarrow> \<exists>r. read_fmt bs p f = Some r"
  using ReadLeI16_in [of p bs] ReadLeI16_in [of "p + 2" bs] ReadLeI32_in [of "p + 4" bs] ReadLeI16_in [of "p + 14" bs]
  by (auto simp: read_fmt_def)

lemma wav_chunks_in: "wav_chunks bs offset f \<noteq> Scan_OutOfBounds"
proof (induction "length bs - offset" arbitrary: offset f rule: less_induct)
  case less
  show ?case
  proof (cases "offset + 8 \<le> length bs")
    case True
    then obtain sz isFmt isData where rd: "ReadLeI32 bs (offset + 4) = Some sz"
        "tag_at bs offset ''fmt '' = Some isFmt" "tag_at bs offset ''data'' = Some isData"
      using ReadLeI32_in [of "offset + 4" bs] tag_at_in [of offset bs] by fastforce
    have rec: "wav_chunks bs (offset + 8 + nat sz + nat sz mod 2) g \<noteq> Scan_OutOfBounds" for g
      by (rule less) (use True in linarith)
    show ?thesis
    proof (cases "read_fmt bs (offset + 8) f")
      case None
      then have "16 \<le> sz \<longrightarrow> length bs < offset + 8 + nat sz"
        using read_fmt_in [of "offset + 8" bs f] by fastforce
      with True None show ?thesis by (subst wav_chunks.simps) (simp add: rd Let_def rec)
    next
      case (Some r)
      with True show ?thesis by (subst wav_chunks.simps) (simp add: rd Let_def rec split: prod.split)
    qed
  qed (simp add: wav_chunks.simps)
qed

lemma read_samples_in:
  "i + 2 * n \<le> length bs \<Longrightarrow> \<exists>vs. read_samples bs i n = Some vs \<and> length vs = n \<and> list_all i16 vs"
proof (induction n arbitrary: i)
  case (Suc n)
  then have "i + 2 \<le> length bs" "i + 2 + 2 * n \<le> length bs" by simp_all
  with ReadLeI16_in Suc.IH [of "i + 2"] show ?case by fastforce
qed simp

lemma parse_ok:
  "ParseWavPcm bs \<noteq> Wav_OutOfBounds"
  "ParseWavPcm bs = Wav_Parsed w \<Longrightarrow>
     w = WavPcm_empty \<or> 0 < wv_sampleRate w \<and> wv_samples w \<noteq> [] \<and> 2 * length (wv_samples w) \<le> length bs \<and> list_all i16 (wv_samples w)"
proof -
  have *: "\<exists>w. ParseWavPcm bs = Wav_Parsed w \<and>
      (w = WavPcm_empty \<or> 0 < wv_sampleRate w \<and> wv_samples w \<noteq> [] \<and> 2 * length (wv_samples w) \<le> length bs \<and> list_all i16 (wv_samples w))"
  proof (cases "length bs < 44 \<or> tag_at bs 0 ''RIFF'' \<noteq> Some True \<or> tag_at bs 8 ''WAVE'' \<noteq> Some True")
    case False
    let ?scan = "wav_chunks bs 12 \<lparr>wf_sampleRate = 0, wf_channels = 0, wf_bits = 0, wf_dataStart = 0, wf_dataSize = 0\<rparr>"
    show ?thesis
    proof (cases ?scan)
      case (Scan_Done f)
      have "wf_dataStart f + 2 * (wf_dataSize f div 2) \<le> length bs" if "wf_dataStart f + wf_dataSize f \<le> length bs"
        using that by linarith
      with read_samples_in [of "wf_dataStart f" "wf_dataSize f div 2" bs] show ?thesis
        using False Scan_Done by (auto simp: ParseWavPcm_def)
    qed (use False wav_chunks_in in \<open>auto simp: ParseWavPcm_def\<close>)
  qed (auto simp: ParseWavPcm_def)
  then show "ParseWavPcm bs \<noteq> Wav_OutOfBounds" by auto
  show "w = WavPcm_empty \<or> 0 < wv_sampleRate w \<and> wv_samples w \<noteq> [] \<and> 2 * length (wv_samples w) \<le> length bs \<and> list_all i16 (wv_samples w)"
    if "ParseWavPcm bs = Wav_Parsed w" using * that by auto
qed

section \<open>Canonical files\<close>

definition le32_bytes :: "int \<Rightarrow> u8 list" where
  "le32_bytes v = rev (be32_bytes (word_of_int v))"

definition le16_bytes :: "int \<Rightarrow> u8 list" where
  "le16_bytes v = [word_of_int v, word_of_int (v div 256)]"

definition tag_bytes :: "string \<Rightarrow> u8 list" where
  "tag_bytes tag = map (\<lambda>c. of_nat (of_char c)) tag"

definition wav_file :: "int \<Rightarrow> pcm \<Rightarrow> u8 list" where
  "wav_file rate xs =
     tag_bytes ''RIFF'' @ le32_bytes (36 + 2 * int (length xs)) @ tag_bytes ''WAVE''
     @ tag_bytes ''fmt '' @ le32_bytes 16 @ le16_bytes 1 @ le16_bytes 1 @ le32_bytes rate @ le32_bytes (2 * rate)
     @ le16_bytes 2 @ le16_bytes 16
     @ tag_bytes ''data'' @ le32_bytes (2 * int (length xs)) @ concat (map le16_bytes xs)"

lemma byte_lengths [simp]: "length (le32_bytes v) = 4" "length (le16_bytes v) = 2" "length (tag_bytes t) = length t"
  by (simp_all add: le32_bytes_def le16_bytes_def tag_bytes_def)

lemma le32_word: "ucast a OR push_bit 8 (ucast b) OR push_bit 16 (ucast c) OR push_bit 24 (ucast d) = be32_word d c b a"
  by (simp only: be32_word_def or.assoc or.commute or.left_commute)

lemma drop_nth: "drop i bs = xs @ rest \<Longrightarrow> k < length xs \<Longrightarrow> i + k < length bs \<and> bs ! (i + k) = xs ! k"
proof -
  assume d: "drop i bs = xs @ rest" and k: "k < length xs"
  have "length xs \<le> length bs - i" using arg_cong [OF d, of length] by simp
  with k have "i + k < length bs" by linarith
  moreover have "bs ! (i + k) = drop i bs ! k" using calculation by simp
  ultimately show "i + k < length bs \<and> bs ! (i + k) = xs ! k" using d k by (simp add: nth_append)
qed

lemma ReadLeI32_at:
  assumes "drop i bs = le32_bytes v @ rest" "-(2 ^ 31) \<le> v" "v < 2 ^ 31"
  shows "ReadLeI32 bs i = Some v"
proof -
  let ?w = "word_of_int v :: u32"
  note at = drop_nth [OF assms(1)]
  have nth: "le32_bytes v ! k = be32_bytes ?w ! (3 - k)" if "k < 4" for k
    using that by (simp add: le32_bytes_def rev_nth)
  have "ReadLeI32 bs i = Some (sint (be32_word (be32_bytes ?w ! 0) (be32_bytes ?w ! 1) (be32_bytes ?w ! 2) (be32_bytes ?w ! 3)))"
    using at [of 0] at [of 1] at [of 2] at [of 3] by (simp add: ReadLeI32_def le32_word nth)
  also have "\<dots> = Some (sint ?w)" by (simp only: wire_simps)
  also have "sint ?w = v" using assms(2,3) by (simp add: signed_of_int signed_take_bit_int_eq_self)
  finally show ?thesis .
qed

lemma ReadLeI16_at:
  assumes "drop i bs = le16_bytes v @ rest" "i16 v"
  shows "ReadLeI16 bs i = Some v"
proof -
  note at = drop_nth [OF assms(1)]
  have "(ucast (word_of_int v :: u8) OR push_bit 8 (ucast (word_of_int (v div 256) :: u8)) :: 16 word) = word_of_int v"
  proof (rule bit_word_eqI)
    fix n assume n: "n < LENGTH(16)"
    have "bit (v div 256) (n - 8) = bit v n" if "8 \<le> n"
      using that bit_drop_bit_eq [of 8 v] by (simp add: drop_bit_eq_div fun_eq_iff)
    with n show "bit (ucast (word_of_int v :: u8) OR push_bit 8 (ucast (word_of_int (v div 256) :: u8)) :: 16 word) n
        = bit (word_of_int v :: 16 word) n"
      by (auto simp: bit_simps)
  qed
  moreover have "sint (word_of_int v :: 16 word) = v"
    using assms(2) by (simp add: signed_of_int signed_take_bit_int_eq_self i16_def)
  ultimately show ?thesis
    using at [of 0] at [of 1] by (simp add: ReadLeI16_def le16_bytes_def)
qed

lemma tag_at_found:
  assumes "drop i bs = tag_bytes t @ rest" "length t = 4"
  shows "tag_at bs i tag = Some (tag_bytes t = tag_bytes tag)"
proof -
  have "4 \<le> length bs - i" using arg_cong [OF assms(1), of length] assms(2) by simp
  then show ?thesis using assms by (simp add: tag_at_def) (auto simp: tag_bytes_def)
qed

lemma tags_differ: "tag_bytes ''data'' \<noteq> tag_bytes ''fmt ''" "tag_bytes ''fmt '' \<noteq> tag_bytes ''data''"
  by (simp_all add: tag_bytes_def)

lemma read_samples_at:
  "drop i bs = concat (map le16_bytes xs) @ rest \<Longrightarrow> list_all i16 xs \<Longrightarrow> read_samples bs i (length xs) = Some xs"
proof (induction xs arbitrary: i)
  case (Cons x xs)
  then have "ReadLeI16 bs i = Some x" by (intro ReadLeI16_at [where rest = "concat (map le16_bytes xs) @ rest"]) simp_all
  moreover have "drop (i + 2) bs = concat (map le16_bytes xs) @ rest"
    using arg_cong [OF Cons.prems(1), of "drop 2"] by (simp add: add.commute)
  ultimately show ?case using Cons by simp
qed simp

lemma length_samples [simp]: "length (concat (map le16_bytes xs)) = 2 * length xs"
  by (induction xs) simp_all

lemma wav_file_drops:
  fixes rate :: int and xs :: pcm
  defines "d36 \<equiv> tag_bytes ''data'' @ le32_bytes (2 * int (length xs)) @ concat (map le16_bytes xs)"
  shows "drop 0 (wav_file rate xs) = tag_bytes ''RIFF'' @ drop 4 (wav_file rate xs)"
    "drop 8 (wav_file rate xs) = tag_bytes ''WAVE'' @ drop 12 (wav_file rate xs)"
    "drop 12 (wav_file rate xs) = tag_bytes ''fmt '' @ drop 16 (wav_file rate xs)"
    "drop 16 (wav_file rate xs) = le32_bytes 16 @ drop 20 (wav_file rate xs)"
    "drop 20 (wav_file rate xs) = le16_bytes 1 @ drop 22 (wav_file rate xs)"
    "drop 22 (wav_file rate xs) = le16_bytes 1 @ drop 24 (wav_file rate xs)"
    "drop 24 (wav_file rate xs) = le32_bytes rate @ drop 28 (wav_file rate xs)"
    "drop 34 (wav_file rate xs) = le16_bytes 16 @ drop 36 (wav_file rate xs)"
    "drop 36 (wav_file rate xs) = d36"
    "drop 40 (wav_file rate xs) = le32_bytes (2 * int (length xs)) @ drop 44 (wav_file rate xs)"
    "drop 44 (wav_file rate xs) = concat (map le16_bytes xs)"
    "length (wav_file rate xs) = 44 + 2 * length xs"
  by (simp_all add: wav_file_def d36_def)

lemma wav_round_trip:
  assumes "0 < rate" "rate < 2 ^ 31" "xs \<noteq> []" "list_all i16 xs" "int (length xs) < 2 ^ 30"
  shows "ParseWavPcm (wav_file rate xs) = Wav_Parsed \<lparr>wv_samples = xs, wv_sampleRate = rate\<rparr>"
proof -
  define bs where "bs = wav_file rate xs"
  note d = wav_file_drops [of rate xs, folded bs_def]
  have small: "i16 1" "i16 16" "i16 2" by (simp_all add: i16_def)
  have tags: "tag_at bs 0 ''RIFF'' = Some True" "tag_at bs 8 ''WAVE'' = Some True"
    using tag_at_found [OF d(1), of "''RIFF''"] tag_at_found [OF d(2), of "''WAVE''"] by simp_all
  have fmt: "tag_at bs 12 ''fmt '' = Some True" "tag_at bs 12 ''data'' = Some False"
    using tag_at_found [OF d(3)] tags_differ by simp_all
  have data: "tag_at bs 36 ''fmt '' = Some False" "tag_at bs 36 ''data'' = Some True"
    using tag_at_found [OF d(9)] tags_differ by simp_all
  have sizes: "ReadLeI32 bs 16 = Some 16" "ReadLeI32 bs 40 = Some (2 * int (length xs))" "ReadLeI32 bs 24 = Some rate"
    using ReadLeI32_at [OF d(4)] ReadLeI32_at [OF d(10)] ReadLeI32_at [OF d(7)] assms by simp_all
  have halves: "ReadLeI16 bs 20 = Some 1" "ReadLeI16 bs 22 = Some 1" "ReadLeI16 bs 34 = Some 16"
    using ReadLeI16_at [OF d(5)] ReadLeI16_at [OF d(6)] ReadLeI16_at [OF d(8)] small by simp_all
  have rf: "read_fmt bs 20 f = Some (True, f\<lparr>wf_channels := 1, wf_sampleRate := rate, wf_bits := 16\<rparr>)" for f
    using halves sizes by (simp add: read_fmt_def)
  have c36: "wav_chunks bs 36 f = Scan_Done (f\<lparr>wf_dataStart := 44, wf_dataSize := 2 * length xs\<rparr>)" for f
    using d(12) sizes data by (subst wav_chunks.simps) (simp add: Let_def nat_mult_distrib)
  have c12: "wav_chunks bs 12 f = wav_chunks bs 36 (f\<lparr>wf_channels := 1, wf_sampleRate := rate, wf_bits := 16\<rparr>)" for f
    using d(12) sizes fmt rf by (subst wav_chunks.simps) (simp add: Let_def)
  have "read_samples bs 44 (length xs) = Some xs"
    by (rule read_samples_at [where rest = "[]"]) (use d(11) assms(4) in simp_all)
  then show ?thesis
    unfolding bs_def [symmetric] using d(12) tags assms(1,3)
    by (simp add: ParseWavPcm_def c12 c36 Suc_le_eq)
qed

text \<open>
  C38. The reader of WAV files is safe on any bytes: it never reads outside the file, and what it
  accepts has a positive rate and 16-bit samples no more than the file holds. On the canonical
  mono 16-bit file of some samples it gives back exactly those samples and their rate.
\<close>

theorem wav_reader_safe_and_exact:
  "ParseWavPcm bs \<noteq> Wav_OutOfBounds
   \<and> (ParseWavPcm bs = Wav_Parsed w \<longrightarrow> w = WavPcm_empty \<or>
        0 < wv_sampleRate w \<and> wv_samples w \<noteq> [] \<and> 2 * length (wv_samples w) \<le> length bs \<and> list_all i16 (wv_samples w))
   \<and> (0 < rate \<and> rate < 2 ^ 31 \<and> xs \<noteq> [] \<and> list_all i16 xs \<and> int (length xs) < 2 ^ 30 \<longrightarrow>
        ParseWavPcm (wav_file rate xs) = Wav_Parsed \<lparr>wv_samples = xs, wv_sampleRate = rate\<rparr>)"
  using parse_ok [of bs] wav_round_trip [of rate xs] by blast

theorem wav_reader_safe_and_exact_witness:
  "ParseWavPcm (wav_file 8000 [5, -7]) = Wav_Parsed \<lparr>wv_samples = [5, -7], wv_sampleRate = 8000\<rparr>
   \<and> ParseWavPcm [82, 73] \<noteq> Wav_OutOfBounds"
  using wav_reader_safe_and_exact [of "[82, 73]" WavPcm_empty 8000 "[5, -7]"] by (simp add: i16_def)

section \<open>The resampler and the generator\<close>

lemma those_some: "(\<And>x. x \<in> set xs \<Longrightarrow> \<exists>y. f x = Some y) \<Longrightarrow> \<exists>ys. those (map f xs) = Some ys \<and> length ys = length xs"
proof (induction xs)
  case (Cons x xs)
  then obtain y ys where "f x = Some y" "those (map f xs) = Some ys" "length ys = length xs" by fastforce
  then show ?case by simp
qed simp

text \<open>
  A position before rounding lies in the input: \<open>i * src div dst < n\<close> for every output index.
\<close>

lemma resample_position:
  assumes "i < resample_length n src dst" "0 < src" "0 < dst" "0 < n"
  shows "i * nat src div nat dst < n"
proof (cases "n * nat dst div nat src")
  case 0
  then have "i = 0" using assms(1) by (simp add: resample_length_def)
  with assms(4) show ?thesis by simp
next
  case (Suc k)
  then have "i < n * nat dst div nat src" using assms(1) by (simp add: resample_length_def)
  then have "i * nat src < n * nat dst"
    using assms(2) less_eq_div_iff_mult_less_eq [of "nat src" "Suc i" "n * nat dst"] by simp
  then show ?thesis using assms(3) by (simp add: div_less_iff_less_mult)
qed

text \<open>With a unit that truncates no higher than the exact quotient, resampling reads its input only.\<close>

lemma ResampleLinear_total:
  assumes "\<And>i. fl_trunc F (fl_mul F (fl_int F (int i)) (fl_div F (fl_int F src) (fl_int F dst))) \<le> i * nat src div nat dst"
    and "xs \<noteq> []" "0 < src" "0 < dst" "src \<noteq> dst"
  shows "\<exists>ys. ResampleLinear F xs src dst = Some ys \<and> length ys = resample_length (length xs) src dst"
proof -
  let ?n = "resample_length (length xs) src dst"
  have "\<exists>v. resample_at F xs (fl_div F (fl_int F src) (fl_int F dst)) i = Some v" if "i \<in> set [0..<?n]" for i
    using resample_position [of i "length xs" src dst] assms(1) [of i] assms(2,3,4) that
    by (auto simp: resample_at_def Let_def)
  then have "\<exists>ys. those (map (resample_at F xs (fl_div F (fl_int F src) (fl_int F dst))) [0..<?n]) = Some ys
      \<and> length ys = length [0..<?n]"
    by (rule those_some)
  then show ?thesis
    using assms(2-5) by (simp add: ResampleLinear_def Let_def)
qed

text \<open>
  The desktop client's own signal generator makes, sample for sample, what the core's generator
  makes of the same points with gain 0.26 and a tail of 40 ms or none.
\<close>

theorem desktop_signal_is_core_signal:
  "GenerateSignalPcm F sampleRate p = generatePcm F
     \<lparr>sg_points = pa_points p, sg_tailMs = (if pa_appendTail p then 40 else 0),
      sg_repeatCount = pa_repeatCount p, sg_gain = fl_dec F 26 2\<rparr> sampleRate"
  by (simp add: GenerateSignalPcm_def generatePcm_def AppendSilence_def kRogerTailMs_def Let_def)

end
