(* ===== verification/Audio_Props.thy ===== *)
theory Audio_Props
  imports Audio_Engine Audio_Pcm_Props
begin

text \<open>
  Properties of the audio engine: the pump cuts the captured sound into full frames without losing
  or reordering a sample, generated signals go out whole or as a prefix, and received sound is
  played only while nothing is sent.
\<close>

section \<open>Frames of the trace\<close>

fun frames_of :: "audio_obs list \<Rightarrow> pcm list" where
  "frames_of [] = []"
| "frames_of (ob # obs) = (case ob of A_Frame pcm \<Rightarrow> [pcm] | _ \<Rightarrow> []) @ frames_of obs"

lemma frames_of_append [simp]: "frames_of (xs @ ys) = frames_of xs @ frames_of ys"
  by (induction xs) simp_all

text \<open>What a poll of the collision state leaves alone.\<close>

lemma poll_trace:
  "\<exists>obs. au_trace (PollParallelTxCollisionState now a) = au_trace a @ obs \<and> set obs \<subseteq> {A_Collision True, A_Collision False}"
  by (auto simp: PollParallelTxCollisionState_def Let_def emit_audio_def)

lemma collisions_no_frames: "set obs \<subseteq> {A_Collision True, A_Collision False} \<Longrightarrow> frames_of obs = []"
  by (induction obs) auto

lemma poll_frame [simp]:
  "frames_of (au_trace (PollParallelTxCollisionState now a)) = frames_of (au_trace a)"
  "au_fifo (PollParallelTxCollisionState now a) = au_fifo a"
  "au_transmitting (PollParallelTxCollisionState now a) = au_transmitting a"
  "au_streaming (PollParallelTxCollisionState now a) = au_streaming a"
  "au_pumpStop (PollParallelTxCollisionState now a) = au_pumpStop a"
  "au_pumpThread (PollParallelTxCollisionState now a) = au_pumpThread a"
  "au_captureActive (PollParallelTxCollisionState now a) = au_captureActive a"
  "au_onPcmFrame (PollParallelTxCollisionState now a) = au_onPcmFrame a"
  "au_onLevel (PollParallelTxCollisionState now a) = au_onLevel a"
  "au_ring (PollParallelTxCollisionState now a) = au_ring a"
  "au_sampleRate (PollParallelTxCollisionState now a) = au_sampleRate a"
  "au_packetMs (PollParallelTxCollisionState now a) = au_packetMs a"
  "au_contextReady (PollParallelTxCollisionState now a) = au_contextReady a"
  "au_abortRequested (PollParallelTxCollisionState now a) = au_abortRequested a"
  "au_shuttingDown (PollParallelTxCollisionState now a) = au_shuttingDown a"
  by (simp_all add: PollParallelTxCollisionState_def Let_def emit_audio_def)

section \<open>Capture\<close>

text \<open>The capture device delivers samples and the pump thread takes its turns, in any order.\<close>

datatype capture_event = Ce_Capture pcm | Ce_Pump int

fun capture_run :: "capture_event list \<Rightarrow> 'f audio \<Rightarrow> 'f audio" where
  "capture_run [] a = a"
| "capture_run (Ce_Capture samples # evs) a = capture_run evs (OnCaptureFrames samples a)"
| "capture_run (Ce_Pump now # evs) a = capture_run evs (snd (TxPumpTurn now a))"

fun captured :: "capture_event list \<Rightarrow> pcm" where
  "captured [] = []"
| "captured (Ce_Capture samples # evs) = samples @ captured evs"
| "captured (Ce_Pump now # evs) = captured evs"

definition capturing :: "'f audio \<Rightarrow> bool" where
  "capturing a \<longleftrightarrow> au_transmitting a \<and> \<not> au_pumpStop a \<and> au_onPcmFrame a \<and> 0 < FrameSamples a"

lemma capture_step:
  assumes "capturing a"
  shows "capturing (OnCaptureFrames samples a)" "FrameSamples (OnCaptureFrames samples a) = FrameSamples a"
    and "au_fifo (OnCaptureFrames samples a) = au_fifo a @ samples"
    and "au_trace (OnCaptureFrames samples a) = au_trace a"
  using assms by (auto simp: capturing_def OnCaptureFrames_def FrameSamples_def)

lemma pump_step:
  assumes "capturing a"
  shows "capturing (snd (TxPumpTurn now a))" "FrameSamples (snd (TxPumpTurn now a)) = FrameSamples a"
    and "\<exists>fs. frames_of (au_trace (snd (TxPumpTurn now a))) = frames_of (au_trace a) @ fs
           \<and> au_fifo a = concat fs @ au_fifo (snd (TxPumpTurn now a)) \<and> (\<forall>f \<in> set fs. int (length f) = FrameSamples a)"
proof -
  show "capturing (snd (TxPumpTurn now a))" "FrameSamples (snd (TxPumpTurn now a)) = FrameSamples a"
    using assms by (auto simp: capturing_def TxPumpTurn_def FrameSamples_def emit_audio_def Let_def)
  show "\<exists>fs. frames_of (au_trace (snd (TxPumpTurn now a))) = frames_of (au_trace a) @ fs
           \<and> au_fifo a = concat fs @ au_fifo (snd (TxPumpTurn now a)) \<and> (\<forall>f \<in> set fs. int (length f) = FrameSamples a)"
  proof (cases "int (length (au_fifo a)) < FrameSamples a")
    case True
    then have "snd (TxPumpTurn now a) = a" using assms by (simp add: capturing_def TxPumpTurn_def Let_def)
    then show ?thesis by (intro exI [of _ "[]"]) simp
  next
    case False
    then show ?thesis using assms
      by (intro exI [of _ "[take (nat (FrameSamples a)) (au_fifo a)]"])
         (simp add: capturing_def TxPumpTurn_def emit_audio_def Let_def)
  qed
qed

lemma capture_run_frames:
  assumes "capturing a"
  shows "\<exists>fs. frames_of (au_trace (capture_run evs a)) = frames_of (au_trace a) @ fs
           \<and> au_fifo a @ captured evs = concat fs @ au_fifo (capture_run evs a)
           \<and> (\<forall>f \<in> set fs. int (length f) = FrameSamples a)"
  using assms
proof (induction evs arbitrary: a)
  case (Cons ev evs)
  show ?case
  proof (cases ev)
    case (Ce_Capture samples)
    with Cons.IH [OF capture_step(1) [OF Cons.prems]] show ?thesis
      by (simp add: capture_step [OF Cons.prems])
  next
    case (Ce_Pump now)
    from pump_step(3) [OF Cons.prems, of now] obtain fs where
      fs: "frames_of (au_trace (snd (TxPumpTurn now a))) = frames_of (au_trace a) @ fs"
        "au_fifo a = concat fs @ au_fifo (snd (TxPumpTurn now a))" "\<forall>f \<in> set fs. int (length f) = FrameSamples a"
      by blast
    from Cons.IH [OF pump_step(1) [OF Cons.prems]] obtain gs where
      "frames_of (au_trace (capture_run evs (snd (TxPumpTurn now a)))) = frames_of (au_trace (snd (TxPumpTurn now a))) @ gs"
      "au_fifo (snd (TxPumpTurn now a)) @ captured evs = concat gs @ au_fifo (capture_run evs (snd (TxPumpTurn now a)))"
      "\<forall>f \<in> set gs. int (length f) = FrameSamples (snd (TxPumpTurn now a))"
      by blast
    with fs show ?thesis
      by (intro exI [of _ "fs @ gs"]) (auto simp: Ce_Pump pump_step(2) [OF Cons.prems])
  qed
qed simp


definition demo_flt :: "int flt" where
  "demo_flt = \<lparr>fl_int = (\<lambda>i. i), fl_dec = (\<lambda>m k. m div 10 ^ k), fl_add = (+), fl_sub = (-), fl_mul = (*), fl_div = (div),
     fl_lt = (<), fl_le = (\<le>), fl_sin = (\<lambda>x. x mod 2), fl_lround = (\<lambda>x. x), fl_trunc = nat\<rparr>"

definition demo_audio :: "int audio" where
  "demo_audio = (audio_init demo_flt)\<lparr>au_contextReady := True, au_sampleRate := 1000, au_packetMs := 2,
     au_onPcmFrame := True, au_transmitting := True\<rparr>"


section \<open>Generated signals\<close>

text \<open>The \<open>i\<close>-th frame of some samples, filled up with silence, and how many there are.\<close>

definition frame_at :: "nat \<Rightarrow> pcm \<Rightarrow> nat \<Rightarrow> pcm" where
  "frame_at frame pcm i = (let c = take frame (drop (i * frame) pcm) in c @ replicate (frame - length c) 0)"

definition frame_count :: "nat \<Rightarrow> pcm \<Rightarrow> nat" where
  "frame_count frame pcm = (length pcm + frame - 1) div frame"

lemma length_frame_at [simp]: "length (frame_at frame pcm i) = frame"
  by (simp add: frame_at_def Let_def)

lemma frame_at_Suc: "frame_at frame pcm (Suc i) = frame_at frame (drop frame pcm) i"
  by (simp add: frame_at_def add.commute)

lemma frame_count_step:
  assumes f: "0 < frame" and p: "pcm \<noteq> []"
  shows "frame_count frame pcm = Suc (frame_count frame (drop frame pcm))"
proof -
  have "frame_count frame pcm = (frame + (length pcm - 1)) div frame"
    unfolding frame_count_def using p by (cases pcm) (simp_all add: add.commute)
  also have "\<dots> = (length pcm - 1) div frame + 1" using f by (intro div_add_self1) simp
  also have "(length pcm - 1) div frame = frame_count frame (drop frame pcm)"
  proof (cases "length pcm \<le> frame")
    case True
    with f p show ?thesis by (cases pcm) (simp_all add: frame_count_def)
  next
    case False
    then have "length (drop frame pcm) + frame - 1 = length pcm - 1" by simp
    then show ?thesis by (simp only: frame_count_def)
  qed
  finally show ?thesis by simp
qed

lemma frame_count_bounds:
  assumes "0 < frame"
  shows "length pcm \<le> frame_count frame pcm * frame" "frame_count frame pcm * frame < length pcm + frame"
proof -
  have "frame_count frame pcm * frame + (length pcm + frame - 1) mod frame = length pcm + frame - 1"
    unfolding frame_count_def by (rule div_mult_mod_eq)
  moreover have "(length pcm + frame - 1) mod frame < frame" using assms by simp
  ultimately show "length pcm \<le> frame_count frame pcm * frame" "frame_count frame pcm * frame < length pcm + frame"
    using assms by linarith+
qed

lemma upt_Suc_map: "[0..<Suc n] = 0 # map Suc [0..<n]"
  by (simp add: upt_conv_Cons map_Suc_upt del: upt_Suc)

lemma stream_loop_frames:
  assumes "0 < frame" "au_onPcmFrame a" "\<not> au_abortRequested a"
  shows "let sent = length (takeWhile (\<lambda>i. \<not> abort (k + i)) [0..<frame_count frame pcm]) in
     fst (stream_loop frame abort k pcm a) = (sent = frame_count frame pcm)
     \<and> frames_of (au_trace (snd (stream_loop frame abort k pcm a)))
         = frames_of (au_trace a) @ map (frame_at frame pcm) [0..<sent]"
  using assms(2,3)
proof (induction "length pcm" arbitrary: pcm a k rule: less_induct)
  case less
  note on = less.prems
  show ?case
  proof (cases "pcm = []")
    case True
    with assms(1) show ?thesis by (simp add: stream_loop.simps frame_count_def Let_def)
  next
    case False
    note count = frame_count_step [OF assms(1) False]
    show ?thesis
    proof (cases "abort k")
      case True
      with False assms(1) show ?thesis
        by (simp add: stream_loop.simps [of frame abort k pcm a] RequestAbortOutgoingSignalStream_def count upt_Suc_map del: upt_Suc)
    next
      case no: False
      let ?rest = "drop frame pcm" and ?a = "emit_audio (A_Frame (frame_at frame pcm 0)) a"
      have "length ?rest < length pcm" "au_onPcmFrame ?a" "\<not> au_abortRequested ?a"
        using False assms(1) on by (simp_all add: emit_audio_def)
      note IH = less.hyps [OF this, of "Suc k", unfolded Let_def]
      have "take (min frame (length pcm)) pcm @ replicate (frame - min frame (length pcm)) 0 = frame_at frame pcm 0"
        by (simp add: frame_at_def Let_def min_def)
      then have step: "stream_loop frame abort k pcm a = stream_loop frame abort (Suc k) ?rest ?a"
        using False assms(1) on no
        by (simp add: stream_loop.simps [of frame abort k pcm a] Let_def min_def)
      have tw: "length (takeWhile (\<lambda>i. \<not> abort (k + i)) [0..<frame_count frame pcm])
          = Suc (length (takeWhile (\<lambda>i. \<not> abort (Suc k + i)) [0..<frame_count frame ?rest]))"
        using no by (simp add: count upt_Suc_map takeWhile_map comp_def del: upt_Suc)
      show ?thesis
        unfolding Let_def step tw using IH
        by (simp add: count emit_audio_def upt_Suc_map frame_at_Suc comp_def del: upt_Suc)
    qed
  qed
qed

lemma takeWhile_all_length: "length (takeWhile P [0..<n]) = n \<longleftrightarrow> (\<forall>i < n. P i)"
proof
  assume len: "length (takeWhile P [0..<n]) = n"
  then have "takeWhile P [0..<n] = [0..<n]"
    using takeWhile_dropWhile_id [of P "[0..<n]"] by (metis append_eq_conv_conj length_upt minus_nat.diff_0 take_all_iff order_refl)
  then show "\<forall>i < n. P i" by (simp add: takeWhile_eq_all_conv)
next
  assume "\<forall>i < n. P i"
  then have "takeWhile P [0..<n] = [0..<n]" by (simp add: takeWhile_eq_all_conv)
  from arg_cong [OF this, of length] show "length (takeWhile P [0..<n]) = n" by simp
qed

text \<open>
  A roger or call signal is streamed frame by frame, each of a packet's length and the last filled
  up with silence: all of it when nobody asks to abort, and exactly the frames before the first
  request when somebody does, which the result then says.
\<close>

theorem signal_streamed_up_to_abort:
  assumes "au_contextReady a" "au_onPcmFrame a" "\<not> au_abortRequested a" "pcm \<noteq> []"
    and "0 < au_packetMs a" "0 < FrameSamples a"
  shows "let frame = nat (FrameSamples a); count = frame_count frame pcm;
             sent = length (takeWhile (\<lambda>i. \<not> abort i) [0..<count]);
             (ok, a') = StreamGeneratedSignal abort pcm a
         in ok = (\<forall>i < count. \<not> abort i)
            \<and> frames_of (au_trace a') = frames_of (au_trace a) @ map (frame_at frame pcm) [0..<sent]
            \<and> length pcm \<le> count * frame \<and> count * frame < length pcm + frame"
proof -
  let ?f = "nat (FrameSamples a)"
  let ?sent = "length (takeWhile (\<lambda>i. \<not> abort i) [0..<frame_count ?f pcm])"
  have f: "0 < ?f" using assms(6) by simp
  have "StreamGeneratedSignal abort pcm a = stream_loop ?f abort 0 pcm a"
    using assms by (simp add: StreamGeneratedSignal_def)
  moreover have "?sent = frame_count ?f pcm \<longleftrightarrow> (\<forall>i < frame_count ?f pcm. \<not> abort i)"
    by (simp add: takeWhile_all_length)
  ultimately show ?thesis
    using stream_loop_frames [OF f assms(2,3), of abort 0 pcm] frame_count_bounds [OF f, of pcm]
    by (simp add: Let_def split_beta)
qed

theorem signal_streamed_up_to_abort_witness:
  "frames_of (au_trace (snd (StreamGeneratedSignal (\<lambda>i. i = 2) [1, 2, 3, 4, 5, 6] demo_audio))) = [[1, 2], [3, 4]]
   \<and> frames_of (au_trace (snd (StreamGeneratedSignal (\<lambda>_. False) [1, 2, 3] demo_audio))) = [[1, 2], [3, 0]]"
proof -
  have h: "au_contextReady demo_audio" "au_onPcmFrame demo_audio" "\<not> au_abortRequested demo_audio"
    "0 < au_packetMs demo_audio" "0 < FrameSamples demo_audio" "FrameSamples demo_audio = 2"
    "frames_of (au_trace demo_audio) = []"
    by code_simp+
  have c: "frame_count 2 [1, 2, 3, 4, 5, 6] = 3" "frame_count 2 [1, 2, 3] = 2"
    "length (takeWhile (\<lambda>i. i \<noteq> 2) [0..<3]) = 2" "map (frame_at 2 [1, 2, 3, 4, 5, 6]) [0..<2] = [[1, 2], [3, 4]]"
    "length (takeWhile (\<lambda>i. True) [0..<2]) = 2" "map (frame_at 2 [1, 2, 3]) [0..<2] = [[1, 2], [3, 0]]"
    by code_simp+
  show ?thesis
    using signal_streamed_up_to_abort [OF h(1-3) _ h(4,5), of "[1, 2, 3, 4, 5, 6]" "\<lambda>i. i = 2"]
      signal_streamed_up_to_abort [OF h(1-3) _ h(4,5), of "[1, 2, 3]" "\<lambda>_. False"]
    by (simp add: h c Let_def split_beta)
qed

section \<open>Receiving\<close>

fun played_of :: "audio_obs list \<Rightarrow> pcm" where
  "played_of [] = []"
| "played_of (ob # obs) = (case ob of A_Playback pcm \<Rightarrow> pcm | _ \<Rightarrow> []) @ played_of obs"

lemma played_of_append [simp]: "played_of (xs @ ys) = played_of xs @ played_of ys"
  by (induction xs) simp_all

lemma collisions_no_playback: "set obs \<subseteq> {A_Collision True, A_Collision False} \<Longrightarrow> played_of obs = []"
  by (induction obs) auto

lemma poll_played [simp]: "played_of (au_trace (PollParallelTxCollisionState now a)) = played_of (au_trace a)"
  by (simp add: PollParallelTxCollisionState_def Let_def emit_audio_def)

lemma pulse_played [simp]:
  "played_of (au_trace (PlayVibrationImitationPulse V ms a)) = played_of (au_trace a)"
  "au_ring (PlayVibrationImitationPulse V ms a) = au_ring a"
  by (auto simp: PlayVibrationImitationPulse_def PlayVibrationImitationPattern_def PlayOneShotHighQuality_def
      emit_audio_def Let_def split: option.split)

lemma queue_loop_prefix: "\<exists>n. queue_loop grants pcm = take n pcm"
proof (induction grants pcm rule: queue_loop.induct)
  case (2 g gs pcm)
  show ?case
  proof (cases "min g (length pcm) = 0")
    case False
    with 2 [OF refl] obtain n where n: "queue_loop gs (drop (min g (length pcm)) pcm) = take n (drop (min g (length pcm)) pcm)"
      by blast
    have "queue_loop (g # gs) pcm = take (min g (length pcm)) pcm @ take n (drop (min g (length pcm)) pcm)"
      using False by (simp only: queue_loop.simps Let_def n if_False)
    then show ?thesis
      by (intro exI [of _ "min g (length pcm) + n"]) (simp only: take_add)
  qed (auto simp: Let_def intro: exI [of _ 0])
qed (auto intro: exI [of _ 0])

text \<open>A ring with room for everything takes everything.\<close>

lemma queue_loop_Nil [simp]: "queue_loop gs [] = []"
  by (cases gs) (simp_all add: Let_def)

lemma queue_loop_all: "length pcm \<le> g \<Longrightarrow> queue_loop (g # gs) pcm = pcm"
  by (simp add: Let_def min_def)

lemma playback_loop_split:
  "playback_loop grants n ring = (out, rest) \<Longrightarrow> out @ rest = ring \<and> length out \<le> n"
proof (induction grants n ring arbitrary: out rest rule: playback_loop.induct)
  case (2 g gs n ring)
  show ?case
  proof (cases "n = 0 \<or> min g (min n (length ring)) = 0")
    case False
    obtain o' r' where rec: "playback_loop gs (n - min g (min n (length ring))) (drop (min g (min n (length ring))) ring) = (o', r')"
      by fastforce
    from 2(1) [OF refl False rec] 2(2) False rec show ?thesis
      by (auto simp: Let_def)
  qed (use 2(2) in \<open>auto simp: Let_def split: if_splits\<close>)
qed simp

text \<open>
  Half duplex on the receiving side: while the microphone is on or a signal is streamed, nothing
  received is queued for playback (it only marks the collision); otherwise what is queued is a
  prefix of the received samples at the set volume, as long as the buffer has room. The playback
  device always gets exactly the samples it asks for: queued ones in order, then silence.
\<close>

theorem received_sound_half_duplex:
  "(if au_transmitting a \<or> au_streaming a \<or> au_shuttingDown a
    then played_of (au_trace (OnIncomingPcmFrame V grants now samples a)) = played_of (au_trace a)
         \<and> au_ring (OnIncomingPcmFrame V grants now samples a) = au_ring a
    else \<exists>n. played_of (au_trace (OnIncomingPcmFrame V grants now samples a))
              = played_of (au_trace a) @ take n (apply_percent (ae_flt V) (au_rxVolume a) samples))
   \<and> (case PlaybackCallback chunks n a of (out, a') \<Rightarrow>
        length out = n \<and> (\<exists>k. out = take k (au_ring a) @ replicate (n - k) 0 \<and> au_ring a' = drop k (au_ring a)))"
proof (intro conjI)
  show "if au_transmitting a \<or> au_streaming a \<or> au_shuttingDown a
    then played_of (au_trace (OnIncomingPcmFrame V grants now samples a)) = played_of (au_trace a)
         \<and> au_ring (OnIncomingPcmFrame V grants now samples a) = au_ring a
    else \<exists>n. played_of (au_trace (OnIncomingPcmFrame V grants now samples a))
              = played_of (au_trace a) @ take n (apply_percent (ae_flt V) (au_rxVolume a) samples)"
  proof (cases "au_transmitting a \<or> au_streaming a \<or> au_shuttingDown a")
    case True
    then show ?thesis by (auto simp: OnIncomingPcmFrame_def Let_def)
  next
    case False
    let ?xs = "apply_percent (ae_flt V) (au_rxVolume a) samples"
    have ens: "played_of (au_trace (EnsurePlaybackDeviceLocked V b)) = played_of (au_trace b)"
      "au_rxVolume (EnsurePlaybackDeviceLocked V b) = au_rxVolume b" for b :: "'a audio"
      by (simp_all add: EnsurePlaybackDeviceLocked_def CloseOutputStreamLocked_def Let_def)
    obtain m where m: "queue_loop grants ?xs = take m ?xs" using queue_loop_prefix by blast
    have q: "\<exists>n. played_of (au_trace (QueuePcmForPlaybackLocked V grants ?xs (EnsurePlaybackDeviceLocked V b)))
        = played_of (au_trace b) @ take n ?xs" for b :: "'a audio"
      using m ens by (auto simp: QueuePcmForPlaybackLocked_def emit_audio_def Let_def intro: exI [of _ 0] exI [of _ m])
    have same: "\<exists>n. played_of (au_trace a) = played_of (au_trace a) @ take n ?xs"
      by (intro exI [of _ 0]) simp
    show ?thesis
      using False ens same q [of "a\<lparr>au_lastInboundNs := now\<rparr>"] by (auto simp: OnIncomingPcmFrame_def Let_def)
  qed
next
  obtain out rest where p: "playback_loop chunks n (au_ring a) = (out, rest)" by fastforce
  from playback_loop_split [OF p] have "out = take (length out) (au_ring a)" "rest = drop (length out) (au_ring a)"
    "length out \<le> n" by (metis append_eq_conv_conj)+
  then show "case PlaybackCallback chunks n a of (out, a') \<Rightarrow>
        length out = n \<and> (\<exists>k. out = take k (au_ring a) @ replicate (n - k) 0 \<and> au_ring a' = drop k (au_ring a))"
    by (auto simp: PlaybackCallback_def p)
qed

end
