(* ===== verification/Frame_Audio.thy ===== *)
theory Frame_Audio
  imports Client_Frame Audio_Props
begin

text \<open>
  What the operations of the audio engine mean for push to talk: which of them can switch the
  microphone on or hand a frame to the uplink, and what the frame callback does with the frames.
\<close>

section \<open>Operations that neither transmit nor send\<close>

definition calmer :: "'f audio \<Rightarrow> 'f audio \<Rightarrow> bool" where
  "calmer a a' \<longleftrightarrow> (au_transmitting a' \<longrightarrow> au_transmitting a) \<and>
     (\<exists>obs. au_trace a' = au_trace a @ obs \<and> frames_of obs = [])"

lemma calmer_refl [simp, intro]: "calmer a a"
  by (simp add: calmer_def)

lemma calmer_trans [trans]: "calmer a b \<Longrightarrow> calmer b c \<Longrightarrow> calmer a c"
  by (fastforce simp: calmer_def)

text \<open>Rules that take an operation off the end of a chain.\<close>

lemma calmer_update:
  assumes "calmer a b"
  shows "calmer a (b\<lparr>au_transmitting := False\<rparr>)" "calmer a (b\<lparr>au_shuttingDown := v1\<rparr>)"
    "calmer a (b\<lparr>au_contextReady := v1\<rparr>)" "calmer a (b\<lparr>au_streaming := v1\<rparr>)" "calmer a (b\<lparr>au_abortRequested := v1\<rparr>)"
    "calmer a (b\<lparr>au_collision := v1\<rparr>)" "calmer a (b\<lparr>au_outOfBounds := v1\<rparr>)" "calmer a (b\<lparr>au_captureActive := v1\<rparr>)"
    "calmer a (b\<lparr>au_playbackActive := v1\<rparr>)" "calmer a (b\<lparr>au_ringReady := v1\<rparr>)" "calmer a (b\<lparr>au_pumpThread := v1\<rparr>)"
    "calmer a (b\<lparr>au_pumpStop := v1\<rparr>)" "calmer a (b\<lparr>au_captureDevice := v2\<rparr>)" "calmer a (b\<lparr>au_playbackDevice := v2\<rparr>)"
    "calmer a (b\<lparr>au_ring := v3\<rparr>)" "calmer a (b\<lparr>au_fifo := v3\<rparr>)" "calmer a (b\<lparr>au_sampleRate := v4\<rparr>)"
    "calmer a (b\<lparr>au_packetMs := v4\<rparr>)" "calmer a (b\<lparr>au_lastRxDuringTxNs := v4\<rparr>)" "calmer a (b\<lparr>au_lastInboundNs := v4\<rparr>)"
    "calmer a (b\<lparr>au_lastPulseNs := v4\<rparr>)" "calmer a (b\<lparr>au_txNextFrameAtNs := v4\<rparr>)"
  using assms by (simp_all add: calmer_def)

lemma calmer_emit: "calmer a b \<Longrightarrow> (\<And>s. ob \<noteq> A_Frame s) \<Longrightarrow> calmer a (emit_audio ob b)"
  by (cases ob) (auto simp: calmer_def emit_audio_def)

lemma calmer_if: "(c \<Longrightarrow> calmer a b) \<Longrightarrow> (\<not> c \<Longrightarrow> calmer a b') \<Longrightarrow> calmer a (if c then b else b')"
  by simp

lemmas calm_rules = calmer_if calmer_update calmer_emit

lemma calmer_poll: "calmer a b \<Longrightarrow> calmer a (PollParallelTxCollisionState now b)"
  unfolding PollParallelTxCollisionState_def Let_def by (intro calm_rules) simp_all

lemma calmer_oneshot: "calmer a b \<Longrightarrow> calmer a (PlayOneShotHighQuality F pcm rate q b)"
  unfolding PlayOneShotHighQuality_def by (auto intro!: calm_rules split: option.splits)

lemma calmer_sound: "calmer a b \<Longrightarrow> calmer a (snd (sound_or_tones V name ts b))"
  unfolding sound_or_tones_def by (auto intro!: calm_rules split: option.splits)

lemma calmer_plays:
  assumes "calmer a b"
  shows "calmer a (PlayConnectedSignal V q b)" "calmer a (PlayConnectionErrorSignal V b)"
    "calmer a (PlayManualConnectStartSignal V q b)" "calmer a (PlayManualDisconnectSignal V b)"
    "calmer a (PlayPttPressSignal V b)" "calmer a (PlaySwitchNavSignal V q b)"
    "calmer a (PlayVibrationImitationPulse V ms b)"
  unfolding PlayConnectedSignal_def PlayConnectionErrorSignal_def PlayManualConnectStartSignal_def
    PlayManualDisconnectSignal_def PlayPttPressSignal_def PlaySwitchNavSignal_def
    PlayVibrationImitationPulse_def PlayVibrationImitationPattern_def Let_def case_prod_beta
  using assms by (intro calm_rules calmer_oneshot calmer_sound; simp)+

lemma calmer_devices:
  assumes "calmer a b"
  shows "calmer a (CloseOutputStreamLocked b)" "calmer a (CloseCaptureDeviceLocked b)" "calmer a (end_pump b)"
    "calmer a (StopTxPumpThreadLocked b)"
  unfolding CloseOutputStreamLocked_def CloseCaptureDeviceLocked_def end_pump_def StopTxPumpThreadLocked_def
  using assms by (auto intro!: calm_rules)

lemmas calm_ops = calmer_poll calmer_oneshot calmer_sound calmer_plays calmer_devices

lemma calmer_ensure: "calmer a b \<Longrightarrow> calmer a (EnsurePlaybackDeviceLocked V b)"
  unfolding EnsurePlaybackDeviceLocked_def Let_def by (intro calm_rules calm_ops; simp?)+

lemma calmer_stop: "calmer a b \<Longrightarrow> calmer a (StopTransmit locks now b)"
  unfolding StopTransmit_def Let_def by (intro calm_rules calm_ops)

lemma stop_switches_off [simp]: "\<not> au_transmitting (StopTransmit locks now a)"
  by (auto simp: StopTransmit_def CloseCaptureDeviceLocked_def end_pump_def StopTxPumpThreadLocked_def Let_def)

lemma calmer_reconfigure: "calmer a b \<Longrightarrow> calmer a (Reconfigure V cfg b)"
  unfolding Reconfigure_def Let_def by (intro calm_rules calm_ops calmer_ensure)

lemma calmer_prepare_exit: "calmer a b \<Longrightarrow> calmer a (PrepareForExit locks b)"
  unfolding PrepareForExit_def Let_def by (intro calm_rules calm_ops)

lemma calmer_shutdown: "calmer a b \<Longrightarrow> calmer a (Shutdown stop_locks locks now b)"
  unfolding Shutdown_def Let_def by (intro calm_rules calm_ops calmer_stop; simp)

lemma calmer_incoming: "calmer a b \<Longrightarrow> calmer a (OnIncomingPcmFrame V grants now samples b)"
  unfolding OnIncomingPcmFrame_def QueuePcmForPlaybackLocked_def Let_def
  by (intro calm_rules calm_ops calmer_ensure; simp)

lemma calmer_capture: "calmer a b \<Longrightarrow> calmer a (OnCaptureFrames samples b)"
  unfolding OnCaptureFrames_def by (intro calm_rules)

lemma calmer_playback: "calmer a b \<Longrightarrow> calmer a (snd (PlaybackCallback grants n b))"
  unfolding PlaybackCallback_def by (auto intro!: calm_rules split: prod.splits)

lemma calmer_abort_request: "calmer a b \<Longrightarrow> calmer a (RequestAbortOutgoingSignalStream b)"
  unfolding RequestAbortOutgoingSignalStream_def by (intro calm_rules)

lemma calmer_pump_idle: "\<not> au_transmitting a \<Longrightarrow> calmer a (snd (TxPumpTurn now a))"
  by (auto simp: TxPumpTurn_def)

lemmas calm_frame_ops = calm_ops calmer_ensure calmer_stop calmer_reconfigure calmer_prepare_exit calmer_shutdown
  calmer_incoming calmer_capture calmer_playback calmer_abort_request

end
