(* ===== verification/Frame_Props.thy ===== *)
theory Frame_Props
  imports Frame_Audio
begin

text \<open>
  Properties of push to talk in the desktop client, along its step relation: handlers of the user
  interface, posted closures, timer threads, the threads of the session and of the audio engine,
  in any order. Shown are the silence of a client the server has locked, the order of the calls on
  the uplink, the guard against quick releases and the countdown of the lock.
\<close>

section \<open>Steps\<close>

text \<open>\<open>W\<close> says which surroundings are possible. A step of the session manager changes only it.\<close>

inductive frame_step :: "(('j, 'c, 'f) ui_env \<Rightarrow> bool) \<Rightarrow> ('c, 'f) frame \<Rightarrow> ('c, 'f) frame \<Rightarrow> bool" for W where
  fs_down: "W U \<Longrightarrow> frame_step W f (OnPttDown U f)"
| fs_up: "W U \<Longrightarrow> frame_step W f (OnPttUp U f)"
| fs_key_down: "W U \<Longrightarrow> frame_step W f (OnPttButtonKeyDown U space f)"
| fs_key_up: "W U \<Longrightarrow> frame_step W f (OnPttButtonKeyUp U space f)"
| fs_click: "W U \<Longrightarrow> frame_step W f (OnPttButtonClicked U f)"
| fs_call: "W U \<Longrightarrow> frame_step W f (OnCallSignalClicked U f)"
| fs_hook: "frame_step W f (GlobalPttKeyboardProc vkey isUp mods f)"
| fs_queue: "W U \<Longrightarrow> frame_step W f (run_queue U f)"
| fs_event: "W U \<Longrightarrow> session_event U self ev f = Some f' \<Longrightarrow> frame_step W f f'"
| fs_pcm: "W U \<Longrightarrow> frame_step W f (session_pcm U grants samples f)"
| fs_burst_timer: "frame_step W f (burst_timer_fires i f)"
| fs_tx_countdown: "frame_step W f (tx_countdown_turn i f)"
| fs_busy_countdown: "frame_step W f (busy_countdown_turn i f)"
| fs_capture: "W U \<Longrightarrow> frame_step W f (do_audio U (OnCaptureFrames samples) f)"
| fs_pump: "W U \<Longrightarrow> frame_step W f (snd (with_audio U (TxPumpTurn (ue_now U)) f))"
| fs_playback: "W U \<Longrightarrow> frame_step W f (snd (with_audio U (PlaybackCallback grants n) f))"
| fs_connect: "W U \<Longrightarrow> OnConnectClicked U cf f = Some f' \<Longrightarrow> frame_step W f f'"
| fs_switch: "W U \<Longrightarrow> switch_profile U cf f = Some f' \<Longrightarrow> frame_step W f f'"
| fs_import: "W U \<Longrightarrow> import_reconnect U cf f = Some f' \<Longrightarrow> frame_step W f f'"
| fs_repeater: "W U \<Longrightarrow> frame_step W f (repeater_toggled U v f)"
| fs_settings: "W U \<Longrightarrow> frame_step W f (apply_ptt_settings U vkey mods showLevel newToggle f)"
| fs_reconnect: "W U \<Longrightarrow> reconnect_turn (ue_net U) (ue_sched U) (fr_relay f) (fr_manager f) = (q, r, m) \<Longrightarrow>
    frame_step W f (f\<lparr>fr_relay := r, fr_manager := m\<rparr>)"
| fs_manager: "frame_step W f (f\<lparr>fr_manager := m\<rparr>)"

section \<open>The uplink's order\<close>

text \<open>Whether the calls so far leave the uplink open, and whether samples went only where it was.\<close>

definition uplink_after :: "bool \<Rightarrow> frame_obs \<Rightarrow> bool" where
  "uplink_after b ob = (case ob of Fo_Open ok \<Rightarrow> b \<or> ok | Fo_Close \<Rightarrow> False | Fo_Abort \<Rightarrow> False | _ \<Rightarrow> b)"

definition uplink_is_open :: "frame_obs list \<Rightarrow> bool" where
  "uplink_is_open tr = foldl uplink_after False tr"

fun samples_in_order :: "bool \<Rightarrow> frame_obs list \<Rightarrow> bool" where
  "samples_in_order b [] = True"
| "samples_in_order b (ob # obs) = ((case ob of Fo_Pcm s \<Rightarrow> b | _ \<Rightarrow> True) \<and> samples_in_order (uplink_after b ob) obs)"

lemma uplink_is_open_snoc [simp]: "uplink_is_open (tr @ [ob]) = uplink_after (uplink_is_open tr) ob"
  by (simp add: uplink_is_open_def)

lemma samples_in_order_append:
  "samples_in_order b (xs @ ys) \<longleftrightarrow> samples_in_order b xs \<and> samples_in_order (foldl uplink_after b xs) ys"
  by (induction xs arbitrary: b) auto

definition uplink_ok :: "('c, 'f) frame \<Rightarrow> bool" where
  "uplink_ok f \<longleftrightarrow> samples_in_order False (fr_trace f) \<and> (fr_uplinkOpened f \<longrightarrow> uplink_is_open (fr_trace f))"

lemma uplink_ok_emit:
  "uplink_ok f \<Longrightarrow> (case ob of Fo_Pcm s \<Rightarrow> uplink_is_open (fr_trace f) | Fo_Close \<Rightarrow> \<not> fr_uplinkOpened f
     | Fo_Abort \<Rightarrow> \<not> fr_uplinkOpened f | _ \<Rightarrow> True) \<Longrightarrow> uplink_ok (frame_emit ob f)"
  by (cases ob) (auto simp: uplink_ok_def frame_emit_def samples_in_order_append uplink_is_open_def uplink_after_def)

section \<open>What most of a handler leaves alone\<close>

text \<open>
  \<open>same f f'\<close>: of the lock, the guard and the countdown nothing has changed, no posted decay is lost,
  and the uplink's order is kept. \<open>hush f f'\<close>: nothing was opened or sent. \<open>quiet\<close> is both, with the
  microphone not switched on.
\<close>

definition same :: "('c, 'f) frame \<Rightarrow> ('c, 'f) frame \<Rightarrow> bool" where
  "same f f' \<longleftrightarrow>
     fr_pttLocked f' = fr_pttLocked f \<and> fr_lockSec f' = fr_lockSec f \<and>
     fr_burstTicket f' = fr_burstTicket f \<and> fr_burstCount f' = fr_burstCount f \<and>
     fr_burstBlocked f' = fr_burstBlocked f \<and> fr_burstTimers f' = fr_burstTimers f \<and>
     fr_busyTicket f' = fr_busyTicket f \<and> fr_busyThreads f' = fr_busyThreads f \<and>
     (\<exists>ps. fr_queue f' = fr_queue f @ ps) \<and> (uplink_ok f \<longrightarrow> uplink_ok f')"

definition sends :: "frame_obs \<Rightarrow> bool" where
  "sends ob \<longleftrightarrow> (case ob of Fo_Open ok \<Rightarrow> True | Fo_Pcm s \<Rightarrow> True | _ \<Rightarrow> False)"

definition hush :: "('c, 'f) frame \<Rightarrow> ('c, 'f) frame \<Rightarrow> bool" where
  "hush f f' \<longleftrightarrow> (\<exists>obs. fr_trace f' = fr_trace f @ obs \<and> (\<forall>ob \<in> set obs. \<not> sends ob))"

definition quiet :: "('c, 'f) frame \<Rightarrow> ('c, 'f) frame \<Rightarrow> bool" where
  "quiet f f' \<longleftrightarrow> same f f' \<and> hush f f' \<and> (au_transmitting (fr_audio f') \<longrightarrow> au_transmitting (fr_audio f))"

lemma same_refl [simp, intro]: "same f f"
  by (simp add: same_def)

lemma same_trans: "same f g \<Longrightarrow> same g h \<Longrightarrow> same f h"
  by (auto simp: same_def)

lemma hush_refl [simp, intro]: "hush f f"
  by (simp add: hush_def)

lemma hush_trans: "hush f g \<Longrightarrow> hush g h \<Longrightarrow> hush f h"
  by (fastforce simp: hush_def)

lemma quiet_refl [simp, intro]: "quiet f f"
  by (simp add: quiet_def)

lemma quiet_trans: "quiet f g \<Longrightarrow> quiet g h \<Longrightarrow> quiet f h"
  by (auto simp: quiet_def intro: same_trans hush_trans)

text \<open>Rules that take an update off the end of a chain.\<close>

lemma quiet_update:
  assumes "quiet f g"
  shows "quiet f (g\<lparr>fr_connected := b\<rparr>)" "quiet f (g\<lparr>fr_wantsSession := b\<rparr>)" "quiet f (g\<lparr>fr_busyMode := b\<rparr>)"
    "quiet f (g\<lparr>fr_rxBroadcast := b\<rparr>)" "quiet f (g\<lparr>fr_toggleMode := b\<rparr>)" "quiet f (g\<lparr>fr_suppressHold := b\<rparr>)"
    "quiet f (g\<lparr>fr_globalPressed := b\<rparr>)" "quiet f (g\<lparr>fr_toggleHookDown := b\<rparr>)" "quiet f (g\<lparr>fr_hook := b\<rparr>)"
    "quiet f (g\<lparr>fr_vkey := v\<rparr>)" "quiet f (g\<lparr>fr_mods := w\<rparr>)" "quiet f (g\<lparr>fr_showLevel := b\<rparr>)"
    "quiet f (g\<lparr>fr_level := v\<rparr>)" "quiet f (g\<lparr>fr_txTicket := n\<rparr>)" "quiet f (g\<lparr>fr_txThreads := ns\<rparr>)"
    "quiet f (g\<lparr>fr_pttEnabled := b\<rparr>)" "quiet f (g\<lparr>fr_pttLabel := s\<rparr>)" "quiet f (g\<lparr>fr_callEnabled := b\<rparr>)"
    "quiet f (g\<lparr>fr_connectLabel := s\<rparr>)" "quiet f (g\<lparr>fr_relay := r\<rparr>)" "quiet f (g\<lparr>fr_manager := m\<rparr>)"
    "quiet f (g\<lparr>fr_uplinkOpened := False\<rparr>)"
  using assms by (simp_all add: quiet_def same_def hush_def uplink_ok_def)

lemma quiet_if: "(c \<Longrightarrow> quiet f g) \<Longrightarrow> (\<not> c \<Longrightarrow> quiet f g') \<Longrightarrow> quiet f (if c then g else g')"
  by simp

lemma quiet_status: "quiet f g \<Longrightarrow> quiet f (frame_SetStatus s g)"
  by (rule quiet_trans)
    (auto simp: quiet_def same_def hush_def sends_def frame_SetStatus_def uplink_ok_emit frame_emit_def
      intro: uplink_ok_emit [unfolded frame_emit_def])

lemma quiet_post: "quiet f g \<Longrightarrow> quiet f (CallAfter p g)"
  by (auto simp: quiet_def same_def hush_def CallAfter_def uplink_ok_def)

lemma quiet_refresh: "quiet f g \<Longrightarrow> quiet f (RefreshPttUi g)"
  unfolding RefreshPttUi_def Let_def by (intro quiet_update)

lemma quiet_stop_countdown: "quiet f g \<Longrightarrow> quiet f (StopTxCountdownFromServer g)"
  unfolding StopTxCountdownFromServer_def by (intro quiet_update)

lemma quiet_start_countdown: "quiet f g \<Longrightarrow> quiet f (StartTxCountdownFromServer g)"
  unfolding StartTxCountdownFromServer_def Let_def by (intro quiet_update quiet_stop_countdown)

lemma quiet_tx_turn: "quiet f g \<Longrightarrow> quiet f (tx_countdown_turn i g)"
  unfolding tx_countdown_turn_def Let_def by (intro quiet_if quiet_update quiet_post)

lemma quiet_close: "quiet f g \<Longrightarrow> quiet f ((uplink_close U g)\<lparr>fr_uplinkOpened := False\<rparr>)"
  by (rule quiet_trans, assumption)
    (auto simp: quiet_def same_def hush_def sends_def uplink_close_def frame_emit_def uplink_ok_def
      samples_in_order_append)

lemma quiet_abort: "quiet f g \<Longrightarrow> quiet f ((uplink_abort U g)\<lparr>fr_uplinkOpened := False\<rparr>)"
  by (rule quiet_trans, assumption)
    (auto simp: quiet_def same_def hush_def sends_def uplink_abort_def frame_emit_def uplink_ok_def
      samples_in_order_append)

lemmas quiet_rules = quiet_if quiet_update quiet_status quiet_post quiet_refresh quiet_stop_countdown
  quiet_start_countdown quiet_tx_turn quiet_close quiet_abort

section \<open>Operations of the engine\<close>

lemma uplink_frame_same: "same f (uplink_frame U samples f)" "fr_audio (uplink_frame U samples f) = fr_audio f"
  by (auto simp: uplink_frame_def uplink_open_def uplink_pcm_def same_def frame_emit_def uplink_ok_def
      samples_in_order_append uplink_is_open_def uplink_after_def split: prod.splits)

lemma post_same: "same f (CallAfter p f)" "hush f (CallAfter p f)" "fr_audio (CallAfter p f) = fr_audio f"
  by (auto simp: same_def hush_def CallAfter_def uplink_ok_def)

lemma callback_same: "same f (audio_callback U ob f) \<and> fr_audio (audio_callback U ob f) = fr_audio f"
  by (cases ob) (simp_all add: uplink_frame_same post_same)

lemma callback_hush: "(\<And>s. ob \<noteq> A_Frame s) \<Longrightarrow> hush f (audio_callback U ob f)"
  by (cases ob) (auto simp: post_same)

lemma callbacks_same: "same f (fold (audio_callback U) obs f) \<and> fr_audio (fold (audio_callback U) obs f) = fr_audio f"
proof (induction obs arbitrary: f)
  case (Cons ob obs)
  with callback_same [of f U ob] Cons [of "audio_callback U ob f"] show ?case
    by (auto intro: same_trans)
qed simp

lemma callbacks_hush: "frames_of obs = [] \<Longrightarrow> hush f (fold (audio_callback U) obs f)"
proof (induction obs arbitrary: f)
  case (Cons ob obs)
  then have "frames_of obs = []" "\<And>s. ob \<noteq> A_Frame s" by auto
  with Cons.IH [of "audio_callback U ob f"] callback_hush [of ob f U] show ?case
    by (auto intro: hush_trans)
qed simp

lemma same_audio: "same f (f\<lparr>fr_audio := a\<rparr>)" "hush f (f\<lparr>fr_audio := a\<rparr>)"
  by (simp_all add: same_def hush_def uplink_ok_def)

lemma with_audio_same:
  "same f (snd (with_audio U g f))" "fr_audio (snd (with_audio U g f)) = snd (g (fr_audio f))"
proof -
  let ?a = "snd (g (fr_audio f))"
  let ?h = "fold (audio_callback U) (drop (length (au_trace (fr_audio f))) (au_trace ?a)) (f\<lparr>fr_audio := ?a\<rparr>)"
  have h: "snd (with_audio U g f) = ?h" by (simp add: with_audio_def case_prod_beta)
  show "same f (snd (with_audio U g f))" "fr_audio (snd (with_audio U g f)) = snd (g (fr_audio f))"
    unfolding h using callbacks_same [of "f\<lparr>fr_audio := ?a\<rparr>" U] same_trans [OF same_audio(1) [of f ?a]] by auto
qed

lemma with_audio_quiet:
  assumes "calmer (fr_audio f) (snd (g (fr_audio f)))"
  shows "quiet f (snd (with_audio U g f))"
proof -
  let ?a = "snd (g (fr_audio f))"
  from assms obtain obs where obs: "au_trace ?a = au_trace (fr_audio f) @ obs" "frames_of obs = []"
    by (auto simp: calmer_def)
  then have "snd (with_audio U g f) = fold (audio_callback U) obs (f\<lparr>fr_audio := ?a\<rparr>)"
    by (simp add: with_audio_def case_prod_beta)
  then have "hush f (snd (with_audio U g f))"
    using hush_trans [OF same_audio(2) callbacks_hush [OF obs(2)], of f U ?a] by simp
  with assms show ?thesis
    by (simp add: quiet_def with_audio_same calmer_def)
qed

lemma do_audio_quiet:
  assumes "quiet f h" and "\<And>a. calmer a (g a)"
  shows "quiet f (do_audio U g h)"
  using quiet_trans [OF assms(1) with_audio_quiet [of h "\<lambda>a. ((), g a)" U]] assms(2)
  by (simp add: do_audio_def)

section \<open>The invariant\<close>

definition guard_inv :: "('c, 'f) frame \<Rightarrow> bool" where
  "guard_inv f \<longleftrightarrow> 0 \<le> fr_burstCount f \<and> (fr_burstBlocked f \<longleftrightarrow> kPttReleaseBurstBlockThreshold \<le> fr_burstCount f) \<and>
     (0 < fr_burstCount f \<longrightarrow>
        fr_burstTicket f \<in> set (fr_burstTimers f) \<or> Post_BurstDecay (fr_burstTicket f) \<in> set (fr_queue f))"

definition busy_inv :: "('c, 'f) frame \<Rightarrow> bool" where
  "busy_inv f \<longleftrightarrow> 0 \<le> fr_lockSec f \<and> (\<forall>th \<in> set (fr_busyThreads f). fst th \<le> fr_busyTicket f) \<and>
     length (filter (\<lambda>th. fst th = fr_busyTicket f) (fr_busyThreads f)) \<le> 1"

definition ptt_inv :: "('c, 'f) frame \<Rightarrow> bool" where
  "ptt_inv f \<longleftrightarrow> (fr_pttLocked f \<longrightarrow> \<not> au_transmitting (fr_audio f)) \<and> guard_inv f \<and> busy_inv f \<and> uplink_ok f"

text \<open>
  \<open>steady\<close> steps keep the invariant and send nothing; \<open>good\<close> ones may send when the client is not
  locked.
\<close>

definition steady :: "('c, 'f) frame \<Rightarrow> ('c, 'f) frame \<Rightarrow> bool" where
  "steady f g \<longleftrightarrow> (ptt_inv f \<longrightarrow> ptt_inv g) \<and> hush f g"

definition good :: "('c, 'f) frame \<Rightarrow> ('c, 'f) frame \<Rightarrow> bool" where
  "good f g \<longleftrightarrow> (ptt_inv f \<longrightarrow> ptt_inv g \<and> (fr_pttLocked f \<longrightarrow> hush f g))"

lemma steady_refl [simp, intro]: "steady f f"
  by (simp add: steady_def)

lemma steady_trans: "steady f g \<Longrightarrow> steady g h \<Longrightarrow> steady f h"
  by (auto simp: steady_def intro: hush_trans)

lemma good_refl [simp, intro]: "good f f"
  by (simp add: good_def)

lemma steady_good: "steady f g \<Longrightarrow> good f g"
  by (simp add: steady_def good_def)

lemma good_steady: "good f g \<Longrightarrow> steady g h \<Longrightarrow> good f h"
  by (auto simp: steady_def good_def intro: hush_trans)

lemma same_inv: "same f g \<Longrightarrow> guard_inv f \<Longrightarrow> guard_inv g" "same f g \<Longrightarrow> busy_inv f \<Longrightarrow> busy_inv g"
  by (auto simp: same_def guard_inv_def busy_inv_def)

lemma quiet_steady: "quiet f g \<Longrightarrow> steady f g"
  by (auto simp: quiet_def steady_def ptt_inv_def same_inv) (simp_all add: same_def)

lemma steady_quiet: "steady f g \<Longrightarrow> quiet g h \<Longrightarrow> steady f h"
  by (rule steady_trans [OF _ quiet_steady])

lemma steady_if: "(c \<Longrightarrow> steady f g) \<Longrightarrow> (\<not> c \<Longrightarrow> steady f h) \<Longrightarrow> steady f (if c then g else h)"
  by simp

lemma same_good: "same f g \<Longrightarrow> \<not> fr_pttLocked f \<Longrightarrow> good f g"
  by (auto simp: good_def ptt_inv_def same_inv) (simp_all add: same_def)

section \<open>The parts of the handlers\<close>

text \<open>A step that changes nothing but the guard, the lock and the countdown.\<close>

lemma steadyI:
  assumes "fr_trace g = fr_trace f" "fr_uplinkOpened g = fr_uplinkOpened f" "fr_audio g = fr_audio f"
    and "fr_pttLocked g \<Longrightarrow> fr_pttLocked f" "guard_inv f \<Longrightarrow> guard_inv g" "busy_inv f \<Longrightarrow> busy_inv g"
  shows "steady f g"
  using assms by (auto simp: steady_def ptt_inv_def hush_def uplink_ok_def)

lemma reset_steady: "steady f (ResetPttReleaseBurstGuard f)"
  by (rule steadyI) (simp_all add: ResetPttReleaseBurstGuard_def guard_inv_def busy_inv_def kPttReleaseBurstBlockThreshold_def)

lemma record_steady: "steady f (RecordPttReleaseBurst f)"
  by (rule steadyI)
    (auto split: if_splits simp: RecordPttReleaseBurst_def Let_def CallAfter_def ArmPttReleaseBurstDecay_def guard_inv_def
      busy_inv_def kPttReleaseBurstBlockThreshold_def)

lemma extend_steady: "steady f (ExtendPttReleaseBurstDecayTimer f)"
  by (rule steadyI)
    (auto simp: ExtendPttReleaseBurstDecayTimer_def Let_def ArmPttReleaseBurstDecay_def guard_inv_def busy_inv_def)

lemma unlock_steady: "steady f (f\<lparr>fr_pttLocked := False, fr_lockSec := 0\<rparr>)"
  by (rule steadyI) (simp_all add: guard_inv_def busy_inv_def)

lemma stop_busy_steady: "steady f (StopBusyTimeoutCountdown f)"
proof (rule steadyI)
  assume "busy_inv f"
  moreover have "filter (\<lambda>th. fst th = Suc (fr_busyTicket f)) (fr_busyThreads f) = []" if "busy_inv f"
    using that by (auto simp: busy_inv_def filter_empty_conv dest: bspec)
  ultimately show "busy_inv (StopBusyTimeoutCountdown f)"
    by (auto simp: StopBusyTimeoutCountdown_def busy_inv_def)
qed (simp_all add: StopBusyTimeoutCountdown_def guard_inv_def)

lemma start_busy_steady: "steady f (StartBusyTimeoutCountdown f)"
proof -
  let ?g = "StopBusyTimeoutCountdown f"
  have none: "filter (\<lambda>th. fst th = Suc (fr_busyTicket g)) (fr_busyThreads g) = []" if "busy_inv g" for g :: "('a, 'b) frame"
    using that by (auto simp: busy_inv_def filter_empty_conv dest: bspec)
  have "steady ?g (?g\<lparr>fr_busyTicket := fr_busyTicket ?g + 1, fr_busyThreads := fr_busyThreads ?g @ [(fr_busyTicket ?g + 1, False)]\<rparr>)"
    using none [of ?g] by (intro steadyI) (auto simp: guard_inv_def busy_inv_def)
  with stop_busy_steady [of f] show ?thesis
    by (auto simp: StartBusyTimeoutCountdown_def Let_def intro: steady_trans)
qed

lemma busy_tick_steady: "steady f (busy_tick ticket f)"
  unfolding busy_tick_def
  by (auto intro!: steady_quiet [OF _ quiet_refresh [OF quiet_refl]] steadyI simp: guard_inv_def busy_inv_def)

lemma filter_update_same:
  "i < length xs \<Longrightarrow> P y = P (xs ! i) \<Longrightarrow> length (filter P (xs[i := y])) = length (filter P xs)"
proof (induction xs arbitrary: i)
  case (Cons x xs)
  then show ?case by (cases i) auto
qed simp

lemma filter_remove: "length (filter P (take i xs @ drop (Suc i) xs)) \<le> length (filter P xs)"
proof -
  have "filter P xs = filter P (take i xs) @ filter P (drop i xs)"
    by (metis append_take_drop_id filter_append)
  moreover have "length (filter P (drop (Suc i) xs)) \<le> length (filter P (drop i xs))"
    by (cases "i < length xs") (simp_all add: Cons_nth_drop_Suc [symmetric])
  ultimately show ?thesis by simp
qed

lemma set_remove: "set (take i xs @ drop (Suc i) xs) \<subseteq> set xs"
  using set_take_subset [of i xs] set_drop_subset [of "Suc i" xs] by auto

lemma busy_turn_steady: "steady f (busy_countdown_turn i f)"
proof (cases "i < length (fr_busyThreads f)")
  case True
  obtain ticket slept where th: "fr_busyThreads f ! i = (ticket, slept)" by fastforce
  have upd: "busy_inv f \<Longrightarrow> busy_inv (f\<lparr>fr_busyThreads := (fr_busyThreads f)[i := (ticket, b)]\<rparr>)" for b
    using th nth_mem [OF True] filter_update_same [OF True, of "\<lambda>th. fst th = fr_busyTicket f" "(ticket, b)"]
    by (auto simp: busy_inv_def dest!: set_update_subset_insert [THEN subsetD])
  have del: "busy_inv f \<Longrightarrow> busy_inv (f\<lparr>fr_busyThreads := take i (fr_busyThreads f) @ drop (Suc i) (fr_busyThreads f)\<rparr>)"
    using filter_remove [of "\<lambda>th. fst th = fr_busyTicket f" i "fr_busyThreads f"] set_remove [of i "fr_busyThreads f"]
    by (auto simp: busy_inv_def)
  have "steady f (f\<lparr>fr_busyThreads := (fr_busyThreads f)[i := (ticket, b)]\<rparr>)"
    "steady f (f\<lparr>fr_busyThreads := take i (fr_busyThreads f) @ drop (Suc i) (fr_busyThreads f)\<rparr>)" for b
    by (intro steadyI; simp add: guard_inv_def upd del)+
  with True th show ?thesis
    by (auto simp: busy_countdown_turn_def intro: steady_quiet [OF _ quiet_post [OF quiet_refl]])
qed (simp add: busy_countdown_turn_def)

lemma burst_timer_steady: "steady f (burst_timer_fires i f)"
proof (cases "i < length (fr_burstTimers f)")
  case True
  then have "set (fr_burstTimers f) \<subseteq> insert (fr_burstTimers f ! i) (set (take i (fr_burstTimers f) @ drop (Suc i) (fr_burstTimers f)))"
    by (metis Un_insert_right id_take_nth_drop list.simps(15) set_append subset_refl)
  with True show ?thesis
    by (intro steadyI) (auto simp: burst_timer_fires_def CallAfter_def guard_inv_def busy_inv_def)
qed (simp add: burst_timer_fires_def)

section \<open>The handlers\<close>

lemma begin_good: "good f (BeginPttTx U f)"
proof -
  have blocked: "steady f (RefreshPttUi (CallAfter Post_BlockedStatus (ExtendPttReleaseBurstDecayTimer f)))"
    by (rule steady_quiet [OF extend_steady]) (intro quiet_rules quiet_refl)
  have "good f (BeginPttTx U f)" if "\<not> fr_pttLocked f" "\<not> fr_burstBlocked f"
  proof -
    let ?g = "(do_audio U (PlayPttPressSignal (ue_audio U)) f)\<lparr>fr_uplinkOpened := False\<rparr>"
    let ?h = "snd (with_audio U (StartTransmit (ue_audio U)) ?g)"
    have g: "quiet f ?g"
      by (intro quiet_update do_audio_quiet [OF quiet_refl] calm_frame_ops calmer_refl)
    then have "good f ?h"
      by (intro same_good [OF same_trans [OF _ with_audio_same(1)]] that) (simp add: quiet_def)
    moreover have "quiet ?h (RefreshPttUi ?h)"
      "quiet ?h (RefreshPttUi (frame_SetStatus s (StopTxCountdownFromServer ?h)))" for s
      by (intro quiet_rules quiet_refl)+
    ultimately show ?thesis
      using that by (auto simp: BeginPttTx_def Let_def case_prod_beta intro: good_steady quiet_steady)
  qed
  then show ?thesis
    using blocked by (auto simp: BeginPttTx_def intro: steady_good quiet_steady quiet_refresh)
qed

lemma end_good: "good f (EndPttTx U f)"
proof (cases "IsRelaySessionReady f \<and> au_transmitting (fr_audio f) \<and> ptt_inv f")
  case True
  then have unlocked: "\<not> fr_pttLocked f" by (auto simp: ptt_inv_def)
  let ?g = "RecordPttReleaseBurst (StopTxCountdownFromServer f)"
  let ?h = "do_audio U (StopTransmit (ue_locks U) (ue_now U)) ?g"
  let ?i = "snd (with_audio U (StreamRogerSignal (ue_audio U) (\<lambda>_. False) (ue_now U)) ?h)"
  have "steady f ?g"
    by (rule steady_trans [OF quiet_steady record_steady]) (intro quiet_rules quiet_refl)
  moreover have gh: "quiet ?g ?h"
    by (intro do_audio_quiet [OF quiet_refl] calm_frame_ops calmer_refl)
  ultimately have fh: "steady f ?h" by (rule steady_quiet)
  have "fr_pttLocked ?g = fr_pttLocked f"
    by (simp add: RecordPttReleaseBurst_def StopTxCountdownFromServer_def Let_def CallAfter_def ArmPttReleaseBurstDecay_def)
  with gh unlocked have "\<not> fr_pttLocked ?h" by (simp add: quiet_def same_def)
  then have "good ?h ?i" by (intro same_good with_audio_same)
  moreover have "quiet ?i (RefreshPttUi (frame_SetStatus ''Connected'' ((uplink_close U ?i)\<lparr>fr_uplinkOpened := False\<rparr>)))"
    by (intro quiet_rules quiet_refl)
  ultimately have "good ?h (EndPttTx U f)"
    using True by (auto simp: EndPttTx_def Let_def intro: good_steady quiet_steady)
  with fh unlocked show ?thesis by (simp add: good_def steady_def)
next
  case False
  moreover have "good f (RefreshPttUi f)"
    by (intro steady_good quiet_steady quiet_rules quiet_refl)
  ultimately show ?thesis
    by (cases "ptt_inv f") (auto simp: EndPttTx_def good_def)
qed

text \<open>A good handler after quiet preparations.\<close>

lemma quiet_then_good: "quiet f g \<Longrightarrow> good g h \<Longrightarrow> good f h"
proof -
  assume q: "quiet f g" and g: "good g h"
  have "ptt_inv f \<Longrightarrow> ptt_inv g" "fr_pttLocked g = fr_pttLocked f" "hush f g"
    using quiet_steady [OF q] q by (simp_all add: steady_def quiet_def same_def)
  with g show "good f h" by (auto simp: good_def intro: hush_trans)
qed

lemma toggle_good: "good f (TogglePttTx U f)"
  by (simp add: TogglePttTx_def begin_good end_good)

lemma suppress_end_good: "good f (EndPttTx U (f\<lparr>fr_suppressHold := False\<rparr>))"
  by (rule quiet_then_good [OF _ end_good]) (intro quiet_update quiet_refl)

lemma buttons_good:
  "good f (OnPttDown U f)" "good f (OnPttUp U f)" "good f (OnPttButtonKeyDown U space f)"
  "good f (OnPttButtonKeyUp U space f)" "good f (OnPttButtonClicked U f)"
  by (simp_all add: OnPttDown_def OnPttUp_def OnPttButtonKeyDown_def OnPttButtonKeyUp_def OnPttButtonClicked_def
      begin_good suppress_end_good toggle_good)

lemma open_same: "same f (case uplink_open U f of (ok, g) \<Rightarrow> if ok then g\<lparr>fr_uplinkOpened := True\<rparr> else g)"
  by (auto simp: uplink_open_def same_def frame_emit_def uplink_ok_def samples_in_order_append uplink_is_open_def
      uplink_after_def split: prod.splits)

lemma call_good: "good f (OnCallSignalClicked U f)"
proof (cases "\<not> fr_pttLocked f")
  case True
  let ?g = "frame_SetStatus ''Sending call signal'' (f\<lparr>fr_callEnabled := False\<rparr>)"
  obtain ok g where o: "uplink_open U ?g = (ok, g)" by fastforce
  let ?h = "if ok then g\<lparr>fr_uplinkOpened := True\<rparr> else g"
  have "quiet f ?g" by (intro quiet_rules quiet_refl)
  then have fh: "same f ?h"
    using same_trans [OF _ open_same, of f ?g U] o by (simp add: quiet_def)
  let ?i = "if ok then with_audio U (StreamCallSignal (ue_audio U) (\<lambda>_. False) (ue_now U)) ?h else (False, ?h)"
  have "same f (snd ?i)"
    using fh same_trans [OF fh with_audio_same(1)] by auto
  then have "good f (snd ?i)" by (rule same_good) (use True in simp)
  moreover have "quiet i (RefreshPttUi (frame_SetStatus ''Call signal failed'' i))"
    "quiet i (RefreshPttUi (frame_SetStatus ''Connected'' ((uplink_close U i)\<lparr>fr_uplinkOpened := False\<rparr>)))"
    for i
    by (intro quiet_rules quiet_refl)+
  ultimately have "good f (RefreshPttUi (if fst ?i
      then frame_SetStatus ''Connected'' ((uplink_close U (snd ?i))\<lparr>fr_uplinkOpened := False\<rparr>)
      else frame_SetStatus ''Call signal failed'' (snd ?i)))" (is "good f ?j")
    by (cases "fst ?i") (simp_all only: if_True if_False good_steady quiet_steady)
  moreover have "OnCallSignalClicked U f = f \<or> OnCallSignalClicked U f = ?j"
    unfolding OnCallSignalClicked_def Let_def o case_prod_beta fst_conv snd_conv by simp
  ultimately show ?thesis by (elim disjE) simp_all
qed (simp add: OnCallSignalClicked_def)

lemma tx_stop_good: "good f (OnTxStop U f)"
proof -
  let ?g = "StopTxCountdownFromServer f"
  have "quiet f ?g" "quiet f (?g\<lparr>fr_suppressHold := True\<rparr>)" "quiet f (RefreshPttUi ?g)"
    by (intro quiet_rules quiet_refl)+
  moreover have "good h (frame_SetStatus s (EndPttTx U h))" for s h
    by (rule good_steady [OF end_good quiet_steady [OF quiet_status [OF quiet_refl]]])
  ultimately show ?thesis
    using end_good
    by (auto simp: OnTxStop_def Let_def intro: quiet_then_good steady_good quiet_steady)
qed

lemma force_abort:
  "steady f (ForceAbortOutgoingForServerPttLock U f)"
  "\<not> au_transmitting (fr_audio (ForceAbortOutgoingForServerPttLock U f))"
proof -
  let ?g = "do_audio U RequestAbortOutgoingSignalStream (StopTxCountdownFromServer f)"
  let ?h = "if au_transmitting (fr_audio ?g) then do_audio U (StopTransmit (ue_locks U) (ue_now U)) ?g else ?g"
  have "quiet f ?h"
    by (intro quiet_rules do_audio_quiet calm_frame_ops calmer_refl quiet_refl)
  then have "quiet f (if c then (uplink_abort U ?h)\<lparr>fr_uplinkOpened := False\<rparr> else ?h)" for c
    by - (rule quiet_if, erule quiet_abort)
  then show "steady f (ForceAbortOutgoingForServerPttLock U f)"
    unfolding ForceAbortOutgoingForServerPttLock_def Let_def by (rule quiet_steady)
  have "\<not> au_transmitting (fr_audio ?h)"
    by (simp add: do_audio_def with_audio_same)
  then show "\<not> au_transmitting (fr_audio (ForceAbortOutgoingForServerPttLock U f))"
    by (simp add: ForceAbortOutgoingForServerPttLock_def Let_def uplink_abort_def frame_emit_def)
qed

lemma lock_steady: "steady f (OnServerPttLockFromRelay U sec f)"
proof -
  let ?g = "ForceAbortOutgoingForServerPttLock U f"
  have "steady ?g (?g\<lparr>fr_pttLocked := True, fr_lockSec := max 0 sec\<rparr>)"
    using force_abort(2) [of U f]
    by (auto simp: steady_def ptt_inv_def guard_inv_def busy_inv_def hush_def uplink_ok_def)
  with force_abort(1) [of f U] start_busy_steady show ?thesis
    unfolding OnServerPttLockFromRelay_def Let_def
    by (intro steady_quiet [OF _ quiet_refresh [OF quiet_refl]] steady_trans [OF _ start_busy_steady])
      (rule steady_trans)
qed

lemma unlock_handler_steady: "steady f (OnServerPttUnlockFromRelay f)"
  unfolding OnServerPttUnlockFromRelay_def
  by (rule steady_quiet [OF _ quiet_refresh [OF quiet_refl]], rule steady_trans [OF unlock_steady stop_busy_steady])

lemma connected_steady: "steady f (on_connected U b f)"
proof -
  let ?f1 = "f\<lparr>fr_connected := b\<rparr>"
  let ?f2 = "StopBusyTimeoutCountdown (?f1\<lparr>fr_busyMode := False, fr_rxBroadcast := False, fr_pttLocked := False, fr_lockSec := 0\<rparr>)"
  let ?f3 = "if fr_wantsSession ?f2 \<and> fr_connected f then do_audio U (PlayConnectionErrorSignal (ue_audio U)) ?f2 else ?f2"
  have 1: "quiet f ?f1" "quiet f (?f1\<lparr>fr_busyMode := False, fr_rxBroadcast := False\<rparr>)"
    by (intro quiet_rules quiet_refl)+
  have "steady f (?f1\<lparr>fr_busyMode := False, fr_rxBroadcast := False, fr_pttLocked := False, fr_lockSec := 0\<rparr>)"
    by (rule steady_trans [OF quiet_steady [OF 1(2)] unlock_steady])
  then have "steady f ?f2" by (rule steady_trans [OF _ stop_busy_steady])
  then have "steady f ?f3"
    by (rule steady_quiet) (intro quiet_if do_audio_quiet calm_frame_ops calmer_refl quiet_refl)
  then have 3: "steady f (if \<not> b then ?f3 else ?f1)"
    by (rule steady_if) (rule quiet_steady [OF 1(1)])
  have "steady f (RefreshPttUi (ResetPttReleaseBurstGuard (h\<lparr>fr_hook := fr_connected h,
      fr_connectLabel := if b \<or> fr_wantsSession h then ''Disconnect'' else ''Connect''\<rparr>)))" if "steady f h" for h
  proof -
    have "quiet h (h\<lparr>fr_hook := fr_connected h,
        fr_connectLabel := if b \<or> fr_wantsSession h then ''Disconnect'' else ''Connect''\<rparr>)"
      by (intro quiet_rules quiet_refl)
    from steady_trans [OF steady_quiet [OF that this] reset_steady]
    show ?thesis by (rule steady_quiet [OF _ quiet_refresh [OF quiet_refl]])
  qed
  from this [OF 3] show ?thesis
    unfolding on_connected_def Let_def by (cases b) simp_all
qed

lemma welcome_steady: "steady f (on_welcome U cfg f)"
proof -
  let ?f1 = "(do_audio U (Reconfigure (ue_audio U) cfg) f)\<lparr>fr_busyMode := cw_busyMode cfg, fr_rxBroadcast := False\<rparr>"
  have "quiet f ?f1"
    by (intro quiet_update do_audio_quiet calm_frame_ops calmer_refl quiet_refl)
  then have "steady f (?f1\<lparr>fr_pttLocked := False, fr_lockSec := 0\<rparr>)"
    by (rule steady_trans [OF quiet_steady unlock_steady])
  then have "steady f (StopBusyTimeoutCountdown (?f1\<lparr>fr_pttLocked := False, fr_lockSec := 0\<rparr>))"
    by (rule steady_trans [OF _ stop_busy_steady])
  then show ?thesis
    unfolding on_welcome_def Let_def
    by (rule steady_quiet) (intro quiet_rules do_audio_quiet calm_frame_ops calmer_refl quiet_refl)
qed

section \<open>The queue and the other threads\<close>

lemma posted_good:
  assumes "\<And>t. p \<noteq> Post_BurstDecay t"
  shows "good f (run_posted U p f)"
proof (cases p)
  case (Post_Collision b)
  have "quiet f (on_collision b f)" unfolding on_collision_def by (intro quiet_rules quiet_refl)
  with Post_Collision show ?thesis by (simp add: steady_good quiet_steady)
next
  case (Post_TxPulse t)
  have "quiet f (tx_pulse U t f)"
    unfolding tx_pulse_def by (intro quiet_rules do_audio_quiet calm_frame_ops calmer_refl quiet_refl)
  with Post_TxPulse show ?thesis by (simp add: steady_good quiet_steady)
next
  case (Post_RelayStatus msg)
  have "quiet f (on_relay_status msg f)"
    unfolding on_relay_status_def Let_def by (intro quiet_rules quiet_refl)
  with Post_RelayStatus show ?thesis by (simp add: steady_good quiet_steady)
next
  case Post_BurstSync
  have "quiet f (burst_sync f)"
    unfolding burst_sync_def Let_def by (intro quiet_rules quiet_refl)
  with Post_BurstSync show ?thesis by (simp add: steady_good quiet_steady)
next
  case (Post_RxBroadcastStart b)
  have "quiet f (OnRxBroadcastStartFromRelay b f)"
    unfolding OnRxBroadcastStartFromRelay_def by (intro quiet_rules quiet_refl)
  with Post_RxBroadcastStart show ?thesis by (simp add: steady_good quiet_steady)
next
  case Post_RxBroadcastEnd
  have "quiet f (OnRxBroadcastEndFromRelay f)"
    unfolding OnRxBroadcastEndFromRelay_def Let_def by (intro quiet_rules quiet_refl)
  with Post_RxBroadcastEnd show ?thesis by (simp add: steady_good quiet_steady)
qed (use assms in \<open>auto intro: steady_good connected_steady welcome_steady lock_steady unlock_handler_steady
    tx_stop_good busy_tick_steady toggle_good begin_good end_good quiet_steady quiet_start_countdown
    quiet_status quiet_update quiet_refl\<close>)

lemma decay_good:
  assumes "ptt_inv f" and "fr_queue f = Post_BurstDecay t # ps"
  shows "ptt_inv (burst_decay t (f\<lparr>fr_queue := ps\<rparr>)) \<and> hush f (burst_decay t (f\<lparr>fr_queue := ps\<rparr>))"
proof -
  let ?f = "f\<lparr>fr_queue := ps\<rparr>"
  let ?g = "?f\<lparr>fr_burstCount := 0, fr_burstBlocked := False\<rparr>"
  let ?h = "if fr_burstTicket f \<noteq> t then ?f else ?g"
  have "ptt_inv ?h"
    using assms by (auto simp: ptt_inv_def guard_inv_def busy_inv_def uplink_ok_def kPttReleaseBurstBlockThreshold_def)
  moreover have "steady ?h (burst_decay t ?f)"
    unfolding burst_decay_def Let_def
    by (cases "fr_burstTicket f = t") (auto intro!: quiet_steady quiet_rules quiet_refl)
  moreover have "hush f ?h"
    by (simp add: hush_def)
  ultimately show ?thesis
    by (auto simp only: steady_def intro: hush_trans)
qed

lemma queue_good: "good f (run_queue U f)"
proof (cases "fr_queue f")
  case (Cons p ps)
  let ?f = "f\<lparr>fr_queue := ps\<rparr>"
  show ?thesis
  proof (cases "\<exists>t. p = Post_BurstDecay t")
    case True
    then obtain t where p: "p = Post_BurstDecay t" ..
    have "run_queue U f = burst_decay t ?f" using Cons p by (simp add: run_queue_def)
    then show ?thesis
      using decay_good [of f t ps] Cons p by (simp add: good_def)
  next
    case False
    then have "ptt_inv f \<Longrightarrow> ptt_inv ?f"
      using Cons by (auto simp: ptt_inv_def guard_inv_def busy_inv_def uplink_ok_def)
    moreover have "good ?f (run_posted U p ?f)" using False by (intro posted_good) auto
    ultimately show ?thesis
      using Cons by (auto simp: run_queue_def good_def hush_def)
  qed
qed (simp add: run_queue_def)

lemma relay_callbacks_quiet: "quiet f (fold (relay_callback U grants) cs f)"
proof (induction cs arbitrary: f)
  case (Cons c cs)
  have "quiet f (relay_callback U grants c f)"
    by (cases c) (auto intro!: quiet_post do_audio_quiet calm_frame_ops)
  with Cons show ?case by (auto intro: quiet_trans)
qed simp

lemma event_quiet: "session_event U self ev f = Some f' \<Longrightarrow> quiet f f'"
  using quiet_trans [OF quiet_update(20) [OF quiet_refl] relay_callbacks_quiet]
  by (auto simp: session_event_def split: option.splits prod.splits)

lemma disconnect_quiet: "frame_Disconnect U b f = Some f' \<Longrightarrow> quiet f f'"
  using quiet_trans [OF quiet_update(21) [OF quiet_update(20) [OF quiet_refl]] relay_callbacks_quiet]
  by (auto simp: frame_Disconnect_def split: option.splits prod.splits)

lemma try_connect_quiet: "TryConnectWithCurrentFields U cf f = Some (ok, f') \<Longrightarrow> quiet f f'"
  by (auto simp: TryConnectWithCurrentFields_def split: option.splits prod.splits
      intro!: quiet_rules)

lemma attempt_quiet: "quiet f (snd attempt) \<Longrightarrow> quiet f (after_attempt U status attempt)"
  unfolding after_attempt_def case_prod_beta
  by (intro quiet_rules do_audio_quiet calm_frame_ops calmer_refl)

text \<open>Leaving the session: quiet preparations, the disconnect, the guard reset, and the rest.\<close>

lemma leave_steady:
  assumes "quiet f g" "frame_Disconnect U b g = Some h"
  shows "steady f (ResetPttReleaseBurstGuard h)"
  by (rule steady_trans [OF quiet_steady reset_steady]) (rule quiet_trans [OF assms(1) disconnect_quiet [OF assms(2)]])

lemma connect_steady:
  assumes "OnConnectClicked U cf f = Some f'"
  shows "steady f f'"
proof -
  let ?g = "do_audio U (PlaySwitchNavSignal (ue_audio U) False) f"
  let ?d = "do_audio U (StopTransmit (ue_locks U) (ue_now U)) (StopTxCountdownFromServer
      (do_audio U (PlayManualDisconnectSignal (ue_audio U)) (?g\<lparr>fr_wantsSession := False\<rparr>)))"
  let ?c = "(do_audio U (PlayManualConnectStartSignal (ue_audio U) True) (?g\<lparr>fr_wantsSession := True\<rparr>))\<lparr>fr_connectLabel := ''Disconnect''\<rparr>"
  have d: "quiet f ?d" and c: "quiet f ?c"
    by (intro quiet_rules do_audio_quiet calm_frame_ops calmer_refl quiet_refl)+
  show ?thesis
  proof (cases "fr_connected ?g \<or> fr_wantsSession ?g")
    case True
    with assms obtain h where h: "frame_Disconnect U True ?d = Some h"
      and f': "f' = frame_SetStatus ''Disconnected'' (RefreshPttUi ((ResetPttReleaseBurstGuard h)\<lparr>fr_connected := False,
        fr_connectLabel := ''Connect'', fr_globalPressed := False, fr_toggleHookDown := False,
        fr_suppressHold := False, fr_hook := False\<rparr>))"
      by (auto simp: OnConnectClicked_def Let_def split: option.splits)
    from leave_steady [OF d h] show ?thesis
      unfolding f' by (rule steady_quiet) (intro quiet_rules quiet_refl)
  next
    case False
    with assms obtain ok h where h: "TryConnectWithCurrentFields U cf ?c = Some (ok, h)"
      and f': "f' = after_attempt U ''Connecting...'' (ok, h)"
      by (auto simp: OnConnectClicked_def Let_def)
    show ?thesis
      unfolding f' by (intro quiet_steady attempt_quiet) (simp add: quiet_trans [OF c try_connect_quiet [OF h]])
  qed
qed

lemma reconnect_steady:
  assumes "reconnect_with U before after cf f = Some f'"
  shows "steady f f'"
proof -
  let ?d = "do_audio U (StopTransmit (ue_locks U) (ue_now U)) f"
  have d: "quiet f ?d" by (intro do_audio_quiet calm_frame_ops calmer_refl quiet_refl)
  let ?r = "\<lambda>h. RefreshPttUi ((ResetPttReleaseBurstGuard h)\<lparr>fr_connected := False, fr_globalPressed := False,
      fr_toggleHookDown := False, fr_connectLabel := ''Disconnect''\<rparr>)"
  let ?s = "\<lambda>h. case before of None \<Rightarrow> ?r h | Some status \<Rightarrow> frame_SetStatus status (?r h)"
  from assms obtain h ok i where h: "frame_Disconnect U True ?d = Some h"
    and i: "TryConnectWithCurrentFields U cf (?s h) = Some (ok, i)" and f': "f' = after_attempt U after (ok, i)"
    by (auto simp: reconnect_with_def Let_def split: option.splits)
  have "quiet (ResetPttReleaseBurstGuard h) (?s h)"
    by (cases before) (auto intro!: quiet_rules)
  from steady_quiet [OF leave_steady [OF d h] quiet_trans [OF this try_connect_quiet [OF i]]]
  show ?thesis
    unfolding f' by (rule steady_quiet) (intro attempt_quiet, simp)
qed

lemma hook_quiet: "quiet f (GlobalPttKeyboardProc vkey isUp mods f)"
  unfolding GlobalPttKeyboardProc_def Let_def by (intro quiet_rules quiet_refl)

lemma settings_good: "good f (apply_ptt_settings U vkey mods showLevel newToggle f)"
proof -
  let ?g = "f\<lparr>fr_vkey := vkey, fr_mods := mods, fr_showLevel := showLevel\<rparr>"
  let ?h = "if fr_toggleMode ?g \<and> \<not> newToggle \<and> au_transmitting (fr_audio ?g) then EndPttTx U ?g else ?g"
  have g: "quiet f ?g" by (intro quiet_rules quiet_refl)
  have "good f ?h"
    using quiet_then_good [OF g end_good] steady_good [OF quiet_steady [OF g]] by (simp only: if_split) blast
  moreover have "quiet ?h (frame_SetStatus ''Settings applied'' (RefreshPttUi (?h\<lparr>fr_toggleMode := newToggle,
      fr_globalPressed := False, fr_toggleHookDown := False, fr_level := if showLevel then fr_level ?h else 0\<rparr>)))"
    by (intro quiet_rules quiet_refl)
  ultimately show ?thesis
    unfolding apply_ptt_settings_def Let_def by (rule good_steady [OF _ quiet_steady])
qed

lemma pump_good: "good f (snd (with_audio U (TxPumpTurn now) f))"
proof (cases "au_transmitting (fr_audio f)")
  case True
  then have "ptt_inv f \<Longrightarrow> \<not> fr_pttLocked f" by (simp add: ptt_inv_def)
  moreover have "\<not> fr_pttLocked f \<Longrightarrow> good f (snd (with_audio U (TxPumpTurn now) f))"
    by (rule same_good [OF with_audio_same(1)])
  ultimately show ?thesis by (auto simp: good_def)
next
  case False
  then show ?thesis by (intro steady_good quiet_steady with_audio_quiet calmer_pump_idle)
qed

section \<open>Every step\<close>

lemma step_good:
  assumes "frame_step W f f'"
  shows "good f f'"
  using assms
proof cases
  case (fs_switch U cf)
  then show ?thesis
    by (auto simp: switch_profile_def intro: steady_good reconnect_steady split: if_splits)
next
  case (fs_import U cf)
  then show ?thesis
    by (auto simp: import_reconnect_def intro: steady_good reconnect_steady split: if_splits)
next
  case (fs_capture U samples)
  then show ?thesis
    by (auto intro!: steady_good quiet_steady do_audio_quiet calm_frame_ops)
next
  case (fs_playback U grants n)
  then show ?thesis
    by (auto intro!: steady_good quiet_steady with_audio_quiet calm_frame_ops)
next
  case (fs_repeater U v)
  then show ?thesis
    by (auto simp: repeater_toggled_def intro!: steady_good quiet_steady quiet_rules)
next
  case (fs_pcm U grants samples)
  then show ?thesis
    by (simp add: session_pcm_def steady_good quiet_steady relay_callbacks_quiet)
next
  case (fs_reconnect U q r m)
  then show ?thesis
    by (auto intro!: steady_good quiet_steady quiet_rules)
qed (auto intro: buttons_good call_good queue_good settings_good pump_good steady_good connect_steady burst_timer_steady
    busy_turn_steady quiet_steady event_quiet hook_quiet quiet_tx_turn quiet_update)

lemma run_inv:
  assumes "(frame_step W)\<^sup>*\<^sup>* (frame_init F) f"
  shows "ptt_inv f"
  using assms
proof (induction rule: rtranclp_induct)
  case base
  show ?case
    by (simp add: ptt_inv_def guard_inv_def busy_inv_def uplink_ok_def frame_init_def audio_init_def
        kPttReleaseBurstBlockThreshold_def uplink_after_def)
next
  case (step f f')
  with step_good [OF step(2)] show ?case by (simp add: good_def)
qed

end
