(* ===== verification/Ptt_Props.thy ===== *)
theory Ptt_Props
  imports Frame_Props Manager_Props
begin

text \<open>
  What push to talk promises, from the invariant of its step relation and from its handlers: the
  silence of a locked client, the order of the uplink, the guard against quick releases, the
  countdown of the lock, and what a release and a stop by the server do.
\<close>

section \<open>A client and its surroundings\<close>

definition demo_ui :: "(jv, unit, int) ui_env" where
  "demo_ui = \<lparr>ue_net = demo_env,
     ue_audio = \<lparr>ae_flt = demo_flt, ae_file = (\<lambda>_. []), ae_contextOk = True, ae_captureDevices = 1,
       ae_playbackDevices = 1, ae_captureInitOk = True, ae_captureStartOk = True, ae_ringOk = True,
       ae_playbackInitOk = True, ae_playbackStartOk = True\<rparr>,
     ue_polls = (\<lambda>_. []), ue_locks = [True], ue_now = 0, ue_sched = demo_sched, ue_rounds = []\<rparr>"

definition demo_frame :: "(unit, int) frame" where
  "demo_frame = (frame_init demo_flt)\<lparr>
     fr_relay := (fr_relay (frame_init demo_flt :: (unit, int) frame))\<lparr>rl_sessionId := 1, rl_thread := True, rl_loopRunning := True\<rparr>,
     fr_manager := manager_init\<lparr>sm_sessions := [(1, \<lparr>mg_session = demo_session, mg_params = demo_params,
       mg_userIntent = True, mg_opLocked = False\<rparr>)]\<rparr>,
     fr_uplinkOpened := True, fr_audio := demo_audio\<rparr>"

text \<open>The client after the server's lock has come through.\<close>

definition demo_lock :: "(unit, int) frame" where
  "demo_lock = the (session_event demo_ui False (Event_default\<lparr>ev_type := Ev_PttLocked, ev_pttDisplaySec := 7\<rparr>)
     (frame_init demo_flt))"

lemma demo_lock_run:
  "(frame_step (\<lambda>U. U = demo_ui))\<^sup>*\<^sup>* (frame_init demo_flt) (run_queue demo_ui demo_lock)"
proof -
  have "session_event demo_ui False (Event_default\<lparr>ev_type := Ev_PttLocked, ev_pttDisplaySec := 7\<rparr>)
      (frame_init demo_flt :: (unit, int) frame) = Some demo_lock"
    unfolding demo_lock_def by (rule option.collapse [symmetric]) code_simp
  then have "frame_step (\<lambda>U. U = demo_ui) (frame_init demo_flt) demo_lock" by (rule fs_event [OF refl])
  then show ?thesis
    by (rule converse_rtranclp_into_rtranclp) (blast intro: r_into_rtranclp fs_queue)
qed

section \<open>The server's lock\<close>

text \<open>
  C1. A client the server has locked is silent: whatever it was doing, the lock switches the
  microphone off, and from then on, until the lock is gone, no step of the user, of a timer, of the
  audio devices or of the network opens the uplink or hands it a sample.
\<close>

theorem locked_client_is_silent:
  assumes "(frame_step W)\<^sup>*\<^sup>* (frame_init F) f"
  shows "fr_pttLocked (OnServerPttLockFromRelay U sec f)
    \<and> \<not> au_transmitting (fr_audio (OnServerPttLockFromRelay U sec f))
    \<and> (fr_pttLocked f \<longrightarrow> \<not> au_transmitting (fr_audio f) \<and>
        (\<forall>f'. frame_step W f f' \<longrightarrow>
           (\<exists>obs. fr_trace f' = fr_trace f @ obs \<and> (\<forall>ob \<in> set obs. \<forall>ok s. ob \<noteq> Fo_Open ok \<and> ob \<noteq> Fo_Pcm s))))"
proof -
  note inv = run_inv [OF assms]
  have locked: "fr_pttLocked (OnServerPttLockFromRelay U sec f)"
    by (auto simp: OnServerPttLockFromRelay_def StartBusyTimeoutCountdown_def StopBusyTimeoutCountdown_def
        RefreshPttUi_def Let_def)
  have "ptt_inv (OnServerPttLockFromRelay U sec f)"
    using lock_steady [of f U sec] inv by (simp add: steady_def)
  moreover have "\<exists>obs. fr_trace f' = fr_trace f @ obs \<and> (\<forall>ob \<in> set obs. \<forall>ok s. ob \<noteq> Fo_Open ok \<and> ob \<noteq> Fo_Pcm s)"
    if "fr_pttLocked f" "frame_step W f f'" for f'
    using step_good [OF that(2)] that(1) inv by (fastforce simp: good_def hush_def sends_def)
  ultimately show ?thesis
    using inv locked by (auto simp: ptt_inv_def)
qed

theorem locked_client_is_silent_witness:
  "fr_pttLocked (run_queue demo_ui demo_lock) \<and> \<not> au_transmitting (fr_audio (run_queue demo_ui demo_lock))"
proof -
  have "fr_pttLocked (run_queue demo_ui demo_lock)" by code_simp
  with locked_client_is_silent [OF demo_lock_run] show ?thesis by blast
qed

text \<open>
  The countdown of the lock is sound: the seconds shown never go below zero, a tick takes off
  one or none, and at most one countdown thread is current, however often the server locks.
\<close>

theorem lock_countdown_sound:
  assumes "(frame_step W)\<^sup>*\<^sup>* (frame_init F) f"
  shows "0 \<le> fr_lockSec f
    \<and> fr_lockSec (busy_tick t f) \<in> {fr_lockSec f - 1, fr_lockSec f} \<and> 0 \<le> fr_lockSec (busy_tick t f)
    \<and> length (filter (\<lambda>th. fst th = fr_busyTicket f) (fr_busyThreads f)) \<le> 1"
proof -
  note inv = run_inv [OF assms]
  have "fr_lockSec (busy_tick t f) \<in> {fr_lockSec f - 1, fr_lockSec f}"
    by (auto simp: busy_tick_def RefreshPttUi_def Let_def)
  moreover have "busy_inv (busy_tick t f)"
    using busy_tick_steady [of f t] inv by (simp add: steady_def ptt_inv_def)
  ultimately show ?thesis
    using inv by (simp add: ptt_inv_def busy_inv_def)
qed

theorem lock_countdown_sound_witness:
  "fr_lockSec (run_queue demo_ui demo_lock) = 7 \<and>
   length (filter (\<lambda>th. fst th = fr_busyTicket (run_queue demo_ui demo_lock)) (fr_busyThreads (run_queue demo_ui demo_lock))) \<le> 1"
proof -
  have "fr_lockSec (run_queue demo_ui demo_lock) = 7" by code_simp
  with lock_countdown_sound [OF demo_lock_run] show ?thesis by blast
qed

section \<open>The uplink\<close>

text \<open>
  C26. Samples go only where the uplink is open: in every run of the client each block of samples
  handed to the relay client comes after an opening that succeeded, with no close or abort in
  between.
\<close>

theorem samples_after_open:
  assumes "(frame_step W)\<^sup>*\<^sup>* (frame_init F) f"
  shows "samples_in_order False (fr_trace f)"
  using run_inv [OF assms] by (simp add: ptt_inv_def uplink_ok_def)

theorem samples_after_open_witness:
  "samples_in_order False (fr_trace (run_queue demo_ui demo_lock)) \<and> \<not> samples_in_order False [Fo_Open True, Fo_Close, Fo_Pcm [1]]"
  using samples_after_open [OF demo_lock_run] by (simp add: uplink_after_def)

section \<open>The guard\<close>

text \<open>
  C30. The guard against quick releases always reopens: push to talk is blocked exactly from the
  third release on, while it is blocked a timer with the current ticket sleeps or its decay is
  posted already, and that decay unblocks.
\<close>

theorem burst_guard_reopens:
  assumes "(frame_step W)\<^sup>*\<^sup>* (frame_init F) f"
  shows "(fr_burstBlocked f \<longleftrightarrow> 3 \<le> fr_burstCount f)
    \<and> (fr_burstBlocked f \<longrightarrow>
        fr_burstTicket f \<in> set (fr_burstTimers f) \<or> Post_BurstDecay (fr_burstTicket f) \<in> set (fr_queue f))
    \<and> \<not> fr_burstBlocked (run_posted U (Post_BurstDecay (fr_burstTicket f)) f)"
  using run_inv [OF assms]
  by (auto simp: ptt_inv_def guard_inv_def kPttReleaseBurstBlockThreshold_def burst_decay_def RefreshPttUi_def
      frame_SetStatus_def frame_emit_def Let_def)

theorem burst_guard_reopens_witness:
  "fr_burstCount (run_queue demo_ui demo_lock) = 0 \<and> \<not> fr_burstBlocked (run_queue demo_ui demo_lock)"
proof -
  have c: "fr_burstCount (run_queue demo_ui demo_lock) = 0" by code_simp
  from burst_guard_reopens [OF demo_lock_run, of demo_ui] have "\<not> fr_burstBlocked (run_queue demo_ui demo_lock)"
    unfolding c by (elim conjE) simp
  with c show ?thesis by blast
qed

section \<open>Release\<close>

lemma stream_loop_transmitting: "au_transmitting (snd (stream_loop frame abort k pcm a)) = au_transmitting a"
proof (induction frame abort k pcm a rule: stream_loop.induct)
  case (1 frame abort k pcm a)
  then show ?case
    by (subst stream_loop.simps) (simp add: Let_def RequestAbortOutgoingSignalStream_def emit_audio_def)
qed

lemma oneshot_transmitting: "au_transmitting (PlayOneShotHighQuality F pcm rate q a) = au_transmitting a"
  by (auto simp: PlayOneShotHighQuality_def emit_audio_def split: option.splits)

lemma roger_keeps_off:
  assumes "\<not> au_transmitting a"
  shows "\<not> au_transmitting (snd (StreamRogerSignal V abort now a))"
proof -
  have s: "\<not> au_transmitting (snd (sound_or_tones V name ts b))" if "\<not> au_transmitting b" for name ts b
    using calmer_sound [OF calmer_refl, of b V name ts] that by (auto simp: calmer_def)
  have b: "\<not> au_transmitting (begin_stream a)" using assms by (simp add: begin_stream_def)
  have g: "\<not> au_transmitting (snd (StreamGeneratedSignal abort pcm c))" if "\<not> au_transmitting c" for pcm c
    using that by (simp add: StreamGeneratedSignal_def stream_loop_transmitting)
  show ?thesis
    using assms s [OF b]
    by (auto simp: StreamRogerSignal_def Let_def case_prod_beta end_stream_def g oneshot_transmitting split: option.splits)
qed

text \<open>With the uplink open the frame callback hands on every frame and nothing else.\<close>

lemma callbacks_opened:
  assumes "fr_uplinkOpened f"
  shows "fr_trace (fold (audio_callback U) obs f) = fr_trace f @ map Fo_Pcm (frames_of obs)
    \<and> fr_uplinkOpened (fold (audio_callback U) obs f)"
  using assms
proof (induction obs arbitrary: f)
  case (Cons ob obs)
  have "fr_trace (audio_callback U ob f) = fr_trace f @ map Fo_Pcm (frames_of [ob])
      \<and> fr_uplinkOpened (audio_callback U ob f)"
    using Cons.prems by (cases ob) (auto simp: uplink_frame_def uplink_pcm_def frame_emit_def CallAfter_def)
  with Cons.IH [of "audio_callback U ob f"] show ?case by (auto split: audio_obs.splits)
qed simp

lemma with_audio_opened:
  assumes "fr_uplinkOpened f"
  shows "fr_trace (snd (with_audio U g f)) = fr_trace f @
      map Fo_Pcm (frames_of (drop (length (au_trace (fr_audio f))) (au_trace (snd (g (fr_audio f))))))"
    and "fr_uplinkOpened (snd (with_audio U g f))"
  using callbacks_opened [of "f\<lparr>fr_audio := snd (g (fr_audio f))\<rparr>" U] assms
  by (auto simp: with_audio_def case_prod_beta)

lemma calm_no_frames: "calmer a b \<Longrightarrow> frames_of (drop (length (au_trace a)) (au_trace b)) = []"
  by (auto simp: calmer_def)

text \<open>The fields of the buttons are nothing an engine operation changes.\<close>

lemma callbacks_buttons:
  "fr_suppressHold (fold (audio_callback U) obs f) = fr_suppressHold f \<and>
   fr_toggleMode (fold (audio_callback U) obs f) = fr_toggleMode f"
proof (induction obs arbitrary: f)
  case (Cons ob obs)
  have "fr_suppressHold (audio_callback U ob f) = fr_suppressHold f \<and> fr_toggleMode (audio_callback U ob f) = fr_toggleMode f"
    by (cases ob) (auto simp: uplink_frame_def uplink_open_def uplink_pcm_def frame_emit_def CallAfter_def split: prod.splits)
  with Cons show ?case by simp
qed simp

lemma with_audio_buttons:
  "fr_suppressHold (snd (with_audio U g f)) = fr_suppressHold f"
  "fr_toggleMode (snd (with_audio U g f)) = fr_toggleMode f"
  by (simp_all add: with_audio_def case_prod_beta callbacks_buttons)


lemma demo_frame_ready: "IsRelaySessionReady demo_frame" "au_transmitting (fr_audio demo_frame)" "fr_uplinkOpened demo_frame"
  "\<not> fr_toggleMode demo_frame"
  by code_simp+


section \<open>A stop by the server\<close>

text \<open>Presses of the button, of its key and of the hot key, with no release.\<close>

datatype press = Press_Mouse | Press_Key bool | Press_Hotkey int u32

fun do_press :: "('j, 'c, 'f) ui_env \<Rightarrow> press \<Rightarrow> ('c, 'f) frame \<Rightarrow> ('c, 'f) frame" where
  "do_press U Press_Mouse f = OnPttDown U f"
| "do_press U (Press_Key space) f = OnPttButtonKeyDown U space f"
| "do_press U (Press_Hotkey vkey mods) f = GlobalPttKeyboardProc vkey False mods f"

lemma presses_held:
  assumes "fr_suppressHold f" "\<not> fr_toggleMode f"
  shows "fr_suppressHold (fold (do_press U) ps f) \<and> fr_audio (fold (do_press U) ps f) = fr_audio f \<and>
    fr_trace (fold (do_press U) ps f) = fr_trace f \<and> fr_queue (fold (do_press U) ps f) = fr_queue f"
  using assms
proof (induction ps arbitrary: f)
  case (Cons p ps)
  have "fr_suppressHold (do_press U p f)" "\<not> fr_toggleMode (do_press U p f)" "fr_audio (do_press U p f) = fr_audio f"
    "fr_trace (do_press U p f) = fr_trace f" "fr_queue (do_press U p f) = fr_queue f"
    using Cons.prems
    by (cases p; simp add: OnPttDown_def OnPttButtonKeyDown_def GlobalPttKeyboardProc_def Let_def)+
  with Cons.IH [of "do_press U p f"] show ?case by simp
qed simp

lemma end_keeps_buttons:
  "fr_suppressHold (EndPttTx U f) = fr_suppressHold f" "fr_toggleMode (EndPttTx U f) = fr_toggleMode f"
  by (simp_all add: EndPttTx_def RefreshPttUi_def frame_SetStatus_def frame_emit_def uplink_close_def do_audio_def
      RecordPttReleaseBurst_def StopTxCountdownFromServer_def ArmPttReleaseBurstDecay_def CallAfter_def
      with_audio_buttons Let_def)

lemma end_switches_off:
  assumes "IsRelaySessionReady f"
  shows "\<not> au_transmitting (fr_audio (EndPttTx U f))"
  using assms
  by (simp add: roger_keeps_off EndPttTx_def RefreshPttUi_def frame_SetStatus_def frame_emit_def uplink_close_def do_audio_def
      with_audio_same Let_def)

text \<open>
  When the server stops a transmission in hold mode, the client does not start over by itself:
  the microphone is off, and no number of further presses - of the button, of its key, of the hot
  key, which repeats while it is held - switches it on, sends anything or posts a start, until
  there has been a release.
\<close>

theorem server_stop_holds:
  assumes "IsRelaySessionReady f" and "au_transmitting (fr_audio f)" and "\<not> fr_toggleMode f"
  shows "let f1 = OnTxStop U f; f2 = fold (do_press U) ps f1
    in \<not> au_transmitting (fr_audio f2) \<and> fr_trace f2 = fr_trace f1 \<and> fr_queue f2 = fr_queue f1
       \<and> \<not> fr_suppressHold (OnPttUp U f1)"
proof -
  let ?g = "(StopTxCountdownFromServer f)\<lparr>fr_suppressHold := True\<rparr>"
  have r: "IsRelaySessionReady ?g" "fr_audio ?g = fr_audio f" "fr_toggleMode ?g = fr_toggleMode f"
    using assms(1) by (simp_all add: StopTxCountdownFromServer_def IsRelaySessionReady_def)
  have s: "OnTxStop U f = frame_SetStatus ''TX stopped by server'' (EndPttTx U ?g)"
    using assms by (simp add: OnTxStop_def StopTxCountdownFromServer_def IsRelaySessionReady_def Let_def)
  have f1: "\<not> au_transmitting (fr_audio (OnTxStop U f))" "fr_suppressHold (OnTxStop U f)" "\<not> fr_toggleMode (OnTxStop U f)"
    unfolding s using end_switches_off [OF r(1)] assms(3) r(3)
    by (simp_all add: frame_SetStatus_def frame_emit_def end_keeps_buttons)
  then show ?thesis
    using presses_held [OF f1(2,3), of U ps] by (simp add: Let_def OnPttUp_def end_keeps_buttons)
qed

theorem server_stop_holds_witness:
  "\<not> au_transmitting (fr_audio (fold (do_press demo_ui) [Press_Mouse, Press_Key True] (OnTxStop demo_ui demo_frame)))"
  using server_stop_holds [OF demo_frame_ready(1,2,4), of demo_ui "[Press_Mouse, Press_Key True]"]
  by (simp only: Let_def) blast

end
