(* ===== verification/Jni_Bridge.thy ===== *)
theory Jni_Bridge
  imports C_Api
begin

text \<open>
  \<open>android/app/src/main/cpp/owalkie_jni.cpp\<close>, the library the Android application loads: the
  bindings that hold global references to the Java listener, the calls into the listener, and the
  native methods. The shared \<open>JniSessionBinding\<close> objects live in a list, named by their position;
  \<open>jn_refs\<close> is the table of global references of the virtual machine. What other threads do while
  one sleeps or while Java code runs is an argument of the function. Running out of memory in the
  virtual machine is modelled where the code looks for it (the array of samples).
\<close>

type_synonym jref = nat
type_synonym jlong = "64 word"

section \<open>State\<close>

record jni_binding =
  jb_id :: session_id
  jb_jvm :: bool
  jb_listener :: "jref option"
  jb_listenerClass :: "jref option"
  jb_onEvent :: bool
  jb_onRxPcm :: bool
  jb_depth :: int

definition jni_binding_new :: jni_binding where
  "jni_binding_new = \<lparr>jb_id = kInvalidSessionId, jb_jvm = False, jb_listener = None, jb_listenerClass = None,
     jb_onEvent = False, jb_onRxPcm = False, jb_depth = 0\<rparr>"

record 'c jni =
  jn_api :: "'c api"
  jn_heap :: "jni_binding list"
  jn_bindings :: "(session_id \<times> nat) list"
  jn_networkHandle :: jlong
  jn_hookInstalled :: bool
  jn_refs :: "jref list"
  jn_nextRef :: jref

definition jni_init :: "'c jni" where
  "jni_init = \<lparr>jn_api = api_init, jn_heap = [], jn_bindings = [], jn_networkHandle = 0,
     jn_hookInstalled = False, jn_refs = [], jn_nextRef = 0\<rparr>"

definition on_manager :: "('c manager \<Rightarrow> 'c manager) \<Rightarrow> 'c jni \<Rightarrow> 'c jni" where
  "on_manager f st = st\<lparr>jn_api := (jn_api st)\<lparr>ap_manager := f (ap_manager (jn_api st))\<rparr>\<rparr>"

definition jni_manager :: "'c jni \<Rightarrow> 'c manager" where
  "jni_manager st = ap_manager (jn_api st)"

definition put_binding :: "nat \<Rightarrow> jni_binding \<Rightarrow> 'c jni \<Rightarrow> 'c jni" where
  "put_binding b bd st = st\<lparr>jn_heap := (jn_heap st)[b := bd]\<rparr>"

section \<open>The network of the process\<close>

text \<open>\<open>unspecified\<close> is \<open>NETWORK_UNSPECIFIED\<close>; the hook hands the result to \<open>android_setprocnetwork\<close>.\<close>

definition net_handle_of :: "jlong \<Rightarrow> jlong \<Rightarrow> jlong" where
  "net_handle_of unspecified stored = (if stored = 0 then unspecified else stored)"

definition ensurePreConnectHook :: "'c jni \<Rightarrow> 'c jni" where
  "ensurePreConnectHook st =
     (if jn_hookInstalled st then st
      else on_manager (setPreConnectHook True) (st\<lparr>jn_hookInstalled := True\<rparr>))"

definition preConnectHook :: "jlong \<Rightarrow> 'c jni \<Rightarrow> jlong" where
  "preConnectHook unspecified st = net_handle_of unspecified (jn_networkHandle st)"

section \<open>Threads and the virtual machine\<close>

text \<open>Whether the thread is attached, whether attaching it would succeed, and whether its key is set.\<close>

record jthread =
  jt_attached :: bool
  jt_canAttach :: bool
  jt_key :: bool

definition workerJniThreadDetach :: "jthread \<Rightarrow> jthread" where
  "workerJniThreadDetach t = (if \<not> jt_key t then t else t\<lparr>jt_attached := False, jt_key := False\<rparr>)"

definition getWorkerEnv :: "bool \<Rightarrow> jthread \<Rightarrow> bool \<times> jthread" where
  "getWorkerEnv vm t =
     (if \<not> vm then (False, t)
      else if jt_attached t then (True, t)
      else if \<not> jt_canAttach t then (False, t)
      else (True, t\<lparr>jt_attached := True, jt_key := True\<rparr>))"

text \<open>The constructor of \<open>JniEnv\<close>: whether there is an environment, whether it attached the thread.\<close>

definition JniEnv_open :: "bool \<Rightarrow> jthread \<Rightarrow> (bool \<times> bool) \<times> jthread" where
  "JniEnv_open vm t =
     (if \<not> vm then ((False, False), t)
      else if jt_attached t then ((True, False), t)
      else if jt_canAttach t then ((True, True), t\<lparr>jt_attached := True\<rparr>)
      else ((False, False), t))"

definition JniEnv_close :: "bool \<Rightarrow> bool \<Rightarrow> jthread \<Rightarrow> jthread" where
  "JniEnv_close vm attached t = (if attached \<and> vm then t\<lparr>jt_attached := False\<rparr> else t)"

section \<open>Bindings\<close>

definition NewGlobalRef :: "'c jni \<Rightarrow> jref \<times> 'c jni" where
  "NewGlobalRef st = (jn_nextRef st, st\<lparr>jn_refs := jn_nextRef st # jn_refs st, jn_nextRef := jn_nextRef st + 1\<rparr>)"

definition DeleteGlobalRef :: "jref \<Rightarrow> 'c jni \<Rightarrow> 'c jni" where
  "DeleteGlobalRef r st = st\<lparr>jn_refs := filter (\<lambda>q. q \<noteq> r) (jn_refs st)\<rparr>"

definition delete_ref :: "jref option \<Rightarrow> 'c jni \<Rightarrow> 'c jni" where
  "delete_ref ref st = (case ref of None \<Rightarrow> st | Some r \<Rightarrow> DeleteGlobalRef r st)"

definition releaseBindingRefs :: "bool \<Rightarrow> nat \<Rightarrow> 'c jni \<Rightarrow> 'c jni" where
  "releaseBindingRefs env b st =
     (if \<not> env then st
      else
        let bd = jn_heap st ! b
        in put_binding b (bd\<lparr>jb_listener := None, jb_listenerClass := None\<rparr>)
             (delete_ref (jb_listenerClass bd) (delete_ref (jb_listener bd) st)))"

text \<open>
  The wait for the callbacks: the number counts the sleeps of 10 ms that are left, \<open>sleep\<close> is
  what the other threads do in each.
\<close>

fun depth_wait :: "nat \<Rightarrow> (nat \<Rightarrow> 'c jni \<Rightarrow> 'c jni) \<Rightarrow> nat \<Rightarrow> 'c jni \<Rightarrow> 'c jni" where
  "depth_wait b sleep 0 st = st"
| "depth_wait b sleep (Suc left) st =
     (if jb_depth (jn_heap st ! b) > 0 then depth_wait b sleep left (sleep left st) else st)"

definition eraseBinding :: "(nat \<Rightarrow> 'c jni \<Rightarrow> 'c jni) \<Rightarrow> jthread \<Rightarrow> session_id \<Rightarrow> 'c jni \<Rightarrow> 'c jni" where
  "eraseBinding sleep t sid st =
     (case um_find sid (jn_bindings st) of
        None \<Rightarrow> st
      | Some b \<Rightarrow>
          let st = st\<lparr>jn_bindings := um_erase sid (jn_bindings st)\<rparr>
          in if \<not> jb_jvm (jn_heap st ! b) then st
             else
               let st = depth_wait b sleep 500 st
               in releaseBindingRefs (fst (fst (JniEnv_open (jb_jvm (jn_heap st ! b)) t))) b st)"

section \<open>Calls into the listener\<close>

text \<open>The object called, the session, the type and the text, or the samples, their rate and length.\<close>

datatype jni_call =
    J_Event "jref option" session_id int "string option"
  | J_RxPcm "jref option" session_id pcm int int

definition depth_add :: "int \<Rightarrow> nat \<Rightarrow> 'c jni \<Rightarrow> 'c jni" where
  "depth_add d b st = put_binding b ((jn_heap st ! b)\<lparr>jb_depth := jb_depth (jn_heap st ! b) + d\<rparr>) st"

text \<open>
  \<open>java\<close> is what happens while the method of the listener runs. An exception it throws is
  described and cleared. The text is read up to its first NUL.
\<close>

definition event_guard :: "jni_binding \<Rightarrow> bool" where
  "event_guard bd \<longleftrightarrow> jb_jvm bd \<and> jb_listener bd \<noteq> None \<and> jb_onEvent bd"

definition dispatchEvent ::
  "('c jni \<Rightarrow> 'c jni) \<Rightarrow> nat \<Rightarrow> int \<Rightarrow> string option \<Rightarrow> jthread \<Rightarrow> 'c jni \<Rightarrow> jni_call list \<times> jthread \<times> 'c jni" where
  "dispatchEvent java b eventType info t st =
     (if \<not> event_guard (jn_heap st ! b) then ([], t, st)
      else (case getWorkerEnv (jb_jvm (jn_heap st ! b)) t of (env, t) \<Rightarrow>
        if \<not> env then ([], t, st)
        else
          let st = depth_add 1 b st;
              call = J_Event (jb_listener (jn_heap st ! b)) (jb_id (jn_heap st ! b)) eventType
                       (map_option (takeWhile (\<lambda>c. c \<noteq> CHR 0x00)) info);
              st = java st
          in ([call], t, depth_add (- 1) b st)))"

definition pcm_guard :: "jni_binding \<Rightarrow> bool" where
  "pcm_guard bd \<longleftrightarrow> jb_jvm bd \<and> jb_listener bd \<noteq> None \<and> jb_onRxPcm bd"

text \<open>\<open>array\<close> says whether the virtual machine could make the array.\<close>

definition dispatchRxPcm ::
  "bool \<Rightarrow> ('c jni \<Rightarrow> 'c jni) \<Rightarrow> nat \<Rightarrow> pcm \<Rightarrow> int \<Rightarrow> int \<Rightarrow> jthread \<Rightarrow> 'c jni \<Rightarrow> jni_call list \<times> jthread \<times> 'c jni" where
  "dispatchRxPcm array java b pcm sampleRate packetMs t st =
     (if \<not> pcm_guard (jn_heap st ! b) \<or> pcm = [] then ([], t, st)
      else (case getWorkerEnv (jb_jvm (jn_heap st ! b)) t of (env, t) \<Rightarrow>
        if \<not> env then ([], t, st)
        else
          let st = depth_add 1 b st
          in if \<not> array then ([], t, depth_add (- 1) b st)
             else
               let call = J_RxPcm (jb_listener (jn_heap st ! b)) (jb_id (jn_heap st ! b)) pcm sampleRate packetMs;
                   st = java st
               in ([call], t, depth_add (- 1) b st)))"

text \<open>The numbers of \<open>owalkie_event_type\<close>.\<close>

fun public_type_int :: "owalkie_event_type \<Rightarrow> int" where
  "public_type_int OWALKIE_EV_CONNECTED = 0"
| "public_type_int OWALKIE_EV_DISCONNECTED = 1"
| "public_type_int OWALKIE_EV_PROTOCOL_ERROR = 2"
| "public_type_int OWALKIE_EV_CONNECTION_FAILED = 3"
| "public_type_int OWALKIE_EV_RX_BROADCAST_START = 4"
| "public_type_int OWALKIE_EV_RX_BROADCAST_END = 5"
| "public_type_int OWALKIE_EV_PTT_LOCKED = 6"
| "public_type_int OWALKIE_EV_PTT_UNLOCKED = 7"
| "public_type_int OWALKIE_EV_TX_COUNTDOWN_START = 8"
| "public_type_int OWALKIE_EV_TX_STOP = 9"
| "public_type_int OWALKIE_EV_CONNECTION_LOST = 10"

definition jni_event_info :: "Event \<Rightarrow> string option" where
  "jni_event_info ev =
     (case ev_type ev of
        Ev_Connected \<Rightarrow> None
      | Ev_ConnectionFailed \<Rightarrow> Some (ev_disconnectReason ev)
      | Ev_Disconnected \<Rightarrow> Some (ev_disconnectReason ev)
      | Ev_ConnectionLost \<Rightarrow> Some (ev_disconnectReason ev)
      | Ev_ProtocolError \<Rightarrow> Some (ev_protocolError ev)
      | Ev_RxBroadcastStart \<Rightarrow> Some (if ev_rxBusyMode ev then ''true'' else ''false'')
      | Ev_PttLocked \<Rightarrow> Some (std_to_string (ev_pttDisplaySec ev))
      | _ \<Rightarrow> None)"

definition dispatchSessionEvent ::
  "('c jni \<Rightarrow> 'c jni) \<Rightarrow> nat \<Rightarrow> Event \<Rightarrow> jthread \<Rightarrow> 'c jni \<Rightarrow> jni_call list \<times> jthread \<times> 'c jni" where
  "dispatchSessionEvent java b ev t st =
     (if \<not> isVisible (ev_type ev) then ([], t, st)
      else dispatchEvent java b (public_type_int (toPublic (ev_type ev))) (jni_event_info ev) t st)"

text \<open>The two lambdas of \<open>makeSessionCallbacks\<close>.\<close>

definition jni_ending :: "EventType \<Rightarrow> bool" where
  "jni_ending ty \<longleftrightarrow> ty = Ev_ConnectionFailed \<or> ty = Ev_ProtocolError"

definition jni_onSessionEvent ::
  "('c jni \<Rightarrow> 'c jni) \<Rightarrow> (nat \<Rightarrow> 'c jni \<Rightarrow> 'c jni) \<Rightarrow> nat \<Rightarrow> Event \<Rightarrow> jthread \<Rightarrow> 'c jni \<Rightarrow>
   jni_call list \<times> jthread \<times> 'c jni" where
  "jni_onSessionEvent java sleep b ev t st =
     (case dispatchSessionEvent java b ev t st of (calls, t, st) \<Rightarrow>
        (calls, t, if jni_ending (ev_type ev) then eraseBinding sleep t (jb_id (jn_heap st ! b)) st else st))"

text \<open>What a session does that its callbacks hear.\<close>

definition jni_deliver ::
  "bool \<Rightarrow> ('c jni \<Rightarrow> 'c jni) \<Rightarrow> (nat \<Rightarrow> 'c jni \<Rightarrow> 'c jni) \<Rightarrow> nat \<Rightarrow> obs \<Rightarrow> jthread \<Rightarrow> 'c jni \<Rightarrow>
   jni_call list \<times> jthread \<times> 'c jni" where
  "jni_deliver array java sleep b ob t st =
     (case ob of
        O_Event ev \<Rightarrow> jni_onSessionEvent java sleep b ev t st
      | O_RxPcm pcm sampleRate packetMs \<Rightarrow> dispatchRxPcm array java b pcm sampleRate packetMs t st
      | _ \<Rightarrow> ([], t, st))"

definition mapPower :: "int \<Rightarrow> PowerProfile" where
  "mapPower profile = (if profile = 1 then Background else if profile = 2 then ActiveTx else Foreground)"

section \<open>The native methods\<close>

text \<open>
  A \<open>jlong\<close> is read as a signed number. The numbers of the core's \<open>Result\<close>, in the order of its
  declaration.
\<close>

definition bad_session :: "jlong \<Rightarrow> bool" where
  "bad_session sid \<longleftrightarrow> sint sid \<le> 0"

fun Result_int :: "Result \<Rightarrow> int" where
  "Result_int R_Ok = 0"
| "Result_int R_InvalidArg = 1"
| "Result_int R_AlreadyConnected = 2"
| "Result_int R_NotConnected = 3"
| "Result_int R_NotReady = 4"
| "Result_int R_Protocol = 5"
| "Result_int R_Network = 6"
| "Result_int R_Internal = 7"
| "Result_int R_Unsupported = 8"
| "Result_int R_BufferTooSmall = 9"
| "Result_int R_QueueFull = 10"
| "Result_int R_NoEvent = 11"

datatype jni_outcome = J_Returned int | J_Raised | J_Running

fun outcome_jni :: "outcome \<Rightarrow> jni_outcome" where
  "outcome_jni (Returned r) = J_Returned (Result_int r)"
| "outcome_jni Raised = J_Raised"
| "outcome_jni Running = J_Running"

text \<open>What the virtual machine answers: \<open>GetJavaVM\<close> and the lookups of the two methods.\<close>

record jvm_answers =
  ja_vm :: bool
  ja_onEvent :: bool
  ja_onRxPcm :: bool

definition new_binding :: "jvm_answers \<Rightarrow> 'c jni \<Rightarrow> nat \<times> 'c jni" where
  "new_binding ja st =
     (case NewGlobalRef st of (listener, st) \<Rightarrow> (case NewGlobalRef st of (listenerClass, st) \<Rightarrow>
        (length (jn_heap st),
         st\<lparr>jn_heap := jn_heap st @ [jni_binding_new\<lparr>jb_jvm := True, jb_listener := Some listener,
              jb_listenerClass := Some listenerClass, jb_onEvent := ja_onEvent ja, jb_onRxPcm := ja_onRxPcm ja\<rparr>]\<rparr>)))"

text \<open>The callback that registers the binding under the id it is given.\<close>

definition register_binding :: "nat \<Rightarrow> session_id \<Rightarrow> 'c jni \<Rightarrow> 'c jni" where
  "register_binding b allocated st =
     (let st = put_binding b ((jn_heap st ! b)\<lparr>jb_id := allocated\<rparr>) st
      in st\<lparr>jn_bindings := um_emplace allocated b (um_erase allocated (jn_bindings st))\<rparr>)"

definition nativePrepareConnection ::
  "jvm_answers \<Rightarrow> bool \<Rightarrow> string option \<Rightarrow> int \<Rightarrow> string option \<Rightarrow> bool \<Rightarrow> 'c jni \<Rightarrow> jlong \<times> 'c jni" where
  "nativePrepareConnection ja listener host port channel repeater st =
     (case (listener, host, channel) of
        (True, Some h, Some ch) \<Rightarrow>
          if \<not> ja_vm ja then (0, st)
          else (case new_binding ja st of (b, st) \<Rightarrow>
            if \<not> ja_onEvent ja \<or> \<not> ja_onRxPcm ja then (0, releaseBindingRefs True b st)
            else
              let params = \<lparr>cp_host = h, cp_port = port, cp_channel = ch, cp_useTls = False, cp_repeaterMode = repeater\<rparr>;
                  st = ensurePreConnectHook st
              in (case prepareConnection params True False (jni_manager st) of (sid, m) \<Rightarrow>
                    let st = on_manager (\<lambda>_. m) st
                    in if sid = kInvalidSessionId then (0, releaseBindingRefs True b st)
                       else (sid, on_manager (manager_setPowerProfile Foreground sid) (register_binding b sid st))))
      | _ \<Rightarrow> (0, st))"

definition nativeConnect ::
  "('j, 'c) env \<Rightarrow> 'c connect_sched \<Rightarrow> jlong \<Rightarrow> int \<Rightarrow> 'c jni \<Rightarrow> jni_outcome \<times> 'c jni" where
  "nativeConnect E sch sid timeoutMs st =
     (if bad_session sid then (J_Returned (Result_int R_InvalidArg), st)
      else
        let st = ensurePreConnectHook st
        in (case connect (with_signal E (jn_api st)) sch sid (if timeoutMs < 0 then 0 else timeoutMs) (jni_manager st) of
              (oc, m) \<Rightarrow> (outcome_jni oc, on_manager (\<lambda>_. m) st)))"

definition nativeDisconnect ::
  "(nat \<Rightarrow> ('c manager \<Rightarrow> 'c manager) list \<times> ('c manager \<Rightarrow> 'c manager)) \<Rightarrow> (nat \<Rightarrow> 'c jni \<Rightarrow> 'c jni) \<Rightarrow>
   jthread \<Rightarrow> jlong \<Rightarrow> 'c jni \<Rightarrow> 'c jni" where
  "nativeDisconnect attempt sleep t sid st =
     (if bad_session sid then st else eraseBinding sleep t sid (on_manager (disconnect sid attempt) st))"

definition nativeHaltAndRelease ::
  "('c manager \<Rightarrow> 'c manager) list \<Rightarrow> (nat \<Rightarrow> 'c jni \<Rightarrow> 'c jni) \<Rightarrow> jthread \<Rightarrow> jlong \<Rightarrow> 'c jni \<Rightarrow> 'c jni" where
  "nativeHaltAndRelease rounds sleep t sid st =
     (if bad_session sid then st else eraseBinding sleep t sid (on_manager (haltAndRelease sid rounds) st))"

text \<open>The ids are collected first, then their bindings are erased one after the other.\<close>

definition erase_all :: "(session_id \<Rightarrow> nat \<Rightarrow> 'c jni \<Rightarrow> 'c jni) \<Rightarrow> jthread \<Rightarrow> 'c jni \<Rightarrow> 'c jni" where
  "erase_all sleep t st = fold (\<lambda>sid. eraseBinding (sleep sid) t sid) (map fst (jn_bindings st)) st"

definition nativeDisconnectAll ::
  "(session_id \<Rightarrow> nat \<Rightarrow> ('c manager \<Rightarrow> 'c manager) list \<times> ('c manager \<Rightarrow> 'c manager)) \<Rightarrow>
   (session_id \<Rightarrow> nat \<Rightarrow> 'c jni \<Rightarrow> 'c jni) \<Rightarrow> jthread \<Rightarrow> 'c jni \<Rightarrow> 'c jni" where
  "nativeDisconnectAll attempt sleep t st = erase_all sleep t (on_manager (disconnectAll attempt) st)"

definition nativeDisconnectAllAndWait ::
  "(session_id \<Rightarrow> nat \<Rightarrow> ('c manager \<Rightarrow> 'c manager) list \<times> ('c manager \<Rightarrow> 'c manager)) \<Rightarrow>
   (int \<Rightarrow> ('c manager \<Rightarrow> 'c manager) list) \<Rightarrow> (session_id \<Rightarrow> nat \<Rightarrow> 'c jni \<Rightarrow> 'c jni) \<Rightarrow> jthread \<Rightarrow> int \<Rightarrow>
   'c jni \<Rightarrow> 'c jni" where
  "nativeDisconnectAllAndWait attempt rounds sleep t timeoutMs st =
     erase_all sleep t
       (on_manager (disconnectAllAndWait attempt (rounds (if timeoutMs < 0 then 3000 else timeoutMs))) st)"

definition nativeSessionValid :: "jlong \<Rightarrow> 'c jni \<Rightarrow> int" where
  "nativeSessionValid sid st = (if bad_session sid then 0 else c_int (isValid sid (jni_manager st)))"

definition nativeSessionReady :: "jlong \<Rightarrow> 'c jni \<Rightarrow> int" where
  "nativeSessionReady sid st = (if bad_session sid then 0 else c_int (isSessionReady sid (jni_manager st)))"

text \<open>An array of Java is its length; the second result is what is written to its front.\<close>

definition nativeGetSessionInfoFlags :: "jlong \<Rightarrow> nat option \<Rightarrow> 'c jni \<Rightarrow> int \<times> int list option" where
  "nativeGetSessionInfoFlags sid outInts st =
     (if bad_session sid \<or> outInts = None then (owalkie_result_int OWALKIE_ERR_INVALID_ARG, None)
      else if the outInts < 9 then (owalkie_result_int OWALKIE_ERR_INVALID_ARG, None)
      else (case owalkie_get_session_info sid True None (jn_api st) of
              (OWALKIE_OK, Some info) \<Rightarrow>
                (owalkie_result_int OWALKIE_OK,
                 Some [oi_ready info, oi_connected info, oi_udp_ready info, oi_connection_lost info, oi_receiving info,
                       oi_local_tx_active info, oi_ptt_server_locked info, oi_ptt_lock_display_sec info, oi_has_config info])
            | (r, _) \<Rightarrow> (owalkie_result_int r, None)))"

text \<open>The session id of the server is a 32-bit number that Java reads as a signed one.\<close>

definition nativeGetSessionInfoConfig :: "jlong \<Rightarrow> nat option \<Rightarrow> 'c jni \<Rightarrow> (string \<times> int list) option" where
  "nativeGetSessionInfoConfig sid outInts st =
     (if bad_session sid \<or> outInts = None then None
      else if the outInts < 10 then None
      else (case owalkie_get_session_info sid True (Some 32) (jn_api st) of
              (OWALKIE_OK, Some info) \<Rightarrow>
                if oi_has_config info = 0 then None
                else
                  let c = oi_config info
                  in Some (case ow_opus_application c of C_Buffer s \<Rightarrow> s | _ \<Rightarrow> [],
                           [sint (ow_session_id c), ow_protocol_version c, ow_sample_rate c, ow_packet_ms c,
                            ow_busy_mode c, ow_transmit_timeout_sec c, ow_opus_bitrate c, ow_opus_complexity c,
                            ow_opus_fec c, ow_opus_dtx c])
            | _ \<Rightarrow> None))"

definition nativeTxSubmit ::
  "('j, 'c) env \<Rightarrow> nat list \<Rightarrow> jlong \<Rightarrow> int \<Rightarrow> pcm option \<Rightarrow> 'c jni \<Rightarrow> int \<times> 'c jni" where
  "nativeTxSubmit E polls sid op pcm st =
     (if bad_session sid then (owalkie_result_int OWALKIE_ERR_INVALID_ARG, st)
      else if op = 1 \<and> (pcm = None \<or> pcm = Some []) then (owalkie_result_int OWALKIE_ERR_INVALID_ARG, st)
      else (case owalkie_tx_submit E polls sid op (if op = 1 then pcm else None) None (jn_api st) of
              (r, a) \<Rightarrow> (owalkie_result_int r, st\<lparr>jn_api := a\<rparr>)))"

definition nativeTxWaitIdle ::
  "('j, 'c) env \<Rightarrow> (nat \<times> nat) list \<Rightarrow> jlong \<Rightarrow> int \<Rightarrow> 'c jni \<Rightarrow> bool \<times> 'c jni" where
  "nativeTxWaitIdle E polls sid timeoutMs st =
     (if bad_session sid then (False, st)
      else (case owalkie_tx_wait_idle E polls sid timeoutMs (jn_api st) of (idle, a) \<Rightarrow> (idle \<noteq> 0, st\<lparr>jn_api := a\<rparr>)))"

text \<open>The result of the manager is dropped; an exception of it would leave the method.\<close>

definition nativeSetRepeater :: "('j, 'c) env \<Rightarrow> jlong \<Rightarrow> bool \<Rightarrow> 'c jni \<Rightarrow> bool \<times> 'c jni" where
  "nativeSetRepeater E sid enabled st =
     (if bad_session sid then (True, st)
      else (case manager_setRepeaterMode (with_signal E (jn_api st)) enabled sid (jni_manager st) of
              (oc, m) \<Rightarrow> (oc \<noteq> Raised, on_manager (\<lambda>_. m) st)))"

definition nativeSetPowerProfile :: "jlong \<Rightarrow> int \<Rightarrow> 'c jni \<Rightarrow> 'c jni" where
  "nativeSetPowerProfile sid profile st =
     (if bad_session sid then st else on_manager (manager_setPowerProfile (mapPower profile) sid) st)"

text \<open>\<open>rc\<close> is the answer of \<open>android_setprocnetwork\<close>, which gets the second result.\<close>

definition nativeBindProcessNetwork :: "jlong \<Rightarrow> int \<Rightarrow> jlong \<Rightarrow> 'c jni \<Rightarrow> int \<times> jlong \<times> 'c jni" where
  "nativeBindProcessNetwork unspecified rc networkHandle st =
     (if rc = 0 then 0 else - 1, net_handle_of unspecified networkHandle,
      ensurePreConnectHook (st\<lparr>jn_networkHandle := networkHandle\<rparr>))"

definition nativePunchNat :: "jlong \<Rightarrow> 'c jni \<Rightarrow> int \<times> 'c jni" where
  "nativePunchNat sid st =
     (if bad_session sid then (Result_int R_InvalidArg, st)
      else (case manager_punchNat sid (jni_manager st) of (r, m) \<Rightarrow> (Result_int r, on_manager (\<lambda>_. m) st)))"

definition jni_signal_mode :: "int \<Rightarrow> int" where
  "jni_signal_mode mode = (if mode = 1 then 1 else 0)"

definition nativeReportSignal :: "int \<Rightarrow> int \<Rightarrow> 'c jni \<Rightarrow> int \<times> 'c jni" where
  "nativeReportSignal mode v st =
     (case owalkie_report_signal (jni_signal_mode mode) v (jn_api st) of (r, a) \<Rightarrow> (owalkie_result_int r, st\<lparr>jn_api := a\<rparr>))"

definition nativeClearSignal :: "int \<Rightarrow> 'c jni \<Rightarrow> int \<times> 'c jni" where
  "nativeClearSignal mode st =
     (case owalkie_clear_signal (jni_signal_mode mode) (jn_api st) of (r, a) \<Rightarrow> (owalkie_result_int r, st\<lparr>jn_api := a\<rparr>))"

definition nativeGetUplinkSignalByte :: "'c jni \<Rightarrow> int" where
  "nativeGetUplinkSignalByte st = owalkie_get_uplink_signal_byte (jn_api st)"

definition nativeSetActivityFocused :: "jlong \<Rightarrow> bool \<Rightarrow> 'c jni \<Rightarrow> 'c jni" where
  "nativeSetActivityFocused sid focused st =
     (if bad_session sid then st
      else on_manager (manager_setPowerProfile (if focused then Foreground else Background) sid) st)"

text \<open>The result, what is written to the array, and the time when the probe has ended.\<close>

definition nativeCheckChannelActivity ::
  "'j json_lib \<Rightarrow> probe_env \<Rightarrow> (nat \<times> ws_read) list \<Rightarrow> string option \<Rightarrow> int \<Rightarrow> string option \<Rightarrow> int \<Rightarrow>
   nat option \<Rightarrow> int \<Rightarrow> (int \<times> int option \<times> int) option" where
  "nativeCheckChannelActivity L net reads host port channel timeoutMs outActive now =
     (if host = None \<or> channel = None \<or> outActive = None then Some (owalkie_result_int OWALKIE_ERR_INVALID_ARG, None, now)
      else if the outActive < 1 then Some (owalkie_result_int OWALKIE_ERR_INVALID_ARG, None, now)
      else
        let params = \<lparr>cc_host = host, cc_port = port, cc_channel = channel, cc_use_tls = 0, cc_repeater_mode = 0\<rparr>
        in map_option (\<lambda>(rc, active, end_ms).
               (owalkie_result_int rc, if rc = OWALKIE_OK then Some (case active of Some a \<Rightarrow> a | None \<Rightarrow> 0) else None, end_ms))
             (owalkie_check_channel_activity L net reads (Some params) (if timeoutMs < 0 then 0 else timeoutMs) True now))"

end
