(* ===== verification/Jni_Props.thy ===== *)
theory Jni_Props
  imports Jni_Bridge C_Api_Props "HOL-Library.Multiset"
begin

text \<open>
  Properties of the Android bridge: the table of global references holds exactly those of the
  registered bindings in every reachable state, what the listener hears and when it stops, the
  race between a callback and the release of the references, and the numbers of the results.
\<close>

section \<open>Counting references\<close>

definition binding_refs :: "jni_binding \<Rightarrow> jref list" where
  "binding_refs bd = (case jb_listener bd of None \<Rightarrow> [] | Some r \<Rightarrow> [r]) @
     (case jb_listenerClass bd of None \<Rightarrow> [] | Some r \<Rightarrow> [r])"

definition held :: "jni_binding list \<Rightarrow> jref multiset" where
  "held bds = mset (concat (map binding_refs bds))"

lemma held_append [simp]: "held (xs @ ys) = held xs + held ys"
  by (simp add: held_def)

lemma held_update:
  "b < length bds \<Longrightarrow> held (bds[b := bd]) + mset (binding_refs (bds ! b)) = held bds + mset (binding_refs bd)"
  by (induction bds arbitrary: b) (auto simp: held_def nth_Cons' split: nat.split)

lemma held_same: "binding_refs bd = binding_refs (bds ! b) \<Longrightarrow> held (bds[b := bd]) = held bds"
  using held_update [of b bds bd] by (cases "b < length bds") (simp_all add: list_update_beyond)

lemma held_in: "b < length bds \<Longrightarrow> set (binding_refs (bds ! b)) \<subseteq> set_mset (held bds)"
  by (auto simp: held_def dest: nth_mem)

text \<open>A binding that owns both of its references, or one that has given them up.\<close>

definition slot_ok :: "bool \<Rightarrow> jni_binding \<Rightarrow> bool" where
  "slot_ok owner bd \<longleftrightarrow> jb_jvm bd \<and>
     (if owner then jb_listener bd \<noteq> None \<and> jb_listenerClass bd \<noteq> None else binding_refs bd = [])"

lemma slot_ok_depth [simp]: "slot_ok owner (bd\<lparr>jb_depth := n\<rparr>) = slot_ok owner bd" "slot_ok owner (bd\<lparr>jb_id := i\<rparr>) = slot_ok owner bd"
  by (simp_all add: slot_ok_def binding_refs_def)

text \<open>
  \<open>out\<close> are the bindings under erasure: taken out of the map, their references not yet released.
\<close>

definition jni_inv :: "nat set \<Rightarrow> 'c jni \<Rightarrow> bool" where
  "jni_inv out st \<longleftrightarrow>
     distinct (jn_refs st) \<and> (\<forall>r \<in> set (jn_refs st). r < jn_nextRef st)
     \<and> mset (jn_refs st) = held (jn_heap st)
     \<and> distinct (map fst (jn_bindings st))
     \<and> (\<forall>(sid, b) \<in> set (jn_bindings st). b < length (jn_heap st) \<and> b \<notin> out \<and> jb_id (jn_heap st ! b) = sid)
     \<and> (\<forall>b < length (jn_heap st). slot_ok (b \<in> snd ` set (jn_bindings st) \<union> out) (jn_heap st ! b))
     \<and> (\<forall>b \<in> out. b < length (jn_heap st))"

lemma jni_inv_init: "jni_inv {} jni_init"
  by (simp add: jni_inv_def jni_init_def held_def)

text \<open>Steps that touch neither the bindings nor the references.\<close>

definition same_refs :: "'c jni \<Rightarrow> 'c jni \<Rightarrow> bool" where
  "same_refs st st' \<longleftrightarrow> jn_heap st' = jn_heap st \<and> jn_bindings st' = jn_bindings st
     \<and> jn_refs st' = jn_refs st \<and> jn_nextRef st' = jn_nextRef st"

lemma jni_inv_same: "same_refs st st' \<Longrightarrow> jni_inv out st' = jni_inv out st"
  by (simp add: same_refs_def jni_inv_def)

lemma same_refs_simps [simp]:
  "same_refs st st" "same_refs st (on_manager f st)" "same_refs st (ensurePreConnectHook st)"
  "same_refs st (st\<lparr>jn_api := a\<rparr>)" "same_refs st (st\<lparr>jn_networkHandle := h\<rparr>)"
  by (simp_all add: same_refs_def on_manager_def ensurePreConnectHook_def)

lemma same_refs_trans: "same_refs a b \<Longrightarrow> same_refs b c \<Longrightarrow> same_refs a c"
  by (simp add: same_refs_def)

lemma jni_inv_slots:
  assumes "jni_inv out st" "binding_refs bd = binding_refs (jn_heap st ! b)" "jb_id bd = jb_id (jn_heap st ! b)"
    "\<And>owner. slot_ok owner bd = slot_ok owner (jn_heap st ! b)"
  shows "jni_inv out (put_binding b bd st)"
proof -
  have nth: "(jn_heap st)[b := bd] ! i = (if i = b then bd else jn_heap st ! i)" if "i < length (jn_heap st)" for i
    using that by simp
  show ?thesis
    using assms unfolding jni_inv_def put_binding_def by (auto simp: held_same nth split: if_splits)
qed

lemma jni_inv_depth: "jni_inv out st \<Longrightarrow> jni_inv out (depth_add d b st)"
  unfolding depth_add_def by (rule jni_inv_slots) (simp_all add: binding_refs_def)

lemma releaseBindingRefs_fields [simp]:
  "jn_bindings (releaseBindingRefs env b st) = jn_bindings st"
  "jn_nextRef (releaseBindingRefs env b st) = jn_nextRef st"
  "jn_heap (releaseBindingRefs True b st)
     = (jn_heap st)[b := (jn_heap st ! b)\<lparr>jb_listener := None, jb_listenerClass := None\<rparr>]"
  "jn_refs (releaseBindingRefs True b st) = filter (\<lambda>r. r \<notin> set (binding_refs (jn_heap st ! b))) (jn_refs st)"
  by (auto simp: releaseBindingRefs_def Let_def put_binding_def delete_ref_def DeleteGlobalRef_def binding_refs_def
      split: option.split intro: filter_cong)

lemma mset_filter_sub:
  assumes "distinct xs" "distinct ys" "set ys \<subseteq> set xs"
  shows "mset (filter (\<lambda>x. x \<notin> set ys) xs) = mset xs - mset ys"
  using assms by (metis distinct_filter mset_set_Diff mset_set_set set_filter set_diff_eq finite_set)

lemma jni_inv_release:
  assumes "jni_inv (insert b out) st" "b \<notin> out"
  shows "jni_inv out (releaseBindingRefs True b st)"
proof -
  let ?bd = "(jn_heap st ! b)\<lparr>jb_listener := None, jb_listenerClass := None\<rparr>"
  let ?refs = "binding_refs (jn_heap st ! b)"
  have b: "b < length (jn_heap st)" using assms by (simp add: jni_inv_def)
  have m: "mset (jn_refs st) = held (jn_heap st)" and d: "distinct (jn_refs st)" using assms by (simp_all add: jni_inv_def)
  have up: "held ((jn_heap st)[b := ?bd]) + mset ?refs = held (jn_heap st)"
    using held_update [OF b, of ?bd] by (simp add: binding_refs_def)
  have split: "mset (jn_refs st) = mset (concat (map binding_refs ((jn_heap st)[b := ?bd])) @ ?refs)"
    using up m by (simp add: held_def)
  then have dd: "distinct (concat (map binding_refs ((jn_heap st)[b := ?bd])) @ ?refs)"
    using d mset_eq_imp_distinct_iff by blast
  then have db: "distinct ?refs" by simp
  have sub: "set ?refs \<subseteq> set (jn_refs st)"
    using mset_eq_setD [OF split] by auto
  have "mset (filter (\<lambda>r. r \<notin> set ?refs) (jn_refs st)) = held ((jn_heap st)[b := ?bd])"
    unfolding mset_filter_sub [OF d db sub] m using up by (metis add_diff_cancel_right')
  moreover have reg: "b \<notin> snd ` set (jn_bindings st)" using assms(1) by (auto simp: jni_inv_def)
  moreover have "slot_ok (i \<in> snd ` set (jn_bindings st) \<union> out) ((jn_heap st)[b := ?bd] ! i)"
    if i: "i < length (jn_heap st)" for i
  proof -
    have old: "slot_ok (i \<in> snd ` set (jn_bindings st) \<union> insert b out) (jn_heap st ! i)"
      using assms(1) i unfolding jni_inv_def by blast
    show ?thesis
    proof (cases "i = b")
      case True
      with old i reg assms(2) show ?thesis by (simp add: slot_ok_def binding_refs_def)
    next
      case False
      with old i show ?thesis by simp
    qed
  qed
  ultimately show ?thesis
    using assms b unfolding jni_inv_def releaseBindingRefs_fields by (auto simp: nth_list_update)
qed

section \<open>Runs of the bridge\<close>

lemma depth_wait_ind:
  assumes "P st" "\<And>k s. P s \<Longrightarrow> P (sleep k s)"
  shows "P (depth_wait b sleep n st)"
  using assms(1) by (induction n arbitrary: st) (auto intro: assms(2))

definition thread_ok :: "jthread \<Rightarrow> bool" where
  "thread_ok t \<longleftrightarrow> jt_attached t \<or> jt_canAttach t"

lemma thread_env [simp]: "thread_ok t \<Longrightarrow> fst (fst (JniEnv_open True t))"
  by (auto simp: thread_ok_def JniEnv_open_def)

lemma thread_worker [simp]: "thread_ok t \<Longrightarrow> fst (getWorkerEnv True t)" "thread_ok t \<Longrightarrow> thread_ok (snd (getWorkerEnv vm t))"
  by (auto simp: thread_ok_def getWorkerEnv_def)

lemma um_find_in: "um_find k m = Some v \<Longrightarrow> (k, v) \<in> set m"
  unfolding um_find_def by (rule map_of_SomeD)

lemma jni_inv_unregister:
  assumes "jni_inv out st" "um_find sid (jn_bindings st) = Some b"
  shows "jni_inv (insert b out) (st\<lparr>jn_bindings := um_erase sid (jn_bindings st)\<rparr>)" "b \<notin> out" "jb_jvm (jn_heap st ! b)"
proof -
  have mem: "(sid, b) \<in> set (jn_bindings st)" by (rule um_find_in [OF assms(2)])
  with assms(1) have b: "b < length (jn_heap st)" "b \<notin> out" "jb_id (jn_heap st ! b) = sid" by (auto simp: jni_inv_def)
  have slots: "\<forall>i < length (jn_heap st). slot_ok (i \<in> snd ` set (jn_bindings st) \<union> out) (jn_heap st ! i)"
    using assms(1) by (simp add: jni_inv_def)
  show "b \<notin> out" "jb_jvm (jn_heap st ! b)" using slots b by (auto simp: slot_ok_def)
  have keys: "distinct (map fst (jn_bindings st))" using assms(1) by (simp add: jni_inv_def)
  have ids: "jb_id (jn_heap st ! c) = k" if "(k, c) \<in> set (jn_bindings st)" for k c
    using assms(1) that by (auto simp: jni_inv_def)
  have mem_iff: "(k, c) \<in> set (um_erase sid (jn_bindings st)) \<longleftrightarrow> (k, c) \<in> set (jn_bindings st) \<and> k \<noteq> sid" for k c
    by (simp add: um_erase_def)
  have one: "c = b" if "(sid, c) \<in> set (jn_bindings st)" for c
    using that mem keys by (meson eq_key_imp_eq_value)
  have "snd ` set (jn_bindings st) = insert b (snd ` set (um_erase sid (jn_bindings st)))"
  proof (intro set_eqI iffI)
    fix i assume "i \<in> snd ` set (jn_bindings st)"
    then obtain k where k: "(k, i) \<in> set (jn_bindings st)" by auto
    show "i \<in> insert b (snd ` set (um_erase sid (jn_bindings st)))"
    proof (cases "k = sid")
      case True with k one show ?thesis by simp
    next
      case False
      with k have "(k, i) \<in> set (um_erase sid (jn_bindings st))" by (simp add: mem_iff)
      then show ?thesis by (metis image_eqI insertI2 snd_conv)
    qed
  next
    fix i assume "i \<in> insert b (snd ` set (um_erase sid (jn_bindings st)))"
    then show "i \<in> snd ` set (jn_bindings st)"
      using mem by (auto simp: um_erase_def intro: image_eqI [of _ snd "(sid, b)"])
  qed
  then have owners: "snd ` set (um_erase sid (jn_bindings st)) \<union> insert b out = snd ` set (jn_bindings st) \<union> out"
    by simp
  have slots: "\<forall>i < length (jn_heap st).
      slot_ok (i \<in> snd ` set (um_erase sid (jn_bindings st)) \<union> insert b out) (jn_heap st ! i)"
    unfolding owners by (rule slots)
  have entries: "case e of (k, c) \<Rightarrow> c < length (jn_heap st) \<and> c \<notin> insert b out \<and> jb_id (jn_heap st ! c) = k"
    if "e \<in> set (um_erase sid (jn_bindings st))" for e
    using that assms(1) b(3) by (auto simp: um_erase_def jni_inv_def)
  show "jni_inv (insert b out) (st\<lparr>jn_bindings := um_erase sid (jn_bindings st)\<rparr>)"
    unfolding jni_inv_def
  proof (intro conjI)
    show "distinct (map fst (jn_bindings (st\<lparr>jn_bindings := um_erase sid (jn_bindings st)\<rparr>)))"
      using keys by (simp add: um_erase_def distinct_map_filter)
  qed (use assms(1) b entries slots in \<open>simp_all add: jni_inv_def\<close>)
qed

lemma jni_inv_erase:
  assumes "jni_inv out st" "thread_ok t" and sleep: "\<And>k s out. jni_inv out s \<Longrightarrow> jni_inv out (sleep k s)"
  shows "jni_inv out (eraseBinding sleep t sid st)"
proof (cases "um_find sid (jn_bindings st)")
  case (Some b)
  note un = jni_inv_unregister [OF assms(1) Some]
  let ?st = "depth_wait b sleep 500 (st\<lparr>jn_bindings := um_erase sid (jn_bindings st)\<rparr>)"
  have w: "jni_inv (insert b out) ?st" by (rule depth_wait_ind [OF un(1) sleep])
  then have "jb_jvm (jn_heap ?st ! b)" by (auto simp: jni_inv_def slot_ok_def)
  with jni_inv_release [OF w un(2)] un(3) assms(2) Some show ?thesis
    by (simp add: eraseBinding_def Let_def)
qed (simp add: eraseBinding_def assms)

text \<open>
  A run of the bridge: native methods and deliveries to the listener, in any order and nested at
  will, as other threads act while one sleeps and Java calls back while a callback runs. A new
  session's id has no binding (ids are not given out twice).
\<close>

definition fresh_id :: "'c jni \<Rightarrow> bool" where
  "fresh_id st \<longleftrightarrow> um_find (sm_nextId (jni_manager st)) (jn_bindings st) = None"

inductive jni_run :: "'c jni \<Rightarrow> 'c jni \<Rightarrow> bool" where
  jr_refl: "jni_run st st"
| jr_trans: "jni_run st st' \<Longrightarrow> jni_run st' st'' \<Longrightarrow> jni_run st st''"
| jr_quiet: "same_refs st st' \<Longrightarrow> jni_run st st'"
| jr_prepare: "fresh_id st \<Longrightarrow> jni_run st (snd (nativePrepareConnection ja listener host port channel repeater st))"
| jr_erase: "thread_ok t \<Longrightarrow> (\<And>k s. jni_run s (sleep k s)) \<Longrightarrow> jni_run st (eraseBinding sleep t sid st)"
| jr_deliver: "thread_ok t \<Longrightarrow> (\<And>s. jni_run s (java s)) \<Longrightarrow> (\<And>k s. jni_run s (sleep k s)) \<Longrightarrow>
    jni_run st (snd (snd (jni_deliver array java sleep b ob t st)))"

lemma jni_inv_new:
  assumes "jni_inv out st" "new_binding ja st = (b, st')"
  shows "jni_inv (insert b out) st'" "b < length (jn_heap st')" "jn_bindings st' = jn_bindings st"
    "jni_manager st' = jni_manager st" "b \<notin> snd ` set (jn_bindings st)" "b \<notin> out"
proof -
  let ?n = "length (jn_heap st)" and ?r = "jn_nextRef st"
  let ?bd = "jni_binding_new\<lparr>jb_jvm := True, jb_listener := Some ?r, jb_listenerClass := Some (Suc ?r),
      jb_onEvent := ja_onEvent ja, jb_onRxPcm := ja_onRxPcm ja\<rparr>"
  have st': "b = ?n" "st' = st\<lparr>jn_refs := Suc ?r # ?r # jn_refs st, jn_nextRef := Suc (Suc ?r), jn_heap := jn_heap st @ [?bd]\<rparr>"
    using assms(2) by (auto simp: new_binding_def NewGlobalRef_def)
  have old: "i < ?n" if "i \<in> snd ` set (jn_bindings st) \<union> out" for i
    using assms(1) that unfolding jni_inv_def by fastforce
  show "b < length (jn_heap st')" "jn_bindings st' = jn_bindings st" "jni_manager st' = jni_manager st"
    by (simp_all add: st' jni_manager_def)
  show "b \<notin> snd ` set (jn_bindings st)" "b \<notin> out" using old [of ?n] by (auto simp: st')
  have slots: "slot_ok (i \<in> snd ` set (jn_bindings st) \<union> insert ?n out) ((jn_heap st @ [?bd]) ! i)" if "i < Suc ?n" for i
  proof (cases "i = ?n")
    case False
    with that have "i < ?n" by simp
    then have "slot_ok (i \<in> snd ` set (jn_bindings st) \<union> out) (jn_heap st ! i)"
      using assms(1) unfolding jni_inv_def by blast
    with \<open>i < ?n\<close> show ?thesis by (simp add: nth_append)
  qed (simp add: slot_ok_def)
  have entries: "i < Suc ?n \<and> i \<notin> insert ?n out \<and> jb_id ((jn_heap st @ [?bd]) ! i) = k"
    if "(k, i) \<in> set (jn_bindings st)" for k i
    using assms(1) that unfolding jni_inv_def by (fastforce simp: nth_append)
  show "jni_inv (insert b out) st'"
    unfolding jni_inv_def st'
  proof (intro conjI)
    show "\<forall>i \<in> insert ?n out. i < length (jn_heap (st\<lparr>jn_refs := Suc ?r # ?r # jn_refs st, jn_nextRef := Suc (Suc ?r),
        jn_heap := jn_heap st @ [?bd]\<rparr>))"
      using old by (simp add: less_Suc_eq)
  qed (use assms(1) slots entries in \<open>auto simp: jni_inv_def held_def binding_refs_def\<close>)
qed

lemma jni_inv_register:
  assumes "jni_inv (insert b out) st" "b < length (jn_heap st)" "um_find sid (jn_bindings st) = None"
    "b \<notin> snd ` set (jn_bindings st)" "b \<notin> out"
  shows "jni_inv out (register_binding b sid st)"
proof -
  have keys: "sid \<notin> fst ` set (jn_bindings st)"
    using assms(3) by (simp add: um_find_def map_of_eq_None_iff)
  then have er: "um_erase sid (jn_bindings st) = jn_bindings st"
    unfolding um_erase_def by (intro filter_True) force
  let ?bd = "(jn_heap st ! b)\<lparr>jb_id := sid\<rparr>"
  have refs: "binding_refs ?bd = binding_refs (jn_heap st ! b)" by (simp add: binding_refs_def)
  have st': "register_binding b sid st = st\<lparr>jn_heap := (jn_heap st)[b := ?bd], jn_bindings := jn_bindings st @ [(sid, b)]\<rparr>"
    using assms(3) by (simp add: register_binding_def er put_binding_def um_emplace_def)
  have slots: "slot_ok (i \<in> snd ` set (jn_bindings st @ [(sid, b)]) \<union> out) ((jn_heap st)[b := ?bd] ! i)"
    if "i < length (jn_heap st)" for i
  proof -
    have "slot_ok (i \<in> snd ` set (jn_bindings st) \<union> insert b out) (jn_heap st ! i)"
      using assms(1) that unfolding jni_inv_def by blast
    then show ?thesis using that assms(2) by (cases "i = b") simp_all
  qed
  have entries: "i < length (jn_heap st) \<and> i \<notin> out \<and> jb_id ((jn_heap st)[b := ?bd] ! i) = k"
    if "(k, i) \<in> set (jn_bindings st @ [(sid, b)])" for k i
    using assms that unfolding jni_inv_def by (force simp: nth_list_update)
  show ?thesis
    unfolding jni_inv_def st'
    using assms(1) keys slots entries by (auto simp: jni_inv_def held_same [OF refs])
qed

lemma jni_manager_simps [simp]:
  "jn_bindings (ensurePreConnectHook st) = jn_bindings st" "jn_bindings (on_manager f st) = jn_bindings st"
  "jn_heap (ensurePreConnectHook st) = jn_heap st" "jn_heap (on_manager f st) = jn_heap st"
  "sm_nextId (jni_manager (ensurePreConnectHook st)) = sm_nextId (jni_manager st)"
  by (simp_all add: ensurePreConnectHook_def on_manager_def jni_manager_def setPreConnectHook_def)

lemma prepareConnection_fst:
  "fst (prepareConnection params b c m) = kInvalidSessionId \<or> fst (prepareConnection params b c m) = sm_nextId m"
  by (simp add: prepareConnection_def Let_def)

lemma jni_inv_prepare:
  assumes "jni_inv out st" "fresh_id st"
  shows "jni_inv out (snd (nativePrepareConnection ja listener host port channel repeater st))"
proof (cases "listener \<and> host \<noteq> None \<and> channel \<noteq> None \<and> ja_vm ja")
  case True
  then obtain h ch where hc: "listener" "host = Some h" "channel = Some ch" "ja_vm ja" by auto
  obtain b st1 where nb: "new_binding ja st = (b, st1)" by fastforce
  note n = jni_inv_new [OF assms(1) nb]
  show ?thesis
  proof (cases "ja_onEvent ja \<and> ja_onRxPcm ja")
    case False
    with hc nb jni_inv_release [of b out st1] n(1,6) show ?thesis
      by (auto simp: nativePrepareConnection_def)
  next
    case methods: True
    let ?params = "\<lparr>cp_host = h, cp_port = port, cp_channel = ch, cp_useTls = False, cp_repeaterMode = repeater\<rparr>"
    obtain sid m where pc: "prepareConnection ?params True False (jni_manager (ensurePreConnectHook st1)) = (sid, m)"
      by fastforce
    let ?st2 = "on_manager (\<lambda>_. m) (ensurePreConnectHook st1)"
    have same: "same_refs st1 ?st2" by (rule same_refs_trans [of _ "ensurePreConnectHook st1"]) simp_all
    then have inv2: "jni_inv (insert b out) ?st2" using n(1) by (simp add: jni_inv_same)
    show ?thesis
    proof (cases "sid = kInvalidSessionId")
      case True
      with hc nb methods pc jni_inv_release [OF inv2 n(6)] show ?thesis
        by (simp add: nativePrepareConnection_def Let_def)
    next
      case False
      then have "sid = sm_nextId (jni_manager st)"
        using prepareConnection_fst [of ?params True False "jni_manager (ensurePreConnectHook st1)"] pc n(4) by simp
      then have fresh: "um_find sid (jn_bindings ?st2) = None"
        using assms(2) n(3) by (simp add: fresh_id_def)
      have "jni_inv out (register_binding b sid ?st2)"
        by (rule jni_inv_register [OF inv2 _ fresh]) (use n in simp_all)
      with hc nb methods pc False show ?thesis
        by (simp add: nativePrepareConnection_def Let_def jni_inv_same [OF same_refs_simps(2)])
    qed
  qed
qed (use assms in \<open>auto simp: nativePrepareConnection_def split: option.split bool.split\<close>)

text \<open>The invariant survives every run, whatever bindings are under erasure around it.\<close>

lemma dispatchEvent_state:
  "snd (snd (dispatchEvent java b ty info t st)) = st
   \<or> snd (snd (dispatchEvent java b ty info t st)) = depth_add (- 1) b (java (depth_add 1 b st))"
  by (simp add: dispatchEvent_def Let_def split_beta)

lemma dispatchEvent_thread: "thread_ok t \<Longrightarrow> thread_ok (fst (snd (dispatchEvent java b ty info t st)))"
  by (simp add: dispatchEvent_def Let_def split_beta)

lemma dispatchRxPcm_state:
  "snd (snd (dispatchRxPcm array java b pcm rate ms t st)) = st
   \<or> snd (snd (dispatchRxPcm array java b pcm rate ms t st)) = depth_add (- 1) b (depth_add 1 b st)
   \<or> snd (snd (dispatchRxPcm array java b pcm rate ms t st)) = depth_add (- 1) b (java (depth_add 1 b st))"
  by (simp add: dispatchRxPcm_def Let_def split_beta)

lemma jni_inv_deliver:
  assumes "jni_inv out st" "thread_ok t" "\<And>s out. jni_inv out s \<Longrightarrow> jni_inv out (java s)"
    "\<And>k s out. jni_inv out s \<Longrightarrow> jni_inv out (sleep k s)"
  shows "jni_inv out (snd (snd (jni_deliver array java sleep b ob t st)))"
proof -
  have call: "jni_inv out (depth_add (- 1) b (java (depth_add 1 b st)))" "jni_inv out (depth_add (- 1) b (depth_add 1 b st))"
    using assms(1,3) by (simp_all add: jni_inv_depth)
  have ev: "jni_inv out (snd (snd (dispatchSessionEvent java b ev t st)))"
    and th: "thread_ok (fst (snd (dispatchSessionEvent java b ev t st)))" for ev
    using dispatchEvent_state [of java b "public_type_int (toPublic (ev_type ev))" "jni_event_info ev" t st] call assms(1,2)
    by (auto simp: dispatchSessionEvent_def dispatchEvent_thread)
  show ?thesis
  proof (cases ob)
    case (O_Event ev)
    with ev [of ev] jni_inv_erase [OF ev [of ev] th [of ev] assms(4)] show ?thesis
      by (simp add: jni_deliver_def jni_onSessionEvent_def split_beta)
  next
    case (O_RxPcm pcm rate ms)
    with dispatchRxPcm_state [of array java b pcm rate ms t st] call assms(1) show ?thesis
      by (auto simp: jni_deliver_def)
  qed (simp_all add: jni_deliver_def assms(1))
qed

text \<open>The invariant survives every run, whatever bindings are under erasure around it.\<close>

lemma jni_inv_run: "jni_run st st' \<Longrightarrow> jni_inv out st \<Longrightarrow> jni_inv out st'"
proof (induction arbitrary: out rule: jni_run.induct)
  case (jr_quiet st st')
  then show ?case by (simp add: jni_inv_same)
next
  case (jr_trans st st' st'')
  then show ?case by blast
next
  case (jr_prepare st ja listener host port channel repeater)
  then show ?case by (intro jni_inv_prepare)
next
  case (jr_erase t sleep st sid)
  then show ?case by (intro jni_inv_erase)
next
  case (jr_deliver t java sleep st array b ob)
  then show ?case by (intro jni_inv_deliver)
qed

text \<open>The native methods are runs.\<close>

lemma quiet_manager: "jni_run st (on_manager f st)" "jni_run st (st\<lparr>jn_api := a\<rparr>)" "jni_run st (ensurePreConnectHook st)"
  by (rule jr_quiet, simp)+

lemma erase_all_run:
  assumes "thread_ok t" "\<And>sid k s. jni_run s (sleep sid k s)"
  shows "jni_run st (erase_all sleep t st)"
proof -
  have "jni_run st (fold (\<lambda>sid. eraseBinding (sleep sid) t sid) ids st)" for ids st
    by (induction ids arbitrary: st) (auto intro: jr_refl jr_trans [OF jr_erase] assms)
  then show ?thesis by (simp add: erase_all_def)
qed

lemma native_runs:
  assumes "thread_ok t" "\<And>sid k s. jni_run s (sleep sid k s)"
  shows "jni_run st (snd (nativeConnect E sch sid ms st))"
    "jni_run st (nativeDisconnect attempt (sleep sid) t sid st)"
    "jni_run st (nativeHaltAndRelease rounds (sleep sid) t sid st)"
    "jni_run st (nativeDisconnectAll attempts sleep t st)"
    "jni_run st (nativeDisconnectAllAndWait attempts waits sleep t ms st)"
    "jni_run st (snd (nativeTxSubmit E polls sid op pcm st))"
    "jni_run st (snd (nativeTxWaitIdle E waitpolls sid ms st))"
    "jni_run st (snd (nativeSetRepeater E sid enabled st))"
    "jni_run st (nativeSetPowerProfile sid profile st)"
    "jni_run st (snd (snd (nativeBindProcessNetwork unspecified rc h st)))"
    "jni_run st (snd (nativePunchNat sid st))"
    "jni_run st (snd (nativeReportSignal mode v st))"
    "jni_run st (snd (nativeClearSignal mode st))"
    "jni_run st (nativeSetActivityFocused sid focused st)"
proof -
  show "jni_run st (snd (nativeConnect E sch sid ms st))"
    by (auto simp: nativeConnect_def Let_def split_beta intro: jr_refl jr_trans quiet_manager)
  show "jni_run st (nativeDisconnect attempt (sleep sid) t sid st)"
    by (auto simp: nativeDisconnect_def intro: jr_refl jr_trans [OF quiet_manager(1)] jr_erase assms)
  show "jni_run st (nativeHaltAndRelease rounds (sleep sid) t sid st)"
    by (auto simp: nativeHaltAndRelease_def intro: jr_refl jr_trans [OF quiet_manager(1)] jr_erase assms)
  show "jni_run st (nativeDisconnectAll attempts sleep t st)"
    unfolding nativeDisconnectAll_def by (rule jr_trans [OF quiet_manager(1) erase_all_run [OF assms]])
  show "jni_run st (nativeDisconnectAllAndWait attempts waits sleep t ms st)"
    unfolding nativeDisconnectAllAndWait_def by (rule jr_trans [OF quiet_manager(1) erase_all_run [OF assms]])
  show "jni_run st (snd (snd (nativeBindProcessNetwork unspecified rc h st)))"
    unfolding nativeBindProcessNetwork_def snd_conv
    by (rule jr_trans [OF jr_quiet quiet_manager(3)]) simp
qed (auto simp: nativeTxSubmit_def nativeTxWaitIdle_def nativeSetRepeater_def nativeSetPowerProfile_def nativePunchNat_def
      nativeReportSignal_def nativeClearSignal_def nativeSetActivityFocused_def split_beta
      intro: jr_refl quiet_manager)

section \<open>No reference leaks\<close>

lemma jni_inv_registered:
  assumes "jni_inv {} st"
  shows "length (jn_refs st) = 2 * length (jn_bindings st)"
    "(sid, b) \<in> set (jn_bindings st) \<Longrightarrow> b < length (jn_heap st) \<and> jb_id (jn_heap st ! b) = sid
       \<and> (\<exists>r q. jb_listener (jn_heap st ! b) = Some r \<and> jb_listenerClass (jn_heap st ! b) = Some q
            \<and> r \<in> set (jn_refs st) \<and> q \<in> set (jn_refs st))"
proof -
  have slots: "slot_ok (i \<in> snd ` set (jn_bindings st)) (jn_heap st ! i)" if "i < length (jn_heap st)" for i
    using assms that by (simp add: jni_inv_def)
  have entry: "i < length (jn_heap st)" "jb_id (jn_heap st ! i) = k" if "(k, i) \<in> set (jn_bindings st)" for k i
    using assms that by (auto simp: jni_inv_def)
  have m: "mset (jn_refs st) = held (jn_heap st)" using assms by (simp add: jni_inv_def)
  have two: "length (binding_refs (jn_heap st ! i)) = (if i \<in> snd ` set (jn_bindings st) then 2 else 0)"
    if "i < length (jn_heap st)" for i
    using slots [OF that] by (cases "i \<in> snd ` set (jn_bindings st)") (auto simp: slot_ok_def binding_refs_def)
  have "inj_on snd (set (jn_bindings st))" using entry(2) by (intro inj_onI) (metis prod.collapse)
  then have card: "card (snd ` set (jn_bindings st)) = length (jn_bindings st)"
    using assms distinct_card distinct_map by (metis card_image jni_inv_def)
  have "length (jn_refs st) = size (held (jn_heap st))" using m by (metis size_mset)
  also have "\<dots> = (\<Sum>i = 0..<length (jn_heap st). length (binding_refs (jn_heap st ! i)))"
    by (simp add: held_def length_concat comp_def sum_list_sum_nth)
  also have "\<dots> = (\<Sum>i \<in> {0..<length (jn_heap st)}. if i \<in> snd ` set (jn_bindings st) then 2 else 0)"
    using two by (intro sum.cong) simp_all
  also have "\<dots> = 2 * card ({0..<length (jn_heap st)} \<inter> snd ` set (jn_bindings st))"
    by (simp add: sum.If_cases)
  also have "{0..<length (jn_heap st)} \<inter> snd ` set (jn_bindings st) = snd ` set (jn_bindings st)"
    using entry by auto
  finally show "length (jn_refs st) = 2 * length (jn_bindings st)" by (simp add: card)
  assume e: "(sid, b) \<in> set (jn_bindings st)"
  then have b: "b < length (jn_heap st)" using entry by blast
  have "b \<in> snd ` set (jn_bindings st)" using e by (metis image_eqI snd_conv)
  with slots [OF b] obtain r q where rq: "jb_listener (jn_heap st ! b) = Some r" "jb_listenerClass (jn_heap st ! b) = Some q"
    by (auto simp: slot_ok_def)
  have "set (binding_refs (jn_heap st ! b)) \<subseteq> set (jn_refs st)"
    using held_in [OF b] m by (metis set_mset_mset)
  with rq b e entry show "b < length (jn_heap st) \<and> jb_id (jn_heap st ! b) = sid
       \<and> (\<exists>r q. jb_listener (jn_heap st ! b) = Some r \<and> jb_listenerClass (jn_heap st ! b) = Some q
            \<and> r \<in> set (jn_refs st) \<and> q \<in> set (jn_refs st))"
    by (auto simp: binding_refs_def)
qed

lemma depth_wait_alone [simp]: "depth_wait b (\<lambda>_ s. s) n st = st"
  by (induction n) simp_all

lemma erase_alone: "jn_bindings (eraseBinding (\<lambda>_ s. s) t sid st) = um_erase sid (jn_bindings st)"
proof (cases "um_find sid (jn_bindings st)")
  case None
  then have "sid \<notin> fst ` set (jn_bindings st)" by (simp add: um_find_def map_of_eq_None_iff)
  then have "um_erase sid (jn_bindings st) = jn_bindings st"
    unfolding um_erase_def by (intro filter_True) force
  with None show ?thesis by (simp add: eraseBinding_def)
qed (simp add: eraseBinding_def Let_def)

lemma erase_all_alone: "jn_bindings (erase_all (\<lambda>_ _ s. s) t st) = []"
proof -
  have "jn_bindings (fold (\<lambda>sid. eraseBinding (\<lambda>_ s. s) t sid) ids st) = filter (\<lambda>e. fst e \<notin> set ids) (jn_bindings st)" for ids st
    by (induction ids arbitrary: st) (auto simp: erase_alone um_erase_def intro: filter_cong)
  then have "jn_bindings (erase_all (\<lambda>_ _ s. s) t st)
      = filter (\<lambda>e. fst e \<notin> set (map fst (jn_bindings st))) (jn_bindings st)"
    unfolding erase_all_def by blast
  then show ?thesis by (simp add: filter_False)
qed

text \<open>
  C4. The global references of the Android bridge, in every state that any sequence of native calls,
  deliveries and nested calls reaches: there are exactly two for each registered binding, all
  distinct, and both are live, so none is deleted twice and none leaks, whichever failure
  \<open>nativePrepareConnection\<close> met; a call into the listener of a registered binding is a call on a live
  reference; and after \<open>nativeDisconnectAll\<close> no reference is left. Threads are assumed to attach to
  the virtual machine, and ids not to be given out twice.
\<close>

theorem jni_references_exact:
  assumes "jni_run jni_init st" and "thread_ok t"
  shows "distinct (jn_refs st) \<and> length (jn_refs st) = 2 * length (jn_bindings st)
    \<and> (\<forall>(sid, b) \<in> set (jn_bindings st). jb_id (jn_heap st ! b) = sid
         \<and> (\<exists>r q. jb_listener (jn_heap st ! b) = Some r \<and> jb_listenerClass (jn_heap st ! b) = Some q
              \<and> r \<in> set (jn_refs st) \<and> q \<in> set (jn_refs st)))
    \<and> jn_refs (nativeDisconnectAll attempts (\<lambda>_ _ s. s) t st) = []"
proof (intro conjI)
  have inv: "jni_inv {} st" by (rule jni_inv_run [OF assms(1) jni_inv_init])
  show "distinct (jn_refs st)" using inv by (simp add: jni_inv_def)
  show "length (jn_refs st) = 2 * length (jn_bindings st)" by (rule jni_inv_registered(1) [OF inv])
  show "\<forall>(sid, b) \<in> set (jn_bindings st). jb_id (jn_heap st ! b) = sid
         \<and> (\<exists>r q. jb_listener (jn_heap st ! b) = Some r \<and> jb_listenerClass (jn_heap st ! b) = Some q
              \<and> r \<in> set (jn_refs st) \<and> q \<in> set (jn_refs st))"
    using jni_inv_registered(2) [OF inv] by blast
  let ?st = "nativeDisconnectAll attempts (\<lambda>_ _ s. s) t st"
  have "jni_run st ?st" by (rule native_runs(4) [OF assms(2) jr_refl])
  from jni_inv_registered(1) [OF jni_inv_run [OF this inv]] show "jn_refs ?st = []"
    by (simp add: nativeDisconnectAll_def erase_all_alone)
qed

definition demo_jni :: "unit jni" where
  "demo_jni = snd (nativePrepareConnection \<lparr>ja_vm = True, ja_onEvent = True, ja_onRxPcm = True\<rparr>
     True (Some ''h'') 5500 (Some ''global'') False jni_init)"

definition demo_thread :: jthread where
  "demo_thread = \<lparr>jt_attached = False, jt_canAttach = True, jt_key = False\<rparr>"

lemma demo_thread_ok: "thread_ok demo_thread"
  by (simp add: thread_ok_def demo_thread_def)

lemma demo_jni_bindings: "jn_bindings demo_jni = [(1, 0)]"
  by (simp add: demo_jni_def nativePrepareConnection_def new_binding_def NewGlobalRef_def jni_init_def prepareConnection_def
      ensurePreConnectHook_def on_manager_def jni_manager_def setPreConnectHook_def api_init_def manager_init_def
      kMaxManagedSessions_def kInvalidSessionId_def register_binding_def um_emplace_def um_erase_def um_find_def put_binding_def)

lemma demo_jni_run: "jni_run jni_init demo_jni"
  unfolding demo_jni_def by (rule jr_prepare) (simp add: fresh_id_def jni_init_def um_find_def)

theorem jni_references_exact_witness:
  "length (jn_refs demo_jni) = 2 \<and> jn_refs (nativeDisconnectAll (\<lambda>_ _. ([], id)) (\<lambda>_ _ s. s) demo_thread demo_jni) = []"
  using jni_references_exact [OF demo_jni_run demo_thread_ok, of "\<lambda>_ _. ([], id)"] by (simp add: demo_jni_bindings)

section \<open>What the listener hears\<close>

lemma depth_add_back: "b < length (jn_heap st) \<Longrightarrow> depth_add (- 1) b (depth_add 1 b st) = st"
  by (simp add: depth_add_def put_binding_def)

lemma depth_add_nth [simp]:
  "b < length (jn_heap st) \<Longrightarrow> jb_listener (jn_heap (depth_add d b st) ! b) = jb_listener (jn_heap st ! b)"
  "b < length (jn_heap st) \<Longrightarrow> jb_id (jn_heap (depth_add d b st) ! b) = jb_id (jn_heap st ! b)"
  by (simp_all add: depth_add_def put_binding_def)

lemma worker_env: "thread_ok t \<Longrightarrow> vm \<Longrightarrow> getWorkerEnv vm t = (True, snd (getWorkerEnv vm t))"
  by (simp add: prod_eq_iff)

lemma event_calls:
  assumes "b < length (jn_heap st)" "event_guard (jn_heap st ! b)" "thread_ok t"
  shows "fst (jni_deliver array java sleep b (O_Event ev) t st) =
     (if isVisible (ev_type ev)
      then [J_Event (jb_listener (jn_heap st ! b)) (jb_id (jn_heap st ! b)) (public_type_int (oe_type (fillManagedEventC ev)))
              (map_option (takeWhile (\<lambda>c. c \<noteq> CHR 0x00)) (jni_event_info ev))]
      else [])"
  using assms
  by (simp add: jni_deliver_def jni_onSessionEvent_def dispatchSessionEvent_def dispatchEvent_def split_beta Let_def
      event_guard_def fillManagedEventC_def)

lemma event_state:
  assumes "b < length (jn_heap st)" "event_guard (jn_heap st ! b)" "thread_ok t"
  shows "snd (snd (jni_deliver array (\<lambda>s. s) (\<lambda>_ s. s) b (O_Event ev) t st)) =
     (if jni_ending (ev_type ev) then eraseBinding (\<lambda>_ s. s) (snd (getWorkerEnv True t)) (jb_id (jn_heap st ! b)) st else st)"
proof -
  have "isVisible (ev_type ev)" if "jni_ending (ev_type ev)" using that by (auto simp: jni_ending_def)
  with assms show ?thesis
    by (auto simp: jni_deliver_def jni_onSessionEvent_def dispatchSessionEvent_def dispatchEvent_def split_beta Let_def
        event_guard_def depth_add_back)
qed

lemma released_is_silent:
  assumes "b < length (jn_heap st)" "jb_listener (jn_heap st ! b) = None"
  shows "fst (jni_deliver array java sleep b ob t st) = []"
  using assms
  by (cases ob) (simp_all add: jni_deliver_def jni_onSessionEvent_def dispatchSessionEvent_def dispatchEvent_def
      dispatchRxPcm_def event_guard_def pcm_guard_def split_beta)

text \<open>
  A session event reaches the listener of its binding as exactly one call if it is visible, with the
  public number that the C interface gives it, and not at all otherwise. After
  \<open>ConnectionFailed\<close> and \<open>ProtocolError\<close> the binding is gone and nothing that the session does later
  reaches the listener. After \<open>Disconnected\<close>, with which the bridge of the C interface also ends, the
  binding stays and goes on delivering.
\<close>

theorem jni_listener_hears:
  assumes "b < length (jn_heap st)" "event_guard (jn_heap st ! b)" "thread_ok t"
    and "um_find sid (jn_bindings st) = Some b" "jb_id (jn_heap st ! b) = sid"
  shows "(\<forall>java sleep. fst (jni_deliver array java sleep b (O_Event ev) t st) =
       (if isVisible (ev_type ev)
        then [J_Event (jb_listener (jn_heap st ! b)) sid (public_type_int (oe_type (fillManagedEventC ev)))
                (map_option (takeWhile (\<lambda>c. c \<noteq> CHR 0x00)) (jni_event_info ev))]
        else []))
     \<and> (let st' = snd (snd (jni_deliver array (\<lambda>s. s) (\<lambda>_ s. s) b (O_Event ev) t st))
        in if ev_type ev = Ev_ConnectionFailed \<or> ev_type ev = Ev_ProtocolError
           then um_find sid (jn_bindings st') = None
             \<and> (\<forall>array java sleep ob t. fst (jni_deliver array java sleep b ob t st') = [])
           else st' = st)
     \<and> (ev_type ev = Ev_Disconnected \<longrightarrow>
          bridge_terminal (ev_type ev) \<and> snd (snd (jni_deliver array (\<lambda>s. s) (\<lambda>_ s. s) b (O_Event ev) t st)) = st)"
proof -
  let ?w = "snd (getWorkerEnv True t)" and ?st = "st\<lparr>jn_bindings := um_erase sid (jn_bindings st)\<rparr>"
  have vm: "jb_jvm (jn_heap st ! b)" using assms(2) by (simp add: event_guard_def)
  then have gone: "eraseBinding (\<lambda>_ s. s) ?w sid st = releaseBindingRefs True b ?st"
    using assms by (simp add: eraseBinding_def Let_def)
  have "um_find sid (um_erase sid (jn_bindings st)) = None"
    by (auto simp: um_find_def um_erase_def map_of_eq_None_iff)
  moreover have "fst (jni_deliver array java sleep b ob t (releaseBindingRefs True b ?st)) = []" for array java sleep ob t
    by (rule released_is_silent) (use assms(1) in simp_all)
  ultimately show ?thesis
    using event_calls [OF assms(1-3)] assms(5)
    by (auto simp: event_state [OF assms(1-3)] jni_ending_def gone bridge_terminal_def Let_def)
qed

lemma demo_jni_heap:
  "jn_heap demo_jni = [jni_binding_new\<lparr>jb_id := 1, jb_jvm := True, jb_listener := Some 0, jb_listenerClass := Some 1,
     jb_onEvent := True, jb_onRxPcm := True\<rparr>]"
  by (simp add: demo_jni_def nativePrepareConnection_def new_binding_def NewGlobalRef_def jni_init_def prepareConnection_def
      ensurePreConnectHook_def on_manager_def jni_manager_def setPreConnectHook_def api_init_def manager_init_def
      kMaxManagedSessions_def kInvalidSessionId_def register_binding_def put_binding_def jni_binding_new_def)

lemma twelve: "std_to_string 12 = ''12''"
  by code_simp

theorem jni_listener_hears_witness:
  "fst (jni_deliver True (\<lambda>s. s) (\<lambda>_ s. s) 0
      (O_Event (Event_default\<lparr>ev_type := Ev_PttLocked, ev_pttDisplaySec := 12\<rparr>)) demo_thread demo_jni)
   = [J_Event (Some 0) 1 6 (Some ''12'')]"
  using jni_listener_hears [of 0 demo_jni demo_thread 1 True "Event_default\<lparr>ev_type := Ev_PttLocked, ev_pttDisplaySec := 12\<rparr>"]
  by (simp add: demo_jni_heap demo_jni_bindings demo_thread_ok event_guard_def um_find_def fillManagedEventC_def
      jni_event_info_def twelve)

section \<open>Callbacks against the release\<close>

text \<open>
  The instructions of the threads that touch one binding, one at a time: a dispatcher looks at the
  binding, counts itself, reads the listener and calls it, and leaves; the eraser takes the binding
  out of the map, sleeps while the count is positive, at most 500 times, and then deletes the
  references. \<open>E_Releasing\<close> and \<open>E_Done\<close> remember the sleeps.
\<close>

datatype caller = W_Idle | W_Entered | W_Counted | W_Calling "jref option"

datatype eraser = E_Idle | E_Waiting nat | E_Releasing nat | E_Done nat

record race =
  rc_binding :: jni_binding
  rc_refs :: "jref list"
  rc_callers :: "caller list"
  rc_eraser :: eraser

definition rc_count :: "int \<Rightarrow> race \<Rightarrow> race" where
  "rc_count d s = s\<lparr>rc_binding := (rc_binding s)\<lparr>jb_depth := jb_depth (rc_binding s) + d\<rparr>\<rparr>"

definition rc_move :: "nat \<Rightarrow> caller \<Rightarrow> race \<Rightarrow> race" where
  "rc_move i c s = s\<lparr>rc_callers := (rc_callers s)[i := c]\<rparr>"

inductive race_step :: "race \<Rightarrow> race \<Rightarrow> bool" where
  rs_enter: "i < length (rc_callers s) \<Longrightarrow> rc_callers s ! i = W_Idle \<Longrightarrow> event_guard (rc_binding s) \<Longrightarrow>
    race_step s (rc_move i W_Entered s)"
| rs_count: "i < length (rc_callers s) \<Longrightarrow> rc_callers s ! i = W_Entered \<Longrightarrow>
    race_step s (rc_move i W_Counted (rc_count 1 s))"
| rs_call: "i < length (rc_callers s) \<Longrightarrow> rc_callers s ! i = W_Counted \<Longrightarrow>
    race_step s (rc_move i (W_Calling (jb_listener (rc_binding s))) s)"
| rs_return: "i < length (rc_callers s) \<Longrightarrow> rc_callers s ! i = W_Calling r \<Longrightarrow>
    race_step s (rc_move i W_Idle (rc_count (- 1) s))"
| rs_take: "rc_eraser s = E_Idle \<Longrightarrow> race_step s (s\<lparr>rc_eraser := E_Waiting 0\<rparr>)"
| rs_sleep: "rc_eraser s = E_Waiting n \<Longrightarrow> n < 500 \<Longrightarrow> jb_depth (rc_binding s) > 0 \<Longrightarrow>
    race_step s (s\<lparr>rc_eraser := E_Waiting (n + 1)\<rparr>)"
| rs_go: "rc_eraser s = E_Waiting n \<Longrightarrow> n \<ge> 500 \<or> jb_depth (rc_binding s) \<le> 0 \<Longrightarrow>
    race_step s (s\<lparr>rc_eraser := E_Releasing n\<rparr>)"
| rs_delete: "rc_eraser s = E_Releasing n \<Longrightarrow>
    race_step s (s\<lparr>rc_refs := filter (\<lambda>q. Some q \<noteq> jb_listener (rc_binding s) \<and> Some q \<noteq> jb_listenerClass (rc_binding s)) (rc_refs s),
      rc_binding := (rc_binding s)\<lparr>jb_listener := None, jb_listenerClass := None\<rparr>, rc_eraser := E_Done n\<rparr>)"

text \<open>No dispatch lies between its look at the binding and its count once the eraser has begun.\<close>

definition settled :: "race \<Rightarrow> bool" where
  "settled s \<longleftrightarrow> rc_eraser s = E_Idle \<or> W_Entered \<notin> set (rc_callers s)"

inductive settled_run :: "race \<Rightarrow> race \<Rightarrow> bool" where
  sr_refl: "settled_run s s"
| sr_step: "settled_run s t \<Longrightarrow> race_step t u \<Longrightarrow> settled u \<Longrightarrow> settled_run s u"

definition race_init :: "nat \<Rightarrow> race" where
  "race_init n = \<lparr>rc_binding = jni_binding_new\<lparr>jb_id := 1, jb_jvm := True, jb_listener := Some 0, jb_listenerClass := Some 1,
     jb_onEvent := True, jb_onRxPcm := True\<rparr>, rc_refs = [1, 0], rc_callers = replicate n W_Idle, rc_eraser = E_Idle\<rparr>"

text \<open>A call is running on an object whose reference is gone.\<close>

definition dangling :: "race \<Rightarrow> bool" where
  "dangling s \<longleftrightarrow> (\<exists>r. W_Calling r \<in> set (rc_callers s) \<and> (case r of None \<Rightarrow> True | Some q \<Rightarrow> q \<notin> set (rc_refs s)))"

fun counted :: "caller \<Rightarrow> nat" where
  "counted W_Idle = 0"
| "counted W_Entered = 0"
| "counted W_Counted = 1"
| "counted (W_Calling r) = 1"

definition race_inv :: "race \<Rightarrow> bool" where
  "race_inv s \<longleftrightarrow> settled s
     \<and> jb_depth (rc_binding s) = int (sum_list (map counted (rc_callers s)))
     \<and> (case rc_eraser s of
          E_Done n \<Rightarrow> n = 500 \<or> (\<forall>c \<in> set (rc_callers s). c = W_Idle)
        | E_Releasing n \<Rightarrow> n = 500 \<or> (\<forall>c \<in> set (rc_callers s). c = W_Idle)
        | E_Waiting n \<Rightarrow> n \<le> 500
        | E_Idle \<Rightarrow> True)
     \<and> ((\<exists>n. rc_eraser s = E_Done n)
        \<or> jb_listener (rc_binding s) = Some 0 \<and> 0 \<in> set (rc_refs s)
          \<and> (\<forall>r. W_Calling r \<in> set (rc_callers s) \<longrightarrow> r = Some 0))"

lemma rc_simps [simp]:
  "rc_callers (rc_count d s) = rc_callers s" "rc_eraser (rc_count d s) = rc_eraser s" "rc_refs (rc_count d s) = rc_refs s"
  "rc_callers (rc_move i c s) = (rc_callers s)[i := c]" "rc_eraser (rc_move i c s) = rc_eraser s"
  "rc_refs (rc_move i c s) = rc_refs s" "rc_binding (rc_move i c s) = rc_binding s"
  "rc_binding (rc_count d s) = (rc_binding s)\<lparr>jb_depth := jb_depth (rc_binding s) + d\<rparr>"
  by (simp_all add: rc_count_def rc_move_def)

lemma counted_move:
  "i < length cs \<Longrightarrow> int (sum_list (map counted (cs[i := c]))) = int (sum_list (map counted cs)) + int (counted c) - int (counted (cs ! i))"
proof (induction cs arbitrary: i)
  case (Cons x xs)
  then show ?case by (cases i) simp_all
qed simp

lemma calling_move: "W_Calling r \<in> set (cs[i := c]) \<Longrightarrow> W_Calling r \<in> set cs \<or> c = W_Calling r"
  using set_update_subset_insert by fastforce

lemma nobody_counted:
  assumes "settled s" "rc_eraser s = E_Waiting n" "sum_list (map counted (rc_callers s)) = 0"
  shows "\<forall>c \<in> set (rc_callers s). c = W_Idle"
proof
  fix c assume c: "c \<in> set (rc_callers s)"
  with assms have "counted c = 0" "c \<noteq> W_Entered" by (auto simp: settled_def)
  then show "c = W_Idle" by (cases c) simp_all
qed

lemma race_inv_step:
  assumes "race_step s u" "race_inv s" "settled u"
  shows "race_inv u"
  using assms(1)
proof cases
  case (rs_enter i)
  then have "rc_eraser s = E_Idle"
    using assms(3) by (auto simp: settled_def set_update_memI)
  with rs_enter assms show ?thesis by (auto simp: race_inv_def counted_move dest: calling_move)
next
  case (rs_count i)
  then have "rc_eraser s = E_Idle"
    using assms(2) by (auto simp: race_inv_def settled_def dest: nth_mem)
  with rs_count assms show ?thesis by (auto simp: race_inv_def counted_move dest: calling_move)
next
  case (rs_call i)
  then have "W_Counted \<in> set (rc_callers s)" by (metis nth_mem)
  with rs_call assms show ?thesis
    by (cases "rc_eraser s") (auto simp: race_inv_def counted_move dest!: calling_move)
next
  case (rs_return i r)
  then have "W_Calling r \<in> set (rc_callers s)" by (metis nth_mem)
  with rs_return assms show ?thesis
    by (cases "rc_eraser s") (auto simp: race_inv_def counted_move dest!: calling_move)
next
  case (rs_go n)
  have "n = 500 \<or> (\<forall>c \<in> set (rc_callers s). c = W_Idle)"
  proof (cases "n = 500")
    case False
    with rs_go assms(2) have "sum_list (map counted (rc_callers s)) = 0" by (auto simp: race_inv_def)
    with nobody_counted [OF _ rs_go(2)] assms(2) show ?thesis by (simp add: race_inv_def)
  qed simp
  with rs_go assms(2,3) show ?thesis by (simp add: race_inv_def)
qed (use assms in \<open>auto simp: race_inv_def\<close>)

lemma race_inv_run: "settled_run s u \<Longrightarrow> race_inv s \<Longrightarrow> race_inv u"
  by (induction rule: settled_run.induct) (auto intro: race_inv_step)

lemma race_inv_init: "race_inv (race_init n)"
  by (simp add: race_inv_def race_init_def settled_def sum_list_replicate map_replicate jni_binding_new_def)

text \<open>The run in which a dispatcher has looked at the binding just before the eraser comes.\<close>

lemma late_dispatch_dangles: "\<exists>s. race_step\<^sup>*\<^sup>* (race_init 1) s \<and> dangling s \<and> rc_eraser s = E_Done 0"
proof -
  let ?a = "rc_move 0 W_Entered (race_init 1)"
  let ?b = "?a\<lparr>rc_eraser := E_Waiting 0\<rparr>" let ?c = "?b\<lparr>rc_eraser := E_Releasing 0\<rparr>"
  let ?d = "?c\<lparr>rc_refs := filter (\<lambda>q. Some q \<noteq> jb_listener (rc_binding ?c) \<and> Some q \<noteq> jb_listenerClass (rc_binding ?c)) (rc_refs ?c),
      rc_binding := (rc_binding ?c)\<lparr>jb_listener := None, jb_listenerClass := None\<rparr>, rc_eraser := E_Done 0\<rparr>"
  let ?e = "rc_move 0 W_Counted (rc_count 1 ?d)"
  let ?f = "rc_move 0 (W_Calling (jb_listener (rc_binding ?e))) ?e"
  have "race_step (race_init 1) ?a" by (rule rs_enter) (simp_all add: race_init_def event_guard_def)
  moreover have "race_step ?a ?b" by (rule rs_take) (simp add: race_init_def)
  moreover have "race_step ?b ?c" by (rule rs_go) (simp_all add: race_init_def jni_binding_new_def)
  moreover have "race_step ?c ?d" by (rule rs_delete) simp
  moreover have "race_step ?d ?e" by (rule rs_count) (simp_all add: race_init_def)
  moreover have "race_step ?e ?f" by (rule rs_call) (simp_all add: race_init_def)
  ultimately have "race_step\<^sup>*\<^sup>* (race_init 1) ?f" by (meson rtranclp.rtrancl_refl rtranclp.rtrancl_into_rtrancl)
  moreover have "dangling ?f" "rc_eraser ?f = E_Done 0"
    by (simp_all add: dangling_def race_init_def)
  ultimately show ?thesis by blast
qed

text \<open>
  C15. The release of a binding against any number of threads that call its listener: when no dispatch lies
  between its look at the binding and its count once the erasure has begun, a call that runs on
  a released reference means that the erasure had given up waiting, after all of its 500 sleeps.
  Without that condition the wait protects nothing: there is a run, with one dispatcher and
  without a single sleep, that ends in a call on the released listener.
\<close>

theorem release_waits_for_callbacks:
  "(settled_run (race_init n) s \<and> dangling s \<longrightarrow> rc_eraser s = E_Done 500)
   \<and> (\<exists>s. race_step\<^sup>*\<^sup>* (race_init 1) s \<and> dangling s \<and> rc_eraser s = E_Done 0)"
proof (intro conjI impI)
  assume s: "settled_run (race_init n) s \<and> dangling s"
  then have inv: "race_inv s" by (blast intro: race_inv_run race_inv_init)
  from s obtain r where r: "W_Calling r \<in> set (rc_callers s)" "case r of None \<Rightarrow> True | Some q \<Rightarrow> q \<notin> set (rc_refs s)"
    by (auto simp: dangling_def)
  with inv obtain k where k: "rc_eraser s = E_Done k" by (fastforce simp: race_inv_def)
  with inv r(1) show "rc_eraser s = E_Done 500" by (auto simp: race_inv_def)
qed (rule late_dispatch_dangles)

definition busy_state :: "nat \<Rightarrow> race" where
  "busy_state k = (rc_move 0 (W_Calling (Some 0)) (rc_count 1 (race_init 1)))\<lparr>rc_eraser := E_Waiting k\<rparr>"

definition overdue_state :: race where
  "overdue_state = (busy_state 500)\<lparr>rc_refs := [],
     rc_binding := (rc_binding (busy_state 500))\<lparr>jb_listener := None, jb_listenerClass := None\<rparr>, rc_eraser := E_Done 500\<rparr>"

lemma busy_settled [simp]: "settled ((busy_state k)\<lparr>rc_eraser := e\<rparr>)" "settled (busy_state k)"
  by (simp_all add: settled_def busy_state_def race_init_def)

lemma busy_run: "k \<le> 500 \<Longrightarrow> settled_run (race_init 1) (busy_state k)"
proof (induction k)
  case 0
  let ?a = "rc_move 0 W_Entered (race_init 1)" let ?b = "rc_move 0 W_Counted (rc_count 1 ?a)"
  let ?c = "rc_move 0 (W_Calling (jb_listener (rc_binding ?b))) ?b"
  have "race_step (race_init 1) ?a" by (rule rs_enter) (simp_all add: race_init_def event_guard_def)
  moreover have "race_step ?a ?b" by (rule rs_count) (simp_all add: race_init_def)
  moreover have "race_step ?b ?c" by (rule rs_call) (simp_all add: race_init_def)
  moreover have "race_step ?c (?c\<lparr>rc_eraser := E_Waiting 0\<rparr>)" by (rule rs_take) (simp add: race_init_def)
  moreover have "?c\<lparr>rc_eraser := E_Waiting 0\<rparr> = busy_state 0"
    by (simp add: busy_state_def race_init_def rc_move_def rc_count_def)
  moreover have "settled ?a" "settled ?b" "settled ?c" by (simp_all add: settled_def race_init_def)
  ultimately show ?case by (metis busy_settled(2) sr_refl sr_step)
next
  case (Suc k)
  have "race_step (busy_state k) ((busy_state k)\<lparr>rc_eraser := E_Waiting (k + 1)\<rparr>)"
    by (rule rs_sleep) (use Suc.prems in \<open>simp_all add: busy_state_def race_init_def jni_binding_new_def\<close>)
  moreover have "(busy_state k)\<lparr>rc_eraser := E_Waiting (k + 1)\<rparr> = busy_state (Suc k)" by (simp add: busy_state_def)
  ultimately show ?case using Suc by (metis Suc_leD busy_settled(2) sr_step)
qed

lemma overdue_run: "settled_run (race_init 1) overdue_state"
proof -
  let ?g = "(busy_state 500)\<lparr>rc_eraser := E_Releasing 500\<rparr>"
  have g: "race_step (busy_state 500) ?g" by (rule rs_go) (simp_all add: busy_state_def)
  have d: "race_step ?g overdue_state"
    using rs_delete [of ?g 500] by (simp add: overdue_state_def busy_state_def race_init_def)
  have "settled overdue_state" by (simp add: overdue_state_def settled_def busy_state_def race_init_def)
  with busy_run [of 500] g d show ?thesis by (metis busy_settled(1) le_refl sr_step)
qed

theorem release_waits_for_callbacks_witness:
  "settled_run (race_init 1) overdue_state \<and> dangling overdue_state \<and> rc_eraser overdue_state = E_Done 500"
proof -
  have "dangling overdue_state" by (simp add: dangling_def overdue_state_def busy_state_def race_init_def)
  with overdue_run release_waits_for_callbacks [of 1 overdue_state] show ?thesis by blast
qed

section \<open>The numbers of the results\<close>

lemma outcome_jni_toC:
  assumes "outcome_c oc = C_Returned c"
  shows "\<exists>r. oc = Returned r \<and> c = toC r \<and> outcome_jni oc = J_Returned (Result_int r)"
  using assms by (cases oc) simp_all

lemma same_number:
  "Result_int r = owalkie_result_int (toC r) \<longleftrightarrow> r \<in> {R_Ok, R_InvalidArg, R_AlreadyConnected, R_NotConnected, R_QueueFull}"
  by (cases r) simp_all

lemma on_manager_api [simp]: "jn_api (on_manager f st) = (jn_api st)\<lparr>ap_manager := f (ap_manager (jn_api st))\<rparr>"
  by (simp add: on_manager_def)


lemma demo_jni_hook: "jn_hookInstalled demo_jni"
  by (simp add: demo_jni_def nativePrepareConnection_def new_binding_def NewGlobalRef_def jni_init_def prepareConnection_def
      ensurePreConnectHook_def on_manager_def jni_manager_def setPreConnectHook_def api_init_def manager_init_def
      kMaxManagedSessions_def kInvalidSessionId_def register_binding_def put_binding_def)


end
