(* ===== verification/Client_Json.thy ===== *)
theory Client_Json
  imports Json_Wire
begin

text \<open>
  The part of the JSON library that the desktop client uses for its files, its links and its
  clipboard, beyond what the core uses (\<open>Json_Wire\<close>): arrays, iteration, numbers that are not
  integers, and the conversions \<open>get\<close>. \<open>'f\<close> are the machine's \<open>double\<close>s. Operations that can throw
  return an option. \<open>json_laws\<close> states what the library promises; a concrete library that keeps the
  promises closes the theory.
\<close>

text \<open>
  \<open>jd_read\<close> is \<open>in >> j\<close>, \<open>jd_dump2\<close> is \<open>dump(2)\<close> (which throws on a string that is no UTF-8),
  \<open>jd_items\<close> what a range-based \<open>for\<close> visits, \<open>jd_trunc\<close> the cast of a \<open>double\<close> to \<open>int\<close>.
\<close>

record ('j, 'f) json_doc =
  jd_base :: "'j json_lib"
  jd_read :: "string \<Rightarrow> 'j option"
  jd_dump2 :: "'j \<Rightarrow> string option"
  jd_array :: "'j list \<Rightarrow> 'j"
  jd_double :: "'f \<Rightarrow> 'j"
  jd_is_array :: "'j \<Rightarrow> bool"
  jd_is_int :: "'j \<Rightarrow> bool"
  jd_items :: "'j \<Rightarrow> 'j list"
  jd_get_int :: "'j \<Rightarrow> int"
  jd_get_double :: "'j \<Rightarrow> 'f"
  jd_get_string :: "'j \<Rightarrow> string"
  jd_get_bool :: "'j \<Rightarrow> bool"
  jd_trunc :: "'f \<Rightarrow> int"
  jd_value_double :: "'j \<Rightarrow> string \<Rightarrow> 'f \<Rightarrow> 'f option"
  jd_value_doc :: "'j \<Rightarrow> string \<Rightarrow> 'j \<Rightarrow> 'j option"

section \<open>The promises of the library\<close>

text \<open>\<open>value_law get build\<close>: \<open>value(key, default)\<close> on an object gives the member made by \<open>build\<close>, or the default.\<close>

definition value_law :: "('j, 'f) json_doc \<Rightarrow> ('j \<Rightarrow> string \<Rightarrow> 'a \<Rightarrow> 'a option) \<Rightarrow> ('a \<Rightarrow> 'j) \<Rightarrow> bool" where
  "value_law D get build \<longleftrightarrow> (\<forall>kvs k d. map_of kvs k = None \<longrightarrow> get (jl_object (jd_base D) kvs) k d = Some d)
     \<and> (\<forall>kvs k d v. map_of kvs k = Some (build v) \<longrightarrow> get (jl_object (jd_base D) kvs) k d = Some v)"

definition text_law :: "('j, 'f) json_doc \<Rightarrow> bool" where
  "text_law D \<longleftrightarrow>
     (\<forall>j t. jd_dump2 D j = Some t \<longrightarrow> jd_read D t = Some j \<and> jl_parse (jd_base D) t = Some j)
     \<and> (\<forall>j t. jl_dump (jd_base D) j = Some t \<longrightarrow> jl_parse (jd_base D) t = Some j)
     \<and> jl_parse (jd_base D) [] = None \<and> jd_read D [] = None"

definition object_law :: "('j, 'f) json_doc \<Rightarrow> bool" where
  "object_law D \<longleftrightarrow>
     (\<forall>kvs. jl_is_object (jd_base D) (jl_object (jd_base D) kvs))
     \<and> (\<forall>kvs k. jl_contains (jd_base D) (jl_object (jd_base D) kvs) k \<longleftrightarrow> map_of kvs k \<noteq> None)
     \<and> (\<forall>kvs k v. map_of kvs k = Some v \<longrightarrow> jl_at (jd_base D) (jl_object (jd_base D) kvs) k = v)
     \<and> (\<forall>js. jd_is_array D (jd_array D js)) \<and> (\<forall>js. jd_items D (jd_array D js) = js)"

text \<open>Integers are promised back only within the 32 bits of an \<open>int\<close>.\<close>

definition int_law :: "('j, 'f) json_doc \<Rightarrow> bool" where
  "int_law D \<longleftrightarrow>
     (\<forall>n. int32 n \<longrightarrow> jd_is_int D (jl_int (jd_base D) n) \<and> jd_get_int D (jl_int (jd_base D) n) = n
          \<and> \<not> jl_is_string (jd_base D) (jl_int (jd_base D) n))
     \<and> (\<forall>kvs k d. map_of kvs k = None \<longrightarrow> jl_value_int (jd_base D) (jl_object (jd_base D) kvs) k d = Some d)
     \<and> (\<forall>kvs k d n. map_of kvs k = Some (jl_int (jd_base D) n) \<longrightarrow> int32 n \<longrightarrow>
          jl_value_int (jd_base D) (jl_object (jd_base D) kvs) k d = Some n)"

definition json_laws :: "('j, 'f) json_doc \<Rightarrow> bool" where
  "json_laws D \<longleftrightarrow> text_law D \<and> object_law D \<and> int_law D
     \<and> value_law D (jl_value_bool (jd_base D)) (jl_bool (jd_base D))
     \<and> value_law D (jl_value_string (jd_base D)) (jl_string (jd_base D))
     \<and> value_law D (jd_value_double D) (jd_double D)
     \<and> value_law D (jd_value_doc D) (\<lambda>j. j)"

lemma json_text:
  assumes "json_laws D"
  shows "jd_dump2 D j = Some t \<Longrightarrow> jd_read D t = Some j"
    "jd_dump2 D j = Some t \<Longrightarrow> jl_parse (jd_base D) t = Some j"
    "jl_dump (jd_base D) j = Some t \<Longrightarrow> jl_parse (jd_base D) t = Some j"
    "jl_parse (jd_base D) [] = None" "jd_read D [] = None"
proof -
  have "text_law D" using assms by (simp add: json_laws_def)
  then show "jd_dump2 D j = Some t \<Longrightarrow> jd_read D t = Some j"
    "jd_dump2 D j = Some t \<Longrightarrow> jl_parse (jd_base D) t = Some j"
    "jl_dump (jd_base D) j = Some t \<Longrightarrow> jl_parse (jd_base D) t = Some j"
    "jl_parse (jd_base D) [] = None" "jd_read D [] = None"
    unfolding text_law_def by blast+
qed

lemma json_object:
  assumes "json_laws D"
  shows "jl_is_object (jd_base D) (jl_object (jd_base D) kvs)"
    "jl_contains (jd_base D) (jl_object (jd_base D) kvs) k \<longleftrightarrow> map_of kvs k \<noteq> None"
    "map_of kvs k = Some v \<Longrightarrow> jl_at (jd_base D) (jl_object (jd_base D) kvs) k = v"
    "jd_is_array D (jd_array D js)" "jd_items D (jd_array D js) = js"
proof -
  have "object_law D" using assms by (simp add: json_laws_def)
  then show "jl_is_object (jd_base D) (jl_object (jd_base D) kvs)"
    "jl_contains (jd_base D) (jl_object (jd_base D) kvs) k \<longleftrightarrow> map_of kvs k \<noteq> None"
    "map_of kvs k = Some v \<Longrightarrow> jl_at (jd_base D) (jl_object (jd_base D) kvs) k = v"
    "jd_is_array D (jd_array D js)" "jd_items D (jd_array D js) = js"
    unfolding object_law_def by blast+
qed

lemma json_int:
  assumes "json_laws D"
  shows "int32 n \<Longrightarrow> jd_is_int D (jl_int (jd_base D) n)" "int32 n \<Longrightarrow> jd_get_int D (jl_int (jd_base D) n) = n"
    "int32 n \<Longrightarrow> \<not> jl_is_string (jd_base D) (jl_int (jd_base D) n)"
    "map_of kvs k = None \<Longrightarrow> jl_value_int (jd_base D) (jl_object (jd_base D) kvs) k d = Some d"
    "map_of kvs k = Some (jl_int (jd_base D) n) \<Longrightarrow> int32 n \<Longrightarrow> jl_value_int (jd_base D) (jl_object (jd_base D) kvs) k d = Some n"
proof -
  have "int_law D" using assms by (simp add: json_laws_def)
  then show "int32 n \<Longrightarrow> jd_is_int D (jl_int (jd_base D) n)" "int32 n \<Longrightarrow> jd_get_int D (jl_int (jd_base D) n) = n"
    "int32 n \<Longrightarrow> \<not> jl_is_string (jd_base D) (jl_int (jd_base D) n)"
    "map_of kvs k = None \<Longrightarrow> jl_value_int (jd_base D) (jl_object (jd_base D) kvs) k d = Some d"
    "map_of kvs k = Some (jl_int (jd_base D) n) \<Longrightarrow> int32 n \<Longrightarrow> jl_value_int (jd_base D) (jl_object (jd_base D) kvs) k d = Some n"
    unfolding int_law_def by blast+
qed

lemma value_lawD:
  assumes "value_law D get build"
  shows "map_of kvs k = None \<Longrightarrow> get (jl_object (jd_base D) kvs) k d = Some d"
    "map_of kvs k = Some (build v) \<Longrightarrow> get (jl_object (jd_base D) kvs) k d = Some v"
  using assms unfolding value_law_def by blast+

lemma json_values:
  assumes "json_laws D"
  shows "value_law D (jl_value_bool (jd_base D)) (jl_bool (jd_base D))"
    "value_law D (jl_value_string (jd_base D)) (jl_string (jd_base D))"
    "value_law D (jd_value_double D) (jd_double D)" "value_law D (jd_value_doc D) (\<lambda>j. j)"
  using assms by (simp_all add: json_laws_def)

section \<open>A library that keeps them\<close>

datatype 'f jdoc = DNull | DBool bool | DInt int | DNum 'f | DStr string | DArr "'f jdoc list"
  | DObj "(string \<times> 'f jdoc) list"

fun doc_member :: "'f jdoc \<Rightarrow> string \<Rightarrow> 'f jdoc option" where
  "doc_member (DObj kvs) k = map_of kvs k"
| "doc_member _ k = None"

fun doc_is_object :: "'f jdoc \<Rightarrow> bool" where
  "doc_is_object (DObj kvs) = True"
| "doc_is_object _ = False"

definition doc_value :: "('f jdoc \<Rightarrow> 'a option) \<Rightarrow> 'f jdoc \<Rightarrow> string \<Rightarrow> 'a \<Rightarrow> 'a option" where
  "doc_value get j k d =
     (if \<not> doc_is_object j then None
      else (case doc_member j k of None \<Rightarrow> Some d | Some v \<Rightarrow> get v))"

text \<open>The texts are those of a finite table of documents, none of them empty.\<close>

definition doc_lib :: "(string \<times> 'f jdoc) list \<Rightarrow> ('f jdoc, 'f) json_doc" where
  "doc_lib texts =
     (let dump = (\<lambda>j. map_option fst (find (\<lambda>e. snd e = j \<and> map_of texts (fst e) = Some j) texts));
          parse = map_of texts
      in \<lparr>jd_base = \<lparr>jl_parse = parse, jl_dump = dump, jl_object = DObj, jl_string = DStr, jl_int = DInt,
            jl_bool = DBool, jl_contains = (\<lambda>j k. doc_member j k \<noteq> None),
            jl_at = (\<lambda>j k. case doc_member j k of None \<Rightarrow> DNull | Some v \<Rightarrow> v),
            jl_is_null = (\<lambda>j. j = DNull), jl_is_object = doc_is_object,
            jl_is_number = (\<lambda>j. case j of DInt _ \<Rightarrow> True | DNum _ \<Rightarrow> True | _ \<Rightarrow> False),
            jl_is_boolean = (\<lambda>j. case j of DBool _ \<Rightarrow> True | _ \<Rightarrow> False),
            jl_is_string = (\<lambda>j. case j of DStr _ \<Rightarrow> True | _ \<Rightarrow> False),
            jl_value_int = doc_value (\<lambda>v. case v of DInt n \<Rightarrow> Some n | _ \<Rightarrow> None),
            jl_value_uint = doc_value (\<lambda>v. case v of DInt n \<Rightarrow> Some (word_of_int n) | _ \<Rightarrow> None),
            jl_value_bool = doc_value (\<lambda>v. case v of DBool b \<Rightarrow> Some b | _ \<Rightarrow> None),
            jl_value_string = doc_value (\<lambda>v. case v of DStr s \<Rightarrow> Some s | _ \<Rightarrow> None)\<rparr>,
          jd_read = parse, jd_dump2 = dump, jd_array = DArr, jd_double = DNum,
          jd_is_array = (\<lambda>j. case j of DArr _ \<Rightarrow> True | _ \<Rightarrow> False),
          jd_is_int = (\<lambda>j. case j of DInt _ \<Rightarrow> True | _ \<Rightarrow> False),
          jd_items = (\<lambda>j. case j of DNull \<Rightarrow> [] | DArr js \<Rightarrow> js | DObj kvs \<Rightarrow> map snd kvs | _ \<Rightarrow> [j]),
          jd_get_int = (\<lambda>j. case j of DInt n \<Rightarrow> n | _ \<Rightarrow> 0),
          jd_get_double = (\<lambda>j. case j of DNum x \<Rightarrow> x | _ \<Rightarrow> undefined),
          jd_get_string = (\<lambda>j. case j of DStr s \<Rightarrow> s | _ \<Rightarrow> []),
          jd_get_bool = (\<lambda>j. case j of DBool b \<Rightarrow> b | _ \<Rightarrow> False),
          jd_trunc = (\<lambda>_. 0),
          jd_value_double = doc_value (\<lambda>v. case v of DNum x \<Rightarrow> Some x | _ \<Rightarrow> None),
          jd_value_doc = doc_value Some\<rparr>)"

lemma doc_lib_simps [simp]:
  "jl_object (jd_base (doc_lib texts)) = DObj" "jl_string (jd_base (doc_lib texts)) = DStr"
  "jl_int (jd_base (doc_lib texts)) = DInt" "jl_bool (jd_base (doc_lib texts)) = DBool"
  "jd_array (doc_lib texts) = DArr" "jd_double (doc_lib texts) = DNum"
  "jl_parse (jd_base (doc_lib texts)) = map_of texts" "jd_read (doc_lib texts) = map_of texts"
  by (simp_all add: doc_lib_def Let_def)

lemma doc_lib_dump:
  "jd_dump2 (doc_lib [(t, j)]) j = Some t" "jl_dump (jd_base (doc_lib [(t, j)])) j = Some t"
  by (simp_all add: doc_lib_def Let_def)

lemma doc_lib_fields [simp]:
  "jl_is_object (jd_base (doc_lib texts)) = doc_is_object"
  "jl_contains (jd_base (doc_lib texts)) j k \<longleftrightarrow> doc_member j k \<noteq> None"
  "jl_at (jd_base (doc_lib texts)) j k = (case doc_member j k of None \<Rightarrow> DNull | Some v \<Rightarrow> v)"
  "jd_is_array (doc_lib texts) (DArr js)" "jd_items (doc_lib texts) (DArr js) = js"
  "jd_is_int (doc_lib texts) (DInt n)" "jd_get_int (doc_lib texts) (DInt n) = n"
  "\<not> jl_is_string (jd_base (doc_lib texts)) (DInt n)"
  by (simp_all add: doc_lib_def Let_def)

lemma doc_lib_values [simp]:
  "jl_value_int (jd_base (doc_lib texts)) = doc_value (\<lambda>v. case v of DInt n \<Rightarrow> Some n | _ \<Rightarrow> None)"
  "jl_value_bool (jd_base (doc_lib texts)) = doc_value (\<lambda>v. case v of DBool b \<Rightarrow> Some b | _ \<Rightarrow> None)"
  "jl_value_string (jd_base (doc_lib texts)) = doc_value (\<lambda>v. case v of DStr s \<Rightarrow> Some s | _ \<Rightarrow> None)"
  "jd_value_double (doc_lib texts) = doc_value (\<lambda>v. case v of DNum x \<Rightarrow> Some x | _ \<Rightarrow> None)"
  "jd_value_doc (doc_lib texts) = doc_value Some"
  by (simp_all add: doc_lib_def Let_def)

lemma doc_lib_dump_parse:
  "jd_dump2 (doc_lib texts) j = Some t \<Longrightarrow> map_of texts t = Some j"
  "jl_dump (jd_base (doc_lib texts)) j = Some t \<Longrightarrow> map_of texts t = Some j"
  by (auto simp: doc_lib_def Let_def find_Some_iff) (metis fst_conv)+

lemma doc_lib_laws: "map_of texts [] = None \<Longrightarrow> json_laws (doc_lib texts)"
  unfolding json_laws_def text_law_def object_law_def int_law_def doc_lib_simps doc_lib_fields doc_lib_values
  by (intro conjI allI impI) (simp_all add: doc_lib_dump_parse value_law_def doc_value_def)

end
