(* ===== verification/Signal_Editor.thy ===== *)
theory Signal_Editor
  imports Client_Json Audio_Engine
begin

text \<open>
  The editor of custom signals in the desktop client (\<open>MainFrame.cpp\<close>): the signals that travel as
  JSON text through the clipboard, and the dialog \<open>SignalPatternEditorDialog\<close> with its handlers.
  Durations are added and multiplied in 32 bits, as \<open>int\<close>s are on every target of the program.
\<close>

section \<open>A signal in the clipboard\<close>

definition kSignalSequenceMagicKey :: string where
  "kSignalSequenceMagicKey = ''oWalkieSignalSequence''"

text \<open>The number of characters up to the brace that closes the first one.\<close>

fun balanced_scan :: "int \<Rightarrow> bool \<Rightarrow> bool \<Rightarrow> string \<Rightarrow> nat option" where
  "balanced_scan depth inString escape [] = None"
| "balanced_scan depth inString escape (c # cs) =
     (if inString then
        (if escape then map_option Suc (balanced_scan depth True False cs)
         else if c = CHR 0x5C then map_option Suc (balanced_scan depth True True cs)
         else if c = CHR 0x22 then map_option Suc (balanced_scan depth False False cs)
         else map_option Suc (balanced_scan depth True False cs))
      else if c = CHR 0x22 then map_option Suc (balanced_scan depth True escape cs)
      else if c = CHR ''{'' then map_option Suc (balanced_scan (depth + 1) False escape cs)
      else if c = CHR ''}'' then
        (if depth - 1 = 0 then Some 1 else map_option Suc (balanced_scan (depth - 1) False escape cs))
      else map_option Suc (balanced_scan depth False escape cs))"

definition ExtractBalancedJsonObject :: "string \<Rightarrow> nat \<Rightarrow> string" where
  "ExtractBalancedJsonObject s openIndex =
     (if openIndex \<ge> length s then []
      else if s ! openIndex \<noteq> CHR ''{'' then []
      else (case balanced_scan 0 False False (drop openIndex s) of
              None \<Rightarrow> []
            | Some n \<Rightarrow> take n (drop openIndex s)))"

record 'f clip =
  sc_name :: string
  sc_points :: "'f SignalPoint list"
  sc_repeatCount :: int

definition ParseRepetitionsJsonValue :: "('j, 'f) json_doc \<Rightarrow> 'j \<Rightarrow> int" where
  "ParseRepetitionsJsonValue D n =
     (if jl_is_string (jd_base D) n then
        (case std_stoi (jd_get_string D n) of None \<Rightarrow> 1 | Some v \<Rightarrow> max 1 v)
      else if jd_is_int D n then max 1 (jd_get_int D n)
      else if jl_is_number (jd_base D) n then max 1 (jd_trunc D (jd_get_double D n))
      else 1)"

text \<open>\<open>None\<close> is an exception, else the result and the points filled in so far.\<close>

fun fill_points ::
  "('j, 'f) json_doc \<Rightarrow> 'f flt \<Rightarrow> 'j list \<Rightarrow> 'f SignalPoint list \<Rightarrow> (bool \<times> 'f SignalPoint list) option" where
  "fill_points D F [] pts = Some (pts \<noteq> [], pts)"
| "fill_points D F (pt # rest) pts =
     (if \<not> jl_is_object (jd_base D) pt then Some (False, pts)
      else (case jd_value_double D pt ''freqHz'' (fl_dec F (- 10) 1) of
              None \<Rightarrow> None
            | Some f \<Rightarrow>
                (case jl_value_int (jd_base D) pt ''durationMs'' (- 1) of
                   None \<Rightarrow> None
                 | Some d \<Rightarrow>
                     if fl_lt F f (fl_dec F 0 1) \<or> d \<le> 0 then Some (False, pts)
                     else fill_points D F rest (pts @ [\<lparr>sp_freqHz = f, sp_durationMs = d\<rparr>]))))"

definition FillPointsFromJsonArray ::
  "('j, 'f) json_doc \<Rightarrow> 'f flt \<Rightarrow> 'j \<Rightarrow> (bool \<times> 'f SignalPoint list) option" where
  "FillPointsFromJsonArray D F arr =
     (if \<not> jd_is_array D arr then Some (False, []) else fill_points D F (jd_items D arr) [])"

text \<open>The points of the member \<open>points\<close>, \<open>None\<close> when the envelope is refused (or an exception ends it).\<close>

definition clip_points :: "('j, 'f) json_doc \<Rightarrow> 'f flt \<Rightarrow> 'j \<Rightarrow> 'f SignalPoint list option" where
  "clip_points D F env =
     (if \<not> jl_contains (jd_base D) env ''points'' then None
      else if \<not> jd_is_array D (jl_at (jd_base D) env ''points'') then None
      else (case FillPointsFromJsonArray D F (jl_at (jd_base D) env ''points'') of
              Some (True, pts) \<Rightarrow> Some pts
            | _ \<Rightarrow> None))"

text \<open>Format 1: everything lies in an object under the magic key.\<close>

definition clip_nested :: "('j, 'f) json_doc \<Rightarrow> 'f flt \<Rightarrow> 'j \<Rightarrow> 'f clip option" where
  "clip_nested D F env =
     (if jl_value_int (jd_base D) env ''version'' (- 1) \<noteq> Some 1 then None
      else (case clip_points D F env of
              None \<Rightarrow> None
            | Some pts \<Rightarrow>
                (case (if jl_contains (jd_base D) env ''signal'' \<and> jl_is_object (jd_base D) (jl_at (jd_base D) env ''signal'')
                       then jl_value_string (jd_base D) (jl_at (jd_base D) env ''signal'') ''name'' [] else Some []) of
                   None \<Rightarrow> None
                 | Some name \<Rightarrow>
                     Some \<lparr>sc_name = name, sc_points = pts,
                           sc_repeatCount = (if jl_contains (jd_base D) env ''repetitions''
                              then ParseRepetitionsJsonValue D (jl_at (jd_base D) env ''repetitions'') else 1)\<rparr>)))"

text \<open>The older formats: the magic key holds a number, everything else lies beside it.\<close>

definition clip_flat :: "('j, 'f) json_doc \<Rightarrow> 'f flt \<Rightarrow> 'j \<Rightarrow> 'j \<Rightarrow> 'f clip option" where
  "clip_flat D F j magic =
     (let markerVer = (if jd_is_int D magic then jd_get_int D magic else jd_trunc D (jd_get_double D magic))
      in if markerVer < 1 \<or> markerVer > 2 then None
         else (case clip_points D F j of
                 None \<Rightarrow> None
               | Some pts \<Rightarrow>
                   (case jl_value_string (jd_base D) j ''name'' [] of
                      None \<Rightarrow> None
                    | Some name \<Rightarrow>
                        Some \<lparr>sc_name = name, sc_points = pts,
                              sc_repeatCount =
                                (if jl_contains (jd_base D) j ''repetitions''
                                 then ParseRepetitionsJsonValue D (jl_at (jd_base D) j ''repetitions'')
                                 else if jl_contains (jd_base D) j ''repeatCount''
                                 then ParseRepetitionsJsonValue D (jl_at (jd_base D) j ''repeatCount'') else 1)\<rparr>)))"

definition TryParseSignalSequenceEnvelope :: "('j, 'f) json_doc \<Rightarrow> 'f flt \<Rightarrow> string \<Rightarrow> 'f clip option" where
  "TryParseSignalSequenceEnvelope D F fragment =
     (case jl_parse (jd_base D) fragment of
        None \<Rightarrow> None
      | Some j \<Rightarrow>
          if \<not> jl_is_object (jd_base D) j \<or> \<not> jl_contains (jd_base D) j kSignalSequenceMagicKey then None
          else
            let magic = jl_at (jd_base D) j kSignalSequenceMagicKey
            in if jl_is_object (jd_base D) magic then clip_nested D F magic
               else if jd_is_int D magic \<or> jl_is_number (jd_base D) magic then clip_flat D F j magic
               else None)"

fun clip_search :: "('j, 'f) json_doc \<Rightarrow> 'f flt \<Rightarrow> string \<Rightarrow> nat list \<Rightarrow> 'f clip option" where
  "clip_search D F s [] = None"
| "clip_search D F s (i # rest) =
     (if s ! i \<noteq> CHR ''{'' then clip_search D F s rest
      else
        let frag = ExtractBalancedJsonObject s i;
            needle = [CHR 0x22] @ kSignalSequenceMagicKey @ [CHR 0x22]
        in if frag = [] \<or> find_sub needle frag = None then clip_search D F s rest
           else (case TryParseSignalSequenceEnvelope D F frag of
                   Some out \<Rightarrow> Some out
                 | None \<Rightarrow> clip_search D F s rest))"

definition ParseSignalSequenceFromClipboardText :: "('j, 'f) json_doc \<Rightarrow> 'f flt \<Rightarrow> string \<Rightarrow> 'f clip option" where
  "ParseSignalSequenceFromClipboardText D F utf8 =
     (case TryParseSignalSequenceEnvelope D F utf8 of
        Some out \<Rightarrow> Some out
      | None \<Rightarrow> clip_search D F utf8 [0..<length utf8])"

section \<open>The dialog\<close>

definition kMaxRogerCustomSignalMs :: int where "kMaxRogerCustomSignalMs = 1000"
definition kMaxCallCustomSignalMs :: int where "kMaxCallCustomSignalMs = 5000"

text \<open>A result of \<open>int\<close> arithmetic, wrapped to 32 bits.\<close>

definition i32 :: "int \<Rightarrow> int" where
  "i32 n = sint (word_of_int n :: 32 word)"

datatype modal = M_Open | M_Ok | M_Deleted

text \<open>\<open>ed_selection\<close> is the selected line, -1 for none; \<open>ed_spin\<close> the repeat count shown.\<close>

record 'f editor =
  ed_callKind :: bool
  ed_name :: string
  ed_spin :: int
  ed_points :: "'f SignalPoint list"
  ed_editingId :: string
  ed_selection :: int
  ed_saved :: "'f client_pattern option"
  ed_modal :: modal

definition editor_open :: "bool \<Rightarrow> 'f client_pattern option \<Rightarrow> 'f editor" where
  "editor_open callKind editOf =
     (let ed = \<lparr>ed_callKind = callKind, ed_name = [], ed_spin = 1, ed_points = [], ed_editingId = [],
                ed_selection = - 1, ed_saved = None, ed_modal = M_Open\<rparr>
      in case editOf of
           None \<Rightarrow> ed
         | Some p \<Rightarrow>
             if pa_id p = [] then ed
             else ed\<lparr>ed_editingId := pa_id p, ed_name := pa_name p, ed_points := pa_points p,
                     ed_spin := (if callKind then max 1 (min 500 (pa_repeatCount p)) else 1)\<rparr>)"

definition CycleDurationMs :: "'f SignalPoint list \<Rightarrow> int" where
  "CycleDurationMs pts = fold (\<lambda>p s. i32 (s + sp_durationMs p)) pts 0"

definition RepeatCountOr1 :: "'f editor \<Rightarrow> int" where
  "RepeatCountOr1 ed = (if ed_callKind ed then max 1 (ed_spin ed) else 1)"

definition EffectiveTotalMs :: "'f editor \<Rightarrow> int" where
  "EffectiveTotalMs ed = i32 (CycleDurationMs (ed_points ed) * RepeatCountOr1 ed)"

definition editor_limit :: "'f editor \<Rightarrow> int" where
  "editor_limit ed = (if ed_callKind ed then kMaxCallCustomSignalMs else kMaxRogerCustomSignalMs)"

text \<open>New points in the list, which loses its selection.\<close>

definition RefreshList :: "'f SignalPoint list \<Rightarrow> 'f editor \<Rightarrow> 'f editor" where
  "RefreshList pts ed = ed\<lparr>ed_points := pts, ed_selection := - 1\<rparr>"

definition AppendPointFromInputs :: "'f flt \<Rightarrow> 'f \<Rightarrow> int \<Rightarrow> 'f editor \<Rightarrow> string + 'f editor" where
  "AppendPointFromInputs F freqHz durationMs ed =
     (if durationMs \<le> 0 then Inl ''Duration must be positive.''
      else if fl_lt F freqHz (fl_dec F 0 1) then Inl ''Frequency cannot be negative.''
      else
        let cycleAfter = i32 (CycleDurationMs (ed_points ed) + durationMs)
        in if i32 (cycleAfter * RepeatCountOr1 ed) > editor_limit ed then Inl ''Total duration would exceed limit.''
           else Inr (RefreshList (ed_points ed @ [\<lparr>sp_freqHz = freqHz, sp_durationMs = durationMs\<rparr>]) ed))"

definition ReplacePointFromInputs :: "'f flt \<Rightarrow> nat \<Rightarrow> 'f \<Rightarrow> int \<Rightarrow> 'f editor \<Rightarrow> string + 'f editor" where
  "ReplacePointFromInputs F idx freqHz durationMs ed =
     (if idx \<ge> length (ed_points ed) then Inl ''Invalid selection.''
      else if durationMs \<le> 0 then Inl ''Duration must be positive.''
      else if fl_lt F freqHz (fl_dec F 0 1) then Inl ''Frequency cannot be negative.''
      else
        let oldDur = sp_durationMs (ed_points ed ! idx);
            newCycle = i32 (i32 (CycleDurationMs (ed_points ed) - oldDur) + durationMs)
        in if i32 (newCycle * RepeatCountOr1 ed) > editor_limit ed then Inl ''Total duration would exceed limit.''
           else Inr ((RefreshList ((ed_points ed)[idx := \<lparr>sp_freqHz = freqHz, sp_durationMs = durationMs\<rparr>]) ed)
                       \<lparr>ed_selection := int idx\<rparr>))"

text \<open>Whether the question was confirmed, and the two numbers as the library reads them.\<close>

definition PromptSegmentFields :: "bool \<Rightarrow> 'f option \<Rightarrow> int option \<Rightarrow> ('f \<times> int) option" where
  "PromptSegmentFields ok freq dur =
     (if \<not> ok then None
      else (case freq of
              None \<Rightarrow> None
            | Some f \<Rightarrow> (case dur of None \<Rightarrow> None | Some d \<Rightarrow> Some (f, i32 d))))"

definition or_same :: "string + 'f editor \<Rightarrow> 'f editor \<Rightarrow> 'f editor" where
  "or_same result ed = (case result of Inl err \<Rightarrow> ed | Inr ed \<Rightarrow> ed)"

definition editor_selected :: "'f editor \<Rightarrow> bool" where
  "editor_selected ed \<longleftrightarrow> \<not> (ed_selection ed < 0 \<or> nat (ed_selection ed) \<ge> length (ed_points ed))"

definition OpenEditForSelectedSegment :: "'f flt \<Rightarrow> ('f \<times> int) option \<Rightarrow> 'f editor \<Rightarrow> 'f editor" where
  "OpenEditForSelectedSegment F answer ed =
     (if \<not> editor_selected ed then ed
      else (case answer of
              None \<Rightarrow> ed
            | Some (f, d) \<Rightarrow> or_same (ReplacePointFromInputs F (nat (ed_selection ed)) f d ed) ed))"

text \<open>Return in the list edits the selected segment; elsewhere, and other keys, it is passed on.\<close>

definition OnDialogCharHook :: "'f flt \<Rightarrow> bool \<Rightarrow> bool \<Rightarrow> ('f \<times> int) option \<Rightarrow> 'f editor \<Rightarrow> 'f editor" where
  "OnDialogCharHook F isReturn listHasFocus answer ed =
     (if \<not> isReturn then ed
      else if listHasFocus then OpenEditForSelectedSegment F answer ed else ed)"

definition OnAdd :: "'f flt \<Rightarrow> ('f \<times> int) option \<Rightarrow> 'f editor \<Rightarrow> 'f editor" where
  "OnAdd F answer ed =
     (case answer of None \<Rightarrow> ed | Some (f, d) \<Rightarrow> or_same (AppendPointFromInputs F f d ed) ed)"

definition OnRemove :: "'f editor \<Rightarrow> 'f editor" where
  "OnRemove ed =
     (if \<not> editor_selected ed then ed
      else
        let sel = nat (ed_selection ed)
        in RefreshList (take sel (ed_points ed) @ drop (Suc sel) (ed_points ed)) ed)"

text \<open>The pattern that is played, if any.\<close>

definition OnPlay :: "'f editor \<Rightarrow> 'f client_pattern option" where
  "OnPlay ed =
     (if ed_points ed = [] then None
      else if ed_callKind ed \<and> ed_spin ed < 1 then None
      else Some \<lparr>pa_id = [], pa_name = [], pa_points = ed_points ed, pa_appendTail = \<not> ed_callKind ed,
                 pa_repeatCount = (if ed_callKind ed then RepeatCountOr1 ed else 1)\<rparr>)"

definition point_doc :: "('j, 'f) json_doc \<Rightarrow> 'f SignalPoint \<Rightarrow> 'j" where
  "point_doc D p = jl_object (jd_base D)
     [(''durationMs'', jl_int (jd_base D) (sp_durationMs p)), (''freqHz'', jd_double D (sp_freqHz p))]"

definition sequence_doc :: "('j, 'f) json_doc \<Rightarrow> 'f editor \<Rightarrow> 'j" where
  "sequence_doc D ed =
     jl_object (jd_base D) [(kSignalSequenceMagicKey, jl_object (jd_base D)
       ([(''version'', jl_int (jd_base D) 1),
         (''signal'', jl_object (jd_base D) [(''name'', jl_string (jd_base D) (ed_name ed))]),
         (''points'', jd_array D (map (point_doc D) (ed_points ed)))]
        @ (if ed_callKind ed then [(''repetitions'', jl_int (jd_base D) (RepeatCountOr1 ed))] else [])))]"

text \<open>The text put on the clipboard, if it opens; \<open>dump\<close> may throw.\<close>

definition OnCopySequence :: "('j, 'f) json_doc \<Rightarrow> bool \<Rightarrow> 'f editor \<Rightarrow> string option" where
  "OnCopySequence D clipboard ed =
     (if ed_points ed = [] then None
      else (case jd_dump2 D (sequence_doc D ed) of
              None \<Rightarrow> None
            | Some text \<Rightarrow> if clipboard then Some text else None))"

text \<open>\<open>clipboard\<close> is its text, \<open>None\<close> when it does not open or holds none.\<close>

definition OnPasteSequence :: "('j, 'f) json_doc \<Rightarrow> 'f flt \<Rightarrow> string option \<Rightarrow> 'f editor \<Rightarrow> 'f editor" where
  "OnPasteSequence D F clipboard ed =
     (case Option.bind clipboard (ParseSignalSequenceFromClipboardText D F) of
        None \<Rightarrow> ed
      | Some parsed \<Rightarrow>
          let rep = (if ed_callKind ed then min 500 (max 1 (sc_repeatCount parsed)) else 1);
              sum = CycleDurationMs (sc_points parsed)
          in if i32 (sum * rep) > editor_limit ed then ed
             else RefreshList (sc_points parsed)
                    (ed\<lparr>ed_name := sc_name parsed, ed_spin := (if ed_callKind ed then rep else ed_spin ed)\<rparr>))"

definition OnDeleteClicked :: "bool \<Rightarrow> 'f editor \<Rightarrow> 'f editor" where
  "OnDeleteClicked confirmed ed =
     (if ed_editingId ed = [] then ed
      else if \<not> confirmed then ed
      else ed\<lparr>ed_modal := M_Deleted\<rparr>)"

definition BuildRepeatedPoints :: "'f editor \<Rightarrow> 'f SignalPoint list" where
  "BuildRepeatedPoints ed =
     (if RepeatCountOr1 ed \<le> 1 then ed_points ed else concat (replicate (nat (RepeatCountOr1 ed)) (ed_points ed)))"

text \<open>\<open>trim\<close> is \<open>wxString::Trim\<close>.\<close>

definition OnTrySave :: "(string \<Rightarrow> string) \<Rightarrow> 'f editor \<Rightarrow> 'f editor" where
  "OnTrySave trim ed =
     (if trim (ed_name ed) = [] then ed
      else if ed_points ed = [] then ed
      else if ed_callKind ed \<and> ed_spin ed < 1 then ed
      else if EffectiveTotalMs ed > editor_limit ed then ed
      else ed\<lparr>ed_saved := Some \<lparr>pa_id = ed_editingId ed, pa_name = trim (ed_name ed), pa_points = ed_points ed,
                 pa_appendTail = \<not> ed_callKind ed,
                 pa_repeatCount = (if ed_callKind ed then RepeatCountOr1 ed else 1)\<rparr>, ed_modal := M_Ok\<rparr>)"

text \<open>Everything that can happen to the dialog; the spin control keeps its value in 1..500.\<close>

inductive editor_step :: "('j, 'f) json_doc \<Rightarrow> 'f flt \<Rightarrow> (string \<Rightarrow> string) \<Rightarrow> 'f editor \<Rightarrow> 'f editor \<Rightarrow> bool"
  for D F trim where
  es_name: "editor_step D F trim ed (ed\<lparr>ed_name := s\<rparr>)"
| es_spin: "1 \<le> n \<Longrightarrow> n \<le> 500 \<Longrightarrow> editor_step D F trim ed (ed\<lparr>ed_spin := n\<rparr>)"
| es_select: "editor_step D F trim ed (ed\<lparr>ed_selection := i\<rparr>)"
| es_add: "editor_step D F trim ed (OnAdd F (PromptSegmentFields ok f d) ed)"
| es_edit: "editor_step D F trim ed (OpenEditForSelectedSegment F (PromptSegmentFields ok f d) ed)"
| es_key: "editor_step D F trim ed (OnDialogCharHook F isReturn focus (PromptSegmentFields ok f d) ed)"
| es_remove: "editor_step D F trim ed (OnRemove ed)"
| es_paste: "editor_step D F trim ed (OnPasteSequence D F text ed)"
| es_delete: "editor_step D F trim ed (OnDeleteClicked confirmed ed)"
| es_save: "editor_step D F trim ed (OnTrySave trim ed)"

end
