(* ===== verification/Client_Store.thy ===== *)
theory Client_Store
  imports Signal_Editor Client_Frame "HOL-Library.Monad_Syntax"
begin

text \<open>
  What the desktop client keeps (\<open>MainFrame.cpp\<close>): the files of its configuration directory, the
  connection profiles with the controls that show them, the settings, and the custom signals.
  \<open>client\<close> has the members of \<open>MainFrame\<close> that \<open>frame\<close> (\<open>Client_Ptt\<close>) lacks, and the frame inside.
  Text controls are their UTF-8 text. \<open>wx\<close> are the functions of wxWidgets whose results matter; \<open>wx_tr\<close> translates a text and
  \<open>wx_Format\<close> puts a number into a translated text.
\<close>

section \<open>Files\<close>

datatype cfg_file = F_Profiles | F_Config | F_OldAudio | F_Legacy | F_Patterns

text \<open>The text of a file, \<open>None\<close> when there is none; whether it can be opened for reading and writing.\<close>

record disk =
  dk_text :: "cfg_file \<Rightarrow> string option"
  dk_readable :: "cfg_file \<Rightarrow> bool"
  dk_writable :: "cfg_file \<Rightarrow> bool"

definition FileExists :: "disk \<Rightarrow> cfg_file \<Rightarrow> bool" where
  "FileExists d p \<longleftrightarrow> dk_text d p \<noteq> None"

text \<open>Opening a file for writing empties it, so a \<open>dump\<close> that throws leaves it empty.\<close>

definition write_file :: "cfg_file \<Rightarrow> string option \<Rightarrow> disk \<Rightarrow> disk" where
  "write_file p dump d =
     (if dk_writable d p then d\<lparr>dk_text := (dk_text d)(p \<mapsto> (case dump of None \<Rightarrow> [] | Some t \<Rightarrow> t))\<rparr> else d)"

text \<open>The document in a file; the inner \<open>None\<close> is the exception of the parser.\<close>

definition read_file :: "('j, 'f) json_doc \<Rightarrow> cfg_file \<Rightarrow> disk \<Rightarrow> 'j option option" where
  "read_file D p d =
     (case dk_text d p of None \<Rightarrow> None | Some t \<Rightarrow> if dk_readable d p then Some (jd_read D t) else None)"

section \<open>State\<close>

record ServerProfile =
  sv_name :: string
  sv_host :: string
  sv_port :: int
  sv_channel :: string
  sv_repeater :: bool

definition ServerProfile_default :: ServerProfile where
  "ServerProfile_default = \<lparr>sv_name = ''Default'', sv_host = ''127.0.0.1'', sv_port = 5500,
     sv_channel = ''global'', sv_repeater = False\<rparr>"

record wx =
  wx_ToLong :: "string \<Rightarrow> int option"
  wx_Trim :: "string \<Rightarrow> string"
  wx_Lower :: "string \<Rightarrow> string"
  wx_tr :: "string \<Rightarrow> string"
  wx_Format :: "string \<Rightarrow> int \<Rightarrow> string"

record ('c, 'f) client =
  cn_frame :: "('c, 'f) frame"
  cn_disk :: disk
  cn_profiles :: "ServerProfile list"
  cn_active :: int
  cn_nameCtrl :: string
  cn_hostCtrl :: string
  cn_portCtrl :: string
  cn_channelCtrl :: string
  cn_repeaterCheck :: bool
  cn_choices :: "string list"
  cn_choice :: int
  cn_input :: int
  cn_output :: int
  cn_roger :: string
  cn_call :: string
  cn_customRoger :: "'f client_pattern list"
  cn_customCall :: "'f client_pattern list"
  cn_minimize :: bool
  cn_rxVolume :: int
  cn_vibHz :: 'f
  cn_vibVolume :: int
  cn_language :: string
  cn_protocolHandled :: bool

definition on_frame :: "(('c, 'f) frame \<Rightarrow> ('c, 'f) frame) \<Rightarrow> ('c, 'f) client \<Rightarrow> ('c, 'f) client" where
  "on_frame g st = st\<lparr>cn_frame := g (cn_frame st)\<rparr>"

definition on_engine :: "('f audio \<Rightarrow> 'f audio) \<Rightarrow> ('c, 'f) client \<Rightarrow> ('c, 'f) client" where
  "on_engine g = on_frame (\<lambda>f. f\<lparr>fr_audio := g (fr_audio f)\<rparr>)"

definition client_SetStatus :: "string \<Rightarrow> ('c, 'f) client \<Rightarrow> ('c, 'f) client" where
  "client_SetStatus status = on_frame (frame_SetStatus status)"

definition on_disk :: "(disk \<Rightarrow> disk) \<Rightarrow> ('c, 'f) client \<Rightarrow> ('c, 'f) client" where
  "on_disk g st = st\<lparr>cn_disk := g (cn_disk st)\<rparr>"

definition active_valid :: "('c, 'f) client \<Rightarrow> bool" where
  "active_valid st \<longleftrightarrow> \<not> (cn_active st < 0 \<or> cn_active st \<ge> int (length (cn_profiles st)))"

section \<open>Writing\<close>

definition profile_doc :: "('j, 'f) json_doc \<Rightarrow> ServerProfile \<Rightarrow> 'j" where
  "profile_doc D p = jl_object (jd_base D)
     [(''name'', jl_string (jd_base D) (sv_name p)), (''host'', jl_string (jd_base D) (sv_host p)),
      (''port'', jl_int (jd_base D) (sv_port p)), (''channel'', jl_string (jd_base D) (sv_channel p)),
      (''repeater'', jl_bool (jd_base D) (sv_repeater p))]"

definition profiles_doc :: "('j, 'f) json_doc \<Rightarrow> int \<Rightarrow> ServerProfile list \<Rightarrow> 'j" where
  "profiles_doc D active ps = jl_object (jd_base D)
     [(''active'', jl_int (jd_base D) active), (''profiles'', jd_array D (map (profile_doc D) ps))]"

definition SaveProfilesToDisk :: "('j, 'f) json_doc \<Rightarrow> ('c, 'f) client \<Rightarrow> ('c, 'f) client" where
  "SaveProfilesToDisk D st =
     (if cn_profiles st = [] then st
      else
        let st = (if active_valid st then st else st\<lparr>cn_active := 0\<rparr>)
        in on_disk (write_file F_Profiles (jd_dump2 D (profiles_doc D (cn_active st) (cn_profiles st)))) st)"

definition settings_doc :: "('j, 'f) json_doc \<Rightarrow> ('c, 'f) client \<Rightarrow> 'j" where
  "settings_doc D st = (let I = jl_int (jd_base D); B = jl_bool (jd_base D); S = jl_string (jd_base D); f = cn_frame st in
     jl_object (jd_base D)
     [(''audio_input_device'', I (cn_input st)), (''audio_output_device'', I (cn_output st)),
      (''roger_pattern_id'', S (cn_roger st)), (''call_pattern_id'', S (cn_call st)),
      (''ptt_hotkey_vkey'', I (fr_vkey f)), (''ptt_hotkey_mods'', I (sint (fr_mods f))),
      (''ptt_toggle_mode'', B (fr_toggleMode f)), (''show_mic_level_indicator'', B (fr_showLevel f)),
      (''minimize_to_tray_on_close'', B (cn_minimize st)),
      (''rx_volume_percent'', I (std_clamp (cn_rxVolume st) 0 200)),
      (''vibration_imitation_hz'', jd_double D (cn_vibHz st)),
      (''vibration_imitation_volume_percent'', I (std_clamp (cn_vibVolume st) 0 100)),
      (''tx_collision_vibration_hz'', jd_double D (cn_vibHz st)),
      (''tx_collision_vibration_volume_percent'', I (std_clamp (cn_vibVolume st) 0 100)),
      (''ui_language'', S (cn_language st)), (''protocol_registration_handled'', B (cn_protocolHandled st))])"

definition SaveAudioSettings :: "('j, 'f) json_doc \<Rightarrow> ('c, 'f) client \<Rightarrow> ('c, 'f) client" where
  "SaveAudioSettings D st = on_disk (write_file F_Config (jd_dump2 D (settings_doc D st))) st"

section \<open>The controls\<close>

definition RepopulateProfileChoice :: "('c, 'f) client \<Rightarrow> ('c, 'f) client" where
  "RepopulateProfileChoice st =
     st\<lparr>cn_choices := map sv_name (cn_profiles st),
        cn_choice := (if cn_profiles st = [] then - 1
          else std_clamp (cn_active st) 0 (int (length (cn_profiles st)) - 1))\<rparr>"

definition SyncUiFromActiveProfile :: "('c, 'f) client \<Rightarrow> ('c, 'f) client" where
  "SyncUiFromActiveProfile st =
     (if \<not> active_valid st then st
      else
        let p = cn_profiles st ! nat (cn_active st)
        in st\<lparr>cn_nameCtrl := sv_name p, cn_hostCtrl := sv_host p, cn_portCtrl := std_to_string (sv_port p),
              cn_channelCtrl := sv_channel p, cn_repeaterCheck := sv_repeater p\<rparr>)"

text \<open>The port in the control as an \<open>int\<close>; a text that is no number leaves 0.\<close>

definition ctrl_port :: "wx \<Rightarrow> ('c, 'f) client \<Rightarrow> int" where
  "ctrl_port W st = (case wx_ToLong W (cn_portCtrl st) of None \<Rightarrow> 0 | Some n \<Rightarrow> i32 n)"

definition SyncActiveProfileFromUi :: "wx \<Rightarrow> ('c, 'f) client \<Rightarrow> ('c, 'f) client" where
  "SyncActiveProfileFromUi W st =
     (if \<not> active_valid st then st
      else
        let p = \<lparr>sv_name = (if cn_nameCtrl st = [] then wx_tr W ''Connection'' else cn_nameCtrl st),
                 sv_host = cn_hostCtrl st, sv_port = ctrl_port W st, sv_channel = cn_channelCtrl st,
                 sv_repeater = cn_repeaterCheck st\<rparr>
        in st\<lparr>cn_profiles := (cn_profiles st)[nat (cn_active st) := p]\<rparr>)"

text \<open>Which of the buttons can be pressed, and whether the fields can be edited.\<close>

record profile_controls =
  pc_save :: bool
  pc_new :: bool
  pc_delete :: bool
  pc_editable :: bool

definition UpdateProfileControlsEnabled :: "('c, 'f) client \<Rightarrow> profile_controls" where
  "UpdateProfileControlsEnabled st =
     (let sess = (fr_connected (cn_frame st) \<or> fr_wantsSession (cn_frame st))
      in \<lparr>pc_save = \<not> sess, pc_new = \<not> sess, pc_delete = (\<not> sess \<and> length (cn_profiles st) > 1),
          pc_editable = \<not> sess\<rparr>)"

section \<open>Reading the profiles\<close>

text \<open>One entry of the list; \<open>None\<close> is an exception.\<close>

definition item_profile :: "('j, 'f) json_doc \<Rightarrow> 'j \<Rightarrow> ServerProfile option" where
  "item_profile D item = (let L = jd_base D in do {
     name \<leftarrow> jl_value_string L item ''name'' ''Profile'';
     host \<leftarrow> jl_value_string L item ''host'' ''127.0.0.1'';
     port \<leftarrow> (if jl_contains L item ''port'' \<and> jd_is_int D (jl_at L item ''port'')
              then Some (jd_get_int D (jl_at L item ''port''))
              else Option.bind (jl_value_int L item ''udp_port'' 5500) (jl_value_int L item ''ws_port''));
     channel \<leftarrow> jl_value_string L item ''channel'' ''global'';
     repeater \<leftarrow> jl_value_bool L item ''repeater'' False;
     Some \<lparr>sv_name = name, sv_host = host, sv_port = port, sv_channel = channel, sv_repeater = repeater\<rparr> })"

text \<open>An exception ends the loop; the entries before it have been kept.\<close>

fun item_profiles :: "('j, 'f) json_doc \<Rightarrow> 'j list \<Rightarrow> ServerProfile list" where
  "item_profiles D [] = []"
| "item_profiles D (item # rest) =
     (case item_profile D item of None \<Rightarrow> [] | Some p \<Rightarrow> p # item_profiles D rest)"

definition read_profiles :: "('j, 'f) json_doc \<Rightarrow> ('c, 'f) client \<Rightarrow> ('c, 'f) client" where
  "read_profiles D st =
     (case read_file D F_Profiles (cn_disk st) of
        Some (Some root) \<Rightarrow>
          (case jl_value_int (jd_base D) root ''active'' 0 of
             None \<Rightarrow> st
           | Some active \<Rightarrow>
               let st = st\<lparr>cn_active := active\<rparr>
               in if jl_contains (jd_base D) root ''profiles'' \<and> jd_is_array D (jl_at (jd_base D) root ''profiles'')
                  then st\<lparr>cn_profiles := item_profiles D (jd_items D (jl_at (jd_base D) root ''profiles''))\<rparr>
                  else st)
      | _ \<Rightarrow> st)"

definition load_profiles :: "('j, 'f) json_doc \<Rightarrow> ('c, 'f) client \<Rightarrow> ('c, 'f) client" where
  "load_profiles D st =
     (let st = read_profiles D (st\<lparr>cn_profiles := []\<rparr>);
          st = (if cn_profiles st = [] then st\<lparr>cn_profiles := [ServerProfile_default], cn_active := 0\<rparr> else st);
          st = (if active_valid st then st else st\<lparr>cn_active := 0\<rparr>)
      in SyncUiFromActiveProfile (RepopulateProfileChoice st))"

section \<open>Reading the settings\<close>

text \<open>Assignments one after the other; an exception ends them, those before it have been made.\<close>

fun assign_until :: "('s \<Rightarrow> 's option) list \<Rightarrow> 's \<Rightarrow> 's" where
  "assign_until [] st = st"
| "assign_until (step # steps) st = (case step st of None \<Rightarrow> st | Some st' \<Rightarrow> assign_until steps st')"

definition assign :: "'a option \<Rightarrow> ('a \<Rightarrow> 's \<Rightarrow> 's) \<Rightarrow> 's \<Rightarrow> 's option" where
  "assign x set_field st = map_option (\<lambda>v. set_field v st) x"

definition settings_steps :: "('j, 'f) json_doc \<Rightarrow> 'f flt \<Rightarrow> 'j \<Rightarrow> (('c, 'f) client \<Rightarrow> ('c, 'f) client option) list" where
  "settings_steps D F j = (let I = jl_value_int (jd_base D) j; B = jl_value_bool (jd_base D) j;
       S = jl_value_string (jd_base D) j; N = jd_value_double D j; C = jl_contains (jd_base D) j in
     [assign (I ''audio_input_device'' (- 1)) (\<lambda>v st. st\<lparr>cn_input := v\<rparr>),
      assign (I ''audio_output_device'' (- 1)) (\<lambda>v st. st\<lparr>cn_output := v\<rparr>),
      assign (S ''roger_pattern_id'' ''variant_1'') (\<lambda>v st. st\<lparr>cn_roger := v\<rparr>),
      assign (S ''call_pattern_id'' ''call_variant_1'') (\<lambda>v st. st\<lparr>cn_call := v\<rparr>),
      assign (I ''ptt_hotkey_vkey'' 0) (\<lambda>v. on_frame (\<lambda>f. f\<lparr>fr_vkey := v\<rparr>)),
      assign (I ''ptt_hotkey_mods'' 0) (\<lambda>v. on_frame (\<lambda>f. f\<lparr>fr_mods := word_of_int v\<rparr>)),
      assign (B ''ptt_toggle_mode'' False) (\<lambda>v. on_frame (\<lambda>f. f\<lparr>fr_toggleMode := v\<rparr>)),
      assign (B ''show_mic_level_indicator'' False) (\<lambda>v. on_frame (\<lambda>f. f\<lparr>fr_showLevel := v\<rparr>)),
      assign (B ''minimize_to_tray_on_close'' False) (\<lambda>v st. st\<lparr>cn_minimize := v\<rparr>),
      assign (I ''rx_volume_percent'' 100) (\<lambda>v st. st\<lparr>cn_rxVolume := v\<rparr>),
      assign (if C ''vibration_imitation_hz'' then N ''vibration_imitation_hz'' (fl_dec F 1000 1)
              else N ''tx_collision_vibration_hz'' (fl_dec F 1000 1)) (\<lambda>v st. st\<lparr>cn_vibHz := v\<rparr>),
      assign (if C ''vibration_imitation_volume_percent'' then I ''vibration_imitation_volume_percent'' 40
              else I ''tx_collision_vibration_volume_percent'' 40)
        (\<lambda>v st. st\<lparr>cn_vibVolume := std_clamp v 0 100, cn_vibHz := clamp_hz F (cn_vibHz st)\<rparr>),
      assign (S ''ui_language'' ''en'') (\<lambda>v st. st\<lparr>cn_language := v\<rparr>),
      assign (B ''protocol_registration_handled'' False)
        (\<lambda>v st. st\<lparr>cn_protocolHandled := v, cn_language := (if cn_language st \<noteq> ''ru'' then ''en'' else cn_language st)\<rparr>)])"

text \<open>\<open>config.json\<close>, or the file of an older version.\<close>

definition settings_path :: "disk \<Rightarrow> cfg_file" where
  "settings_path d = (if FileExists d F_Config then F_Config
     else if FileExists d F_OldAudio then F_OldAudio else F_Legacy)"

definition load_settings :: "('j, 'f) json_doc \<Rightarrow> 'f flt \<Rightarrow> ('c, 'f) client \<Rightarrow> ('c, 'f) client" where
  "load_settings D F st =
     (case read_file D (settings_path (cn_disk st)) (cn_disk st) of
        Some (Some j) \<Rightarrow> assign_until (settings_steps D F j) st
      | _ \<Rightarrow> st)"

end
