(* ===== verification/Url_Codec.thy ===== *)
theory Url_Codec
  imports OW_Prelude
begin

text \<open>
  The text codings of connection links in the desktop client (\<open>MainFrame.cpp\<close>): percent coding of
  URLs, the URL-safe Base64 without padding, and the parameters of a query. Strings are bytes.
\<close>

section \<open>Percent coding\<close>

definition HexValue :: "char \<Rightarrow> int" where
  "HexValue c = (let n = of_char c :: int in
     if 48 \<le> n \<and> n \<le> 57 then n - 48
     else if 97 \<le> n \<and> n \<le> 102 then 10 + (n - 97)
     else if 65 \<le> n \<and> n \<le> 70 then 10 + (n - 65)
     else -1)"

fun UrlDecode :: "string \<Rightarrow> string" where
  "UrlDecode [] = []"
| "UrlDecode (ch # rest) =
     (if ch = CHR ''+'' then CHR '' '' # UrlDecode rest
      else case rest of
        a # b # rest' \<Rightarrow>
          if ch = CHR ''%'' \<and> HexValue a \<ge> 0 \<and> HexValue b \<ge> 0
          then char_of (HexValue a * 16 + HexValue b) # UrlDecode rest'
          else ch # UrlDecode rest
      | _ \<Rightarrow> ch # UrlDecode rest)"

definition unreserved :: "char \<Rightarrow> bool" where
  "unreserved c \<longleftrightarrow> (let n = of_char c :: nat in
     (65 \<le> n \<and> n \<le> 90) \<or> (97 \<le> n \<and> n \<le> 122) \<or> (48 \<le> n \<and> n \<le> 57) \<or>
     c = CHR ''-'' \<or> c = CHR ''_'' \<or> c = CHR ''.'' \<or> c = CHR ''~'')"

definition kHex :: string where "kHex = ''0123456789ABCDEF''"

fun UrlEncode :: "string \<Rightarrow> string" where
  "UrlEncode [] = []"
| "UrlEncode (c # cs) =
     (if unreserved c then [c]
      else [CHR ''%'', kHex ! ((of_char c div 16) mod 16), kHex ! (of_char c mod 16)]) @ UrlEncode cs"

section \<open>Queries\<close>

definition query_pair :: "string \<Rightarrow> (string \<rightharpoonup> string) \<Rightarrow> (string \<rightharpoonup> string)" where
  "query_pair pair out =
     (if pair = [] then out
      else
        let eq = find_char (CHR ''='') pair;
            k = UrlDecode (case eq of None \<Rightarrow> pair | Some i \<Rightarrow> take i pair);
            v = (case eq of None \<Rightarrow> [] | Some i \<Rightarrow> UrlDecode (drop (Suc i) pair))
        in if k \<noteq> [] then out(k \<mapsto> v) else out)"

function query_loop :: "string \<Rightarrow> (string \<rightharpoonup> string) \<Rightarrow> (string \<rightharpoonup> string)" where
  "query_loop query out =
     (case find_char (CHR ''&'') query of
        None \<Rightarrow> query_pair query out
      | Some amp \<Rightarrow> query_loop (drop (Suc amp) query) (query_pair (take amp query) out))"
  by pat_completeness auto
termination
proof (relation "measure (\<lambda>(query, out). length query)")
  fix query :: string and out :: "string \<rightharpoonup> string" and amp
  assume "find_char (CHR ''&'') query = Some amp"
  then have "query \<noteq> []" by (cases query) auto
  then show "((drop (Suc amp) query, query_pair (take amp query) out), (query, out)) \<in> measure (\<lambda>(query, out). length query)"
    by (cases query) auto
qed simp

declare query_loop.simps [simp del]

definition ParseUrlQuery :: "string \<Rightarrow> (string \<rightharpoonup> string)" where
  "ParseUrlQuery query = query_loop query Map.empty"

section \<open>Base64\<close>

definition kTable :: string where
  "kTable = ''ABCDEFGHIJKLMNOPQRSTUVWXYZabcdefghijklmnopqrstuvwxyz0123456789+/''"

text \<open>\<open>u32_of\<close> is a byte widened, \<open>sextet n s\<close> the table entry for \<open>(n >> s) & 0x3F\<close>.\<close>

definition u32_of :: "char \<Rightarrow> u32" where
  "u32_of c = ucast (word_of_nat (of_char c) :: u8)"

definition sextet :: "u32 \<Rightarrow> nat \<Rightarrow> char" where
  "sextet n s = kTable ! unat (drop_bit s n AND 0x3F)"

fun base64_blocks :: "string \<Rightarrow> string" where
  "base64_blocks (a # b # c # rest) =
     (let n = push_bit 16 (u32_of a) OR push_bit 8 (u32_of b) OR u32_of c
      in [sextet n 18, sextet n 12, sextet n 6, sextet n 0] @ base64_blocks rest)"
| "base64_blocks [a] = (let n = push_bit 16 (u32_of a) in [sextet n 18, sextet n 12, CHR ''='', CHR ''=''])"
| "base64_blocks [a, b] =
     (let n = push_bit 16 (u32_of a) OR push_bit 8 (u32_of b)
      in [sextet n 18, sextet n 12, sextet n 6, CHR ''=''])"
| "base64_blocks [] = []"

definition to_url :: "char \<Rightarrow> char" where
  "to_url c = (if c = CHR ''+'' then CHR ''-'' else if c = CHR ''/'' then CHR ''_'' else c)"

definition strip_back :: "(char \<Rightarrow> bool) \<Rightarrow> string \<Rightarrow> string" where
  "strip_back P s = rev (dropWhile P (rev s))"

definition Base64UrlEncode :: "string \<Rightarrow> string" where
  "Base64UrlEncode data = strip_back (\<lambda>c. c = CHR ''='') (map to_url (base64_blocks data))"

definition from_url :: "char \<Rightarrow> char" where
  "from_url c = (if c = CHR ''-'' then CHR ''+'' else if c = CHR ''_'' then CHR ''/'' else c)"

definition base64_map :: "char \<Rightarrow> int" where
  "base64_map c = (case find_char c kTable of None \<Rightarrow> -1 | Some i \<Rightarrow> int i)"

definition base64_pad :: "string \<Rightarrow> string" where
  "base64_pad s = s @ replicate ((4 - length s mod 4) mod 4) (CHR ''='')"

text \<open>One byte of \<open>n\<close>, and the blocks of four characters; \<open>None\<close> when a character is not allowed.\<close>

definition byte_of :: "u32 \<Rightarrow> nat \<Rightarrow> char" where
  "byte_of n s = char_of (unat (ucast (drop_bit s n AND 0xFF) :: u8))"

fun base64_unblocks :: "string \<Rightarrow> string option" where
  "base64_unblocks (c0 # c1 # c2 # c3 # rest) =
     (if base64_map c0 < 0 \<or> base64_map c1 < 0 then None
      else
        let v2 = (if c2 = CHR ''='' then 0 else base64_map c2);
            v3 = (if c3 = CHR ''='' then 0 else base64_map c3)
        in if (c2 \<noteq> CHR ''='' \<and> v2 < 0) \<or> (c3 \<noteq> CHR ''='' \<and> v3 < 0) then None
           else
             let n = push_bit 18 (word_of_int (base64_map c0)) OR push_bit 12 (word_of_int (base64_map c1))
                       OR push_bit 6 (word_of_int v2) OR word_of_int v3;
                 out = [byte_of n 16] @ (if c2 \<noteq> CHR ''='' then [byte_of n 8] else [])
                         @ (if c3 \<noteq> CHR ''='' then [byte_of n 0] else [])
             in map_option ((@) out) (base64_unblocks rest))"
| "base64_unblocks [] = Some []"
| "base64_unblocks s = None"

definition Base64UrlDecode :: "string \<Rightarrow> string option" where
  "Base64UrlDecode input = base64_unblocks (base64_pad (map from_url input))"

section \<open>Percent coding is undone\<close>

lemma hex_digits: "n < 16 \<Longrightarrow> HexValue (kHex ! n) = int n" for n :: nat
proof -
  have "\<forall>n \<in> set [0..<16]. HexValue (kHex ! n) = int n" by code_simp
  then show "n < 16 \<Longrightarrow> HexValue (kHex ! n) = int n" by simp
qed

lemma char_of_nibbles: "char_of (int (of_char c div 16 mod 16) * 16 + int (of_char c mod 16)) = c"
proof -
  define x :: nat where "x = of_char c"
  have "x < 256" by (simp add: x_def)
  then have "x div 16 mod 16 = x div 16" by simp
  then have "int (x div 16 mod 16) * 16 + int (x mod 16) = int x"
    by (metis div_mult_mod_eq of_nat_add of_nat_mult of_nat_numeral)
  moreover have "char_of (int x) = c"
    unfolding x_def by (metis char_of_char of_nat_of_char)
  ultimately show ?thesis by (simp only: x_def)
qed

lemma UrlDecode_plain: "ch \<noteq> CHR ''+'' \<Longrightarrow> ch \<noteq> CHR ''%'' \<Longrightarrow> UrlDecode (ch # rest) = ch # UrlDecode rest"
  by (cases rest rule: remdups_adj.cases) simp_all

lemma UrlDecode_escape:
  "HexValue a \<ge> 0 \<Longrightarrow> HexValue b \<ge> 0 \<Longrightarrow>
     UrlDecode (CHR ''%'' # a # b # rest) = char_of (HexValue a * 16 + HexValue b) # UrlDecode rest"
  by simp

text \<open>
  Decoding undoes encoding: for every string of bytes, whatever it holds, percent coding and
  decoding give it back.
\<close>

theorem url_coding_roundtrip: "UrlDecode (UrlEncode s) = s"
proof (induction s)
  case (Cons c s)
  show ?case
  proof (cases "unreserved c")
    case True
    then have "c \<noteq> CHR ''+''" "c \<noteq> CHR ''%''" by (auto simp: unreserved_def)
    with True Cons show ?thesis by (simp add: UrlDecode_plain del: UrlDecode.simps)
  next
    case False
    have h: "HexValue (kHex ! (of_char c div 16 mod 16)) = int (of_char c div 16 mod 16)"
      "HexValue (kHex ! (of_char c mod 16)) = int (of_char c mod 16)"
      by (rule hex_digits, rule mod_less_divisor, simp)+
    have "UrlDecode (CHR ''%'' # kHex ! (of_char c div 16 mod 16) # kHex ! (of_char c mod 16) # UrlEncode s) =
        char_of (int (of_char c div 16 mod 16) * 16 + int (of_char c mod 16)) # UrlDecode (UrlEncode s)"
      using UrlDecode_escape [of "kHex ! (of_char c div 16 mod 16)" "kHex ! (of_char c mod 16)" "UrlEncode s"]
      unfolding h by simp
    then show ?thesis
      using False by (simp only: UrlEncode.simps if_False append_Cons append_Nil char_of_nibbles Cons)
  qed
qed simp

section \<open>Base64 is undone\<close>

text \<open>What a code consists of: letters, digits, \<open>-\<close> and \<open>_\<close>.\<close>

definition link_char :: "char \<Rightarrow> bool" where
  "link_char c \<longleftrightarrow> unreserved c \<and> c \<noteq> CHR ''.'' \<and> c \<noteq> CHR ''~''"

lemma table_entries:
  assumes "n < 64"
  shows "base64_map (kTable ! n) = int n" "kTable ! n \<noteq> CHR ''=''" "from_url (to_url (kTable ! n)) = kTable ! n"
    "to_url (kTable ! n) \<noteq> CHR ''=''" "link_char (to_url (kTable ! n))"
proof -
  have "\<forall>n \<in> set [0..<64]. base64_map (kTable ! n) = int n \<and> kTable ! n \<noteq> CHR ''='' \<and>
      from_url (to_url (kTable ! n)) = kTable ! n \<and> to_url (kTable ! n) \<noteq> CHR ''='' \<and> link_char (to_url (kTable ! n))"
    by code_simp
  with assms show "base64_map (kTable ! n) = int n" "kTable ! n \<noteq> CHR ''=''" "from_url (to_url (kTable ! n)) = kTable ! n"
    "to_url (kTable ! n) \<noteq> CHR ''=''" "link_char (to_url (kTable ! n))" by auto
qed

lemma sextet_small: "unat (w AND 63 :: u32) < 64"
proof -
  have "w AND 63 = take_bit 6 w" by (simp add: take_bit_eq_mask mask_eq_exp_minus_1)
  then show ?thesis
    using unsigned_take_bit_eq [of 6 w] by (simp add: unsigned_take_bit_eq take_bit_nat_less_exp [of 6, simplified])
qed

lemma sextet_entries:
  "base64_map (sextet n s) = int (unat (drop_bit s n AND 63))" "sextet n s \<noteq> CHR ''=''"
  "from_url (to_url (sextet n s)) = sextet n s" "to_url (sextet n s) \<noteq> CHR ''=''" "link_char (to_url (sextet n s))"
  using sextet_small [of "drop_bit s n"] by (simp_all add: sextet_def table_entries)

text \<open>Bits of the pieces.\<close>

lemma bit_u32_of: "bit (u32_of c) k \<longleftrightarrow> k < 8 \<and> bit (of_char c :: nat) k"
  by (auto simp: u32_of_def bit_simps)

lemma bit_63: "bit (w AND 63 :: u32) k \<longleftrightarrow> k < 6 \<and> bit w k"
proof -
  have "w AND 63 = take_bit 6 w" by (simp add: take_bit_eq_mask mask_eq_exp_minus_1)
  then show ?thesis by (simp add: bit_take_bit_iff)
qed

lemma byte_back:
  assumes "\<And>k. k < 8 \<Longrightarrow> bit n (s + k) \<longleftrightarrow> bit (of_char c :: nat) k"
  shows "byte_of n s = c"
proof -
  have "w AND 255 = take_bit 8 w" for w :: u32 by (simp add: take_bit_eq_mask mask_eq_exp_minus_1)
  then have "(ucast (drop_bit s n AND 0xFF) :: u8) = word_of_nat (of_char c)"
    using assms by (intro bit_word_eqI) (auto simp: bit_simps bit_take_bit_iff)
  then show ?thesis by (simp add: byte_of_def unat_of_nat take_bit_nat_eq_self)
qed

text \<open>Four sextets of a number of 24 bits make it up again; the last ones may be missing.\<close>

definition joined :: "u32 \<Rightarrow> u32" where
  "joined n = push_bit 18 (drop_bit 18 n AND 63) OR push_bit 12 (drop_bit 12 n AND 63)
     OR push_bit 6 (drop_bit 6 n AND 63) OR (drop_bit 0 n AND 63)"

lemma bit_joined: "bit (joined n) k \<longleftrightarrow> k < 24 \<and> bit n k"
  unfolding joined_def bit_or_iff bit_push_bit_iff bit_63 bit_drop_bit_eq o_def
  by (cases "k < 24") (auto simp: not_less dest: bit_imp_le_length cong: conj_cong)

lemma unblocks_full:
  "base64_unblocks (sextet n 18 # sextet n 12 # sextet n 6 # sextet n 0 # rest) =
     map_option ((@) [byte_of (joined n) 16, byte_of (joined n) 8, byte_of (joined n) 0]) (base64_unblocks rest)"
  by (simp add: sextet_entries joined_def Let_def)

lemma unblocks_two:
  "base64_unblocks [sextet n 18, sextet n 12, sextet n 6, CHR ''=''] =
     Some [byte_of (push_bit 18 (drop_bit 18 n AND 63) OR push_bit 12 (drop_bit 12 n AND 63) OR push_bit 6 (drop_bit 6 n AND 63)) 16,
           byte_of (push_bit 18 (drop_bit 18 n AND 63) OR push_bit 12 (drop_bit 12 n AND 63) OR push_bit 6 (drop_bit 6 n AND 63)) 8]"
  by (simp add: sextet_entries Let_def)

lemma unblocks_one:
  "base64_unblocks [sextet n 18, sextet n 12, CHR ''='', CHR ''=''] =
     Some [byte_of (push_bit 18 (drop_bit 18 n AND 63) OR push_bit 12 (drop_bit 12 n AND 63)) 16]"
  by (simp add: sextet_entries Let_def)

lemma bit_high:
  "bit (push_bit 18 (drop_bit 18 n AND 63) OR push_bit 12 (drop_bit 12 n AND 63) :: u32) k \<longleftrightarrow> 12 \<le> k \<and> k < 24 \<and> bit n k"
  "bit (push_bit 18 (drop_bit 18 n AND 63) OR push_bit 12 (drop_bit 12 n AND 63) OR push_bit 6 (drop_bit 6 n AND 63) :: u32) k
     \<longleftrightarrow> 6 \<le> k \<and> k < 24 \<and> bit n k"
  unfolding bit_or_iff bit_push_bit_iff bit_63 bit_drop_bit_eq o_def
  by (cases "k < 24", auto simp: not_less dest: bit_imp_le_length cong: conj_cong)+

lemma unblocks_blocks: "base64_unblocks (base64_blocks data) = Some data"
proof (induction data rule: base64_blocks.induct)
  case (1 a b c rest)
  let ?n = "push_bit 16 (u32_of a) OR push_bit 8 (u32_of b) OR u32_of c"
  have "byte_of (joined ?n) 16 = a" "byte_of (joined ?n) 8 = b" "byte_of (joined ?n) 0 = c"
    by (rule byte_back, unfold bit_joined bit_or_iff bit_push_bit_iff bit_u32_of, simp)+
  with 1 show ?case by (simp add: unblocks_full Let_def del: base64_unblocks.simps)
next
  case (2 a)
  let ?n = "push_bit 16 (u32_of a)"
  have "byte_of (push_bit 18 (drop_bit 18 ?n AND 63) OR push_bit 12 (drop_bit 12 ?n AND 63)) 16 = a"
    by (rule byte_back, unfold bit_high, unfold bit_push_bit_iff bit_u32_of) simp
  then show ?case by (simp add: unblocks_one Let_def del: base64_unblocks.simps)
next
  case (3 a b)
  let ?n = "push_bit 16 (u32_of a) OR push_bit 8 (u32_of b)"
  let ?m = "push_bit 18 (drop_bit 18 ?n AND 63) OR push_bit 12 (drop_bit 12 ?n AND 63) OR push_bit 6 (drop_bit 6 ?n AND 63)"
  have "byte_of ?m 16 = a" "byte_of ?m 8 = b"
    by (rule byte_back, unfold bit_high, unfold bit_or_iff bit_push_bit_iff bit_u32_of, simp)+
  then show ?case by (simp add: unblocks_two Let_def del: base64_unblocks.simps)
qed simp

text \<open>The blocks are digits followed by at most two fillers, four characters for three bytes.\<close>

definition digit64 :: "char \<Rightarrow> bool" where
  "digit64 c \<longleftrightarrow> from_url (to_url c) = c \<and> to_url c \<noteq> CHR ''='' \<and> link_char (to_url c)"

lemma blocks_shape:
  "\<exists>core p. base64_blocks data = core @ replicate p (CHR ''='') \<and> p < 4 \<and> list_all digit64 core \<and>
     length core = (4 * length data + 2) div 3 \<and> (length core + p) mod 4 = 0"
proof (induction data rule: base64_blocks.induct)
  case (1 a b c rest)
  from 1 [OF refl] obtain core p where ih: "base64_blocks rest = core @ replicate p (CHR ''='')" "p < 4" "list_all digit64 core"
    "length core = (4 * length rest + 2) div 3" "(length core + p) mod 4 = 0"
    by (elim exE conjE) (rule that)
  let ?n = "push_bit 16 (u32_of a) OR push_bit 8 (u32_of b) OR u32_of c"
  let ?core = "[sextet ?n 18, sextet ?n 12, sextet ?n 6, sextet ?n 0] @ core"
  have "base64_blocks (a # b # c # rest) = ?core @ replicate p (CHR ''='')" using ih(1) by (simp add: Let_def)
  moreover have "list_all digit64 ?core" using ih(3) by (simp add: digit64_def sextet_entries)
  moreover have "length ?core = (4 * length (a # b # c # rest) + 2) div 3" "(length ?core + p) mod 4 = 0"
    using ih(4,5) by simp_all
  ultimately show ?case using ih(2)
    by (intro exI [of _ ?core] exI [of _ p] conjI)
next
  case (2 a)
  let ?n = "push_bit 16 (u32_of a)"
  show ?case
    by (rule exI [of _ "[sextet ?n 18, sextet ?n 12]"], rule exI [of _ 2])
      (simp add: Let_def digit64_def sextet_entries numeral_2_eq_2)
next
  case (3 a b)
  let ?n = "push_bit 16 (u32_of a) OR push_bit 8 (u32_of b)"
  show ?case
    by (rule exI [of _ "[sextet ?n 18, sextet ?n 12, sextet ?n 6]"], rule exI [of _ 1])
      (simp add: Let_def digit64_def sextet_entries)
qed (simp add: exI [of _ 0])

lemma strip_back_append: "(\<forall>x \<in> set xs. \<not> P x) \<Longrightarrow> (\<forall>y \<in> set ys. P y) \<Longrightarrow> strip_back P (xs @ ys) = xs"
proof -
  assume x: "\<forall>x \<in> set xs. \<not> P x" and y: "\<forall>y \<in> set ys. P y"
  have "dropWhile P (rev ys @ rev xs) = dropWhile P (rev xs)"
    using y by (intro dropWhile_append2) auto
  moreover have "dropWhile P (rev xs) = rev xs"
    using x by (cases "rev xs") (simp, metis list.set_intros(1) set_rev dropWhile.simps(2))
  ultimately show ?thesis by (simp add: strip_back_def)
qed

lemma filler_count: "p < 4 \<Longrightarrow> (n + p) mod 4 = 0 \<Longrightarrow> (4 - n mod 4) mod 4 = p" for n p :: nat
proof -
  assume p: "p < 4" and z: "(n + p) mod 4 = 0"
  define r where "r = n mod 4"
  have "r < 4" "(r + p) mod 4 = 0" using z by (simp_all add: r_def mod_add_left_eq)
  moreover from this have "r = 0 \<or> r = 1 \<or> r = 2 \<or> r = 3" by arith
  moreover from p have "p = 0 \<or> p = 1 \<or> p = 2 \<or> p = 3" by arith
  ultimately have "(4 - r) mod 4 = p" by (elim disjE) simp_all
  then show ?thesis by (simp only: r_def)
qed

lemma to_url_filler: "to_url (CHR ''='') = CHR ''=''"
  by (simp add: to_url_def)

lemma encode_shape:
  obtains core p where "base64_blocks data = core @ replicate p (CHR ''='')" "p < 4" "list_all digit64 core"
    "length core = (4 * length data + 2) div 3" "(length core + p) mod 4 = 0" "Base64UrlEncode data = map to_url core"
proof -
  obtain core p where c: "base64_blocks data = core @ replicate p (CHR ''='')" "p < 4" "list_all digit64 core"
    "length core = (4 * length data + 2) div 3" "(length core + p) mod 4 = 0"
    using blocks_shape [of data] by (elim exE conjE) (rule that)
  have "Base64UrlEncode data = map to_url core"
    unfolding Base64UrlEncode_def c(1) map_append
    using c(3) by (intro strip_back_append) (auto simp: list_all_iff digit64_def to_url_filler)
  with c show ?thesis by (rule that)
qed

text \<open>
  The Base64 coding of links loses nothing and needs no escaping: decoding gives back the bytes,
  the code consists of letters, digits, \<open>-\<close> and \<open>_\<close> only, and it is four characters for three
  bytes, rounded up, without padding.
\<close>

theorem base64_roundtrip:
  "Base64UrlDecode (Base64UrlEncode data) = Some data
   \<and> list_all link_char (Base64UrlEncode data)
   \<and> length (Base64UrlEncode data) = (4 * length data + 2) div 3"
proof -
  obtain core p where c: "base64_blocks data = core @ replicate p (CHR ''='')" "p < 4" "list_all digit64 core"
    "length core = (4 * length data + 2) div 3" "(length core + p) mod 4 = 0" "Base64UrlEncode data = map to_url core"
    by (rule encode_shape)
  have "map from_url (map to_url core) = core"
    using c(3) by (induction core) (auto simp: digit64_def)
  moreover have "(4 - length core mod 4) mod 4 = p"
    by (rule filler_count [OF c(2,5)])
  ultimately have "base64_pad (map from_url (Base64UrlEncode data)) = base64_blocks data"
    by (simp add: c(1,6) base64_pad_def)
  then have "Base64UrlDecode (Base64UrlEncode data) = Some data"
    by (simp add: Base64UrlDecode_def unblocks_blocks)
  then show ?thesis
    using c(3,4,6) by (simp add: list_all_iff digit64_def)
qed

end
