(* ===== verification/Client_Actions.thy ===== *)
theory Client_Actions
  imports Client_Store Url_Codec
begin

text \<open>
  What the desktop client does with what it keeps (\<open>MainFrame.cpp\<close>): custom signals, the loading of
  everything at the start, the handlers of the profile buttons, connection links, the volume and
  the settings. Handlers that connect call the frame of \<open>Client_Frame\<close>; they return \<open>None\<close> when that
  does not return.
\<close>

section \<open>Custom signals\<close>

definition PatternNameAsciiIEq :: "string \<Rightarrow> string \<Rightarrow> bool" where
  "PatternNameAsciiIEq a b \<longleftrightarrow> length a = length b \<and>
     (\<forall>i < length a. c_tolower (a ! i) = c_tolower (b ! i))"

definition IsBuiltInRogerPatternId :: "string \<Rightarrow> bool" where
  "IsBuiltInRogerPatternId sid \<longleftrightarrow> sid = ''none'' \<or> sid = ''variant_1'' \<or> sid = ''variant_2'' \<or> sid = ''variant_3''"

definition IsBuiltInCallPatternId :: "string \<Rightarrow> bool" where
  "IsBuiltInCallPatternId sid \<longleftrightarrow> sid = ''call_variant_1'' \<or> sid = ''call_variant_2'' \<or> sid = ''call_variant_3''"

definition OwTranslatePatternDisplayName :: "wx \<Rightarrow> string \<Rightarrow> string" where
  "OwTranslatePatternDisplayName W name = wx_tr W name"

definition MergedRogerPatternsForUi :: "wx \<Rightarrow> 'f flt \<Rightarrow> ('c, 'f) client \<Rightarrow> 'f client_pattern list" where
  "MergedRogerPatternsForUi W F st =
     map (\<lambda>p. p\<lparr>pa_name := OwTranslatePatternDisplayName W (pa_name p)\<rparr>) (RogerPatterns F) @ cn_customRoger st"

definition MergedCallPatternsForUi :: "wx \<Rightarrow> 'f flt \<Rightarrow> ('c, 'f) client \<Rightarrow> 'f client_pattern list" where
  "MergedCallPatternsForUi W F st =
     map (\<lambda>p. p\<lparr>pa_name := OwTranslatePatternDisplayName W (pa_name p)\<rparr>) (CallPatterns F) @ cn_customCall st"

definition ApplyCustomPatternsToEngine :: "('c, 'f) client \<Rightarrow> ('c, 'f) client" where
  "ApplyCustomPatternsToEngine st = on_engine (SetCustomSignalPatterns (cn_customRoger st) (cn_customCall st)) st"

text \<open>\<open>None\<close> is an exception.\<close>

fun item_points :: "('j, 'f) json_doc \<Rightarrow> 'f flt \<Rightarrow> 'j list \<Rightarrow> 'f SignalPoint list option" where
  "item_points D F [] = Some []"
| "item_points D F (pt # rest) = do {
     f \<leftarrow> jd_value_double D pt ''freqHz'' (fl_dec F 0 1);
     d \<leftarrow> jl_value_int (jd_base D) pt ''durationMs'' 0;
     pts \<leftarrow> item_points D F rest;
     Some (\<lparr>sp_freqHz = f, sp_durationMs = d\<rparr> # pts) }"

fun item_patterns :: "('j, 'f) json_doc \<Rightarrow> 'f flt \<Rightarrow> bool \<Rightarrow> 'j list \<Rightarrow> 'f client_pattern list option" where
  "item_patterns D F call [] = Some []"
| "item_patterns D F call (item # rest) = do {
     pid \<leftarrow> jl_value_string (jd_base D) item ''id'' [];
     name \<leftarrow> jl_value_string (jd_base D) item ''name'' [];
     js \<leftarrow> jd_value_doc D item ''points'' (jd_array D []);
     pts \<leftarrow> item_points D F (jd_items D js);
     reps \<leftarrow> (if call then map_option (max 1) (jl_value_int (jd_base D) item ''repeatCount'' 1) else Some 1);
     ps \<leftarrow> item_patterns D F call rest;
     Some (if pid \<noteq> [] \<and> pts \<noteq> []
           then \<lparr>pa_id = pid, pa_name = name, pa_points = pts, pa_appendTail = (\<not> call), pa_repeatCount = reps\<rparr> # ps
           else ps) }"

definition read_patterns :: "('j, 'f) json_doc \<Rightarrow> 'f flt \<Rightarrow> 'j \<Rightarrow> ('f client_pattern list \<times> 'f client_pattern list) option" where
  "read_patterns D F j = do {
     roger \<leftarrow> jd_value_doc D j ''roger'' (jd_array D []);
     rs \<leftarrow> item_patterns D F False (jd_items D roger);
     call \<leftarrow> jd_value_doc D j ''call'' (jd_array D []);
     cs \<leftarrow> item_patterns D F True (jd_items D call);
     Some (rs, cs) }"

text \<open>Whatever goes wrong, both lists are empty then.\<close>

definition LoadCustomSignalPatternsFromDisk :: "('j, 'f) json_doc \<Rightarrow> 'f flt \<Rightarrow> ('c, 'f) client \<Rightarrow> ('c, 'f) client" where
  "LoadCustomSignalPatternsFromDisk D F st =
     (case read_file D F_Patterns (cn_disk st) of
        Some (Some j) \<Rightarrow>
          (case read_patterns D F j of
             Some (rs, cs) \<Rightarrow> st\<lparr>cn_customRoger := rs, cn_customCall := cs\<rparr>
           | None \<Rightarrow> st\<lparr>cn_customRoger := [], cn_customCall := []\<rparr>)
      | _ \<Rightarrow> st\<lparr>cn_customRoger := [], cn_customCall := []\<rparr>)"

definition stored_point :: "('j, 'f) json_doc \<Rightarrow> 'f SignalPoint \<Rightarrow> 'j" where
  "stored_point D q = jl_object (jd_base D)
     [(''freqHz'', jd_double D (sp_freqHz q)), (''durationMs'', jl_int (jd_base D) (sp_durationMs q))]"

definition stored_pattern :: "('j, 'f) json_doc \<Rightarrow> bool \<Rightarrow> 'f client_pattern \<Rightarrow> 'j" where
  "stored_pattern D call p = jl_object (jd_base D)
     ([(''id'', jl_string (jd_base D) (pa_id p)), (''name'', jl_string (jd_base D) (pa_name p)),
       (''points'', jd_array D (map (stored_point D) (pa_points p)))]
      @ (if call then [(''repeatCount'', jl_int (jd_base D) (max 1 (pa_repeatCount p)))] else []))"

definition patterns_doc :: "('j, 'f) json_doc \<Rightarrow> 'f client_pattern list \<Rightarrow> 'f client_pattern list \<Rightarrow> 'j" where
  "patterns_doc D rs cs = jl_object (jd_base D)
     [(''roger'', jd_array D (map (stored_pattern D False) rs)), (''call'', jd_array D (map (stored_pattern D True) cs))]"

definition SaveCustomSignalPatternsToDisk :: "('j, 'f) json_doc \<Rightarrow> ('c, 'f) client \<Rightarrow> ('c, 'f) client" where
  "SaveCustomSignalPatternsToDisk D st =
     on_disk (write_file F_Patterns (jd_dump2 D (patterns_doc D (cn_customRoger st) (cn_customCall st)))) st"

text \<open>\<open>ticks\<close> is the clock of the system.\<close>

definition NewCustomPatternId :: "nat \<Rightarrow> string" where
  "NewCustomPatternId ticks = ''custom_'' @ std_to_string (int ticks)"

text \<open>The first entry that satisfies \<open>P\<close> is changed by \<open>g\<close>; \<open>None\<close> when there is none.\<close>

fun update_first :: "('a \<Rightarrow> bool) \<Rightarrow> ('a \<Rightarrow> 'a) \<Rightarrow> 'a list \<Rightarrow> ('a \<times> 'a list) option" where
  "update_first P g [] = None"
| "update_first P g (x # xs) =
     (if P x then Some (g x, g x # xs)
      else map_option (\<lambda>(y, ys). (y, x # ys)) (update_first P g xs))"

text \<open>
  \<open>upsert keep replace fresh p ps\<close>: an entry with the id of \<open>p\<close> is changed by \<open>keep\<close>, else one with
  its name by \<open>replace\<close>, else \<open>fresh\<close> is appended. The first result is the entry.
\<close>

definition upsert ::
  "('f client_pattern \<Rightarrow> 'f client_pattern) \<Rightarrow> ('f client_pattern \<Rightarrow> 'f client_pattern) \<Rightarrow> 'f client_pattern \<Rightarrow>
   'f client_pattern \<Rightarrow> 'f client_pattern list \<Rightarrow> 'f client_pattern \<times> 'f client_pattern list" where
  "upsert keep replace fresh p ps =
     (case (if pa_id p = [] then None else update_first (\<lambda>q. pa_id q = pa_id p) keep ps) of
        Some r \<Rightarrow> r
      | None \<Rightarrow>
          (case update_first (\<lambda>q. PatternNameAsciiIEq (pa_name q) (pa_name p)) replace ps of
             Some r \<Rightarrow> r
           | None \<Rightarrow> (fresh, ps @ [fresh])))"

definition with_id :: "nat \<Rightarrow> 'f client_pattern \<Rightarrow> 'f client_pattern" where
  "with_id ticks p = (if pa_id p = [] then p\<lparr>pa_id := NewCustomPatternId ticks\<rparr> else p)"

definition UpsertCustomRogerPattern ::
  "('j, 'f) json_doc \<Rightarrow> nat \<Rightarrow> 'f client_pattern \<Rightarrow> ('c, 'f) client \<Rightarrow> ('c, 'f) client" where
  "UpsertCustomRogerPattern D ticks pattern st =
     (let pattern = pattern\<lparr>pa_appendTail := True\<rparr>;
          (entry, ps) = upsert
            (\<lambda>q. q\<lparr>pa_name := pa_name pattern, pa_points := pa_points pattern, pa_repeatCount := 1, pa_appendTail := True\<rparr>)
            (\<lambda>q. pattern\<lparr>pa_id := pa_id q, pa_repeatCount := 1\<rparr>)
            ((with_id ticks pattern)\<lparr>pa_repeatCount := 1\<rparr>) pattern (cn_customRoger st);
          st = st\<lparr>cn_customRoger := ps, cn_roger := pa_id entry\<rparr>;
          st = ApplyCustomPatternsToEngine (SaveCustomSignalPatternsToDisk D st);
          st = on_engine (SetRogerPatternId (cn_roger st)) st
      in SaveAudioSettings D st)"

definition UpsertCustomCallPattern ::
  "('j, 'f) json_doc \<Rightarrow> nat \<Rightarrow> 'f client_pattern \<Rightarrow> ('c, 'f) client \<Rightarrow> ('c, 'f) client" where
  "UpsertCustomCallPattern D ticks pattern st =
     (let pattern = pattern\<lparr>pa_appendTail := False\<rparr>;
          (entry, ps) = upsert
            (\<lambda>q. q\<lparr>pa_name := pa_name pattern, pa_points := pa_points pattern,
                   pa_repeatCount := max 1 (pa_repeatCount pattern), pa_appendTail := False\<rparr>)
            (\<lambda>q. pattern\<lparr>pa_id := pa_id q\<rparr>)
            (with_id ticks pattern) pattern (cn_customCall st);
          st = st\<lparr>cn_customCall := ps, cn_call := pa_id entry\<rparr>;
          st = ApplyCustomPatternsToEngine (SaveCustomSignalPatternsToDisk D st);
          st = on_engine (SetCallPatternId (cn_call st)) st
      in SaveAudioSettings D st)"

definition DeleteCustomRogerPattern :: "('j, 'f) json_doc \<Rightarrow> string \<Rightarrow> ('c, 'f) client \<Rightarrow> bool \<times> ('c, 'f) client" where
  "DeleteCustomRogerPattern D sid st =
     (if \<not> list_ex (\<lambda>p. pa_id p = sid) (cn_customRoger st) then (False, st)
      else
        let st = st\<lparr>cn_customRoger := filter (\<lambda>p. pa_id p \<noteq> sid) (cn_customRoger st)\<rparr>;
            st = (if cn_roger st = sid
                  then SaveAudioSettings D (on_engine (SetRogerPatternId ''none'') (st\<lparr>cn_roger := ''none''\<rparr>)) else st)
        in (True, ApplyCustomPatternsToEngine (SaveCustomSignalPatternsToDisk D st)))"

definition DeleteCustomCallPattern :: "('j, 'f) json_doc \<Rightarrow> string \<Rightarrow> ('c, 'f) client \<Rightarrow> bool \<times> ('c, 'f) client" where
  "DeleteCustomCallPattern D sid st =
     (if \<not> list_ex (\<lambda>p. pa_id p = sid) (cn_customCall st) then (False, st)
      else
        let st = st\<lparr>cn_customCall := filter (\<lambda>p. pa_id p \<noteq> sid) (cn_customCall st)\<rparr>;
            st = (if cn_call st = sid
                  then SaveAudioSettings D (on_engine (SetCallPatternId ''call_variant_1'') (st\<lparr>cn_call := ''call_variant_1''\<rparr>))
                  else st)
        in (True, ApplyCustomPatternsToEngine (SaveCustomSignalPatternsToDisk D st)))"

section \<open>The start\<close>

definition legacy_profile :: "('j, 'f) json_doc \<Rightarrow> 'j \<Rightarrow> ServerProfile" where
  "legacy_profile D j = (let L = jd_base D; int_at = (\<lambda>k. jl_contains L j k \<and> jd_is_int D (jl_at L j k)); p = ServerProfile_default in
     \<lparr>sv_name = ''Default'',
      sv_host = (if jl_contains L j ''host'' \<and> jl_is_string L (jl_at L j ''host'') then jd_get_string D (jl_at L j ''host'') else sv_host p),
      sv_port = (if int_at ''port'' then jd_get_int D (jl_at L j ''port'')
                 else if int_at ''ws_port'' then jd_get_int D (jl_at L j ''ws_port'')
                 else if int_at ''udp_port'' then jd_get_int D (jl_at L j ''udp_port'') else sv_port p),
      sv_channel = (if jl_contains L j ''channel'' \<and> jl_is_string L (jl_at L j ''channel'')
                    then jd_get_string D (jl_at L j ''channel'') else sv_channel p),
      sv_repeater = (if jl_contains L j ''repeater'' \<and> jl_is_boolean L (jl_at L j ''repeater'')
                     then jd_get_bool D (jl_at L j ''repeater'') else sv_repeater p)\<rparr>)"

text \<open>Once, for the file of the first version; an exception leaves what has been done.\<close>

definition MigrateLegacyConnectionJsonIfNeeded :: "('j, 'f) json_doc \<Rightarrow> ('c, 'f) client \<Rightarrow> ('c, 'f) client" where
  "MigrateLegacyConnectionJsonIfNeeded D st =
     (if FileExists (cn_disk st) F_Profiles then st
      else if \<not> FileExists (cn_disk st) F_Legacy then st
      else (case read_file D F_Legacy (cn_disk st) of
              Some (Some j) \<Rightarrow>
                let st = st\<lparr>cn_profiles := [legacy_profile D j], cn_active := 0\<rparr>
                in (case (jl_value_int (jd_base D) j ''audio_input_device'' (- 1),
                          jl_value_int (jd_base D) j ''audio_output_device'' (- 1)) of
                      (Some i, Some o_dev) \<Rightarrow>
                        let dump = jd_dump2 D (jl_object (jd_base D)
                              [(''audio_input_device'', jl_int (jd_base D) i), (''audio_output_device'', jl_int (jd_base D) o_dev)]);
                            writable = dk_writable (cn_disk st) F_Config;
                            st = on_disk (write_file F_Config dump) st
                        in if writable \<and> dump = None then st else SaveProfilesToDisk D st
                    | _ \<Rightarrow> st)
            | _ \<Rightarrow> st))"

definition LoadAllSettings :: "('j, 'f) json_doc \<Rightarrow> 'f flt \<Rightarrow> ('c, 'f) client \<Rightarrow> ('c, 'f) client" where
  "LoadAllSettings D F st =
     ApplyCustomPatternsToEngine (LoadCustomSignalPatternsFromDisk D F (load_settings D F (load_profiles D st)))"

definition ApplyAudioSettingsToEngine :: "'f flt \<Rightarrow> ('c, 'f) client \<Rightarrow> ('c, 'f) client" where
  "ApplyAudioSettingsToEngine F st =
     on_engine (\<lambda>a. SetVibrationImitation F (cn_vibHz st) (cn_vibVolume st)
                  (SetRxVolumePercent (cn_rxVolume st)
                  (SetCallPatternId (cn_call st)
                  (SetRogerPatternId (cn_roger st)
                  (SetPreferredOutputDevice (cn_output st)
                  (SetPreferredInputDevice (cn_input st) a)))))) st"

definition SyncRxVolumeUi :: "('c, 'f) client \<Rightarrow> ('c, 'f) client" where
  "SyncRxVolumeUi st =
     (let st = st\<lparr>cn_rxVolume := std_clamp (cn_rxVolume st) 0 200\<rparr>
      in on_engine (SetRxVolumePercent (cn_rxVolume st)) st)"

text \<open>The end of the constructor, from the migration on.\<close>

definition client_start :: "('j, 'f) json_doc \<Rightarrow> 'f flt \<Rightarrow> ('c, 'f) client \<Rightarrow> ('c, 'f) client" where
  "client_start D F st =
     (let st = LoadAllSettings D F (MigrateLegacyConnectionJsonIfNeeded D st);
          st = on_frame (\<lambda>f. f\<lparr>fr_level := if fr_showLevel f then fr_level f else 0\<rparr>) st;
          st = SyncRxVolumeUi (ApplyAudioSettingsToEngine F st)
      in on_frame RefreshPttUi st)"

section \<open>Volume and repeater\<close>

definition OnRxVolumeSlider :: "('j, 'f) json_doc \<Rightarrow> int \<Rightarrow> ('c, 'f) client \<Rightarrow> ('c, 'f) client" where
  "OnRxVolumeSlider D v st =
     (let st = st\<lparr>cn_rxVolume := std_clamp v 0 200\<rparr>
      in SaveAudioSettings D (on_engine (SetRxVolumePercent (cn_rxVolume st)) st))"

text \<open>The slider is let go: the engine plays a sound at the volume.\<close>

definition OnRxVolumeReleased :: "'f audio_env \<Rightarrow> int \<Rightarrow> ('c, 'f) client \<Rightarrow> ('c, 'f) client" where
  "OnRxVolumeReleased V v st = on_engine (PlayRxVolumePreviewSignal V (std_clamp v 0 200)) st"

definition OnRepeaterToggled ::
  "('j, 'f) json_doc \<Rightarrow> ('j, 'c, 'f) ui_env \<Rightarrow> bool \<Rightarrow> ('c, 'f) client \<Rightarrow> ('c, 'f) client" where
  "OnRepeaterToggled D U v st =
     (let st = st\<lparr>cn_repeaterCheck := v\<rparr>;
          st = (if active_valid st
                then SaveProfilesToDisk D (st\<lparr>cn_profiles := (cn_profiles st)
                       [nat (cn_active st) := (cn_profiles st ! nat (cn_active st))\<lparr>sv_repeater := v\<rparr>]\<rparr>)
                else st)
      in on_frame (repeater_toggled U v) st)"

section \<open>Profiles\<close>

definition ui_fields :: "wx \<Rightarrow> ('c, 'f) client \<Rightarrow> connect_fields" where
  "ui_fields W st = \<lparr>cf_host = cn_hostCtrl st, cf_port = map_option i32 (wx_ToLong W (cn_portCtrl st)),
     cf_channel = cn_channelCtrl st, cf_repeater = cn_repeaterCheck st\<rparr>"

text \<open>
  After an attempt that was made the connect button reads \<open>Disconnect\<close>, after a failed one
  \<open>Connect\<close>; only the first saves.
\<close>

definition after_connect :: "('j, 'f) json_doc \<Rightarrow> ('c, 'f) client \<Rightarrow> ('c, 'f) frame option \<Rightarrow> ('c, 'f) client option" where
  "after_connect D st result =
     map_option (\<lambda>f. let st = st\<lparr>cn_frame := f\<rparr>
        in if fr_connectLabel f = ''Disconnect'' then SaveAudioSettings D (SaveProfilesToDisk D st) else st) result"

definition OnProfileChoice ::
  "('j, 'f) json_doc \<Rightarrow> wx \<Rightarrow> ('j, 'c, 'f) ui_env \<Rightarrow> int \<Rightarrow> ('c, 'f) client \<Rightarrow> ('c, 'f) client option" where
  "OnProfileChoice D W U sel st =
     (let st = st\<lparr>cn_choice := sel\<rparr>
      in if sel < 0 \<or> sel \<ge> int (length (cn_profiles st)) then Some st
         else if sel = cn_active st then Some st
         else
           let st = SaveProfilesToDisk D (SyncUiFromActiveProfile (st\<lparr>cn_active := sel\<rparr>))
           in if \<not> fr_connected (cn_frame st) \<and> \<not> fr_wantsSession (cn_frame st) then Some st
              else after_connect D st (switch_profile U (ui_fields W st) (cn_frame st)))"

definition OnSaveProfile :: "('j, 'f) json_doc \<Rightarrow> wx \<Rightarrow> ('c, 'f) client \<Rightarrow> ('c, 'f) client" where
  "OnSaveProfile D W st =
     client_SetStatus ''Profile saved'' (RepopulateProfileChoice (SaveProfilesToDisk D (SyncActiveProfileFromUi W st)))"

definition OnNewProfile :: "('j, 'f) json_doc \<Rightarrow> wx \<Rightarrow> ('c, 'f) client \<Rightarrow> ('c, 'f) client" where
  "OnNewProfile D W st =
     (let st = SyncActiveProfileFromUi W st;
          entered = wx_Trim W (cn_nameCtrl st);
          p = \<lparr>sv_name = (if entered \<noteq> [] then entered
                  else wx_Format W ''Connection %d'' (int (length (cn_profiles st)) + 1)),
               sv_host = cn_hostCtrl st, sv_port = ctrl_port W st, sv_channel = cn_channelCtrl st,
               sv_repeater = cn_repeaterCheck st\<rparr>;
          st = st\<lparr>cn_profiles := cn_profiles st @ [p], cn_active := int (length (cn_profiles st))\<rparr>
      in client_SetStatus ''Profile created'' (RepopulateProfileChoice (SaveProfilesToDisk D st)))"

definition OnDeleteProfile :: "('j, 'f) json_doc \<Rightarrow> ('c, 'f) client \<Rightarrow> ('c, 'f) client" where
  "OnDeleteProfile D st =
     (if length (cn_profiles st) \<le> 1 then st
      else if cn_choice st < 0 then st
      else
        let sel = nat (cn_choice st);
            ps = take sel (cn_profiles st) @ drop (Suc sel) (cn_profiles st);
            st = st\<lparr>cn_profiles := ps, cn_active := min (cn_choice st) (int (length ps) - 1)\<rparr>
        in client_SetStatus ''Profile deleted''
             (SyncUiFromActiveProfile (RepopulateProfileChoice (SaveProfilesToDisk D st))))"

text \<open>The connect button: the fields are kept in the profile before the attempt.\<close>

definition client_OnConnectClicked ::
  "('j, 'f) json_doc \<Rightarrow> wx \<Rightarrow> ('j, 'c, 'f) ui_env \<Rightarrow> ('c, 'f) client \<Rightarrow> ('c, 'f) client option" where
  "client_OnConnectClicked D W U st =
     (if fr_connected (cn_frame st) \<or> fr_wantsSession (cn_frame st)
      then map_option (\<lambda>f. st\<lparr>cn_frame := f\<rparr>) (OnConnectClicked U (ui_fields W st) (cn_frame st))
      else
        let st = SyncActiveProfileFromUi W st
        in after_connect D st (OnConnectClicked U (ui_fields W st) (cn_frame st)))"

section \<open>Links\<close>

definition link_marker :: string where "link_marker = ''owalkie://connect/''"

definition link_doc :: "('j, 'f) json_doc \<Rightarrow> string \<Rightarrow> int \<Rightarrow> string \<Rightarrow> string option \<Rightarrow> 'j" where
  "link_doc D host port channel name = jl_object (jd_base D)
     ([(''v'', jl_int (jd_base D) 1), (''host'', jl_string (jd_base D) host), (''port'', jl_int (jd_base D) port),
       (''channel'', jl_string (jd_base D) channel)]
      @ (case name of None \<Rightarrow> []
         | Some n \<Rightarrow> [(''name'', jl_string (jd_base D) (if n = [] then ''Connection'' else n))]))"

datatype link_result = Link_Text string | Link_Status string | Link_Raised

text \<open>
  The link that goes to the clipboard, or the status; an exception of \<open>dump\<close> leaves the handler.
\<close>

definition OnShareConnectionLink :: "('j, 'f) json_doc \<Rightarrow> wx \<Rightarrow> bool \<Rightarrow> bool \<Rightarrow> ('c, 'f) client \<Rightarrow> link_result" where
  "OnShareConnectionLink D W includeName clipboard st =
     (case wx_ToLong W (cn_portCtrl st) of
        None \<Rightarrow> Link_Status ''Invalid port''
      | Some port \<Rightarrow>
          if port < 1 \<or> port > 65535 then Link_Status ''Invalid port''
          else if cn_hostCtrl st = [] \<or> cn_channelCtrl st = [] then Link_Status ''Invalid deep link''
          else (case jl_dump (jd_base D) (link_doc D (cn_hostCtrl st) port (cn_channelCtrl st)
                       (if includeName then Some (cn_nameCtrl st) else None)) of
                  None \<Rightarrow> Link_Raised
                | Some t \<Rightarrow>
                    if \<not> clipboard then Link_Status ''Clipboard unavailable''
                    else Link_Text (link_marker @ Base64UrlEncode t)))"

definition link_punctuation :: "char \<Rightarrow> bool" where
  "link_punctuation c \<longleftrightarrow> c \<in> set ''.,;:!?)]}''"

definition link_payload :: "string \<Rightarrow> string option" where
  "link_payload uri =
     (if \<not> starts_with ''owalkie://'' uri then None
      else (case find_sub link_marker uri of
              None \<Rightarrow> None
            | Some pPos \<Rightarrow>
                let payloadB64 = strip_back link_punctuation (strip_back c_isspace (drop (pPos + length link_marker) uri))
                in if payloadB64 = [] then None else Base64UrlDecode payloadB64))"

datatype uri_result = Uri_Applied | Uri_Invalid | Uri_Raised

text \<open>
  The payload's members are read outside of the \<open>try\<close> block, so an exception there leaves the
  function with the controls that have been set by then.
\<close>

definition ApplyConnectUri ::
  "('j, 'f) json_doc \<Rightarrow> wx \<Rightarrow> string \<Rightarrow> ('c, 'f) client \<Rightarrow> uri_result \<times> ('c, 'f) client" where
  "ApplyConnectUri D W uri st =
     (let invalid = (Uri_Invalid, client_SetStatus ''Invalid deep link'' st)
      in case Option.bind (link_payload uri) (jl_parse (jd_base D)) of
           None \<Rightarrow> invalid
         | Some payload \<Rightarrow>
             (case (do { host \<leftarrow> jl_value_string (jd_base D) payload ''host'' [];
                         channel \<leftarrow> jl_value_string (jd_base D) payload ''channel'' [];
                         port \<leftarrow> jl_value_int (jd_base D) payload ''port'' 0;
                         Some (host, channel, port) }) of
                None \<Rightarrow> (Uri_Raised, st)
              | Some (host, channel, port) \<Rightarrow>
                  if host = [] \<or> channel = [] \<or> port < 1 \<or> port > 65535 then invalid
                  else
                    let st = st\<lparr>cn_hostCtrl := host, cn_portCtrl := std_to_string port, cn_channelCtrl := channel\<rparr>
                    in (case jl_value_string (jd_base D) payload ''name'' [] of
                          None \<Rightarrow> (Uri_Raised, st)
                        | Some name \<Rightarrow>
                            let st = (if name \<noteq> [] then st\<lparr>cn_nameCtrl := name\<rparr> else st)
                            in (Uri_Applied, client_SetStatus ''Deep link applied''
                                  (SaveProfilesToDisk D (SyncActiveProfileFromUi W st))))))"

text \<open>The link in a text: from the marker to the next white space.\<close>

definition link_in :: "string \<Rightarrow> string option" where
  "link_in text = map_option (\<lambda>start. takeWhile (\<lambda>c. \<not> c_isspace c) (drop start text)) (find_sub link_marker text)"

text \<open>\<open>clipboard\<close> is its text, the outer \<open>None\<close> when it does not open, the inner one when it holds none.\<close>

definition OnImportConnectionLink ::
  "('j, 'f) json_doc \<Rightarrow> wx \<Rightarrow> ('j, 'c, 'f) ui_env \<Rightarrow> string option option \<Rightarrow> ('c, 'f) client \<Rightarrow>
   (uri_result \<times> ('c, 'f) client) option" where
  "OnImportConnectionLink D W U clipboard st =
     (case clipboard of
        None \<Rightarrow> Some (Uri_Invalid, client_SetStatus ''Clipboard unavailable'' st)
      | Some content \<Rightarrow>
          (case Option.bind content link_in of
             None \<Rightarrow> Some (Uri_Invalid, client_SetStatus ''Invalid deep link'' st)
           | Some link \<Rightarrow>
               (case ApplyConnectUri D W link st of
                  (Uri_Raised, st) \<Rightarrow> Some (Uri_Raised, st)
                | (Uri_Invalid, st) \<Rightarrow> Some (Uri_Invalid, client_SetStatus ''Invalid deep link'' st)
                | (Uri_Applied, st) \<Rightarrow>
                    if \<not> fr_wantsSession (cn_frame st) then Some (Uri_Applied, st)
                    else map_option (Pair Uri_Applied)
                           (after_connect D st (import_reconnect U (ui_fields W st) (cn_frame st))))))"

end
