(* ===== verification/Client_Settings.thy ===== *)
theory Client_Settings
  imports Client_Actions
begin

text \<open>
  The settings dialog of the desktop client and what the main frame does with its answers, and the
  texts it shows: the status line, the tooltip of the task bar icon (\<open>MainFrame.cpp\<close>).
\<close>

section \<open>Choices\<close>

definition SelectById :: "int list \<Rightarrow> int \<Rightarrow> int" where
  "SelectById ids i = (case find (\<lambda>k. ids ! k = i) [0..<length ids] of None \<Rightarrow> 0 | Some k \<Rightarrow> int k)"

definition SelectByString :: "string list \<Rightarrow> string \<Rightarrow> int" where
  "SelectByString ids i = (case find (\<lambda>k. ids ! k = i) [0..<length ids] of None \<Rightarrow> 0 | Some k \<Rightarrow> int k)"

text \<open>A selection of -1 is \<open>wxNOT_FOUND\<close>.\<close>

definition PickId :: "int \<Rightarrow> int list \<Rightarrow> int" where
  "PickId sel ids = (if sel < 0 \<or> nat sel \<ge> length ids then - 1 else ids ! nat sel)"

definition PickString :: "int \<Rightarrow> string list \<Rightarrow> string" where
  "PickString sel ids =
     (if sel < 0 \<or> nat sel \<ge> length ids then (case ids of [] \<Rightarrow> [] | s # _ \<Rightarrow> s) else ids ! nat sel)"

definition FindPatternById :: "'f client_pattern list \<Rightarrow> string \<Rightarrow> 'f client_pattern option" where
  "FindPatternById ps sid = find (\<lambda>p. pa_id p = sid) ps"

section \<open>The dialog\<close>

record 'f settings_dialog =
  sd_rogerPatterns :: "'f client_pattern list"
  sd_callPatterns :: "'f client_pattern list"
  sd_rogerIds :: "string list"
  sd_callIds :: "string list"
  sd_inputIds :: "int list"
  sd_outputIds :: "int list"
  sd_roger :: int
  sd_call :: int
  sd_input :: int
  sd_output :: int
  sd_vkey :: int
  sd_mods :: u32
  sd_russian :: bool
  sd_showLevel :: bool
  sd_minimize :: bool
  sd_toggle :: bool
  sd_hz :: 'f
  sd_volume :: int

text \<open>The constructor; \<open>inputs\<close> and \<open>outputs\<close> are the indices of the devices found.\<close>

definition dialog_open ::
  "wx \<Rightarrow> 'f flt \<Rightarrow> int list \<Rightarrow> int list \<Rightarrow> ('c, 'f) client \<Rightarrow> 'f settings_dialog" where
  "dialog_open W F inputs outputs st =
     (let rs = MergedRogerPatternsForUi W F st; cs = MergedCallPatternsForUi W F st; f = cn_frame st in
      \<lparr>sd_rogerPatterns = rs, sd_callPatterns = cs, sd_rogerIds = map pa_id rs, sd_callIds = map pa_id cs,
       sd_inputIds = - 1 # inputs, sd_outputIds = - 1 # outputs,
       sd_roger = SelectByString (map pa_id rs) (cn_roger st), sd_call = SelectByString (map pa_id cs) (cn_call st),
       sd_input = SelectById (- 1 # inputs) (cn_input st), sd_output = SelectById (- 1 # outputs) (cn_output st),
       sd_vkey = fr_vkey f, sd_mods = fr_mods f, sd_russian = (cn_language st = ''ru''), sd_showLevel = fr_showLevel f,
       sd_minimize = cn_minimize st, sd_toggle = fr_toggleMode f, sd_hz = clamp_hz F (cn_vibHz st),
       sd_volume = std_clamp (cn_vibVolume st) 0 100\<rparr>)"

definition ReloadRogerCallChoicesFromHost ::
  "wx \<Rightarrow> 'f flt \<Rightarrow> ('c, 'f) client \<Rightarrow> 'f settings_dialog \<Rightarrow> 'f settings_dialog" where
  "ReloadRogerCallChoicesFromHost W F st dg =
     (let rs = MergedRogerPatternsForUi W F st; cs = MergedCallPatternsForUi W F st in
      dg\<lparr>sd_rogerPatterns := rs, sd_callPatterns := cs, sd_rogerIds := map pa_id rs, sd_callIds := map pa_id cs,
         sd_roger := SelectByString (map pa_id rs) (cn_roger st), sd_call := SelectByString (map pa_id cs) (cn_call st)\<rparr>)"

text \<open>Whether the two edit buttons can be pressed.\<close>

definition UpdatePatternDeleteButtons :: "'f settings_dialog \<Rightarrow> bool \<times> bool" where
  "UpdatePatternDeleteButtons dg =
     (let rid = PickString (sd_roger dg) (sd_rogerIds dg); cid = PickString (sd_call dg) (sd_callIds dg)
      in (rid \<noteq> [] \<and> \<not> IsBuiltInRogerPatternId rid, cid \<noteq> [] \<and> \<not> IsBuiltInCallPatternId cid))"

text \<open>The pattern that is played, if any.\<close>

definition PlayRogerPreview :: "'f settings_dialog \<Rightarrow> 'f client_pattern option" where
  "PlayRogerPreview dg =
     (case FindPatternById (sd_rogerPatterns dg) (PickString (sd_roger dg) (sd_rogerIds dg)) of
        None \<Rightarrow> None
      | Some p \<Rightarrow> if pa_points p = [] then None else Some p)"

definition PlayCallPreview :: "'f settings_dialog \<Rightarrow> 'f client_pattern option" where
  "PlayCallPreview dg =
     (case FindPatternById (sd_callPatterns dg) (PickString (sd_call dg) (sd_callIds dg)) of
        None \<Rightarrow> None
      | Some p \<Rightarrow> if pa_points p = [] then None else Some p)"

text \<open>A new signal: \<open>ed\<close> is the editor when it closes.\<close>

definition roger_custom ::
  "('j, 'f) json_doc \<Rightarrow> wx \<Rightarrow> 'f flt \<Rightarrow> nat \<Rightarrow> 'f editor \<Rightarrow> ('c, 'f) client \<times> 'f settings_dialog \<Rightarrow>
   ('c, 'f) client \<times> 'f settings_dialog" where
  "roger_custom D W F ticks ed = (\<lambda>(st, dg).
     case (ed_modal ed, ed_saved ed) of
       (M_Ok, Some p) \<Rightarrow>
         let st = UpsertCustomRogerPattern D ticks p st in (st, ReloadRogerCallChoicesFromHost W F st dg)
     | _ \<Rightarrow> (st, dg))"

definition call_custom ::
  "('j, 'f) json_doc \<Rightarrow> wx \<Rightarrow> 'f flt \<Rightarrow> nat \<Rightarrow> 'f editor \<Rightarrow> ('c, 'f) client \<times> 'f settings_dialog \<Rightarrow>
   ('c, 'f) client \<times> 'f settings_dialog" where
  "call_custom D W F ticks ed = (\<lambda>(st, dg).
     case (ed_modal ed, ed_saved ed) of
       (M_Ok, Some p) \<Rightarrow>
         let st = UpsertCustomCallPattern D ticks p st in (st, ReloadRogerCallChoicesFromHost W F st dg)
     | _ \<Rightarrow> (st, dg))"

text \<open>Editing the selected signal: \<open>session\<close> is what the user does in the editor opened on it.\<close>

definition roger_edit ::
  "('j, 'f) json_doc \<Rightarrow> wx \<Rightarrow> 'f flt \<Rightarrow> nat \<Rightarrow> ('f editor \<Rightarrow> 'f editor) \<Rightarrow> ('c, 'f) client \<times> 'f settings_dialog \<Rightarrow>
   ('c, 'f) client \<times> 'f settings_dialog" where
  "roger_edit D W F ticks session = (\<lambda>(st, dg).
     let sid = PickString (sd_roger dg) (sd_rogerIds dg)
     in if sid = [] \<or> IsBuiltInRogerPatternId sid then (st, dg)
        else (case FindPatternById (sd_rogerPatterns dg) sid of
                None \<Rightarrow> (st, dg)
              | Some p \<Rightarrow>
                  let ed = session (editor_open False (Some p))
                  in if ed_modal ed = M_Deleted then
                       let st = snd (DeleteCustomRogerPattern D sid st) in (st, ReloadRogerCallChoicesFromHost W F st dg)
                     else roger_custom D W F ticks ed (st, dg)))"

definition call_edit ::
  "('j, 'f) json_doc \<Rightarrow> wx \<Rightarrow> 'f flt \<Rightarrow> nat \<Rightarrow> ('f editor \<Rightarrow> 'f editor) \<Rightarrow> ('c, 'f) client \<times> 'f settings_dialog \<Rightarrow>
   ('c, 'f) client \<times> 'f settings_dialog" where
  "call_edit D W F ticks session = (\<lambda>(st, dg).
     let sid = PickString (sd_call dg) (sd_callIds dg)
     in if sid = [] \<or> IsBuiltInCallPatternId sid then (st, dg)
        else (case FindPatternById (sd_callPatterns dg) sid of
                None \<Rightarrow> (st, dg)
              | Some p \<Rightarrow>
                  let ed = session (editor_open True (Some p))
                  in if ed_modal ed = M_Deleted then
                       let st = snd (DeleteCustomCallPattern D sid st) in (st, ReloadRogerCallChoicesFromHost W F st dg)
                     else call_custom D W F ticks ed (st, dg)))"

text \<open>The button beside the vibration's controls plays it with the values in them.\<close>

definition vibration_preview :: "'f audio_env \<Rightarrow> ('c, 'f) client \<times> 'f settings_dialog \<Rightarrow> ('c, 'f) client \<times> 'f settings_dialog" where
  "vibration_preview V = (\<lambda>(st, dg). (on_engine (PlayVibrationImitationPreview V (sd_hz dg) (sd_volume dg)) st, dg))"

text \<open>The hot key: what the capture dialog returned, or the clear button.\<close>

definition ptt_capture :: "(int \<times> u32) option \<Rightarrow> 'f settings_dialog \<Rightarrow> 'f settings_dialog" where
  "ptt_capture captured dg =
     (case captured of None \<Rightarrow> dg | Some (vkey, mods) \<Rightarrow> dg\<lparr>sd_vkey := vkey, sd_mods := mods\<rparr>)"

definition ptt_clear :: "'f settings_dialog \<Rightarrow> 'f settings_dialog" where
  "ptt_clear dg = dg\<lparr>sd_vkey := 0, sd_mods := 0\<rparr>"

section \<open>Opening and applying\<close>

definition settings_opened ::
  "('j, 'f) json_doc \<Rightarrow> wx \<Rightarrow> 'f flt \<Rightarrow> int list \<Rightarrow> int list \<Rightarrow> ('c, 'f) client \<Rightarrow> ('c, 'f) client \<times> 'f settings_dialog" where
  "settings_opened D W F inputs outputs st =
     (let st = ApplyCustomPatternsToEngine (LoadCustomSignalPatternsFromDisk D F st)
      in (st, dialog_open W F inputs outputs st))"

text \<open>The devices that are found, by their names; none when the audio library does not start.\<close>

record NamedAudioDevice =
  nd_index :: int
  nd_name :: string

definition ListInputDevices :: "bool \<Rightarrow> string list \<Rightarrow> NamedAudioDevice list" where
  "ListInputDevices contextOk caps =
     (if \<not> contextOk then [] else map (\<lambda>i. \<lparr>nd_index = int i, nd_name = caps ! i\<rparr>) [0..<length caps])"

definition ListOutputDevices :: "bool \<Rightarrow> string list \<Rightarrow> NamedAudioDevice list" where
  "ListOutputDevices contextOk play =
     (if \<not> contextOk then [] else map (\<lambda>i. \<lparr>nd_index = int i, nd_name = play ! i\<rparr>) [0..<length play])"

text \<open>The settings dialog with the devices of the moment: their names in the controls, behind the default's.\<close>

definition settings_opened_now ::
  "('j, 'f) json_doc \<Rightarrow> wx \<Rightarrow> 'f flt \<Rightarrow> bool \<Rightarrow> string list \<Rightarrow> string list \<Rightarrow> ('c, 'f) client \<Rightarrow> ('c, 'f) client \<times> 'f settings_dialog" where
  "settings_opened_now D W F contextOk caps play st =
     settings_opened D W F (map nd_index (ListInputDevices contextOk caps)) (map nd_index (ListOutputDevices contextOk play)) st"

text \<open>After OK; the frame's part (\<open>apply_ptt_settings\<close>) ends with the status, the files come before it.\<close>

definition settings_applied ::
  "('j, 'f) json_doc \<Rightarrow> 'f flt \<Rightarrow> ('j, 'c, 'f) ui_env \<Rightarrow> 'f settings_dialog \<Rightarrow> ('c, 'f) client \<Rightarrow> ('c, 'f) client" where
  "settings_applied D F U dg st =
     (let st = st\<lparr>cn_input := PickId (sd_input dg) (sd_inputIds dg), cn_output := PickId (sd_output dg) (sd_outputIds dg),
                  cn_roger := PickString (sd_roger dg) (sd_rogerIds dg), cn_call := PickString (sd_call dg) (sd_callIds dg),
                  cn_minimize := sd_minimize dg, cn_vibHz := clamp_hz F (sd_hz dg),
                  cn_vibVolume := std_clamp (sd_volume dg) 0 100, cn_language := (if sd_russian dg then ''ru'' else ''en'')\<rparr>;
          st = on_frame (\<lambda>f. f\<lparr>fr_vkey := sd_vkey dg, fr_mods := sd_mods dg, fr_showLevel := sd_showLevel dg\<rparr>) st;
          st = on_frame (\<lambda>f. if fr_toggleMode f \<and> \<not> sd_toggle dg \<and> au_transmitting (fr_audio f) then EndPttTx U f else f) st;
          st = on_frame (\<lambda>f. f\<lparr>fr_toggleMode := sd_toggle dg, fr_globalPressed := False, fr_toggleHookDown := False,
                               fr_level := if sd_showLevel dg then fr_level f else 0\<rparr>) st;
          st = SaveAudioSettings D (ApplyAudioSettingsToEngine F st)
      in client_SetStatus ''Settings applied'' (on_frame RefreshPttUi st))"

text \<open>The whole handler: \<open>session\<close> is what is done in the dialog, with whether it ends with OK.\<close>

definition OnSettingsClicked ::
  "('j, 'f) json_doc \<Rightarrow> wx \<Rightarrow> 'f flt \<Rightarrow> ('j, 'c, 'f) ui_env \<Rightarrow> int list \<Rightarrow> int list \<Rightarrow>
   (('c, 'f) client \<times> 'f settings_dialog \<Rightarrow> bool \<times> ('c, 'f) client \<times> 'f settings_dialog) \<Rightarrow> ('c, 'f) client \<Rightarrow> ('c, 'f) client" where
  "OnSettingsClicked D W F U inputs outputs session st =
     (case session (settings_opened D W F inputs outputs st) of
        (ok, st, dg) \<Rightarrow> if ok then settings_applied D F U dg st else st)"

section \<open>Texts\<close>

definition BuildTrayConnectionStatus :: "wx \<Rightarrow> ('c, 'f) client \<Rightarrow> string" where
  "BuildTrayConnectionStatus W st = (let f = cn_frame st; a = fr_audio f in
     if fr_connected f then
       (if au_transmitting a then wx_tr W ''Transmitting''
        else if au_streaming a then wx_tr W ''Sending call signal...''
        else if fr_rxBroadcast f then wx_tr W ''Receiving''
        else wx_tr W ''Connected'')
     else if fr_wantsSession f then wx_tr W ''Connecting...''
     else wx_tr W ''Disconnected'')"

definition BuildTaskBarTooltip :: "wx \<Rightarrow> ('c, 'f) client \<Rightarrow> string" where
  "BuildTaskBarTooltip W st =
     wx_tr W ''O-Walkie Desktop'' @ [CHR 0x0A] @ BuildTrayConnectionStatus W st
     @ (if fr_connected (cn_frame st) \<and> active_valid st
        then [CHR 0x0A] @ sv_name (cn_profiles st ! nat (cn_active st)) else [])"

definition has_part :: "string \<Rightarrow> string \<Rightarrow> bool" where
  "has_part p s \<longleftrightarrow> find_sub p s \<noteq> None"

text \<open>The dash in two of the texts is the UTF-8 of U+2014.\<close>

definition em_dash :: string where
  "em_dash = [CHR 0xE2, CHR 0x80, CHR 0x94]"

definition HumanizeStatus :: "wx \<Rightarrow> string \<Rightarrow> string" where
  "HumanizeStatus W status = (let s = wx_Lower W status; has = (\<lambda>p. has_part p s) in
     if s = [] then wx_tr W ''Disconnected''
     else if has ''receiving'' then wx_tr W ''Receiving''
     else if has ''welcome received'' \<or> s = ''connected'' \<or> s = ''reconnected'' then wx_tr W ''Connected''
     else if s = ''reconnecting'' \<or> starts_with ''reconnecting in'' s \<or> starts_with ''reconnect attempt'' s \<or> has ''retry''
       then wx_tr W ''Reconnecting...''
     else if s = ''parallel_tx_collision'' then wx_tr W ''Parallel transmission!''
     else if has ''transmitting'' then wx_tr W ''Transmitting''
     else if has ''sending call'' then wx_tr W ''Sending call signal...''
     else if has ''tx stopped'' then wx_tr W ''Transmission stopped by server''
     else if has ''connect failed'' then wx_tr W ''Unable to connect''
     else if s = ''connecting...'' then wx_tr W ''Connecting...''
     else if s = ''switching connection...'' then wx_tr W ''Switching connection...''
     else if has ''protocol mismatch'' \<or> has ''missing samplerate'' then wx_tr W ''Incompatible server protocol''
     else if has ''connection lost'' \<and> has ''retrying'' then wx_tr W (''Connection lost '' @ em_dash @ '' retrying'')
     else if has ''ws ended'' \<or> has ''udp ended'' \<or> has ''keepalive timeout'' \<or> has ''keepalive_lost''
       \<or> starts_with ''udp:'' s \<or> has ''connection lost'' then wx_tr W ''Connection lost''
     else if has ''audio initialized'' then wx_tr W ''Ready''
     else if has ''miniaudio'' \<and> has ''failed'' then wx_tr W ''Audio failed to initialize''
     else if s = ''disconnected'' then wx_tr W ''Disconnected''
     else if s = ''settings applied'' then wx_tr W ''Settings applied''
     else if s = ''profile saved'' then wx_tr W ''Profile saved''
     else if s = ''profile created'' then wx_tr W ''Profile created''
     else if s = ''profile deleted'' then wx_tr W ''Profile deleted''
     else if s = ''call signal failed'' then wx_tr W ''Call signal failed''
     else if has ''ptt paused'' then wx_tr W (''PTT paused '' @ em_dash @ '' too many quick releases'')
     else if s = ''invalid ports'' \<or> s = ''invalid port'' then wx_tr W ''Invalid ports''
     else if s = ''invalid deep link'' then wx_tr W ''Invalid deep link''
     else if s = ''clipboard unavailable'' then wx_tr W ''Clipboard unavailable''
     else if s = ''connection link copied'' then wx_tr W ''Connection link copied''
     else if s = ''deep link applied'' then wx_tr W ''Deep link applied''
     else status)"

end
