(* ===== verification/Client_Shell.thy ===== *)
theory Client_Shell
  imports Client_Settings
begin

text \<open>
  The shell of the desktop client: its command line and language (\<open>main.cpp\<close>, \<open>LocaleInit.cpp\<close>), the
  registration of \<open>owalkie://\<close> links in the Windows registry, the window with its tray icon
  (\<open>MainFrame.cpp\<close>), and the playback of one signal on a device of its own (\<open>AudioEngine.cpp\<close>).
\<close>

section \<open>The start of the program\<close>

text \<open>The arguments behind the name of the program.\<close>

fun ParseConnectUri :: "string list \<Rightarrow> string option" where
  "ParseConnectUri [] = None"
| "ParseConnectUri (arg # rest) =
     (if arg = ''--connect-uri'' then (case rest of [] \<Rightarrow> None | uri # _ \<Rightarrow> Some uri)
      else if starts_with ''owalkie://'' arg then Some arg
      else ParseConnectUri rest)"

text \<open>
  Where the files lie: next to the program when there is a directory \<open>config\<close>, else in the directory of the
  user, which is made when it is missing.
\<close>

record places =
  pl_exeDir :: string
  pl_userDir :: string
  pl_exists :: "string \<Rightarrow> bool"
  pl_mkdirOk :: bool

definition in_dir :: "string \<Rightarrow> string \<Rightarrow> string" where
  "in_dir dir name = dir @ [CHR 0x5C] @ name"

definition PortableConfigDir :: "places \<Rightarrow> string" where
  "PortableConfigDir P = (let portableDir = in_dir (pl_exeDir P) ''config'' in if pl_exists P portableDir then portableDir else [])"

definition UserDataDir :: "places \<Rightarrow> string \<times> places" where
  "UserDataDir P =
     (let portableDir = PortableConfigDir P; dir = pl_userDir P
      in if portableDir \<noteq> [] then (portableDir, P)
         else (dir, if \<not> pl_exists P dir \<and> pl_mkdirOk P then P\<lparr>pl_exists := (pl_exists P)(dir := True)\<rparr> else P))"

fun cfg_name :: "cfg_file \<Rightarrow> string" where
  "cfg_name F_Profiles = ''profiles.json''"
| "cfg_name F_Config = ''config.json''"
| "cfg_name F_OldAudio = ''audio.json''"
| "cfg_name F_Legacy = ''connection.json''"
| "cfg_name F_Patterns = ''custom_signal_patterns.json''"

definition cfg_path :: "places \<Rightarrow> cfg_file \<Rightarrow> string \<times> places" where
  "cfg_path P file = (case UserDataDir P of (dir, P) \<Rightarrow> (in_dir dir (cfg_name file), P))"

text \<open>The directory the language is read from is found before the window is made; it is not created here.\<close>

definition language_dir :: "places \<Rightarrow> string" where
  "language_dir P = (let dir = PortableConfigDir P in if dir = [] then pl_userDir P else dir)"

definition OwReadSavedUiLanguage :: "('j, 'f) json_doc \<Rightarrow> places \<Rightarrow> disk \<Rightarrow> string" where
  "OwReadSavedUiLanguage D P d =
     (if \<not> pl_exists P (language_dir P) then ''en''
      else
        let path = (if FileExists d F_Config then F_Config else F_OldAudio)
        in (case read_file D path d of
              Some (Some j) \<Rightarrow>
                if jl_value_string (jd_base D) j ''ui_language'' ''en'' = Some ''ru'' then ''ru'' else ''en''
            | _ \<Rightarrow> ''en''))"

section \<open>The registry\<close>

text \<open>
  A value is its type and its bytes. Keys of the user's hive by name; the default value of a key has the
  name \<open>None\<close>. \<open>rg_writable\<close> says whether a key can be created or opened for writing.
\<close>

datatype reg_type = REG_SZ | REG_EXPAND_SZ | REG_OTHER

record registry =
  rg_keys :: "string \<Rightarrow> (string option \<Rightarrow> (reg_type \<times> string) option) option"
  rg_writable :: "string \<Rightarrow> bool"

text \<open>The text is read up to the first NUL. \<open>None\<close> is the result \<open>false\<close>.\<close>

definition ReadRegStringValue :: "registry \<Rightarrow> string \<Rightarrow> string option \<Rightarrow> string option" where
  "ReadRegStringValue R subKey valueName =
     (case rg_keys R subKey of
        None \<Rightarrow> None
      | Some key \<Rightarrow>
          (case key valueName of
             None \<Rightarrow> None
           | Some (type, data) \<Rightarrow>
               if (type \<noteq> REG_SZ \<and> type \<noteq> REG_EXPAND_SZ) \<or> data = [] then None
               else
                 let out = takeWhile (\<lambda>c. c \<noteq> CHR 0x00) (data @ [CHR 0x00])
                 in if out = [] then None else Some out))"

definition SetRegStringValue :: "string \<Rightarrow> string option \<Rightarrow> string \<Rightarrow> registry \<Rightarrow> registry option" where
  "SetRegStringValue subKey valueName v R =
     (if \<not> rg_writable R subKey then None
      else
        let key = (case rg_keys R subKey of None \<Rightarrow> (\<lambda>_. None) | Some key \<Rightarrow> key)
        in Some (R\<lparr>rg_keys := (rg_keys R)(subKey \<mapsto> key(valueName \<mapsto> (REG_SZ, v @ [CHR 0x00])))\<rparr>))"

definition owalkie_key :: string where
  "owalkie_key = ''Software'' @ [CHR 0x5C] @ ''Classes'' @ [CHR 0x5C] @ ''owalkie''"

definition command_key :: string where
  "command_key = owalkie_key @ [CHR 0x5C] @ ''shell'' @ [CHR 0x5C] @ ''open'' @ [CHR 0x5C] @ ''command''"

definition IsUserProtocolRegisteredOwalkie :: "registry \<Rightarrow> bool" where
  "IsUserProtocolRegisteredOwalkie R =
     (case ReadRegStringValue R owalkie_key (Some ''URL Protocol'') of
        None \<Rightarrow> False
      | Some protocolMarker \<Rightarrow>
          (case ReadRegStringValue R command_key None of
             None \<Rightarrow> False
           | Some openCmd \<Rightarrow> openCmd \<noteq> []))"

definition open_command :: "string \<Rightarrow> string" where
  "open_command exePath = [CHR 0x22] @ exePath @ [CHR 0x22] @ '' '' @ [CHR 0x22] @ ''%1'' @ [CHR 0x22]"

text \<open>\<open>exePath\<close> is \<open>None\<close> when the name of the program does not fit; values already set stay.\<close>

definition RegisterUserProtocolOwalkie :: "string option \<Rightarrow> registry \<Rightarrow> bool \<times> registry" where
  "RegisterUserProtocolOwalkie exePath R =
     (case exePath of
        None \<Rightarrow> (False, R)
      | Some exe \<Rightarrow>
          (case SetRegStringValue owalkie_key None ''URL:O-Walkie Protocol'' R of
             None \<Rightarrow> (False, R)
           | Some R \<Rightarrow>
               (case SetRegStringValue owalkie_key (Some ''URL Protocol'') [] R of
                  None \<Rightarrow> (False, R)
                | Some R \<Rightarrow>
                    (case SetRegStringValue command_key None (open_command exe) R of
                       None \<Rightarrow> (False, R)
                     | Some R \<Rightarrow> (True, R)))))"

text \<open>\<open>yes\<close> is the answer of the user. The flag is part of the settings.\<close>

definition EnsureUserProtocolRegistration ::
  "('j, 'f) json_doc \<Rightarrow> bool \<Rightarrow> string option \<Rightarrow> registry \<times> ('c, 'f) client \<Rightarrow> registry \<times> ('c, 'f) client" where
  "EnsureUserProtocolRegistration D yes exePath = (\<lambda>(R, st).
     let handled = (\<lambda>st. SaveAudioSettings D (st\<lparr>cn_protocolHandled := True\<rparr>))
     in if cn_protocolHandled st then (R, st)
        else if IsUserProtocolRegisteredOwalkie R then (R, handled st)
        else if \<not> yes then (R, handled st)
        else (case RegisterUserProtocolOwalkie exePath R of
                (ok, R) \<Rightarrow> (R, if ok then handled st else st)))"

text \<open>
  The start: the end of the constructor, the question about links when the settings lie next to the program,
  and, from the queue of posted closures, the link of the command line. \<open>yes\<close> and \<open>exePath\<close> are those of the
  registration.
\<close>

definition app_start ::
  "('j, 'f) json_doc \<Rightarrow> wx \<Rightarrow> 'f flt \<Rightarrow> places \<Rightarrow> bool \<Rightarrow> string option \<Rightarrow> string list \<Rightarrow> registry \<times> ('c, 'f) client \<Rightarrow>
   uri_result option \<times> registry \<times> ('c, 'f) client" where
  "app_start D W F P yes exePath args = (\<lambda>(R, st).
     let uri = (case ParseConnectUri args of None \<Rightarrow> [] | Some u \<Rightarrow> u);
         st = client_start D F st;
         (R, st) = (if PortableConfigDir P \<noteq> [] then EnsureUserProtocolRegistration D yes exePath (R, st) else (R, st))
     in if uri = [] then (None, R, st)
        else (case ApplyConnectUri D W uri st of (r, st) \<Rightarrow> (Some r, R, st)))"

text \<open>
  The end, in the destructor: nothing is saved when the session's end does not come. \<open>Shutdown\<close> of the
  engine, the last step of \<open>frame_destroy\<close>, comes after the saves in the code; they do not read the engine.
\<close>

definition client_quit ::
  "('j, 'f) json_doc \<Rightarrow> ('j, 'c, 'f) ui_env \<Rightarrow> bool list \<Rightarrow> ('c, 'f) client \<Rightarrow> ('c, 'f) client option" where
  "client_quit D U locks st =
     map_option (\<lambda>f. SaveProfilesToDisk D (SaveAudioSettings D (st\<lparr>cn_frame := f\<rparr>))) (frame_destroy U locks (cn_frame st))"

section \<open>The window and the tray\<close>

text \<open>
  \<open>sh_tray\<close> is the tooltip of the tray icon while there is one, \<open>sh_posted\<close> the number of posted exits,
  \<open>sh_destroyed\<close> a window whose closing was let through.
\<close>

record ('c, 'f) shell =
  sh_client :: "('c, 'f) client"
  sh_visible :: bool
  sh_iconized :: bool
  sh_tray :: "string option"
  sh_exitRequested :: bool
  sh_posted :: nat
  sh_destroyed :: bool

definition shell_init :: "('c, 'f) client \<Rightarrow> ('c, 'f) shell" where
  "shell_init st = \<lparr>sh_client = st, sh_visible = True, sh_iconized = False, sh_tray = None,
     sh_exitRequested = False, sh_posted = 0, sh_destroyed = False\<rparr>"

text \<open>\<open>ok\<close> tells whether the system accepts the icon.\<close>

definition EnsureTaskBarIcon :: "wx \<Rightarrow> bool \<Rightarrow> ('c, 'f) shell \<Rightarrow> ('c, 'f) shell" where
  "EnsureTaskBarIcon W ok sh =
     (if sh_tray sh \<noteq> None then sh
      else sh\<lparr>sh_tray := (if ok then Some (BuildTaskBarTooltip W (sh_client sh)) else None)\<rparr>)"

definition RemoveTaskBarIcon :: "('c, 'f) shell \<Rightarrow> ('c, 'f) shell" where
  "RemoveTaskBarIcon sh = sh\<lparr>sh_tray := None\<rparr>"

definition UpdateTaskBarStatus :: "wx \<Rightarrow> ('c, 'f) shell \<Rightarrow> ('c, 'f) shell" where
  "UpdateTaskBarStatus W sh =
     (if sh_tray sh = None then sh else sh\<lparr>sh_tray := Some (BuildTaskBarTooltip W (sh_client sh))\<rparr>)"

definition shell_SetStatus :: "wx \<Rightarrow> string \<Rightarrow> ('c, 'f) shell \<Rightarrow> ('c, 'f) shell" where
  "shell_SetStatus W status sh = UpdateTaskBarStatus W (sh\<lparr>sh_client := client_SetStatus status (sh_client sh)\<rparr>)"

definition OnCloseWindow :: "wx \<Rightarrow> bool \<Rightarrow> bool \<Rightarrow> ('c, 'f) shell \<Rightarrow> ('c, 'f) shell" where
  "OnCloseWindow W ok canVeto sh =
     (if \<not> sh_exitRequested sh \<and> cn_minimize (sh_client sh) \<and> canVeto
      then UpdateTaskBarStatus W (EnsureTaskBarIcon W ok (sh\<lparr>sh_visible := False\<rparr>))
      else (RemoveTaskBarIcon sh)\<lparr>sh_destroyed := True\<rparr>)"

definition ShowFromTray :: "('c, 'f) shell \<Rightarrow> ('c, 'f) shell" where
  "ShowFromTray sh = sh\<lparr>sh_visible := True, sh_iconized := False\<rparr>"

definition RequestApplicationExit :: "('c, 'f) shell \<Rightarrow> ('c, 'f) shell" where
  "RequestApplicationExit sh =
     (if sh_exitRequested sh then sh
      else sh\<lparr>sh_exitRequested := True, sh_posted := Suc (sh_posted sh)\<rparr>)"

text \<open>The posted closure: \<open>Close(true)\<close> sends a close event that cannot be vetoed.\<close>

definition posted_exit :: "wx \<Rightarrow> bool \<Rightarrow> ('c, 'f) shell \<Rightarrow> ('c, 'f) shell" where
  "posted_exit W ok sh =
     (let sh = RemoveTaskBarIcon (sh\<lparr>sh_posted := sh_posted sh - 1\<rparr>)
      in OnCloseWindow W ok False sh)"

datatype tray_item = ID_TRAY_MENU_SHOW | ID_TRAY_MENU_EXIT | Other_Item

definition OnTrayMenu :: "tray_item \<Rightarrow> ('c, 'f) shell \<Rightarrow> ('c, 'f) shell" where
  "OnTrayMenu item sh =
     (case item of
        ID_TRAY_MENU_SHOW \<Rightarrow> ShowFromTray sh
      | ID_TRAY_MENU_EXIT \<Rightarrow> RequestApplicationExit sh
      | Other_Item \<Rightarrow> sh)"

text \<open>
  The steps of a window that has not been destroyed. The tray's menu and double click need its icon; a
  user can minimise and restore only a window that is shown. \<open>A\<close> says whether the system may
  refuse icons.
\<close>

inductive shell_step :: "wx \<Rightarrow> (bool \<Rightarrow> bool) \<Rightarrow> ('c, 'f) shell \<Rightarrow> ('c, 'f) shell \<Rightarrow> bool" for W A where
  ss_close: "A ok \<Longrightarrow> \<not> sh_destroyed sh \<Longrightarrow> sh_visible sh \<Longrightarrow> shell_step W A sh (OnCloseWindow W ok canVeto sh)"
| ss_system: "A ok \<Longrightarrow> \<not> sh_destroyed sh \<Longrightarrow> shell_step W A sh (OnCloseWindow W ok False sh)"
| ss_iconize: "\<not> sh_destroyed sh \<Longrightarrow> sh_visible sh \<Longrightarrow> shell_step W A sh (sh\<lparr>sh_iconized := b\<rparr>)"
| ss_menu: "\<not> sh_destroyed sh \<Longrightarrow> sh_tray sh \<noteq> None \<Longrightarrow> shell_step W A sh (OnTrayMenu item sh)"
| ss_double_click: "\<not> sh_destroyed sh \<Longrightarrow> sh_tray sh \<noteq> None \<Longrightarrow> shell_step W A sh (ShowFromTray sh)"
| ss_posted: "A ok \<Longrightarrow> \<not> sh_destroyed sh \<Longrightarrow> 0 < sh_posted sh \<Longrightarrow> shell_step W A sh (posted_exit W ok sh)"
| ss_status: "\<not> sh_destroyed sh \<Longrightarrow> shell_step W A sh (shell_SetStatus W status sh)"
| ss_client: "\<not> sh_destroyed sh \<Longrightarrow> shell_step W A sh (sh\<lparr>sh_client := st\<rparr>)"

section \<open>One signal on a device of its own\<close>

text \<open>The milliseconds that are waited before the device is stopped.\<close>

definition one_shot_wait_ms :: "pcm \<Rightarrow> int" where
  "one_shot_wait_ms pcm = max (int (length pcm) * 1000 div kUiSignalPlaybackRate + 50) 80"

text \<open>
  What the callback of \<open>Audio_Engine\<close> gives the device for a sequence of requests, from an offset; nothing
  when the device does not start.
\<close>

fun one_shot_requests :: "nat list \<Rightarrow> pcm \<Rightarrow> nat \<Rightarrow> pcm" where
  "one_shot_requests [] pcm offset = []"
| "one_shot_requests (n # ns) pcm offset =
     (case OneShotPlaybackCallback pcm offset n of (out, offset) \<Rightarrow> out @ one_shot_requests ns pcm offset)"

definition PlayOneShotNow :: "bool \<Rightarrow> nat list \<Rightarrow> pcm \<Rightarrow> pcm" where
  "PlayOneShotNow deviceOk requests pcm44 =
     (if pcm44 = [] then [] else if \<not> deviceOk then [] else one_shot_requests requests pcm44 0)"

end
