(* ===== verification/Signal_Editor_Props.thy ===== *)
theory Signal_Editor_Props
  imports Signal_Editor
begin

text \<open>
  Properties of the editor of custom signals: what a saved signal is like, when the limit on its
  length holds and when the 32-bit arithmetic lets it through, and the round trip of a signal
  through the clipboard.
\<close>

section \<open>Arithmetic in 32 bits\<close>

lemma i32_id: "- 2147483648 \<le> n \<Longrightarrow> n < 2147483648 \<Longrightarrow> i32 n = n"
  by (simp add: i32_def sint_sbintrunc' signed_take_bit_int_eq_self)

definition true_cycle :: "'f SignalPoint list \<Rightarrow> int" where
  "true_cycle pts = (\<Sum>p \<leftarrow> pts. sp_durationMs p)"

definition positive_points :: "'f flt \<Rightarrow> 'f SignalPoint list \<Rightarrow> bool" where
  "positive_points F pts \<longleftrightarrow> (\<forall>p \<in> set pts. 0 < sp_durationMs p \<and> \<not> fl_lt F (sp_freqHz p) (fl_dec F 0 1))"

lemma true_cycle_pos: "positive_points F pts \<Longrightarrow> 0 \<le> true_cycle pts"
  unfolding true_cycle_def by (rule sum_list_nonneg) (auto simp: positive_points_def)

lemma cycle_fold:
  assumes "positive_points F pts" "0 \<le> s" "s + true_cycle pts < 2147483648"
  shows "fold (\<lambda>p s. i32 (s + sp_durationMs p)) pts s = s + true_cycle pts"
  using assms
proof (induction pts arbitrary: s)
  case (Cons p pts)
  have pos: "positive_points F pts" "0 < sp_durationMs p" using Cons.prems(1) by (simp_all add: positive_points_def)
  have "i32 (s + sp_durationMs p) = s + sp_durationMs p"
    using Cons.prems pos true_cycle_pos [OF pos(1)] by (intro i32_id) (simp_all add: true_cycle_def)
  with Cons.IH [OF pos(1), of "s + sp_durationMs p"] Cons.prems pos show ?case by (simp add: true_cycle_def)
qed (simp add: true_cycle_def)

lemma CycleDurationMs_true:
  "positive_points F pts \<Longrightarrow> true_cycle pts < 2147483648 \<Longrightarrow> CycleDurationMs pts = true_cycle pts"
  using cycle_fold [of F pts 0] by (simp add: CycleDurationMs_def)

section \<open>Saved signals\<close>

text \<open>What holds in the dialog all the time; \<open>eid\<close> is the id of the signal it was opened on.\<close>

definition editor_inv :: "'f flt \<Rightarrow> bool \<Rightarrow> string \<Rightarrow> 'f editor \<Rightarrow> bool" where
  "editor_inv F kind eid ed \<longleftrightarrow> ed_callKind ed = kind \<and> ed_editingId ed = eid
     \<and> 1 \<le> ed_spin ed \<and> ed_spin ed \<le> 500 \<and> positive_points F (ed_points ed)
     \<and> (case ed_saved ed of None \<Rightarrow> True
        | Some p \<Rightarrow> pa_id p = eid \<and> pa_name p \<noteq> [] \<and> pa_points p \<noteq> [] \<and> positive_points F (pa_points p)
            \<and> pa_appendTail p = (\<not> kind) \<and> 1 \<le> pa_repeatCount p \<and> pa_repeatCount p \<le> 500
            \<and> (\<not> kind \<longrightarrow> pa_repeatCount p = 1)
            \<and> i32 (CycleDurationMs (pa_points p) * pa_repeatCount p)
                \<le> (if kind then kMaxCallCustomSignalMs else kMaxRogerCustomSignalMs))"

lemma positive_points_simps [simp]:
  "positive_points F []"
  "positive_points F (a @ b) \<longleftrightarrow> positive_points F a \<and> positive_points F b"
  "positive_points F [p] \<longleftrightarrow> 0 < sp_durationMs p \<and> \<not> fl_lt F (sp_freqHz p) (fl_dec F 0 1)"
  by (auto simp: positive_points_def)

lemma positive_points_sub: "positive_points F pts \<Longrightarrow> set qs \<subseteq> set pts \<Longrightarrow> positive_points F qs"
  by (auto simp: positive_points_def)

lemma positive_points_update:
  "positive_points F pts \<Longrightarrow> positive_points F [p] \<Longrightarrow> positive_points F (pts[i := p])"
  by (auto simp: positive_points_def dest: set_mp [OF set_update_subset_insert])

lemma fill_points_positive:
  "fill_points D F js pts = Some (b, out) \<Longrightarrow> positive_points F pts \<Longrightarrow> positive_points F out"
  by (induction D F js pts rule: fill_points.induct) (auto split: if_splits option.splits)

lemma clip_positive:
  "ParseSignalSequenceFromClipboardText D F text = Some c \<Longrightarrow> positive_points F (sc_points c)"
proof -
  have pts: "positive_points F pts" if "clip_points D F env = Some pts" for env pts
    using that by (auto simp: clip_points_def FillPointsFromJsonArray_def split: if_splits option.splits bool.splits
        dest: fill_points_positive)
  have env: "positive_points F (sc_points c)" if "TryParseSignalSequenceEnvelope D F t = Some c" for t c
    using that pts
    by (auto simp: TryParseSignalSequenceEnvelope_def clip_nested_def clip_flat_def Let_def split: if_splits option.splits)
  have search: "positive_points F (sc_points c)" if "clip_search D F t is = Some c" for t "is" c
    using that env by (induction D F t "is" rule: clip_search.induct) (auto simp: Let_def split: if_splits option.splits)
  assume "ParseSignalSequenceFromClipboardText D F text = Some c"
  with env search show ?thesis by (auto simp: ParseSignalSequenceFromClipboardText_def split: option.splits)
qed

lemma editor_inv_points:
  "editor_inv F kind eid ed \<Longrightarrow> positive_points F pts \<Longrightarrow> editor_inv F kind eid (RefreshList pts ed)"
  by (simp add: editor_inv_def RefreshList_def)

lemma editor_inv_fields:
  "editor_inv F kind eid (ed\<lparr>ed_name := s\<rparr>) = editor_inv F kind eid ed"
  "editor_inv F kind eid (ed\<lparr>ed_selection := i\<rparr>) = editor_inv F kind eid ed"
  "editor_inv F kind eid (ed\<lparr>ed_modal := m\<rparr>) = editor_inv F kind eid ed"
  "1 \<le> n \<Longrightarrow> n \<le> 500 \<Longrightarrow> editor_inv F kind eid ed \<Longrightarrow> editor_inv F kind eid (ed\<lparr>ed_spin := n\<rparr>)"
  by (simp_all add: editor_inv_def)

lemma editor_inv_append:
  "editor_inv F kind eid ed \<Longrightarrow> AppendPointFromInputs F f d ed = Inr ed' \<Longrightarrow> editor_inv F kind eid ed'"
  by (auto simp: AppendPointFromInputs_def Let_def split: if_splits intro!: editor_inv_points)
    (simp add: editor_inv_def)

lemma editor_inv_replace:
  "editor_inv F kind eid ed \<Longrightarrow> ReplacePointFromInputs F i f d ed = Inr ed' \<Longrightarrow> editor_inv F kind eid ed'"
  by (auto simp: ReplacePointFromInputs_def Let_def editor_inv_fields split: if_splits
      intro!: editor_inv_points positive_points_update)
    (simp add: editor_inv_def)

lemma editor_inv_edit:
  "editor_inv F kind eid ed \<Longrightarrow> editor_inv F kind eid (OpenEditForSelectedSegment F answer ed)"
  by (auto simp: OpenEditForSelectedSegment_def or_same_def editor_inv_replace split: option.split sum.split)

lemma editor_inv_step:
  assumes "editor_step D F trim ed ed'" "editor_inv F kind eid ed"
  shows "editor_inv F kind eid ed'"
  using assms(1)
proof cases
  case (es_add ok f d)
  with assms(2) show ?thesis
    by (auto simp: OnAdd_def or_same_def editor_inv_append split: option.split sum.split)
next
  case (es_key isReturn focus ok f d)
  with assms(2) show ?thesis by (simp add: OnDialogCharHook_def editor_inv_edit)
next
  case es_remove
  have "set (take n (ed_points ed)) \<union> set (drop (Suc n) (ed_points ed)) \<subseteq> set (ed_points ed)" for n
    using set_take_subset set_drop_subset by fast
  with es_remove assms(2) show ?thesis
    by (auto simp: OnRemove_def Let_def editor_inv_def RefreshList_def
        intro: positive_points_sub [of F "ed_points ed"])
next
  case (es_paste t)
  show ?thesis
  proof (cases "Option.bind t (ParseSignalSequenceFromClipboardText D F)")
    case (Some c)
    then have "positive_points F (sc_points c)" by (auto simp: bind_eq_Some_conv dest: clip_positive)
    with assms(2) es_paste Some show ?thesis
      by (auto simp: OnPasteSequence_def Let_def editor_inv_def RefreshList_def)
  qed (use assms(2) es_paste in \<open>simp add: OnPasteSequence_def\<close>)
next
  case es_save
  with assms(2) show ?thesis
    by (auto simp: OnTrySave_def editor_inv_def EffectiveTotalMs_def RepeatCountOr1_def editor_limit_def)
qed (use assms(2) in \<open>simp_all add: editor_inv_fields editor_inv_edit OnDeleteClicked_def\<close>)

lemma editor_inv_run:
  "(editor_step D F trim)\<^sup>*\<^sup>* ed ed' \<Longrightarrow> editor_inv F kind eid ed \<Longrightarrow> editor_inv F kind eid ed'"
  by (induction rule: rtranclp_induct) (auto intro: editor_inv_step)

lemma editor_inv_open:
  "(case editOf of None \<Rightarrow> True | Some q \<Rightarrow> positive_points F (pa_points q)) \<Longrightarrow>
   editor_inv F kind (case editOf of None \<Rightarrow> [] | Some q \<Rightarrow> pa_id q) (editor_open kind editOf)"
  by (cases editOf) (simp_all add: editor_open_def editor_inv_def Let_def)

lemma no_wrap_limit:
  assumes "positive_points F pts" "1 \<le> rep" "true_cycle pts * rep < 2147483648"
  shows "i32 (CycleDurationMs pts * rep) = true_cycle pts * rep"
proof -
  have "true_cycle pts \<le> true_cycle pts * rep"
    using assms(2) true_cycle_pos [OF assms(1)] by (simp add: mult_le_cancel_left1)
  then have "CycleDurationMs pts = true_cycle pts"
    using assms by (intro CycleDurationMs_true) auto
  moreover have "0 \<le> true_cycle pts * rep" using assms(2) true_cycle_pos [OF assms(1)] by simp
  ultimately show ?thesis using assms(3) by (simp add: i32_id)
qed

text \<open>A new calling signal of one long segment, played twice.\<close>

definition long_signal :: "'f \<Rightarrow> 'f editor" where
  "long_signal f = (RefreshList [\<lparr>sp_freqHz = f, sp_durationMs = 2147483647\<rparr>]
     ((editor_open True None)\<lparr>ed_name := ''a'', ed_spin := 2\<rparr>))"

lemma long_signal_run:
  assumes "\<not> fl_lt F f (fl_dec F 0 1)"
  shows "(editor_step D F trim)\<^sup>*\<^sup>* (editor_open True None) (OnTrySave trim (long_signal f))"
proof -
  let ?a = "(editor_open True None)\<lparr>ed_name := ''a''\<rparr>" let ?b = "?a\<lparr>ed_spin := 2\<rparr>"
  have "OnAdd F (PromptSegmentFields True (Some f) (Some 2147483647)) ?b = long_signal f"
    using assms
    by (simp add: OnAdd_def PromptSegmentFields_def AppendPointFromInputs_def or_same_def long_signal_def i32_def
        CycleDurationMs_def RepeatCountOr1_def editor_limit_def kMaxCallCustomSignalMs_def editor_open_def RefreshList_def)
  moreover have "editor_step D F trim (editor_open True None) ?a" by (rule es_name)
  moreover have "editor_step D F trim ?a ?b" by (rule es_spin) simp_all
  moreover have "editor_step D F trim ?b (OnAdd F (PromptSegmentFields True (Some f) (Some 2147483647)) ?b)" by (rule es_add)
  moreover have "editor_step D F trim (long_signal f) (OnTrySave trim (long_signal f))" by (rule es_save)
  ultimately show ?thesis by (metis rtranclp.rtrancl_into_rtrancl rtranclp.rtrancl_refl)
qed

lemma long_signal_saved:
  assumes "trim ''a'' \<noteq> []"
  shows "\<exists>p. ed_saved (OnTrySave trim (long_signal f)) = Some p \<and> true_cycle (pa_points p) * pa_repeatCount p = 4294967294"
  using assms
  by (simp add: OnTrySave_def long_signal_def RefreshList_def editor_open_def EffectiveTotalMs_def CycleDurationMs_def
      RepeatCountOr1_def editor_limit_def kMaxCallCustomSignalMs_def i32_def true_cycle_def)

text \<open>
  C17. A signal saved by the editor, however it was put together (typed in, pasted, or edited from a valid
  one), has a name and a segment, only positive durations and no negative frequency, between 1
  and 500 repetitions, exactly one for a Roger signal, and keeps the id it was opened with. Its
  length with the repetitions is within 5000 ms, 1000 ms for a Roger signal, as long as that
  length fits 32 bits: a longer one wraps around and passes, as does one of 4294967 seconds.
\<close>

theorem saved_signal_valid:
  assumes "case editOf of None \<Rightarrow> True | Some q \<Rightarrow> positive_points F (pa_points q)"
    and "(editor_step D F trim)\<^sup>*\<^sup>* (editor_open kind editOf) ed" and "ed_saved ed = Some p"
    and "\<not> fl_lt F f (fl_dec F 0 1)" and "trim ''a'' \<noteq> []"
  shows "pa_name p \<noteq> [] \<and> pa_points p \<noteq> [] \<and> positive_points F (pa_points p)
    \<and> 1 \<le> pa_repeatCount p \<and> pa_repeatCount p \<le> 500 \<and> (\<not> kind \<longrightarrow> pa_repeatCount p = 1)
    \<and> pa_id p = (case editOf of None \<Rightarrow> [] | Some q \<Rightarrow> pa_id q)
    \<and> (true_cycle (pa_points p) * pa_repeatCount p < 2147483648 \<longrightarrow>
         true_cycle (pa_points p) * pa_repeatCount p \<le> (if kind then 5000 else 1000))
    \<and> (\<exists>ed' q. (editor_step D F trim)\<^sup>*\<^sup>* (editor_open True None) ed' \<and> ed_saved ed' = Some q
         \<and> true_cycle (pa_points q) * pa_repeatCount q = 4294967294)"
proof -
  let ?eid = "case editOf of None \<Rightarrow> [] | Some q \<Rightarrow> pa_id q"
  have inv: "editor_inv F kind ?eid ed"
    by (rule editor_inv_run [OF assms(2) editor_inv_open [OF assms(1)]])
  note facts = inv [unfolded editor_inv_def assms(3)]
  have "true_cycle (pa_points p) * pa_repeatCount p \<le> (if kind then 5000 else 1000)"
    if "true_cycle (pa_points p) * pa_repeatCount p < 2147483648"
    using no_wrap_limit [OF _ _ that, of F] facts
    by (cases kind) (auto simp: kMaxCallCustomSignalMs_def kMaxRogerCustomSignalMs_def)
  moreover have "\<exists>ed' q. (editor_step D F trim)\<^sup>*\<^sup>* (editor_open True None) ed' \<and> ed_saved ed' = Some q
         \<and> true_cycle (pa_points q) * pa_repeatCount q = 4294967294"
    using long_signal_run [OF assms(4), of D trim] long_signal_saved [of trim f] assms(5) by blast
  ultimately show ?thesis using facts by simp
qed

definition int_flt :: "int flt" where
  "int_flt = \<lparr>fl_int = (\<lambda>n. n), fl_dec = (\<lambda>n k. n div 10 ^ k), fl_add = (+), fl_sub = (-), fl_mul = (*), fl_div = (div),
     fl_lt = (<), fl_le = (\<le>), fl_sin = (\<lambda>x. x), fl_lround = (\<lambda>x. x), fl_trunc = nat\<rparr>"

theorem saved_signal_valid_witness:
  "\<exists>p. ed_saved (OnTrySave (\<lambda>s. s) (long_signal (440 :: int))) = Some p \<and> pa_points p \<noteq> [] \<and> pa_repeatCount p \<le> 500"
proof -
  have f: "\<not> fl_lt int_flt 440 (fl_dec int_flt 0 1)" by (simp add: int_flt_def)
  obtain p where p: "ed_saved (OnTrySave (\<lambda>s. s) (long_signal (440 :: int))) = Some p"
    using long_signal_saved [of "\<lambda>s. s" "440 :: int"] by auto
  have none: "case None of None \<Rightarrow> True | Some q \<Rightarrow> positive_points int_flt (pa_points q)" by simp
  have name: "(\<lambda>s. s) ''a'' \<noteq> []" by simp
  from saved_signal_valid [OF none long_signal_run [OF f, of "doc_lib []"] p f name] p show ?thesis by blast
qed

section \<open>The clipboard\<close>

lemma fill_points_doc:
  assumes "json_laws D" "positive_points F qs" "\<forall>p \<in> set qs. int32 (sp_durationMs p)"
  shows "fill_points D F (map (point_doc D) qs) pts = Some (pts @ qs \<noteq> [], pts @ qs)"
  using assms(2,3)
proof (induction qs arbitrary: pts)
  case (Cons q qs)
  have "jd_value_double D (point_doc D q) ''freqHz'' d = Some (sp_freqHz q)" for d
    unfolding point_doc_def by (rule value_lawD(2) [OF json_values(3) [OF assms(1)]]) simp
  moreover have "jl_value_int (jd_base D) (point_doc D q) ''durationMs'' d = Some (sp_durationMs q)" for d
    unfolding point_doc_def by (rule json_int(5) [OF assms(1)]) (use Cons.prems in simp_all)
  moreover have "jl_is_object (jd_base D) (point_doc D q)"
    unfolding point_doc_def by (rule json_object(1) [OF assms(1)])
  moreover have "positive_points F qs" "positive_points F [q]" using Cons.prems(1) by (simp_all add: positive_points_def)
  moreover have "\<lparr>sp_freqHz = sp_freqHz q, sp_durationMs = sp_durationMs q\<rparr> = q" by (cases q) simp
  ultimately have "fill_points D F (map (point_doc D) (q # qs)) pts = fill_points D F (map (point_doc D) qs) (pts @ [q])"
    by (simp only: list.map fill_points.simps option.case simp_thms if_False) simp
  also have "\<dots> = Some (pts @ q # qs \<noteq> [], pts @ q # qs)"
    using Cons.IH [of "pts @ [q]"] Cons.prems \<open>positive_points F qs\<close> by simp
  finally show ?case .
qed simp

lemma copied_text_parses:
  assumes "json_laws D" "jd_dump2 D (sequence_doc D ed) = Some text"
    and "positive_points F (ed_points ed)" "\<forall>p \<in> set (ed_points ed). int32 (sp_durationMs p)" "ed_points ed \<noteq> []"
    and "ed_callKind ed \<longrightarrow> 1 \<le> ed_spin ed \<and> ed_spin ed \<le> 500"
  shows "TryParseSignalSequenceEnvelope D F text =
    Some \<lparr>sc_name = ed_name ed, sc_points = ed_points ed, sc_repeatCount = (if ed_callKind ed then ed_spin ed else 1)\<rparr>"
proof -
  let ?o = "jl_object (jd_base D)"
  let ?kvs = "[(''version'', jl_int (jd_base D) 1), (''signal'', ?o [(''name'', jl_string (jd_base D) (ed_name ed))]),
      (''points'', jd_array D (map (point_doc D) (ed_points ed)))]
     @ (if ed_callKind ed then [(''repetitions'', jl_int (jd_base D) (RepeatCountOr1 ed))] else [])"
  let ?env = "?o ?kvs"
  have doc: "sequence_doc D ed = ?o [(kSignalSequenceMagicKey, ?env)]" by (simp add: sequence_doc_def)
  have version: "jl_value_int (jd_base D) ?env ''version'' (- 1) = Some 1"
    by (rule json_int(5) [OF assms(1)]) (simp_all add: int32_def)
  have at: "jl_at (jd_base D) ?env ''points'' = jd_array D (map (point_doc D) (ed_points ed))"
    "jl_at (jd_base D) ?env ''signal'' = ?o [(''name'', jl_string (jd_base D) (ed_name ed))]"
    by (rule json_object(3) [OF assms(1)], simp)+
  have has: "jl_contains (jd_base D) ?env ''points''" "jl_contains (jd_base D) ?env ''signal''"
    "jl_contains (jd_base D) ?env ''repetitions'' \<longleftrightarrow> ed_callKind ed"
    by (simp_all add: json_object(2) [OF assms(1)])
  have points: "clip_points D F ?env = Some (ed_points ed)"
    using fill_points_doc [OF assms(1,3,4), of "[]"] assms(5)
    by (simp add: clip_points_def has at json_object [OF assms(1)] FillPointsFromJsonArray_def)
  have name: "jl_value_string (jd_base D) (?o [(''name'', jl_string (jd_base D) (ed_name ed))]) ''name'' [] = Some (ed_name ed)"
    by (rule value_lawD(2) [OF json_values(2) [OF assms(1)]]) simp
  have rep: "ParseRepetitionsJsonValue D (jl_at (jd_base D) ?env ''repetitions'') = ed_spin ed" if "ed_callKind ed"
  proof -
    have "jl_at (jd_base D) ?env ''repetitions'' = jl_int (jd_base D) (ed_spin ed)"
      using that assms(6) by (intro json_object(3) [OF assms(1)]) (simp add: RepeatCountOr1_def)
    moreover have "int32 (ed_spin ed)" using that assms(6) by (simp add: int32_def)
    ultimately show ?thesis
      using that assms(6) by (simp add: ParseRepetitionsJsonValue_def json_int [OF assms(1)])
  qed
  have rep': "(if jl_contains (jd_base D) ?env ''repetitions''
      then ParseRepetitionsJsonValue D (jl_at (jd_base D) ?env ''repetitions'') else 1) = (if ed_callKind ed then ed_spin ed else 1)"
    using rep has(3) by (cases "ed_callKind ed") simp_all
  have "clip_nested D F ?env = Some \<lparr>sc_name = ed_name ed, sc_points = ed_points ed,
      sc_repeatCount = (if ed_callKind ed then ed_spin ed else 1)\<rparr>"
    by (simp only: clip_nested_def version points rep' has(2) at json_object(1) [OF assms(1)] name simp_thms if_True if_False option.case)
  moreover have "jl_at (jd_base D) (?o [(kSignalSequenceMagicKey, ?env)]) kSignalSequenceMagicKey = ?env"
    by (rule json_object(3) [OF assms(1)]) simp
  moreover have "jl_contains (jd_base D) (?o [(kSignalSequenceMagicKey, ?env)]) kSignalSequenceMagicKey"
    by (simp add: json_object(2) [OF assms(1)])
  moreover have "jl_parse (jd_base D) text = Some (?o [(kSignalSequenceMagicKey, ?env)])"
    using json_text(2) [OF assms(1,2)] by (simp add: doc)
  ultimately show ?thesis
    by (simp only: TryParseSignalSequenceEnvelope_def json_object(1) [OF assms(1)] Let_def simp_thms if_True if_False option.case)
qed

text \<open>
  A signal copied in one dialog and pasted into another of the same kind arrives unchanged: name,
  segments and, for a calling signal, the repetitions, provided the signal is valid and within
  the limit. The JSON library is assumed to read back what it has written.
\<close>

theorem copy_paste_round_trip:
  assumes "json_laws D" and "OnCopySequence D True ed = Some text"
    and "positive_points F (ed_points ed)" and "\<forall>p \<in> set (ed_points ed). int32 (sp_durationMs p)"
    and "1 \<le> ed_spin ed" and "ed_spin ed \<le> 500" and "EffectiveTotalMs ed \<le> editor_limit ed"
    and "ed_callKind ed' = ed_callKind ed"
  shows "ed_name (OnPasteSequence D F (Some text) ed') = ed_name ed
    \<and> ed_points (OnPasteSequence D F (Some text) ed') = ed_points ed
    \<and> (ed_callKind ed \<longrightarrow> ed_spin (OnPasteSequence D F (Some text) ed') = ed_spin ed)
    \<and> ed_editingId (OnPasteSequence D F (Some text) ed') = ed_editingId ed'"
proof -
  have copied: "ed_points ed \<noteq> []" "jd_dump2 D (sequence_doc D ed) = Some text"
    using assms(2) by (auto simp: OnCopySequence_def split: if_splits option.splits)
  have "ParseSignalSequenceFromClipboardText D F text = Some \<lparr>sc_name = ed_name ed, sc_points = ed_points ed,
      sc_repeatCount = (if ed_callKind ed then ed_spin ed else 1)\<rparr>"
    using copied_text_parses [OF assms(1) copied(2) assms(3,4) copied(1)] assms(5,6)
    by (simp add: ParseSignalSequenceFromClipboardText_def)
  with assms(5-8) show ?thesis
    by (auto simp: OnPasteSequence_def Let_def RefreshList_def EffectiveTotalMs_def RepeatCountOr1_def editor_limit_def)
qed

definition short_signal :: "int editor" where
  "short_signal = (editor_open True None)\<lparr>ed_name := ''beep'', ed_spin := 3,
     ed_points := [\<lparr>sp_freqHz = 900, sp_durationMs = 100\<rparr>, \<lparr>sp_freqHz = 0, sp_durationMs = 50\<rparr>]\<rparr>"

theorem copy_paste_round_trip_witness:
  "ed_points (OnPasteSequence (doc_lib [(''t'', sequence_doc (doc_lib []) short_signal)]) int_flt (Some ''t'') (editor_open True None))
   = ed_points short_signal"
proof -
  let ?D = "doc_lib [(''t'', sequence_doc (doc_lib []) short_signal)]"
  have same: "sequence_doc ?D short_signal = sequence_doc (doc_lib []) short_signal"
    by (simp add: sequence_doc_def point_doc_def)
  have copy: "OnCopySequence ?D True short_signal = Some ''t''"
    by (simp add: OnCopySequence_def same doc_lib_dump) (simp add: short_signal_def)
  have "positive_points int_flt (ed_points short_signal)" "\<forall>p \<in> set (ed_points short_signal). int32 (sp_durationMs p)"
    "1 \<le> ed_spin short_signal" "ed_spin short_signal \<le> 500" "EffectiveTotalMs short_signal \<le> editor_limit short_signal"
    "ed_callKind (editor_open True None :: int editor) = ed_callKind short_signal"
    by (simp_all add: short_signal_def positive_points_def int_flt_def int32_def EffectiveTotalMs_def CycleDurationMs_def
        i32_def RepeatCountOr1_def editor_limit_def kMaxCallCustomSignalMs_def editor_open_def)
  moreover have "json_laws ?D" by (rule doc_lib_laws) simp
  ultimately show ?thesis using copy_paste_round_trip [OF _ copy] by blast
qed

end
