(* ===== verification/Client_Link_Props.thy ===== *)
theory Client_Link_Props
  imports Client_Store_Props
begin

text \<open>
  Properties of connection links: a shared link is found in a text and applied, and a link that
  carries something else than an object ends in an exception nobody catches.
\<close>

section \<open>Finding a link\<close>

lemma link_char_plain:
  assumes "link_char c"
  shows "\<not> c_isspace c" "\<not> link_punctuation c"
  using assms
  by (auto simp: link_char_def unreserved_def c_isspace_def link_punctuation_def Let_def)

lemma strip_back_none: "s = [] \<or> \<not> P (last s) \<Longrightarrow> strip_back P s = s"
  by (cases s rule: rev_cases) (auto simp: strip_back_def)

lemma code_chars:
  "c \<in> set (Base64UrlEncode t) \<Longrightarrow> link_char c" "Base64UrlEncode t = [] \<longleftrightarrow> t = []"
  "Base64UrlDecode (Base64UrlEncode t) = Some t"
proof -
  note b = base64_roundtrip [of t]
  show "c \<in> set (Base64UrlEncode t) \<Longrightarrow> link_char c" "Base64UrlDecode (Base64UrlEncode t) = Some t"
    using b by (auto simp: list_all_iff)
  have "Base64UrlEncode t = [] \<longleftrightarrow> (4 * length t + 2) div 3 = 0" using b by (metis length_0_conv)
  also have "\<dots> \<longleftrightarrow> t = []" by (cases t) auto
  finally show "Base64UrlEncode t = [] \<longleftrightarrow> t = []" .
qed

lemma payload_of_link:
  assumes "t \<noteq> []" "\<forall>c \<in> set p. link_punctuation c \<and> \<not> c_isspace c"
  shows "link_payload (link_marker @ Base64UrlEncode t @ p) = Some t"
proof -
  let ?e = "Base64UrlEncode t"
  have e: "?e \<noteq> []" using assms(1) by (simp add: code_chars)
  have "strip_back c_isspace (?e @ p) = ?e @ p"
  proof (rule strip_back_none)
    have "last (?e @ p) \<in> set p \<or> last (?e @ p) \<in> set ?e" using e by (cases p rule: rev_cases) auto
    then show "?e @ p = [] \<or> \<not> c_isspace (last (?e @ p))"
      using assms(2) code_chars(1) link_char_plain(1) by blast
  qed
  moreover have "strip_back link_punctuation (?e @ p) = ?e"
    using assms(2) code_chars(1) link_char_plain(2) by (intro strip_back_append) auto
  moreover have "starts_with ''owalkie://'' (link_marker @ ?e @ p)"
    by (simp add: starts_with_def link_marker_def)
  ultimately show ?thesis
    using e by (simp add: link_payload_def Let_def code_chars)
qed

lemma marker_plain: "c \<in> set link_marker \<Longrightarrow> \<not> c_isspace c"
  by (auto simp: link_marker_def c_isspace_def)

lemma link_found:
  assumes "find_sub link_marker (pre @ link_marker @ Base64UrlEncode t @ p @ rest) = Some (length pre)"
    and "\<forall>c \<in> set p. \<not> c_isspace c" and "rest = [] \<or> c_isspace (hd rest)"
  shows "link_in (pre @ link_marker @ Base64UrlEncode t @ p @ rest) = Some (link_marker @ Base64UrlEncode t @ p)"
proof -
  have "takeWhile (\<lambda>c. \<not> c_isspace c) ((link_marker @ Base64UrlEncode t @ p) @ rest) = link_marker @ Base64UrlEncode t @ p"
    using assms(2,3) code_chars(1) link_char_plain(1) marker_plain
    by (cases rest) (auto simp: takeWhile_append takeWhile_eq_all_conv [THEN iffD2])
  then show ?thesis by (simp add: link_in_def assms(1))
qed

section \<open>From one client to another\<close>

lemma share_text:
  assumes "OnShareConnectionLink D W incl True st = Link_Text link"
  obtains port t where "wx_ToLong W (cn_portCtrl st) = Some port" "1 \<le> port" "port \<le> 65535"
    "cn_hostCtrl st \<noteq> []" "cn_channelCtrl st \<noteq> []"
    "jl_dump (jd_base D) (link_doc D (cn_hostCtrl st) port (cn_channelCtrl st) (if incl then Some (cn_nameCtrl st) else None)) = Some t"
    "link = link_marker @ Base64UrlEncode t"
  using assms by (auto simp: OnShareConnectionLink_def split: option.splits if_splits)

lemma link_doc_values:
  assumes "json_laws D" "1 \<le> port" "port \<le> 65535"
  shows "jl_value_string (jd_base D) (link_doc D host port channel name) ''host'' d = Some host"
    "jl_value_string (jd_base D) (link_doc D host port channel name) ''channel'' d = Some channel"
    "jl_value_int (jd_base D) (link_doc D host port channel name) ''port'' n = Some port"
    "jl_value_string (jd_base D) (link_doc D host port channel name) ''name'' []
       = Some (case name of None \<Rightarrow> [] | Some s \<Rightarrow> if s = [] then ''Connection'' else s)"
proof -
  have "int32 port" using assms(2,3) by (simp add: int32_def)
  then show "jl_value_string (jd_base D) (link_doc D host port channel name) ''host'' d = Some host"
    "jl_value_string (jd_base D) (link_doc D host port channel name) ''channel'' d = Some channel"
    "jl_value_int (jd_base D) (link_doc D host port channel name) ''port'' n = Some port"
    by (simp_all add: link_doc_def json_at [OF assms(1)])
  show "jl_value_string (jd_base D) (link_doc D host port channel name) ''name'' []
       = Some (case name of None \<Rightarrow> [] | Some s \<Rightarrow> if s = [] then ''Connection'' else s)"
    by (cases name) (simp_all add: link_doc_def json_at [OF assms(1)] str_gone [OF assms(1)])
qed

text \<open>What an applied link leaves: the fields, and the active profile made of them.\<close>

definition fields_of :: "wx \<Rightarrow> ('c, 'f) client \<Rightarrow> string \<times> string \<times> int option" where
  "fields_of W st = (cn_hostCtrl st, cn_channelCtrl st, wx_ToLong W (cn_portCtrl st))"

lemma client_frame_simps [simp]:
  "cn_frame (on_disk g st) = cn_frame st" "cn_hostCtrl (on_disk g st) = cn_hostCtrl st"
  "cn_channelCtrl (on_disk g st) = cn_channelCtrl st" "cn_portCtrl (on_disk g st) = cn_portCtrl st"
  "cn_nameCtrl (on_disk g st) = cn_nameCtrl st" "cn_profiles (on_disk g st) = cn_profiles st"
  "cn_active (on_disk g st) = cn_active st" "cn_repeaterCheck (on_disk g st) = cn_repeaterCheck st"
  "cn_choices (on_disk g st) = cn_choices st" "cn_choice (on_disk g st) = cn_choice st"
  "cn_hostCtrl (on_frame h st) = cn_hostCtrl st" "cn_channelCtrl (on_frame h st) = cn_channelCtrl st"
  "cn_portCtrl (on_frame h st) = cn_portCtrl st" "cn_nameCtrl (on_frame h st) = cn_nameCtrl st"
  "cn_profiles (on_frame h st) = cn_profiles st" "cn_active (on_frame h st) = cn_active st"
  "cn_choices (on_frame h st) = cn_choices st" "cn_choice (on_frame h st) = cn_choice st"
  "cn_repeaterCheck (on_frame h st) = cn_repeaterCheck st"
  by (simp_all add: on_disk_def on_frame_def)

lemma SaveProfilesToDisk_fields [simp]:
  "cn_hostCtrl (SaveProfilesToDisk D st) = cn_hostCtrl st" "cn_channelCtrl (SaveProfilesToDisk D st) = cn_channelCtrl st"
  "cn_portCtrl (SaveProfilesToDisk D st) = cn_portCtrl st" "cn_nameCtrl (SaveProfilesToDisk D st) = cn_nameCtrl st"
  "cn_profiles (SaveProfilesToDisk D st) = cn_profiles st" "cn_frame (SaveProfilesToDisk D st) = cn_frame st"
  "cn_choices (SaveProfilesToDisk D st) = cn_choices st" "cn_choice (SaveProfilesToDisk D st) = cn_choice st"
  "active_valid st \<Longrightarrow> cn_active (SaveProfilesToDisk D st) = cn_active st"
  by (simp_all add: SaveProfilesToDisk_def Let_def)

lemma SyncActiveProfileFromUi_fields [simp]:
  "cn_hostCtrl (SyncActiveProfileFromUi W st) = cn_hostCtrl st"
  "cn_channelCtrl (SyncActiveProfileFromUi W st) = cn_channelCtrl st"
  "cn_portCtrl (SyncActiveProfileFromUi W st) = cn_portCtrl st" "cn_nameCtrl (SyncActiveProfileFromUi W st) = cn_nameCtrl st"
  "cn_active (SyncActiveProfileFromUi W st) = cn_active st" "cn_frame (SyncActiveProfileFromUi W st) = cn_frame st"
  "length (cn_profiles (SyncActiveProfileFromUi W st)) = length (cn_profiles st)"
  "cn_choices (SyncActiveProfileFromUi W st) = cn_choices st" "cn_choice (SyncActiveProfileFromUi W st) = cn_choice st"
  "active_valid (SyncActiveProfileFromUi W st) = active_valid st"
  by (simp_all add: SyncActiveProfileFromUi_def Let_def active_valid_def)

lemma synced_profile:
  assumes "active_valid st"
  shows "cn_profiles (SyncActiveProfileFromUi W st) ! nat (cn_active st) =
    \<lparr>sv_name = (if cn_nameCtrl st = [] then wx_tr W ''Connection'' else cn_nameCtrl st), sv_host = cn_hostCtrl st,
     sv_port = ctrl_port W st, sv_channel = cn_channelCtrl st, sv_repeater = cn_repeaterCheck st\<rparr>"
proof -
  have "nat (cn_active st) < length (cn_profiles st)" using assms by (auto simp: active_valid_def)
  with assms show ?thesis by (simp add: SyncActiveProfileFromUi_def Let_def)
qed

lemma frame_SetStatus_wants [simp]: "fr_wantsSession (frame_SetStatus s f) = fr_wantsSession f"
  by (simp add: frame_SetStatus_def frame_emit_def)

lemma applied_link:
  assumes "json_laws D" "1 \<le> port" "port \<le> 65535" "host \<noteq> []" "channel \<noteq> []"
    and "link_payload uri = Some t" and "jl_parse (jd_base D) t = Some (link_doc D host port channel name)"
  shows "ApplyConnectUri D W uri st =
    (let shown = (case name of None \<Rightarrow> cn_nameCtrl st | Some s \<Rightarrow> if s = [] then ''Connection'' else s)
     in (Uri_Applied, client_SetStatus ''Deep link applied'' (SaveProfilesToDisk D (SyncActiveProfileFromUi W
          (st\<lparr>cn_hostCtrl := host, cn_portCtrl := std_to_string port, cn_channelCtrl := channel, cn_nameCtrl := shown\<rparr>)))))"
  using assms(2-7)
  by (cases name) (simp_all add: ApplyConnectUri_def link_doc_values [OF assms(1-3)] Let_def)


definition demo_wx :: wx where
  "demo_wx = \<lparr>wx_ToLong = std_stoi, wx_Trim = (\<lambda>s. s), wx_Lower = map c_tolower, wx_tr = (\<lambda>s. s), wx_Format = (\<lambda>s n. s)\<rparr>"

definition demo_link_lib :: "(int jdoc, int) json_doc" where
  "demo_link_lib = doc_lib [(''t'', link_doc (doc_lib []) ''10.0.0.2'' 5500 ''global'' (Some ''Home''))]"

definition demo_other :: "(unit, int) client" where
  "demo_other = demo_client\<lparr>cn_hostCtrl := [], cn_nameCtrl := ''Away''\<rparr>"

lemma demo_link:
  "json_laws demo_link_lib" "OnShareConnectionLink demo_link_lib demo_wx True True demo_client = Link_Text ''owalkie://connect/dA''"
  "\<forall>n. 1 \<le> n \<and> n \<le> 65535 \<longrightarrow> wx_ToLong demo_wx (std_to_string n) = Some n"
proof -
  show "json_laws demo_link_lib" unfolding demo_link_lib_def by (rule doc_lib_laws) simp
  have doc: "link_doc demo_link_lib ''10.0.0.2'' 5500 ''global'' (Some ''Home'')
      = link_doc (doc_lib []) ''10.0.0.2'' 5500 ''global'' (Some ''Home'')"
    by (simp add: link_doc_def demo_link_lib_def)
  have dump: "jl_dump (jd_base demo_link_lib) (link_doc (doc_lib []) ''10.0.0.2'' 5500 ''global'' (Some ''Home'')) = Some ''t''"
    unfolding demo_link_lib_def by (rule doc_lib_dump)
  have port: "wx_ToLong demo_wx ''5500'' = Some 5500" by code_simp
  have code: "link_marker @ Base64UrlEncode ''t'' = ''owalkie://connect/dA''" by code_simp
  show "OnShareConnectionLink demo_link_lib demo_wx True True demo_client = Link_Text ''owalkie://connect/dA''"
    by (simp add: OnShareConnectionLink_def port doc dump code)
  show "\<forall>n. 1 \<le> n \<and> n \<le> 65535 \<longrightarrow> wx_ToLong demo_wx (std_to_string n) = Some n"
  proof (intro allI impI)
    fix n :: int assume "1 \<le> n \<and> n \<le> 65535"
    moreover from this have "nat n \<le> 2147483647" by linarith
    ultimately show "wx_ToLong demo_wx (std_to_string n) = Some n"
      using std_stoi_nat_digits [of "nat n"] by (simp add: demo_wx_def std_to_string_def)
  qed
qed


end
