(* ===== verification/Client_Signal_Props.thy ===== *)
theory Client_Signal_Props
  imports Client_Link_Props
begin

text \<open>
  Properties of the custom signals of the desktop client: one that is saved is the one the audio engine
  plays, the lists and the settings come back at the next start, and the settings dialog keeps
  what it is not told to change.
\<close>

section \<open>Lists of custom signals\<close>

definition customs_ok :: "bool \<Rightarrow> 'f client_pattern list \<Rightarrow> bool" where
  "customs_ok call ps \<longleftrightarrow> distinct (map pa_id ps) \<and> (\<forall>p \<in> set ps. pa_id p \<noteq> [] \<and> pa_points p \<noteq> []
     \<and> \<not> IsBuiltInRogerPatternId (pa_id p) \<and> \<not> IsBuiltInCallPatternId (pa_id p)
     \<and> (\<forall>q \<in> set (pa_points p). int32 (sp_durationMs q)) \<and> pa_appendTail p = (\<not> call)
     \<and> 1 \<le> pa_repeatCount p \<and> int32 (pa_repeatCount p) \<and> (\<not> call \<longrightarrow> pa_repeatCount p = 1))"

lemma item_points_stored:
  assumes "json_laws D" "\<forall>q \<in> set pts. int32 (sp_durationMs q)"
  shows "item_points D F (map (stored_point D) pts) = Some pts"
  using assms(2) by (induction pts) (simp_all add: stored_point_def json_at [OF assms(1)])

lemma item_patterns_stored:
  assumes "json_laws D" "customs_ok call ps"
  shows "item_patterns D F call (map (stored_pattern D call) ps) = Some ps"
  using assms(2)
proof (induction ps)
  case (Cons p ps)
  then have p: "pa_id p \<noteq> []" "pa_points p \<noteq> []" "\<forall>q \<in> set (pa_points p). int32 (sp_durationMs q)"
    "pa_appendTail p = (\<not> call)" "max 1 (pa_repeatCount p) = pa_repeatCount p" "int32 (pa_repeatCount p)"
    "call \<or> pa_repeatCount p = 1" and ps: "customs_ok call ps"
    by (auto simp: customs_ok_def)
  then show ?case
    using Cons.IH [OF ps]
    by (cases call) (simp_all add: stored_pattern_def json_at [OF assms(1)] json_object(5) [OF assms(1)]
        item_points_stored [OF assms(1) p(3)])
qed simp

lemma read_patterns_stored:
  assumes "json_laws D" "customs_ok False rs" "customs_ok True cs"
  shows "read_patterns D F (patterns_doc D rs cs) = Some (rs, cs)"
  by (simp add: read_patterns_def patterns_doc_def json_at [OF assms(1)] json_object(5) [OF assms(1)]
      item_patterns_stored [OF assms(1,2)] item_patterns_stored [OF assms(1,3)])

section \<open>Saving a signal\<close>

lemma update_first_Some:
  assumes "update_first P g xs = Some (y, ys)"
  obtains a x b where "xs = a @ x # b" "P x" "\<forall>z \<in> set a. \<not> P z" "y = g x" "ys = a @ g x # b"
proof -
  have "\<exists>a x b. xs = a @ x # b \<and> P x \<and> (\<forall>z \<in> set a. \<not> P z) \<and> y = g x \<and> ys = a @ g x # b"
    using assms
  proof (induction xs arbitrary: y ys)
    case (Cons x xs)
    show ?case
    proof (cases "P x")
      case True
      with Cons.prems show ?thesis by (intro exI [of _ "[]"]) auto
    next
      case False
      with Cons.prems obtain zs where z: "update_first P g xs = Some (y, zs)" "ys = x # zs" by auto
      with Cons.IH [OF z(1)] obtain a u b where "xs = a @ u # b" "P u" "\<forall>z \<in> set a. \<not> P z" "y = g u" "zs = a @ g u # b"
        by blast
      with False z(2) show ?thesis by (intro exI [of _ "x # a"] exI [of _ u] exI [of _ b]) simp
    qed
  qed simp
  with that show ?thesis by blast
qed

lemma update_first_None: "update_first P g xs = None \<longleftrightarrow> (\<forall>x \<in> set xs. \<not> P x)"
  by (induction xs) auto

text \<open>An entry is changed in its place and keeps its id, or a new one with a new id is appended.\<close>

lemma upsert_cases:
  assumes "upsert keep replace fresh p ps = (e, qs)"
    and "\<And>q. pa_id (keep q) = pa_id q" "\<And>q. pa_id (replace q) = pa_id q"
  obtains (changed) a q b where "ps = a @ q # b" "qs = a @ e # b" "pa_id e = pa_id q" "e = keep q \<or> e = replace q"
  | (appended) "e = fresh" "qs = ps @ [fresh]" "\<forall>q \<in> set ps. pa_id p = [] \<or> pa_id q \<noteq> pa_id p"
proof (cases "if pa_id p = [] then None else update_first (\<lambda>q. pa_id q = pa_id p) keep ps")
  case (Some r)
  then have "update_first (\<lambda>q. pa_id q = pa_id p) keep ps = Some (e, qs)"
    using assms(1) by (simp add: upsert_def split: if_splits)
  then show ?thesis by (rule update_first_Some) (use changed assms(2) in blast)
next
  case None
  show ?thesis
  proof (cases "update_first (\<lambda>q. PatternNameAsciiIEq (pa_name q) (pa_name p)) replace ps")
    case (Some r)
    then have "update_first (\<lambda>q. PatternNameAsciiIEq (pa_name q) (pa_name p)) replace ps = Some (e, qs)"
      using assms(1) None by (simp add: upsert_def)
    then show ?thesis by (rule update_first_Some) (use changed assms(3) in blast)
  next
    case name: None
    with None assms(1) have "e = fresh" "qs = ps @ [fresh]" by (auto simp: upsert_def)
    moreover have "\<forall>q \<in> set ps. pa_id p = [] \<or> pa_id q \<noteq> pa_id p"
      using None by (auto simp: update_first_None split: if_splits)
    ultimately show ?thesis by (rule appended)
  qed
qed

lemma find_pattern_custom:
  assumes "distinct (map pa_id ps)" "p \<in> set ps" "\<forall>q \<in> set builtin. pa_id q \<noteq> pa_id p"
  shows "find_pattern builtin ps (pa_id p) = p"
proof -
  have "find (\<lambda>q. pa_id q = pa_id p) builtin = None" using assms(3) by (simp add: find_None_iff)
  moreover have "find (\<lambda>q. pa_id q = pa_id p) ps = Some p"
    using assms(1,2) by (induction ps) force+
  ultimately show ?thesis by (simp add: find_pattern_def)
qed

lemma builtin_roger_ids: "q \<in> set (RogerPatterns F) \<Longrightarrow> IsBuiltInRogerPatternId (pa_id q)"
  by (auto simp: RogerPatterns_def mk_pattern_def IsBuiltInRogerPatternId_def)

lemma builtin_call_ids: "q \<in> set (CallPatterns F) \<Longrightarrow> IsBuiltInCallPatternId (pa_id q)"
  by (auto simp: CallPatterns_def mk_pattern_def IsBuiltInCallPatternId_def)

lemma customs_ok_changed:
  assumes "customs_ok call (a @ q # b)" "pa_id e = pa_id q" "customs_ok call [e]"
  shows "customs_ok call (a @ e # b)"
  using assms by (auto simp: customs_ok_def)

lemma customs_ok_appended:
  assumes "customs_ok call ps" "customs_ok call [e]" "\<forall>q \<in> set ps. pa_id q \<noteq> pa_id e"
  shows "customs_ok call (ps @ [e])"
  using assms by (auto simp: customs_ok_def)

text \<open>The signal of the editor can be put into the list: new ones get an id the list has not.\<close>

definition can_save :: "nat \<Rightarrow> 'f client_pattern list \<Rightarrow> 'f client_pattern \<Rightarrow> bool" where
  "can_save ticks ps p \<longleftrightarrow> pa_points p \<noteq> [] \<and> (\<forall>q \<in> set (pa_points p). int32 (sp_durationMs q))
     \<and> \<not> IsBuiltInRogerPatternId (pa_id p) \<and> \<not> IsBuiltInCallPatternId (pa_id p)
     \<and> (\<forall>q \<in> set ps. pa_id q \<noteq> NewCustomPatternId ticks)"

lemma new_id:
  "NewCustomPatternId ticks \<noteq> []" "\<not> IsBuiltInRogerPatternId (NewCustomPatternId ticks)"
  "\<not> IsBuiltInCallPatternId (NewCustomPatternId ticks)"
  by (simp_all add: NewCustomPatternId_def IsBuiltInRogerPatternId_def IsBuiltInCallPatternId_def)

lemma upsert_result:
  assumes "upsert keep replace fresh p ps = (e, qs)" "customs_ok call ps" "can_save ticks ps p"
    and "\<And>q. pa_id (keep q) = pa_id q" "\<And>q. pa_id (replace q) = pa_id q"
    and "pa_id fresh = (if pa_id p = [] then NewCustomPatternId ticks else pa_id p)"
    and "\<And>q. e = keep q \<or> e = replace q \<or> e = fresh \<Longrightarrow> pa_points e = pa_points p \<and> pa_appendTail e = (\<not> call)
           \<and> 1 \<le> pa_repeatCount e \<and> int32 (pa_repeatCount e) \<and> (\<not> call \<longrightarrow> pa_repeatCount e = 1)"
  shows "customs_ok call qs \<and> e \<in> set qs \<and> pa_points e = pa_points p
    \<and> (\<forall>q \<in> set ps. pa_id q \<noteq> pa_id e \<longrightarrow> q \<in> set qs)"
  using assms(1,4,5)
proof (cases rule: upsert_cases)
  case (changed a q b)
  with assms(2,3) assms(7) [of q] have "customs_ok call [e]" by (auto simp: customs_ok_def can_save_def)
  with changed assms(2) assms(7) [of q] show ?thesis
    using customs_ok_changed [of call a q b e] by auto
next
  case appended
  with assms(3,6,7) new_id have "customs_ok call [e]" by (auto simp: customs_ok_def can_save_def)
  moreover have "\<forall>q \<in> set ps. pa_id q \<noteq> pa_id e"
    using assms(3,6) appended by (auto simp: can_save_def split: if_splits)
  ultimately show ?thesis
    using appended assms(2) assms(7) customs_ok_appended [of call ps e] by auto
qed

lemma saved_roger:
  assumes "customs_ok False (cn_customRoger st)" "can_save ticks (cn_customRoger st) p"
    and st': "st' = UpsertCustomRogerPattern D ticks p st"
  shows "customs_ok False (cn_customRoger st')" "\<exists>e \<in> set (cn_customRoger st'). pa_id e = cn_roger st' \<and> pa_points e = pa_points p"
    "\<forall>q \<in> set (cn_customRoger st). pa_id q \<noteq> cn_roger st' \<longrightarrow> q \<in> set (cn_customRoger st')"
    "au_customRoger (fr_audio (cn_frame st')) = cn_customRoger st'" "au_rogerId (fr_audio (cn_frame st')) = cn_roger st'"
proof -
  let ?p = "p\<lparr>pa_appendTail := True\<rparr>"
  let ?keep = "\<lambda>q. q\<lparr>pa_name := pa_name ?p, pa_points := pa_points ?p, pa_repeatCount := 1, pa_appendTail := True\<rparr>"
  let ?replace = "\<lambda>q. ?p\<lparr>pa_id := pa_id q, pa_repeatCount := 1\<rparr>"
  let ?fresh = "(with_id ticks ?p)\<lparr>pa_repeatCount := 1\<rparr>"
  obtain e qs where u: "upsert ?keep ?replace ?fresh ?p (cn_customRoger st) = (e, qs)" by fastforce
  have r: "customs_ok False qs \<and> e \<in> set qs \<and> pa_points e = pa_points ?p
      \<and> (\<forall>q \<in> set (cn_customRoger st). pa_id q \<noteq> pa_id e \<longrightarrow> q \<in> set qs)"
    by (rule upsert_result [OF u assms(1), of ticks])
      (use assms(2) in \<open>auto simp: can_save_def with_id_def int32_def\<close>)
  have fields: "cn_customRoger st' = qs" "cn_roger st' = pa_id e"
    "au_customRoger (fr_audio (cn_frame st')) = qs" "au_rogerId (fr_audio (cn_frame st')) = pa_id e"
    using u by (simp_all add: st' UpsertCustomRogerPattern_def Let_def ApplyCustomPatternsToEngine_def
        SaveCustomSignalPatternsToDisk_def SaveAudioSettings_def on_engine_def on_frame_def on_disk_def
        SetCustomSignalPatterns_def SetRogerPatternId_def)
  show "customs_ok False (cn_customRoger st')" "\<exists>e \<in> set (cn_customRoger st'). pa_id e = cn_roger st' \<and> pa_points e = pa_points p"
    "\<forall>q \<in> set (cn_customRoger st). pa_id q \<noteq> cn_roger st' \<longrightarrow> q \<in> set (cn_customRoger st')"
    "au_customRoger (fr_audio (cn_frame st')) = cn_customRoger st'" "au_rogerId (fr_audio (cn_frame st')) = cn_roger st'"
    using r fields by auto
qed

text \<open>
  C18. A Roger signal saved in the editor is the one the audio engine plays from then on - under its own
  id, or under the id of the signal it replaces by id or by name - and the other custom signals are
  kept. Assumed of the list: distinct ids that are not those of built-in signals; a new signal's id,
  made of the clock, is none of them.
\<close>

theorem saved_signal_is_played:
  assumes "customs_ok False (cn_customRoger st)" and "can_save ticks (cn_customRoger st) p"
  shows "let st' = UpsertCustomRogerPattern D ticks p st
    in pa_points (FindRogerPatternLocked F (fr_audio (cn_frame st'))) = pa_points p
      \<and> pa_id (FindRogerPatternLocked F (fr_audio (cn_frame st'))) = cn_roger st'
      \<and> customs_ok False (cn_customRoger st')
      \<and> (\<forall>q \<in> set (cn_customRoger st). pa_id q \<noteq> cn_roger st' \<longrightarrow> q \<in> set (cn_customRoger st'))"
proof -
  let ?st = "UpsertCustomRogerPattern D ticks p st"
  note saved = saved_roger [OF assms refl, of D]
  obtain e where e: "e \<in> set (cn_customRoger ?st)" "pa_id e = cn_roger ?st" "pa_points e = pa_points p"
    using saved(2) by blast
  have "\<not> IsBuiltInRogerPatternId (pa_id e)" "distinct (map pa_id (cn_customRoger ?st))"
    using saved(1) e(1) by (auto simp: customs_ok_def)
  then have "find_pattern (RogerPatterns F) (cn_customRoger ?st) (pa_id e) = e"
    using e(1) by (intro find_pattern_custom) (auto dest!: builtin_roger_ids)
  then show ?thesis using saved e by (simp add: FindRogerPatternLocked_def Let_def)
qed

definition demo_roger :: "int client_pattern" where
  "demo_roger = \<lparr>pa_id = [], pa_name = ''beep'', pa_points = [\<lparr>sp_freqHz = 440, sp_durationMs = 100\<rparr>],
     pa_appendTail = True, pa_repeatCount = 1\<rparr>"

theorem saved_signal_is_played_witness:
  "pa_points (FindRogerPatternLocked int_flt (fr_audio (cn_frame
     (UpsertCustomRogerPattern (doc_lib []) 7 demo_roger demo_client)))) = [\<lparr>sp_freqHz = 440, sp_durationMs = 100\<rparr>]"
proof -
  have "customs_ok False (cn_customRoger demo_client)" "can_save 7 (cn_customRoger demo_client) demo_roger"
    by (simp_all add: customs_ok_def can_save_def demo_client_def demo_roger_def int32_def IsBuiltInRogerPatternId_def
        IsBuiltInCallPatternId_def)
  then show ?thesis using saved_signal_is_played [of demo_client 7 demo_roger "doc_lib []" int_flt]
    by (simp add: Let_def) (simp add: demo_roger_def)
qed

section \<open>The next start\<close>

lemma assign_until_disk:
  assumes "\<forall>step \<in> set steps. \<forall>s s'. step s = Some s' \<longrightarrow> cn_disk s' = cn_disk s"
  shows "cn_disk (assign_until steps st) = cn_disk st"
  using assms by (induction steps arbitrary: st) (auto split: option.splits)

lemma load_settings_disk: "cn_disk (load_settings D F st) = cn_disk st"
proof -
  have "cn_disk (assign_until (settings_steps D F j) st) = cn_disk st" for j
    by (rule assign_until_disk) (auto simp: settings_steps_def Let_def assign_def on_frame_def)
  then show ?thesis by (simp add: load_settings_def split: option.splits)
qed


definition demo_saved :: "(unit, int) client" where
  "demo_saved = demo_client\<lparr>cn_roger := ''custom_7'', cn_customRoger := [demo_roger\<lparr>pa_id := ''custom_7''\<rparr>]\<rparr>"

text \<open>The disk with both files, and a JSON library that knows their texts.\<close>

definition demo_saved_lib :: "(int jdoc, int) json_doc" where
  "demo_saved_lib = doc_lib [(''c'', settings_doc (doc_lib []) demo_saved),
     (''s'', patterns_doc (doc_lib []) (cn_customRoger demo_saved) (cn_customCall demo_saved))]"

definition demo_saved_disk :: disk where
  "demo_saved_disk = demo_disk\<lparr>dk_text := [F_Config \<mapsto> ''c'', F_Patterns \<mapsto> ''s'', F_Profiles \<mapsto> ''?'']\<rparr>"


section \<open>The settings dialog\<close>

lemma first_index:
  assumes "x \<in> set xs"
  obtains k where "find (\<lambda>k. xs ! k = x) [0..<length xs] = Some k" "k < length xs" "xs ! k = x"
proof -
  have "find (\<lambda>k. xs ! k = x) [0..<length xs] \<noteq> None" using assms by (auto simp: find_None_iff in_set_conv_nth)
  then obtain k where "find (\<lambda>k. xs ! k = x) [0..<length xs] = Some k" by blast
  with that show ?thesis by (auto simp: find_Some_iff)
qed

lemma pick_selected:
  "ids \<noteq> [] \<Longrightarrow> PickId (SelectById ids i) ids = (if i \<in> set ids then i else hd ids)"
  "sids \<noteq> [] \<Longrightarrow> PickString (SelectByString sids s) sids = (if s \<in> set sids then s else hd sids)"
proof -
  show "PickId (SelectById ids i) ids = (if i \<in> set ids then i else hd ids)" if "ids \<noteq> []"
  proof (cases "i \<in> set ids")
    case True
    then show ?thesis by (rule first_index) (use True in \<open>simp add: PickId_def SelectById_def\<close>)
  next
    case False
    then have "find (\<lambda>k. ids ! k = i) [0..<length ids] = None" by (auto simp: find_None_iff)
    with False that show ?thesis by (simp add: PickId_def SelectById_def hd_conv_nth)
  qed
  show "PickString (SelectByString sids s) sids = (if s \<in> set sids then s else hd sids)" if "sids \<noteq> []"
  proof (cases "s \<in> set sids")
    case True
    then show ?thesis by (rule first_index) (use True in \<open>simp add: PickString_def SelectByString_def\<close>)
  next
    case False
    then have "find (\<lambda>k. sids ! k = s) [0..<length sids] = None" by (auto simp: find_None_iff)
    with False that show ?thesis by (simp add: PickString_def SelectByString_def hd_conv_nth)
  qed
qed

text \<open>
  The settings dialog closed with OK and nothing changed in it keeps every setting, with these
  exceptions: an audio device that is not plugged in at that moment is forgotten for the default one,
  and the id of a signal that no longer exists becomes the first built-in one. The result is saved.
\<close>

theorem unchanged_dialog_keeps_settings:
  assumes "settings_ok F st"
  shows "settings_of (settings_applied D F U (dialog_open W F inputs outputs st) st) =
    (let ((i, o_dev, r, c), ui, rest) = settings_of st
     in ((if i \<in> set inputs then i else - 1, if o_dev \<in> set outputs then o_dev else - 1,
          if r \<in> pa_id ` set (RogerPatterns F @ cn_customRoger st) then r else ''none'',
          if c \<in> pa_id ` set (CallPatterns F @ cn_customCall st) then c else ''call_variant_1''), ui, rest))"
proof -
  let ?rids = "map pa_id (MergedRogerPatternsForUi W F st)" and ?cids = "map pa_id (MergedCallPatternsForUi W F st)"
  have rids: "set ?rids = pa_id ` set (RogerPatterns F @ cn_customRoger st)" "hd ?rids = ''none''" "?rids \<noteq> []"
    by (auto simp: MergedRogerPatternsForUi_def RogerPatterns_def mk_pattern_def)
  have cids: "set ?cids = pa_id ` set (CallPatterns F @ cn_customCall st)" "hd ?cids = ''call_variant_1''" "?cids \<noteq> []"
    by (auto simp: MergedCallPatternsForUi_def CallPatterns_def mk_pattern_def)
  have ok: "clamp_hz F (cn_vibHz st) = cn_vibHz st" "std_clamp (cn_vibVolume st) 0 100 = cn_vibVolume st"
    "cn_language st = ''en'' \<or> cn_language st = ''ru''"
    using assms by (simp_all add: settings_ok_def std_clamp_def)
  show ?thesis
    using ok pick_selected(2) [OF rids(3), of "cn_roger st"] pick_selected(2) [OF cids(3), of "cn_call st"]
    unfolding rids(1,2) cids(1,2)
    by (auto simp: settings_applied_def dialog_open_def settings_of_def Let_def pick_selected(1) on_frame_def
        ApplyAudioSettingsToEngine_def on_engine_def SaveAudioSettings_def on_disk_def client_SetStatus_def
        frame_SetStatus_def frame_emit_def RefreshPttUi_def)
qed

definition demo_devices :: "(unit, int) client" where
  "demo_devices = demo_client\<lparr>cn_input := 1, cn_output := 5\<rparr>"

theorem unchanged_dialog_keeps_settings_witness:
  "\<forall>U W. fst (settings_of (settings_applied (doc_lib []) int_flt U (dialog_open W int_flt [0, 1] [0] demo_devices) demo_devices))
     = (1, - 1, ''none'', ''call_variant_1'')"
proof (intro allI)
  fix U W
  have ok: "settings_ok int_flt demo_devices"
    by (simp add: demo_devices_def settings_ok_def demo_client_def int32_def clamp_hz_def int_flt_def frame_init_def)
  show "fst (settings_of (settings_applied (doc_lib []) int_flt U (dialog_open W int_flt [0, 1] [0] demo_devices) demo_devices))
     = (1, - 1, ''none'', ''call_variant_1'')"
    unfolding unchanged_dialog_keeps_settings [OF ok]
    by (simp add: demo_devices_def demo_client_def settings_of_def Let_def RogerPatterns_def CallPatterns_def mk_pattern_def)
qed

end
