(* ===== verification/Client_Props.thy ===== *)
theory Client_Props
  imports Client_Signal_Props Frame_Props
begin

text \<open>
  The desktop client as a state machine: everything the user can do with its profiles, links and
  settings, as steps, and the invariant of the list of profiles and its control. What a link that
  cannot be applied leaves.
\<close>

section \<open>Steps\<close>

text \<open>\<open>dialog_step\<close>: what can be done in the settings dialog with the client behind it.\<close>

inductive dialog_step :: "('j, 'f) json_doc \<Rightarrow> wx \<Rightarrow> 'f flt \<Rightarrow> ('c, 'f) client \<times> 'f settings_dialog \<Rightarrow>
    ('c, 'f) client \<times> 'f settings_dialog \<Rightarrow> bool" for D W F where
  ds_field: "dialog_step D W F (st, dg) (st, dg')"
| ds_roger_custom: "dialog_step D W F x (roger_custom D W F ticks ed x)"
| ds_call_custom: "dialog_step D W F x (call_custom D W F ticks ed x)"
| ds_roger_edit: "dialog_step D W F x (roger_edit D W F ticks session x)"
| ds_call_edit: "dialog_step D W F x (call_edit D W F ticks session x)"
| ds_vibration: "dialog_step D W F x (vibration_preview V x)"

inductive client_step :: "('j, 'f) json_doc \<Rightarrow> wx \<Rightarrow> 'f flt \<Rightarrow> ('c, 'f) client \<Rightarrow> ('c, 'f) client \<Rightarrow> bool"
  for D :: "('j, 'f) json_doc" and W F where
  cs_frame: "frame_step (V :: ('j, 'c, 'f) ui_env \<Rightarrow> bool) (cn_frame st) f \<Longrightarrow> client_step D W F st (st\<lparr>cn_frame := f\<rparr>)"
| cs_disk: "client_step D W F st (st\<lparr>cn_disk := d\<rparr>)"
| cs_type: "client_step D W F st (st\<lparr>cn_nameCtrl := a, cn_hostCtrl := b, cn_portCtrl := c, cn_channelCtrl := e\<rparr>)"
| cs_choice: "0 \<le> sel \<Longrightarrow> sel < int (length (cn_choices st)) \<Longrightarrow> OnProfileChoice D W U sel st = Some st' \<Longrightarrow> client_step D W F st st'"
| cs_save: "client_step D W F st (OnSaveProfile D W st)"
| cs_new: "client_step D W F st (OnNewProfile D W st)"
| cs_delete: "client_step D W F st (OnDeleteProfile D st)"
| cs_connect: "client_OnConnectClicked D W U st = Some st' \<Longrightarrow> client_step D W F st st'"
| cs_repeater: "client_step D W F st (OnRepeaterToggled D U v st)"
| cs_volume: "client_step D W F st (OnRxVolumeSlider D v st)"
| cs_volume_preview: "client_step D W F st (OnRxVolumeReleased V v st)"
| cs_uri: "ApplyConnectUri D W uri st = (r, st') \<Longrightarrow> client_step D W F st st'"
| cs_import: "OnImportConnectionLink D W U clip st = Some (r, st') \<Longrightarrow> client_step D W F st st'"
| cs_settings: "settings_opened D W F inputs outputs st = x \<Longrightarrow> (dialog_step D W F)\<^sup>*\<^sup>* x (st', dg) \<Longrightarrow>
    client_step D W F st (if ok then settings_applied D F U dg st' else st')"

section \<open>The list and its control\<close>

definition profile_list :: "('c, 'f) client \<Rightarrow> ServerProfile list \<times> int \<times> string list \<times> int" where
  "profile_list st = (cn_profiles st, cn_active st, cn_choices st, cn_choice st)"

definition list_ok :: "('c, 'f) client \<Rightarrow> bool" where
  "list_ok st \<longleftrightarrow> cn_profiles st \<noteq> [] \<and> active_valid st \<and> cn_choice st = cn_active st
     \<and> length (cn_choices st) = length (cn_profiles st)"

lemma list_ok_cong: "profile_list st' = profile_list st \<Longrightarrow> list_ok st' = list_ok st"
  by (simp add: profile_list_def list_ok_def active_valid_def)

lemma profile_list_simps [simp]:
  "profile_list (on_frame g st) = profile_list st" "profile_list (on_disk h st) = profile_list st"
  "profile_list (on_engine k st) = profile_list st" "profile_list (client_SetStatus s st) = profile_list st"
  "profile_list (SaveAudioSettings D st) = profile_list st"
  "profile_list (SaveCustomSignalPatternsToDisk D st) = profile_list st"
  "profile_list (ApplyCustomPatternsToEngine st) = profile_list st"
  "profile_list (ApplyAudioSettingsToEngine F st) = profile_list st"
  "profile_list (LoadCustomSignalPatternsFromDisk D F st) = profile_list st"
  by (simp_all add: profile_list_def on_frame_def on_disk_def on_engine_def client_SetStatus_def SaveAudioSettings_def
      SaveCustomSignalPatternsToDisk_def ApplyCustomPatternsToEngine_def ApplyAudioSettingsToEngine_def
      LoadCustomSignalPatternsFromDisk_def split: option.splits)

lemma profile_list_signals [simp]:
  "profile_list (UpsertCustomRogerPattern D ticks p st) = profile_list st"
  "profile_list (UpsertCustomCallPattern D ticks p st) = profile_list st"
  "profile_list (snd (DeleteCustomRogerPattern D sid st)) = profile_list st"
  "profile_list (snd (DeleteCustomCallPattern D sid st)) = profile_list st"
  by (simp_all add: UpsertCustomRogerPattern_def UpsertCustomCallPattern_def DeleteCustomRogerPattern_def
      DeleteCustomCallPattern_def Let_def split: prod.splits) (simp_all add: profile_list_def)

lemma list_ok_updates:
  assumes "list_ok st"
  shows "list_ok (SaveProfilesToDisk D st)" "list_ok (SyncActiveProfileFromUi W st)" "list_ok (SyncUiFromActiveProfile st)"
  using assms by (simp_all add: list_ok_def SyncUiFromActiveProfile_def Let_def active_valid_def SaveProfilesToDisk_def
      SyncActiveProfileFromUi_def)

lemma list_ok_repopulate: "cn_profiles st \<noteq> [] \<Longrightarrow> active_valid st \<Longrightarrow> list_ok (RepopulateProfileChoice st)"
  by (simp add: list_ok_def RepopulateProfileChoice_def active_valid_def std_clamp_def)

lemma list_ok_after_connect:
  assumes "list_ok st" "after_connect D st result = Some st'"
  shows "list_ok st'"
proof -
  obtain f where st': "st' = (let st = st\<lparr>cn_frame := f\<rparr>
      in if fr_connectLabel f = ''Disconnect'' then SaveAudioSettings D (SaveProfilesToDisk D st) else st)"
    using assms(2) by (auto simp: after_connect_def)
  have "list_ok (st\<lparr>cn_frame := f\<rparr>)" using assms(1) by (simp add: list_ok_def active_valid_def)
  then show ?thesis
    unfolding st' Let_def by (simp add: list_ok_updates(1) list_ok_cong [OF profile_list_simps(5)])
qed

text \<open>The members of a link's document that are read before anything is changed.\<close>

definition link_members :: "('j, 'f) json_doc \<Rightarrow> 'j \<Rightarrow> (string \<times> string \<times> int) option" where
  "link_members D payload = do {
     host \<leftarrow> jl_value_string (jd_base D) payload ''host'' [];
     channel \<leftarrow> jl_value_string (jd_base D) payload ''channel'' [];
     port \<leftarrow> jl_value_int (jd_base D) payload ''port'' 0;
     Some (host, channel, port) }"

definition members_ok :: "string \<times> string \<times> int \<Rightarrow> bool" where
  "members_ok = (\<lambda>(host, channel, port). host \<noteq> [] \<and> channel \<noteq> [] \<and> 1 \<le> port \<and> port \<le> 65535)"

definition show_members :: "string \<times> string \<times> int \<Rightarrow> ('c, 'f) client \<Rightarrow> ('c, 'f) client" where
  "show_members = (\<lambda>(host, channel, port) st.
     st\<lparr>cn_hostCtrl := host, cn_portCtrl := std_to_string port, cn_channelCtrl := channel\<rparr>)"

lemma ApplyConnectUri_members:
  "ApplyConnectUri D W uri st =
     (case Option.bind (link_payload uri) (jl_parse (jd_base D)) of
        None \<Rightarrow> (Uri_Invalid, client_SetStatus ''Invalid deep link'' st)
      | Some payload \<Rightarrow>
          (case link_members D payload of
             None \<Rightarrow> (Uri_Raised, st)
           | Some m \<Rightarrow>
               if \<not> members_ok m then (Uri_Invalid, client_SetStatus ''Invalid deep link'' st)
               else (case jl_value_string (jd_base D) payload ''name'' [] of
                       None \<Rightarrow> (Uri_Raised, show_members m st)
                     | Some name \<Rightarrow>
                         (Uri_Applied, client_SetStatus ''Deep link applied'' (SaveProfilesToDisk D (SyncActiveProfileFromUi W
                            (if name \<noteq> [] then (show_members m st)\<lparr>cn_nameCtrl := name\<rparr> else show_members m st)))))))"
proof -
  have not_ok: "(host = [] \<or> channel = [] \<or> port < 1 \<or> port > 65535) = (\<not> members_ok (host, channel, port))" for host channel port
    by (auto simp: members_ok_def)
  show ?thesis
    unfolding ApplyConnectUri_def link_members_def Let_def not_ok
    by (simp add: show_members_def split: option.split)
qed

lemma show_members_list [simp]:
  "profile_list (show_members m st) = profile_list st" "profile_list (st\<lparr>cn_nameCtrl := a\<rparr>) = profile_list st"
  by (cases m) (simp_all add: show_members_def profile_list_def)

lemma ApplyConnectUri_list:
  assumes "list_ok st" "ApplyConnectUri D W uri st = (r, st')"
  shows "list_ok st'"
  using assms
  by (auto simp: ApplyConnectUri_members list_ok_cong [OF profile_list_simps(4)] list_ok_updates
      list_ok_cong [OF show_members_list(1)] list_ok_cong [OF show_members_list(2)] split: option.splits if_splits)

lemma dialog_step_list: "dialog_step D W F x y \<Longrightarrow> profile_list (fst y) = profile_list (fst x)"
  by (induction rule: dialog_step.induct)
    (auto simp: roger_custom_def call_custom_def roger_edit_def call_edit_def vibration_preview_def Let_def
      split: prod.splits option.splits modal.splits)

lemma dialog_run_list: "(dialog_step D W F)\<^sup>*\<^sup>* x y \<Longrightarrow> profile_list (fst y) = profile_list (fst x)"
  by (induction rule: rtranclp_induct) (auto dest: dialog_step_list)

lemma settings_list:
  "profile_list (fst (settings_opened D W F inputs outputs st)) = profile_list st"
  "profile_list (settings_applied D F U dg st) = profile_list st"
  by (simp_all add: settings_opened_def settings_applied_def Let_def) (simp add: profile_list_def)

lemma list_ok_frame [simp]: "list_ok (st\<lparr>cn_frame := f\<rparr>) = list_ok st" "list_ok (st\<lparr>cn_disk := d\<rparr>) = list_ok st"
  "list_ok (client_SetStatus s st) = list_ok st" "list_ok (on_frame g st) = list_ok st"
  "list_ok (SaveAudioSettings D st) = list_ok st"
  by (simp_all add: list_ok_def active_valid_def on_frame_def client_SetStatus_def SaveAudioSettings_def on_disk_def)

lemma list_ok_saved: "cn_profiles st \<noteq> [] \<Longrightarrow> active_valid st \<Longrightarrow> list_ok (RepopulateProfileChoice (SaveProfilesToDisk D st))"
  by (intro list_ok_repopulate) (simp_all add: SaveProfilesToDisk_def active_valid_def)

lemma list_ok_choice:
  assumes "list_ok st" "0 \<le> sel" "sel < int (length (cn_choices st))" "OnProfileChoice D W U sel st = Some st'"
  shows "list_ok st'"
proof (cases "sel = cn_active st")
  case True
  with assms show ?thesis
    by (auto simp: OnProfileChoice_def Let_def list_ok_def active_valid_def)
next
  case False
  let ?st = "SaveProfilesToDisk D (SyncUiFromActiveProfile (st\<lparr>cn_choice := sel, cn_active := sel\<rparr>))"
  have "list_ok (st\<lparr>cn_choice := sel, cn_active := sel\<rparr>)"
    using assms(1-3) by (simp add: list_ok_def active_valid_def)
  then have "list_ok ?st" by (simp add: list_ok_updates)
  moreover have "st' = ?st \<or> after_connect D ?st (switch_profile U (ui_fields W ?st) (cn_frame ?st)) = Some st'"
    using assms False by (auto simp: OnProfileChoice_def Let_def list_ok_def active_valid_def split: if_splits)
  ultimately show ?thesis using list_ok_after_connect by metis
qed

lemma list_ok_new: "list_ok st \<Longrightarrow> list_ok (OnNewProfile D W st)"
  unfolding OnNewProfile_def Let_def list_ok_frame by (rule list_ok_saved) (simp_all add: active_valid_def)

lemma list_ok_delete:
  assumes "list_ok st"
  shows "list_ok (OnDeleteProfile D st)"
proof (cases "length (cn_profiles st) \<le> 1 \<or> cn_choice st < 0")
  case True
  with assms show ?thesis by (auto simp: OnDeleteProfile_def)
next
  case False
  define ps where "ps = take (nat (cn_choice st)) (cn_profiles st) @ drop (Suc (nat (cn_choice st))) (cn_profiles st)"
  let ?st = "st\<lparr>cn_profiles := ps, cn_active := min (cn_choice st) (int (length ps) - 1)\<rparr>"
  have "nat (cn_choice st) < length (cn_profiles st)" using assms by (auto simp: list_ok_def active_valid_def)
  with False have "length ps = length (cn_profiles st) - 1" "ps \<noteq> []" by (auto simp: ps_def)
  with False have ok: "cn_profiles ?st \<noteq> []" "active_valid ?st" by (auto simp: active_valid_def)
  have "OnDeleteProfile D st = client_SetStatus ''Profile deleted''
      (SyncUiFromActiveProfile (RepopulateProfileChoice (SaveProfilesToDisk D ?st)))"
    using False unfolding OnDeleteProfile_def Let_def ps_def by simp
  then show ?thesis using list_ok_updates(3) [OF list_ok_saved [OF ok]] by simp
qed

lemma list_ok_connect:
  assumes "list_ok st" "client_OnConnectClicked D W U st = Some st'"
  shows "list_ok st'"
  using assms list_ok_after_connect [OF list_ok_updates(2) [OF assms(1)]]
  by (auto simp: client_OnConnectClicked_def Let_def split: if_splits)

lemma list_ok_import:
  assumes "list_ok st" "OnImportConnectionLink D W U clip st = Some (r, st')"
  shows "list_ok st'"
  using assms ApplyConnectUri_list [OF assms(1)]
  by (fastforce simp: OnImportConnectionLink_def split: option.splits prod.splits uri_result.splits if_splits
      dest: list_ok_after_connect)

lemma list_ok_repeater: "list_ok st \<Longrightarrow> list_ok (OnRepeaterToggled D U v st)"
  by (simp add: OnRepeaterToggled_def Let_def) (intro impI conjI list_ok_updates, simp_all add: list_ok_def active_valid_def)

lemma list_ok_step:
  assumes "client_step D W F st st'" "list_ok st"
  shows "list_ok st'"
  using assms
proof (induction rule: client_step.induct)
  case (cs_type st a b c e)
  then show ?case by (simp add: list_ok_def active_valid_def)
next
  case (cs_save st)
  then have "list_ok (SyncActiveProfileFromUi W st)" by (rule list_ok_updates(2))
  then show ?case
    unfolding OnSaveProfile_def list_ok_frame by (intro list_ok_saved) (simp_all add: list_ok_def)
next
  case (cs_volume st v)
  then show ?case
    by (simp add: OnRxVolumeSlider_def Let_def list_ok_cong [OF profile_list_simps(3)]) (simp add: list_ok_def active_valid_def)
next
  case (cs_volume_preview st V v)
  then show ?case by (simp add: OnRxVolumeReleased_def list_ok_cong [OF profile_list_simps(3)])
next
  case (cs_settings inputs outputs st x st' dg ok U)
  have "profile_list st' = profile_list st"
    using dialog_run_list [OF cs_settings(2)] settings_list(1) [of D W F inputs outputs st] cs_settings(1) by simp
  then show ?case
    using cs_settings(3) by (simp add: list_ok_cong [OF settings_list(2)] list_ok_cong [of st' st])
qed (simp, simp, (blast intro: list_ok_choice list_ok_new list_ok_delete list_ok_connect list_ok_repeater
  ApplyConnectUri_list list_ok_import)+)

lemma list_ok_load: "list_ok (load_profiles D st)"
  unfolding load_profiles_def Let_def
  by (intro list_ok_updates(3) list_ok_repopulate) (auto simp: active_valid_def)

lemma assign_until_list:
  assumes "\<forall>step \<in> set steps. \<forall>s s'. step s = Some s' \<longrightarrow> profile_list s' = profile_list s"
  shows "profile_list (assign_until steps st) = profile_list st"
  using assms by (induction steps arbitrary: st) (auto split: option.splits)

lemma load_settings_list: "profile_list (load_settings D F st) = profile_list st"
proof -
  have "profile_list (assign_until (settings_steps D F j) st) = profile_list st" for j
    by (rule assign_until_list) (auto simp: settings_steps_def Let_def assign_def on_frame_def profile_list_def)
  then show ?thesis by (simp add: load_settings_def split: option.splits)
qed

lemma list_ok_start: "list_ok (client_start D F st)"
proof -
  have "profile_list (SyncRxVolumeUi s) = profile_list s" for s :: "('a, 'b) client"
    by (simp add: SyncRxVolumeUi_def Let_def) (simp add: profile_list_def)
  then have "profile_list (client_start D F st) = profile_list (load_profiles D (MigrateLegacyConnectionJsonIfNeeded D st))"
    by (simp add: client_start_def LoadAllSettings_def Let_def load_settings_list)
  then show ?thesis using list_ok_load list_ok_cong by blast
qed

lemma profile_list_ok: "(client_step D W F)\<^sup>*\<^sup>* (client_start D F st0) st \<Longrightarrow> list_ok st"
  by (induction rule: rtranclp_induct) (auto simp: list_ok_start intro: list_ok_step)



section \<open>Links that are not applied\<close>

lemma applied_members:
  assumes "st1 = show_members m st \<or> (\<exists>a. st1 = (show_members m st)\<lparr>cn_nameCtrl := a\<rparr>)"
    and "st' = client_SetStatus s (SaveProfilesToDisk D (SyncActiveProfileFromUi W st1))"
  shows "fst m = cn_hostCtrl st' \<and> fst (snd m) = cn_channelCtrl st' \<and> std_to_string (snd (snd m)) = cn_portCtrl st'"
    "active_valid st \<Longrightarrow> sv_host (cn_profiles st' ! nat (cn_active st)) = cn_hostCtrl st'
       \<and> sv_channel (cn_profiles st' ! nat (cn_active st)) = cn_channelCtrl st'"
proof -
  have f: "fst m = cn_hostCtrl st1 \<and> fst (snd m) = cn_channelCtrl st1 \<and> std_to_string (snd (snd m)) = cn_portCtrl st1"
    "cn_active st1 = cn_active st" "cn_profiles st1 = cn_profiles st"
    using assms(1) by (auto simp: show_members_def split: prod.splits)
  then have "active_valid st1 = active_valid st" by (simp add: active_valid_def)
  with f show "fst m = cn_hostCtrl st' \<and> fst (snd m) = cn_channelCtrl st' \<and> std_to_string (snd (snd m)) = cn_portCtrl st'"
    "active_valid st \<Longrightarrow> sv_host (cn_profiles st' ! nat (cn_active st)) = cn_hostCtrl st'
       \<and> sv_channel (cn_profiles st' ! nat (cn_active st)) = cn_channelCtrl st'"
    using synced_profile [of st1 W] by (simp_all add: assms(2) client_SetStatus_def)
qed


text \<open>A link to \<open>{"host": "h", "channel": "c", "port": 1, "name": 5}\<close>.\<close>

definition demo_bad_lib :: "(int jdoc, int) json_doc" where
  "demo_bad_lib = doc_lib [(''t'', DObj [(''host'', DStr ''h''), (''channel'', DStr ''c''), (''port'', DInt 1), (''name'', DInt 5)])]"


section \<open>Texts\<close>

lemma starts_with_prefix: "starts_with (p @ q) s \<Longrightarrow> starts_with p s"
  by (cases "length s < length p") (auto simp: starts_with_def take_add)

lemma find_sub_prefix: "find_sub (p @ q) s \<noteq> None \<Longrightarrow> find_sub p s \<noteq> None"
proof (induction s)
  case Nil
  then show ?case using starts_with_prefix [of p q "[]"] by (simp add: find_sub.simps split: if_splits)
next
  case (Cons a s)
  then show ?case
    using starts_with_prefix [of p q "a # s"] by (subst (asm) (2) find_sub.simps, subst find_sub.simps) (auto split: if_splits)
qed

text \<open>The text for a lost connection that is being retried is never shown: the earlier test for \<open>retry\<close> holds.\<close>

lemma retrying_is_reconnecting:
  assumes "has_part ''retrying'' (wx_Lower W status)" "\<not> has_part ''receiving'' (wx_Lower W status)"
    and "\<not> has_part ''welcome received'' (wx_Lower W status)"
  shows "HumanizeStatus W status = wx_tr W ''Reconnecting...''"
proof -
  have "has_part ''retry'' (wx_Lower W status)"
    using assms(1) find_sub_prefix [of "''retry''" "''ing''" "wx_Lower W status"] by (simp add: has_part_def)
  moreover have "\<not> has_part ''retry'' [] \<and> \<not> has_part ''retry'' ''connected'' \<and> \<not> has_part ''retry'' ''reconnected''"
    by code_simp
  moreover from calculation have "wx_Lower W status \<noteq> []" "wx_Lower W status \<noteq> ''connected''" "wx_Lower W status \<noteq> ''reconnected''"
    by metis+
  ultimately show ?thesis using assms(2,3) by (simp add: HumanizeStatus_def Let_def)
qed

end
