(* ===== verification/Client_Engine_Props.thy ===== *)
theory Client_Engine_Props
  imports Client_Props
begin

text \<open>
  The choices of the user are kept twice, by the client and by its audio engine: signals, devices,
  volume and vibration. Here they are shown to agree at all times: nothing the engine does on
  its own, nothing of push to talk and no event changes its choices, and every handler that changes
  the client's passes them on.
\<close>

section \<open>The choices of the engine\<close>

definition engine_choice ::
  "'f audio \<Rightarrow> (string \<times> string \<times> int \<times> int) \<times> ('f client_pattern list \<times> 'f client_pattern list) \<times> int \<times> 'f \<times> int" where
  "engine_choice a = ((au_rogerId a, au_callId a, au_preferredInput a, au_preferredOutput a),
     (au_customRoger a, au_customCall a), au_rxVolume a, au_vibrationHz a, au_vibrationVolume a)"

named_theorems choice_keeps

lemma choice_update [choice_keeps]:
  "engine_choice (a\<lparr>au_transmitting := b\<rparr>) = engine_choice a" "engine_choice (a\<lparr>au_shuttingDown := b\<rparr>) = engine_choice a"
  "engine_choice (a\<lparr>au_contextReady := b\<rparr>) = engine_choice a" "engine_choice (a\<lparr>au_streaming := b\<rparr>) = engine_choice a"
  "engine_choice (a\<lparr>au_abortRequested := b\<rparr>) = engine_choice a" "engine_choice (a\<lparr>au_collision := b\<rparr>) = engine_choice a"
  "engine_choice (a\<lparr>au_outOfBounds := b\<rparr>) = engine_choice a" "engine_choice (a\<lparr>au_captureActive := b\<rparr>) = engine_choice a"
  "engine_choice (a\<lparr>au_playbackActive := b\<rparr>) = engine_choice a" "engine_choice (a\<lparr>au_ringReady := b\<rparr>) = engine_choice a"
  "engine_choice (a\<lparr>au_pumpThread := b\<rparr>) = engine_choice a" "engine_choice (a\<lparr>au_pumpStop := b\<rparr>) = engine_choice a"
  "engine_choice (a\<lparr>au_captureDevice := d\<rparr>) = engine_choice a" "engine_choice (a\<lparr>au_playbackDevice := d\<rparr>) = engine_choice a"
  "engine_choice (a\<lparr>au_ring := s\<rparr>) = engine_choice a" "engine_choice (a\<lparr>au_fifo := s\<rparr>) = engine_choice a"
  "engine_choice (a\<lparr>au_sampleRate := i\<rparr>) = engine_choice a" "engine_choice (a\<lparr>au_packetMs := i\<rparr>) = engine_choice a"
  "engine_choice (a\<lparr>au_lastRxDuringTxNs := i\<rparr>) = engine_choice a" "engine_choice (a\<lparr>au_lastInboundNs := i\<rparr>) = engine_choice a"
  "engine_choice (a\<lparr>au_lastPulseNs := i\<rparr>) = engine_choice a" "engine_choice (a\<lparr>au_txNextFrameAtNs := i\<rparr>) = engine_choice a"
  "engine_choice (emit_audio ob a) = engine_choice a"
  by (simp_all add: engine_choice_def emit_audio_def)

lemma choice_if [choice_keeps]:
  "engine_choice (if c then x else y) = (if c then engine_choice x else engine_choice y)"
  by simp

lemma choice_devices [choice_keeps]:
  "engine_choice (CloseOutputStreamLocked a) = engine_choice a" "engine_choice (CloseCaptureDeviceLocked a) = engine_choice a"
  "engine_choice (end_pump a) = engine_choice a" "engine_choice (StartTxPumpThreadLocked a) = engine_choice a"
  "engine_choice (RequestAbortOutgoingSignalStream a) = engine_choice a"
  by (simp_all add: CloseOutputStreamLocked_def CloseCaptureDeviceLocked_def end_pump_def StopTxPumpThreadLocked_def
      StartTxPumpThreadLocked_def RequestAbortOutgoingSignalStream_def choice_keeps)

lemma choice_poll [choice_keeps]: "engine_choice (PollParallelTxCollisionState now a) = engine_choice a"
  by (simp add: PollParallelTxCollisionState_def Let_def choice_keeps)

lemma choice_oneshot [choice_keeps]: "engine_choice (PlayOneShotHighQuality F pcm rate q a) = engine_choice a"
  by (simp add: PlayOneShotHighQuality_def choice_keeps split: option.split)

lemma choice_sound [choice_keeps]: "engine_choice (snd (sound_or_tones V name ts a)) = engine_choice a"
  by (simp add: sound_or_tones_def choice_keeps split: option.split)

lemma choice_plays [choice_keeps]:
  "engine_choice (PlayConnectedSignal V q a) = engine_choice a" "engine_choice (PlayConnectionErrorSignal V a) = engine_choice a"
  "engine_choice (PlayManualConnectStartSignal V q a) = engine_choice a"
  "engine_choice (PlayManualDisconnectSignal V a) = engine_choice a" "engine_choice (PlayPttPressSignal V a) = engine_choice a"
  "engine_choice (PlaySwitchNavSignal V q a) = engine_choice a" "engine_choice (PlayVibrationImitationPulse V ms a) = engine_choice a"
  "engine_choice (PlayRxVolumePreviewSignal V v a) = engine_choice a"
  "engine_choice (PlayVibrationImitationPreview V hz v a) = engine_choice a"
  by (simp_all add: PlayConnectedSignal_def PlayConnectionErrorSignal_def PlayManualConnectStartSignal_def
      PlayManualDisconnectSignal_def PlayPttPressSignal_def PlaySwitchNavSignal_def PlayVibrationImitationPulse_def
      PlayVibrationImitationPattern_def PlayRxVolumePreviewSignal_def PlayVibrationImitationPreview_def
      Let_def case_prod_beta choice_keeps)

lemma choice_ensure [choice_keeps]: "engine_choice (EnsurePlaybackDeviceLocked V a) = engine_choice a"
  by (simp add: EnsurePlaybackDeviceLocked_def Let_def choice_keeps)

lemma choice_transmit [choice_keeps]:
  "engine_choice (snd (StartTransmit V a)) = engine_choice a" "engine_choice (StopTransmit locks now a) = engine_choice a"
  by (simp_all add: StartTransmit_def StopTransmit_def Let_def choice_keeps)

lemma choice_lifetime [choice_keeps]:
  "engine_choice (PrepareForExit locks a) = engine_choice a" "engine_choice (Reconfigure V cfg a) = engine_choice a"
  "engine_choice (Shutdown stop_locks locks now a) = engine_choice a"
  by (simp_all add: PrepareForExit_def Reconfigure_def Shutdown_def Let_def choice_keeps)

lemma choice_capture [choice_keeps]:
  "engine_choice (OnCaptureFrames samples a) = engine_choice a" "engine_choice (snd (TxPumpTurn now a)) = engine_choice a"
  by (simp_all add: OnCaptureFrames_def TxPumpTurn_def Let_def choice_keeps)

lemma choice_stream_loop [choice_keeps]: "engine_choice (snd (stream_loop frame abort k pcm a)) = engine_choice a"
proof (induction frame abort k pcm a rule: stream_loop.induct)
  case (1 frame abort k pcm a)
  then show ?case
    by (subst stream_loop.simps) (simp add: Let_def choice_keeps)
qed

lemma choice_stream [choice_keeps]:
  "engine_choice (snd (StreamGeneratedSignal abort pcm a)) = engine_choice a"
  "engine_choice (begin_stream a) = engine_choice a" "engine_choice (end_stream now a) = engine_choice a"
  by (simp_all add: StreamGeneratedSignal_def begin_stream_def end_stream_def choice_keeps)

lemma choice_signals [choice_keeps]:
  "engine_choice (snd (StreamRogerSignal V abort now a)) = engine_choice a"
  "engine_choice (snd (StreamCallSignal V abort now a)) = engine_choice a"
  by (simp_all add: StreamRogerSignal_def StreamCallSignal_def Let_def case_prod_beta choice_keeps split: option.split)

lemma choice_receive [choice_keeps]:
  "engine_choice (QueuePcmForPlaybackLocked V grants pcm a) = engine_choice a"
  "engine_choice (OnIncomingPcmFrame V grants now samples a) = engine_choice a"
  "engine_choice (snd (PlaybackCallback grants n a)) = engine_choice a"
  by (simp_all add: QueuePcmForPlaybackLocked_def OnIncomingPcmFrame_def PlaybackCallback_def Let_def case_prod_beta choice_keeps)

section \<open>Push to talk\<close>

definition frame_choice where "frame_choice f = engine_choice (fr_audio f)"

lemma frame_choice_update [choice_keeps]:
  "frame_choice (f\<lparr>fr_connected := b\<rparr>) = frame_choice f"
  "frame_choice (f\<lparr>fr_wantsSession := b\<rparr>) = frame_choice f"
  "frame_choice (f\<lparr>fr_busyMode := b\<rparr>) = frame_choice f"
  "frame_choice (f\<lparr>fr_rxBroadcast := b\<rparr>) = frame_choice f"
  "frame_choice (f\<lparr>fr_pttLocked := b\<rparr>) = frame_choice f"
  "frame_choice (f\<lparr>fr_lockSec := v\<rparr>) = frame_choice f"
  "frame_choice (f\<lparr>fr_toggleMode := b\<rparr>) = frame_choice f"
  "frame_choice (f\<lparr>fr_suppressHold := b\<rparr>) = frame_choice f"
  "frame_choice (f\<lparr>fr_globalPressed := b\<rparr>) = frame_choice f"
  "frame_choice (f\<lparr>fr_toggleHookDown := b\<rparr>) = frame_choice f"
  "frame_choice (f\<lparr>fr_hook := b\<rparr>) = frame_choice f"
  "frame_choice (f\<lparr>fr_vkey := v\<rparr>) = frame_choice f"
  "frame_choice (f\<lparr>fr_mods := w\<rparr>) = frame_choice f"
  "frame_choice (f\<lparr>fr_showLevel := b\<rparr>) = frame_choice f"
  "frame_choice (f\<lparr>fr_level := v\<rparr>) = frame_choice f"
  "frame_choice (f\<lparr>fr_burstTicket := n\<rparr>) = frame_choice f"
  "frame_choice (f\<lparr>fr_burstCount := v\<rparr>) = frame_choice f"
  "frame_choice (f\<lparr>fr_burstBlocked := b\<rparr>) = frame_choice f"
  "frame_choice (f\<lparr>fr_burstTimers := ns\<rparr>) = frame_choice f"
  "frame_choice (f\<lparr>fr_txTicket := n\<rparr>) = frame_choice f"
  "frame_choice (f\<lparr>fr_txThreads := ns\<rparr>) = frame_choice f"
  "frame_choice (f\<lparr>fr_busyTicket := n\<rparr>) = frame_choice f"
  "frame_choice (f\<lparr>fr_busyThreads := ts\<rparr>) = frame_choice f"
  "frame_choice (f\<lparr>fr_pttEnabled := b\<rparr>) = frame_choice f"
  "frame_choice (f\<lparr>fr_pttLabel := s\<rparr>) = frame_choice f"
  "frame_choice (f\<lparr>fr_callEnabled := b\<rparr>) = frame_choice f"
  "frame_choice (f\<lparr>fr_connectLabel := s\<rparr>) = frame_choice f"
  "frame_choice (f\<lparr>fr_relay := r\<rparr>) = frame_choice f"
  "frame_choice (f\<lparr>fr_manager := m\<rparr>) = frame_choice f"
  "frame_choice (f\<lparr>fr_uplinkOpened := b\<rparr>) = frame_choice f"
  "frame_choice (f\<lparr>fr_queue := ps\<rparr>) = frame_choice f"
  by (simp_all add: frame_choice_def)

lemma frame_choice_if [choice_keeps]: "frame_choice (if c then x else y) = (if c then frame_choice x else frame_choice y)"
  by simp

lemma frame_choice_emit [choice_keeps]:
  "frame_choice (CallAfter p f) = frame_choice f" "frame_choice (frame_emit ob f) = frame_choice f"
  "frame_choice (frame_SetStatus s f) = frame_choice f" "frame_choice (RefreshPttUi f) = frame_choice f"
  by (simp_all add: frame_choice_def CallAfter_def frame_emit_def frame_SetStatus_def RefreshPttUi_def Let_def)

lemma frame_choice_uplink [choice_keeps]:
  "frame_choice (snd (uplink_open U f)) = frame_choice f" "frame_choice (uplink_close U f) = frame_choice f"
  "frame_choice (uplink_abort U f) = frame_choice f"
  by (simp_all add: uplink_open_def uplink_close_def uplink_abort_def case_prod_beta choice_keeps)

lemma frame_choice_counters [choice_keeps]:
  "frame_choice (ResetPttReleaseBurstGuard f) = frame_choice f" "frame_choice (ExtendPttReleaseBurstDecayTimer f) = frame_choice f"
  "frame_choice (RecordPttReleaseBurst f) = frame_choice f" "frame_choice (StopTxCountdownFromServer f) = frame_choice f"
  "frame_choice (StartTxCountdownFromServer f) = frame_choice f" "frame_choice (StopBusyTimeoutCountdown f) = frame_choice f"
  "frame_choice (StartBusyTimeoutCountdown f) = frame_choice f" "frame_choice (burst_timer_fires i f) = frame_choice f"
  "frame_choice (tx_countdown_turn i f) = frame_choice f" "frame_choice (busy_countdown_turn i f) = frame_choice f"
  by (simp_all add: ResetPttReleaseBurstGuard_def ExtendPttReleaseBurstDecayTimer_def RecordPttReleaseBurst_def
      ArmPttReleaseBurstDecay_def StopTxCountdownFromServer_def StartTxCountdownFromServer_def StopBusyTimeoutCountdown_def
      StartBusyTimeoutCountdown_def burst_timer_fires_def tx_countdown_turn_def busy_countdown_turn_def Let_def
      choice_keeps split: prod.split)

lemma frame_choice_with_audio [choice_keeps]:
  "engine_choice (snd (g (fr_audio f))) = engine_choice (fr_audio f) \<Longrightarrow> frame_choice (snd (with_audio U g f)) = frame_choice f"
  by (simp add: frame_choice_def with_audio_same)

lemma frame_choice_do_audio [choice_keeps]:
  "engine_choice (g (fr_audio f)) = engine_choice (fr_audio f) \<Longrightarrow> frame_choice (do_audio U g f) = frame_choice f"
  by (simp add: frame_choice_def do_audio_def with_audio_same)

lemma frame_choice_ptt [choice_keeps]:
  "frame_choice (BeginPttTx U f) = frame_choice f" "frame_choice (EndPttTx U f) = frame_choice f"
  by (simp_all add: BeginPttTx_def EndPttTx_def Let_def case_prod_beta choice_keeps)

lemma frame_choice_buttons [choice_keeps]:
  "frame_choice (TogglePttTx U f) = frame_choice f" "frame_choice (OnPttDown U f) = frame_choice f"
  "frame_choice (OnPttUp U f) = frame_choice f" "frame_choice (OnPttButtonKeyDown U space f) = frame_choice f"
  "frame_choice (OnPttButtonKeyUp U space f) = frame_choice f" "frame_choice (OnPttButtonClicked U f) = frame_choice f"
  "frame_choice (OnCallSignalClicked U f) = frame_choice f" "frame_choice (GlobalPttKeyboardProc vkey isUp mods f) = frame_choice f"
  by (simp_all add: TogglePttTx_def OnPttDown_def OnPttUp_def OnPttButtonKeyDown_def OnPttButtonKeyUp_def
      OnPttButtonClicked_def OnCallSignalClicked_def GlobalPttKeyboardProc_def Let_def case_prod_beta choice_keeps)

lemma frame_choice_posted [choice_keeps]: "frame_choice (run_posted U p f) = frame_choice f"
  by (cases p) (simp_all add: on_relay_status_def on_connected_def on_welcome_def on_collision_def OnTxStop_def
      OnRxBroadcastStartFromRelay_def OnRxBroadcastEndFromRelay_def OnServerPttLockFromRelay_def
      ForceAbortOutgoingForServerPttLock_def OnServerPttUnlockFromRelay_def burst_sync_def burst_decay_def tx_pulse_def
      busy_tick_def Let_def choice_keeps)

lemma frame_choice_queue [choice_keeps]: "frame_choice (run_queue U f) = frame_choice f"
  by (simp add: run_queue_def choice_keeps split: list.split)

lemma frame_choice_callbacks [choice_keeps]: "frame_choice (fold (relay_callback U grants) cs f) = frame_choice f"
proof (induction cs arbitrary: f)
  case (Cons c cs)
  then show ?case by (cases c) (simp_all add: choice_keeps)
qed simp

lemma frame_choice_session:
  "session_event U self ev f = Some f' \<Longrightarrow> frame_choice f' = frame_choice f"
  "frame_Disconnect U b f = Some f' \<Longrightarrow> frame_choice f' = frame_choice f"
  "TryConnectWithCurrentFields U cf f = Some (ok, f') \<Longrightarrow> frame_choice f' = frame_choice f"
  by (auto simp: session_event_def frame_Disconnect_def TryConnectWithCurrentFields_def choice_keeps
      split: option.splits prod.splits)

lemma frame_choice_attempt [choice_keeps]: "frame_choice (after_attempt U status attempt) = frame_choice (snd attempt)"
  by (simp add: after_attempt_def case_prod_beta choice_keeps)

lemma frame_choice_connect:
  assumes "OnConnectClicked U cf f = Some f'"
  shows "frame_choice f' = frame_choice f"
  using assms
  by (auto simp: OnConnectClicked_def Let_def choice_keeps split: option.splits if_splits
      dest!: frame_choice_session(2,3))

lemma frame_choice_reconnect:
  assumes "reconnect_with U before after cf f = Some f'"
  shows "frame_choice f' = frame_choice f"
  using assms
  by (auto simp: reconnect_with_def Let_def choice_keeps split: option.splits dest!: frame_choice_session(2,3))

lemma frame_choice_step: "frame_step W f f' \<Longrightarrow> frame_choice f' = frame_choice f"
  by (induction rule: frame_step.induct)
    (auto simp: session_pcm_def repeater_toggled_def apply_ptt_settings_def switch_profile_def import_reconnect_def
      Let_def choice_keeps frame_choice_session frame_choice_connect frame_choice_reconnect split: if_splits)

section \<open>The client\<close>

text \<open>What the engine should have, and what both have.\<close>

definition client_choice where
  "client_choice F st = ((cn_roger st, cn_call st, cn_input st, cn_output st), (cn_customRoger st, cn_customCall st),
     cn_rxVolume st, clamp_hz F (cn_vibHz st), std_clamp (cn_vibVolume st) 0 100)"

definition choices where "choices F st = (frame_choice (cn_frame st), client_choice F st)"

definition in_step :: "'f flt \<Rightarrow> ('c, 'f) client \<Rightarrow> bool" where
  "in_step F st \<longleftrightarrow> frame_choice (cn_frame st) = client_choice F st \<and> 0 \<le> cn_rxVolume st \<and> cn_rxVolume st \<le> 200"

lemma in_step_cong: "choices F st' = choices F st \<Longrightarrow> in_step F st' = in_step F st"
  by (auto simp: choices_def in_step_def client_choice_def)

lemma choices_frame [choice_keeps]:
  "frame_choice (g (cn_frame st)) = frame_choice (cn_frame st) \<Longrightarrow> choices F (on_frame g st) = choices F st"
  "frame_choice f = frame_choice (cn_frame st) \<Longrightarrow> choices F (st\<lparr>cn_frame := f\<rparr>) = choices F st"
  "engine_choice (h (fr_audio (cn_frame st))) = engine_choice (fr_audio (cn_frame st)) \<Longrightarrow> choices F (on_engine h st) = choices F st"
  by (simp_all add: choices_def client_choice_def on_frame_def on_engine_def frame_choice_def)

lemma choices_update [choice_keeps]:
  "choices F (st\<lparr>cn_disk := d\<rparr>) = choices F st" "choices F (st\<lparr>cn_profiles := ps\<rparr>) = choices F st"
  "choices F (st\<lparr>cn_active := i\<rparr>) = choices F st" "choices F (st\<lparr>cn_nameCtrl := s\<rparr>) = choices F st"
  "choices F (st\<lparr>cn_hostCtrl := s\<rparr>) = choices F st" "choices F (st\<lparr>cn_portCtrl := s\<rparr>) = choices F st"
  "choices F (st\<lparr>cn_channelCtrl := s\<rparr>) = choices F st" "choices F (st\<lparr>cn_repeaterCheck := b\<rparr>) = choices F st"
  "choices F (st\<lparr>cn_choices := ss\<rparr>) = choices F st" "choices F (st\<lparr>cn_choice := i\<rparr>) = choices F st"
  "choices F (st\<lparr>cn_minimize := b\<rparr>) = choices F st" "choices F (st\<lparr>cn_language := s\<rparr>) = choices F st"
  "choices F (st\<lparr>cn_protocolHandled := b\<rparr>) = choices F st"
  "choices F (if c then x else y) = (if c then choices F x else choices F y)"
  by (simp_all add: choices_def client_choice_def)

lemma choices_save [choice_keeps]:
  "choices F (on_disk h st) = choices F st" "choices F (client_SetStatus s st) = choices F st"
  "choices F (SaveProfilesToDisk D st) = choices F st" "choices F (SaveAudioSettings D st) = choices F st"
  "choices F (SaveCustomSignalPatternsToDisk D st) = choices F st"
  by (simp_all add: on_disk_def client_SetStatus_def SaveProfilesToDisk_def SaveAudioSettings_def
      SaveCustomSignalPatternsToDisk_def Let_def choice_keeps)

lemma choices_controls [choice_keeps]:
  "choices F (RepopulateProfileChoice st) = choices F st" "choices F (SyncUiFromActiveProfile st) = choices F st"
  "choices F (SyncActiveProfileFromUi W st) = choices F st"
  by (simp_all add: RepopulateProfileChoice_def SyncUiFromActiveProfile_def SyncActiveProfileFromUi_def Let_def choice_keeps)

lemma choices_profiles [choice_keeps]:
  "choices F (OnSaveProfile D W st) = choices F st" "choices F (OnNewProfile D W st) = choices F st"
  "choices F (OnDeleteProfile D st) = choices F st" "choices F (OnRxVolumeReleased V v st) = choices F st"
  by (simp_all add: OnSaveProfile_def OnNewProfile_def OnDeleteProfile_def OnRxVolumeReleased_def Let_def choice_keeps)

lemma choices_repeater [choice_keeps]: "choices F (OnRepeaterToggled D U v st) = choices F st"
  by (simp add: OnRepeaterToggled_def repeater_toggled_def Let_def choice_keeps)

lemma choices_after_connect:
  assumes "after_connect D st result = Some st'" and "\<And>f. result = Some f \<Longrightarrow> frame_choice f = frame_choice (cn_frame st)"
  shows "choices F st' = choices F st"
  using assms by (auto simp: after_connect_def Let_def choice_keeps)

lemma choices_cn_frame: "choices F st' = choices F st \<Longrightarrow> frame_choice (cn_frame st') = frame_choice (cn_frame st)"
  by (simp add: choices_def)

lemma frame_choice_switch:
  "switch_profile U cf f = Some f' \<Longrightarrow> frame_choice f' = frame_choice f"
  "import_reconnect U cf f = Some f' \<Longrightarrow> frame_choice f' = frame_choice f"
  by (auto simp: switch_profile_def import_reconnect_def frame_choice_reconnect split: if_splits)

lemma choices_choice:
  assumes "OnProfileChoice D W U sel st = Some st'"
  shows "choices F st' = choices F st"
  using assms
  by (auto simp: OnProfileChoice_def Let_def choice_keeps split: if_splits
      dest!: choices_after_connect [where F = F] frame_choice_switch)

lemma choices_connect:
  assumes "client_OnConnectClicked D W U st = Some st'"
  shows "choices F st' = choices F st"
  using assms
  by (auto simp: client_OnConnectClicked_def Let_def choice_keeps frame_choice_connect split: if_splits
      dest!: choices_after_connect [where F = F])

lemma choices_uri: "choices F (snd (ApplyConnectUri D W uri st)) = choices F st"
  by (simp add: ApplyConnectUri_members show_members_def case_prod_beta choice_keeps split: option.split)

lemma choices_import:
  assumes "OnImportConnectionLink D W U clip st = Some (r, st')"
  shows "choices F st' = choices F st"
proof -
  have uri: "choices F s' = choices F s" if "ApplyConnectUri D W u s = (q, s')" for u s q s'
    using choices_uri [of F D W u s] that by simp
  show ?thesis
    using assms
    by (auto simp: OnImportConnectionLink_def choice_keeps uri split: option.splits prod.splits uri_result.splits if_splits
        dest!: choices_after_connect [where F = F] frame_choice_switch)
qed

section \<open>Handlers that choose\<close>

lemma in_step_keeps [choice_keeps]:
  "in_step F (SaveAudioSettings D st) = in_step F st" "in_step F (SaveCustomSignalPatternsToDisk D st) = in_step F st"
  "in_step F (client_SetStatus s st) = in_step F st"
  "frame_choice (g (cn_frame st)) = frame_choice (cn_frame st) \<Longrightarrow> in_step F (on_frame g st) = in_step F st"
  by (rule in_step_cong, simp add: choice_keeps)+

text \<open>Custom signals that have changed are passed on, with the one that is selected.\<close>

lemma in_step_custom:
  assumes "in_step F st"
  shows "in_step F (ApplyCustomPatternsToEngine (st\<lparr>cn_customRoger := rs, cn_customCall := cs\<rparr>))"
    "in_step F (on_engine (SetRogerPatternId r) (ApplyCustomPatternsToEngine (st\<lparr>cn_customRoger := rs, cn_roger := r\<rparr>)))"
    "in_step F (on_engine (SetCallPatternId r) (ApplyCustomPatternsToEngine (st\<lparr>cn_customCall := cs, cn_call := r\<rparr>)))"
    "in_step F (ApplyCustomPatternsToEngine (st\<lparr>cn_customRoger := rs\<rparr>))"
    "in_step F (ApplyCustomPatternsToEngine (st\<lparr>cn_customCall := cs\<rparr>))"
    "in_step F (ApplyCustomPatternsToEngine (on_engine (SetRogerPatternId r) (st\<lparr>cn_customRoger := rs, cn_roger := r\<rparr>)))"
    "in_step F (ApplyCustomPatternsToEngine (on_engine (SetCallPatternId r) (st\<lparr>cn_customCall := cs, cn_call := r\<rparr>)))"
  using assms
  by (simp_all add: in_step_def frame_choice_def engine_choice_def client_choice_def ApplyCustomPatternsToEngine_def
      on_engine_def on_frame_def SetRogerPatternId_def SetCallPatternId_def SetCustomSignalPatterns_def)

text \<open>Writing the files commutes with everything the choices are made of.\<close>

lemma on_disk_commutes:
  "ApplyCustomPatternsToEngine (on_disk h st) = on_disk h (ApplyCustomPatternsToEngine st)"
  "on_engine g (on_disk h st) = on_disk h (on_engine g st)"
  "cn_roger (on_disk h st) = cn_roger st" "cn_call (on_disk h st) = cn_call st"
  "cn_roger (ApplyCustomPatternsToEngine st) = cn_roger st" "cn_call (ApplyCustomPatternsToEngine st) = cn_call st"
  by (simp_all add: ApplyCustomPatternsToEngine_def on_disk_def on_engine_def on_frame_def)

lemma in_step_on_disk [choice_keeps]: "in_step F (on_disk h st) = in_step F st"
  by (rule in_step_cong) (simp add: choice_keeps)

lemma in_step_signals:
  assumes "in_step F st"
  shows "in_step F (UpsertCustomRogerPattern D ticks p st)" "in_step F (UpsertCustomCallPattern D ticks p st)"
    "in_step F (snd (DeleteCustomRogerPattern D sid st))" "in_step F (snd (DeleteCustomCallPattern D sid st))"
  using in_step_custom [OF assms] assms
  by (simp_all add: UpsertCustomRogerPattern_def UpsertCustomCallPattern_def DeleteCustomRogerPattern_def
      DeleteCustomCallPattern_def Let_def case_prod_beta SaveAudioSettings_def SaveCustomSignalPatternsToDisk_def
      on_disk_commutes in_step_on_disk)

lemma in_step_vibration: "in_step F (on_engine (PlayVibrationImitationPreview V hz v) st) = in_step F st"
  by (rule in_step_cong) (simp add: choice_keeps)

lemma in_step_dialog: "dialog_step D W F x y \<Longrightarrow> in_step F' (fst x) \<Longrightarrow> in_step F' (fst y)"
  by (induction rule: dialog_step.induct)
    (auto simp: roger_custom_def call_custom_def roger_edit_def call_edit_def vibration_preview_def Let_def in_step_signals
      in_step_vibration split: prod.splits option.splits modal.splits)

lemma in_step_opened:
  assumes "in_step F st"
  shows "in_step F (fst (settings_opened D W F' inputs outputs st))"
  by (simp add: settings_opened_def LoadCustomSignalPatternsFromDisk_def Let_def in_step_custom(1) [OF assms]
      split: option.split prod.split)

text \<open>However it was before: after the settings have been applied the engine has all but the custom signals.\<close>

lemma applied_choice:
  assumes "au_customRoger (fr_audio (cn_frame st)) = cn_customRoger st" "au_customCall (fr_audio (cn_frame st)) = cn_customCall st"
    and "0 \<le> cn_rxVolume st" "cn_rxVolume st \<le> 200"
  shows "in_step F (ApplyAudioSettingsToEngine F st)"
  using assms
  by (simp add: in_step_def frame_choice_def engine_choice_def client_choice_def ApplyAudioSettingsToEngine_def on_engine_def
      on_frame_def SetVibrationImitation_def SetRxVolumePercent_def SetCallPatternId_def SetRogerPatternId_def
      SetPreferredOutputDevice_def SetPreferredInputDevice_def CloseOutputStreamLocked_def std_clamp_def
      kRxVolumeMinPercent_def kRxVolumeMaxPercent_def)

lemma in_step_customs:
  "in_step F st \<Longrightarrow> au_customRoger (fr_audio (cn_frame st)) = cn_customRoger st
     \<and> au_customCall (fr_audio (cn_frame st)) = cn_customCall st \<and> 0 \<le> cn_rxVolume st \<and> cn_rxVolume st \<le> 200"
  by (simp add: in_step_def frame_choice_def engine_choice_def client_choice_def)

lemma in_step_applied:
  assumes "in_step F st"
  shows "in_step F (settings_applied D F U dg st)"
proof -
  let ?s = "st\<lparr>cn_input := PickId (sd_input dg) (sd_inputIds dg), cn_output := PickId (sd_output dg) (sd_outputIds dg),
    cn_roger := PickString (sd_roger dg) (sd_rogerIds dg), cn_call := PickString (sd_call dg) (sd_callIds dg),
    cn_minimize := sd_minimize dg, cn_vibHz := clamp_hz F (sd_hz dg),
    cn_vibVolume := std_clamp (sd_volume dg) 0 100, cn_language := (if sd_russian dg then ''ru'' else ''en'')\<rparr>"
  let ?t = "\<lambda>g h k. on_frame k (on_frame h (on_frame g ?s))"
  have frame: "in_step F (ApplyAudioSettingsToEngine F (?t g h k))"
    if "\<And>f. frame_choice (g f) = frame_choice f" "\<And>f. frame_choice (h f) = frame_choice f" "\<And>f. frame_choice (k f) = frame_choice f"
    for g h k
  proof -
    have "frame_choice (cn_frame (?t g h k)) = frame_choice (cn_frame st)" by (simp add: on_frame_def that)
    then have "au_customRoger (fr_audio (cn_frame (?t g h k))) = au_customRoger (fr_audio (cn_frame st))"
      "au_customCall (fr_audio (cn_frame (?t g h k))) = au_customCall (fr_audio (cn_frame st))"
      by (simp_all add: frame_choice_def engine_choice_def)
    with in_step_customs [OF assms] show ?thesis by (intro applied_choice) (simp_all add: on_frame_def)
  qed
  show ?thesis
    unfolding settings_applied_def Let_def
    by (simp add: choice_keeps split del: if_split) (rule frame; simp add: choice_keeps)
qed

lemma in_step_slider: "in_step F st \<Longrightarrow> in_step F (OnRxVolumeSlider D v st)"
  by (simp add: OnRxVolumeSlider_def Let_def choice_keeps)
    (simp add: in_step_def frame_choice_def engine_choice_def client_choice_def on_engine_def on_frame_def
      SetRxVolumePercent_def std_clamp_def kRxVolumeMinPercent_def kRxVolumeMaxPercent_def)

lemma in_step_start: "in_step F (client_start D F st)"
proof -
  let ?s = "on_frame (\<lambda>f. f\<lparr>fr_level := if fr_showLevel f then fr_level f else 0\<rparr>)
      (LoadAllSettings D F (MigrateLegacyConnectionJsonIfNeeded D st))"
  let ?v = "?s\<lparr>cn_rxVolume := std_clamp (cn_rxVolume ?s) 0 200\<rparr>"
  have "au_customRoger (fr_audio (cn_frame ?v)) = cn_customRoger ?v \<and> au_customCall (fr_audio (cn_frame ?v)) = cn_customCall ?v"
    by (simp add: LoadAllSettings_def ApplyCustomPatternsToEngine_def on_engine_def on_frame_def SetCustomSignalPatterns_def)
  then have "in_step F (ApplyAudioSettingsToEngine F ?v)"
    by (intro applied_choice) (simp_all add: std_clamp_def)
  moreover have "choices F (SyncRxVolumeUi (ApplyAudioSettingsToEngine F ?s)) = choices F (ApplyAudioSettingsToEngine F ?v)"
    by (simp add: choices_def client_choice_def SyncRxVolumeUi_def ApplyAudioSettingsToEngine_def on_engine_def on_frame_def
        frame_choice_def engine_choice_def SetVibrationImitation_def SetRxVolumePercent_def SetCallPatternId_def
        SetRogerPatternId_def SetPreferredOutputDevice_def SetPreferredInputDevice_def CloseOutputStreamLocked_def
        std_clamp_def kRxVolumeMinPercent_def kRxVolumeMaxPercent_def Let_def)
  ultimately have "in_step F (SyncRxVolumeUi (ApplyAudioSettingsToEngine F ?s))" using in_step_cong by blast
  then show ?thesis by (simp add: client_start_def Let_def choice_keeps)
qed

lemma in_step_step:
  assumes "client_step D W F st st'" "in_step F st"
  shows "in_step F st'"
  using assms
proof (induction rule: client_step.induct)
  case (cs_settings inputs outputs st x st' dg ok U)
  have "in_step F (fst x)" using in_step_opened [OF cs_settings(3)] cs_settings(1) by fastforce
  moreover have "in_step F (fst y)" if "(dialog_step D W F)\<^sup>*\<^sup>* x y" "in_step F (fst x)" for y
    using that by (induction rule: rtranclp_induct) (auto dest: in_step_dialog)
  ultimately have "in_step F st'" using cs_settings(2) by fastforce
  then show ?case by (simp add: in_step_applied)
next
  case (cs_type st e c b a)
  then show ?case using in_step_cong [of F "st\<lparr>cn_nameCtrl := a, cn_hostCtrl := b, cn_portCtrl := c, cn_channelCtrl := e\<rparr>" st]
    by (simp add: choice_keeps)
next
  case (cs_frame st f V)
  then show ?case using in_step_cong [OF choices_frame(2) [OF frame_choice_step]] by metis
next
  case (cs_uri uri st r st')
  then show ?case using in_step_cong [of F st' st] choices_uri [of F D W uri st] by simp
qed (auto simp: in_step_slider intro: in_step_cong [THEN iffD2] choice_keeps choices_choice choices_connect choices_import)

text \<open>
  C8. Whatever the files held at the start, and whatever the user, the network and the timers do after it,
  the audio engine plays and uses what the client shows as chosen: the selected Roger and call signal,
  looked up in the client's own lists, the two devices, the volume of received speech, which stays between 0 and
  200 percent, and the vibration. No push to talk, no event of the server, no reconnecting and no editing of
  signals in the settings dialog, cancelled or not, sets them apart.
\<close>

theorem engine_follows_client:
  assumes "(client_step D W F)\<^sup>*\<^sup>* (client_start D F st0) st"
  shows "let a = fr_audio (cn_frame st)
    in FindRogerPatternLocked F a = find_pattern (RogerPatterns F) (cn_customRoger st) (cn_roger st)
      \<and> FindCallPatternLocked F a = find_pattern (CallPatterns F) (cn_customCall st) (cn_call st)
      \<and> au_preferredInput a = cn_input st \<and> au_preferredOutput a = cn_output st
      \<and> au_rxVolume a = cn_rxVolume st \<and> 0 \<le> cn_rxVolume st \<and> cn_rxVolume st \<le> 200
      \<and> au_vibrationHz a = clamp_hz F (cn_vibHz st) \<and> au_vibrationVolume a = std_clamp (cn_vibVolume st) 0 100"
proof -
  have "in_step F st" using assms by induction (auto intro: in_step_start in_step_step)
  then show ?thesis
    by (simp add: in_step_def frame_choice_def engine_choice_def client_choice_def FindRogerPatternLocked_def
        FindCallPatternLocked_def Let_def)
qed

text \<open>The slider is moved too far and let go.\<close>

theorem engine_follows_client_witness:
  "\<forall>V. let st = OnRxVolumeReleased V 350 (OnRxVolumeSlider (doc_lib []) 350 (client_start (doc_lib []) int_flt demo_client))
   in au_rxVolume (fr_audio (cn_frame st)) = 200"
proof (intro allI)
  fix V :: "int audio_env"
  let ?D = "doc_lib [] :: (int jdoc, int) json_doc"
  let ?a = "client_start ?D int_flt demo_client"
  let ?b = "OnRxVolumeSlider ?D 350 ?a"
  have "client_step ?D demo_wx int_flt ?a ?b" "client_step ?D demo_wx int_flt ?b (OnRxVolumeReleased V 350 ?b)"
    by (rule cs_volume cs_volume_preview)+
  then have run: "(client_step ?D demo_wx int_flt)\<^sup>*\<^sup>* ?a (OnRxVolumeReleased V 350 ?b)" by simp
  have "cn_rxVolume (OnRxVolumeReleased V 350 ?b) = 200"
    by (simp add: OnRxVolumeReleased_def OnRxVolumeSlider_def on_engine_def on_frame_def SaveAudioSettings_def on_disk_def
        std_clamp_def Let_def)
  then show "let st = OnRxVolumeReleased V 350 ?b in au_rxVolume (fr_audio (cn_frame st)) = 200"
    using engine_follows_client [OF run] by (simp add: Let_def)
qed

end
