(* ===== verification/Client_Shell_Props.thy ===== *)
theory Client_Shell_Props
  imports Client_Shell Client_Engine_Props
begin

text \<open>
  Properties of the shell of the desktop client: when a hidden window can be brought back, what the
  registration of links leaves in the registry, the link of the command line, and the samples of a signal
  played on a device of its own.
\<close>

section \<open>The window\<close>

definition tray_ok :: "('c, 'f) shell \<Rightarrow> bool" where
  "tray_ok sh \<longleftrightarrow> sh_destroyed sh \<or> sh_visible sh \<or> sh_tray sh \<noteq> None"

lemma tray_ok_step: "shell_step W (\<lambda>ok. ok) sh sh' \<Longrightarrow> tray_ok sh \<Longrightarrow> tray_ok sh'"
  by (induction rule: shell_step.induct)
    (auto simp: tray_ok_def OnCloseWindow_def EnsureTaskBarIcon_def UpdateTaskBarStatus_def RemoveTaskBarIcon_def
      OnTrayMenu_def ShowFromTray_def RequestApplicationExit_def posted_exit_def shell_SetStatus_def Let_def
      split: tray_item.splits)

definition stranded :: "('c, 'f) shell \<Rightarrow> bool" where
  "stranded sh \<longleftrightarrow> \<not> sh_visible sh \<and> sh_tray sh = None"

lemma stranded_step: "shell_step W A sh sh' \<Longrightarrow> stranded sh \<Longrightarrow> stranded sh'"
  by (induction rule: shell_step.induct)
    (auto simp: stranded_def OnCloseWindow_def RemoveTaskBarIcon_def UpdateTaskBarStatus_def posted_exit_def
      shell_SetStatus_def Let_def)

text \<open>
  C23. A window that closing has hidden can be brought back: as long as the system accepts tray icons, a
  hidden window has one. But when the system refuses the icon, closing hides the window all the
  same, and then nothing the user or the program does shows it again.
\<close>

theorem hidden_window_has_tray_icon:
  "((shell_step W (\<lambda>ok. ok))\<^sup>*\<^sup>* (shell_init st) sh \<longrightarrow> \<not> sh_destroyed sh \<longrightarrow> \<not> sh_visible sh \<longrightarrow> sh_tray sh \<noteq> None)
   \<and> (cn_minimize st \<longrightarrow> (shell_step W A)\<^sup>*\<^sup>* (OnCloseWindow W False True (shell_init st)) sh
        \<longrightarrow> \<not> sh_visible sh \<and> sh_tray sh = None)"
proof (intro conjI impI)
  assume run: "(shell_step W (\<lambda>ok. ok))\<^sup>*\<^sup>* (shell_init st) sh" and hidden: "\<not> sh_destroyed sh" "\<not> sh_visible sh"
  have "tray_ok (shell_init st)" by (simp add: shell_init_def tray_ok_def)
  with run have "tray_ok sh" by (induction rule: rtranclp_induct) (auto intro: tray_ok_step)
  with hidden show "sh_tray sh \<noteq> None" by (simp add: tray_ok_def)
next
  assume "cn_minimize st" and run: "(shell_step W A)\<^sup>*\<^sup>* (OnCloseWindow W False True (shell_init st)) sh"
  then have "stranded (OnCloseWindow W False True (shell_init st))"
    by (simp add: stranded_def OnCloseWindow_def shell_init_def EnsureTaskBarIcon_def UpdateTaskBarStatus_def)
  with run have "stranded sh" by (induction rule: rtranclp_induct) (auto intro: stranded_step)
  then show "\<not> sh_visible sh" "sh_tray sh = None" by (simp_all add: stranded_def)
qed

definition demo_shell :: "(unit, int) shell" where
  "demo_shell = shell_init (demo_client\<lparr>cn_minimize := True\<rparr>)"

text \<open>Two windows are closed, and the second system refuses the icon.\<close>

theorem hidden_window_has_tray_icon_witness:
  "sh_tray (OnCloseWindow demo_wx True True demo_shell) \<noteq> None
   \<and> \<not> sh_visible (shell_SetStatus demo_wx ''Connected'' (OnCloseWindow demo_wx False True demo_shell))"
proof -
  have close: "(shell_step demo_wx (\<lambda>ok. ok))\<^sup>*\<^sup>* demo_shell (OnCloseWindow demo_wx True True demo_shell)"
    by (rule r_into_rtranclp, rule ss_close) (simp_all add: demo_shell_def shell_init_def)
  have status: "(shell_step demo_wx (\<lambda>_. True))\<^sup>*\<^sup>* (OnCloseWindow demo_wx False True demo_shell)
      (shell_SetStatus demo_wx ''Connected'' (OnCloseWindow demo_wx False True demo_shell))"
    by (rule r_into_rtranclp, rule ss_status) (simp add: OnCloseWindow_def demo_shell_def shell_init_def EnsureTaskBarIcon_def
        UpdateTaskBarStatus_def demo_client_def)
  have hidden: "\<not> sh_destroyed (OnCloseWindow demo_wx True True demo_shell)"
    "\<not> sh_visible (OnCloseWindow demo_wx True True demo_shell)"
    by (simp_all add: OnCloseWindow_def demo_shell_def shell_init_def EnsureTaskBarIcon_def UpdateTaskBarStatus_def demo_client_def)
  show ?thesis
    using hidden_window_has_tray_icon [of demo_wx "demo_client\<lparr>cn_minimize := True\<rparr>" "OnCloseWindow demo_wx True True demo_shell"]
      hidden_window_has_tray_icon [of demo_wx "demo_client\<lparr>cn_minimize := True\<rparr>"
        "shell_SetStatus demo_wx ''Connected'' (OnCloseWindow demo_wx False True demo_shell)" "\<lambda>_. True"]
      close status hidden by (simp add: demo_shell_def)
qed

section \<open>Links in the registry\<close>

lemma read_after_set:
  assumes "SetRegStringValue k n v R = Some R'" "CHR 0x00 \<notin> set v"
  shows "ReadRegStringValue R' k n = (if v = [] then None else Some v)"
proof -
  have "takeWhile (\<lambda>c. c \<noteq> CHR 0x00) (v @ CHR 0x00 # rest) = v" for rest
    using assms(2) by (induction v) auto
  with assms(1) show ?thesis by (auto simp: SetRegStringValue_def ReadRegStringValue_def Let_def split: if_splits)
qed

lemma read_other_set:
  assumes "SetRegStringValue k n v R = Some R'" "k' \<noteq> k"
  shows "ReadRegStringValue R' k' n' = ReadRegStringValue R k' n'"
  using assms by (auto simp: SetRegStringValue_def ReadRegStringValue_def Let_def split: if_splits)

lemma keys_differ: "command_key \<noteq> owalkie_key"
  by (simp add: command_key_def)

text \<open>
  C25. The test for an existing registration of links fails on the very registration the program itself
  has just made: it wants a text in the value \<open>URL Protocol\<close>, which the registration leaves empty. The
  command is there and reads back as written, and the program has noted in its settings that
  the question has been asked; with fresh settings it is asked again.
\<close>

theorem registration_not_recognised:
  assumes "RegisterUserProtocolOwalkie (Some exe) R = (True, R')" and "CHR 0x00 \<notin> set exe"
  shows "ReadRegStringValue R' command_key None = Some (open_command exe)
    \<and> \<not> IsUserProtocolRegisteredOwalkie R'
    \<and> (\<not> cn_protocolHandled st \<longrightarrow> \<not> IsUserProtocolRegisteredOwalkie R \<longrightarrow>
         fst (EnsureUserProtocolRegistration D True (Some exe) (R, st)) = R'
         \<and> cn_protocolHandled (snd (EnsureUserProtocolRegistration D True (Some exe) (R, st))))"
proof -
  obtain R1 R2 where s: "SetRegStringValue owalkie_key None ''URL:O-Walkie Protocol'' R = Some R1"
    "SetRegStringValue owalkie_key (Some ''URL Protocol'') [] R1 = Some R2"
    "SetRegStringValue command_key None (open_command exe) R2 = Some R'"
    using assms(1) by (auto simp: RegisterUserProtocolOwalkie_def split: option.splits)
  have "CHR 0x00 \<notin> set (open_command exe)" using assms(2) by (simp add: open_command_def)
  then have "ReadRegStringValue R' command_key None = Some (open_command exe)"
    using read_after_set [OF s(3)] by (simp add: open_command_def)
  moreover have "ReadRegStringValue R' owalkie_key (Some ''URL Protocol'') = None"
    using read_other_set [OF s(3), of owalkie_key] read_after_set [OF s(2)] keys_differ by simp
  moreover have "cn_protocolHandled (SaveAudioSettings D (st\<lparr>cn_protocolHandled := True\<rparr>))"
    by (simp add: SaveAudioSettings_def on_disk_def)
  ultimately show ?thesis
    using assms(1) by (simp add: IsUserProtocolRegisteredOwalkie_def EnsureUserProtocolRegistration_def Let_def)
qed

definition demo_registry :: registry where
  "demo_registry = \<lparr>rg_keys = (\<lambda>_. None), rg_writable = (\<lambda>_. True)\<rparr>"

theorem registration_not_recognised_witness:
  "fst (RegisterUserProtocolOwalkie (Some ''C:ow.exe'') demo_registry)
   \<and> \<not> IsUserProtocolRegisteredOwalkie (snd (RegisterUserProtocolOwalkie (Some ''C:ow.exe'') demo_registry))"
proof -
  let ?r = "RegisterUserProtocolOwalkie (Some ''C:ow.exe'') demo_registry"
  have ok: "fst ?r" by (simp add: RegisterUserProtocolOwalkie_def SetRegStringValue_def demo_registry_def Let_def)
  then have "?r = (True, snd ?r)" by (simp add: prod_eq_iff)
  note registered = this
  have "CHR 0x00 \<notin> set ''C:ow.exe''" by simp
  from registration_not_recognised [OF registered this] ok show ?thesis by blast
qed

section \<open>The end and the next start\<close>

definition kept_keys where "kept_keys f = (fr_vkey f, fr_mods f, fr_toggleMode f, fr_showLevel f)"

lemma kept_keys_callback: "kept_keys (audio_callback U ob f) = kept_keys f"
  by (cases ob) (auto simp: kept_keys_def CallAfter_def uplink_frame_def uplink_open_def uplink_pcm_def frame_emit_def
      split: prod.splits)

lemma kept_keys_do_audio [simp]: "kept_keys (do_audio U g f) = kept_keys f"
proof -
  have "kept_keys (fold (audio_callback U) obs f) = kept_keys f" for obs f
    by (induction obs arbitrary: f) (simp_all add: kept_keys_callback)
  then show ?thesis by (simp add: do_audio_def with_audio_def) (simp add: kept_keys_def)
qed

lemma kept_keys_relay: "kept_keys (fold (relay_callback U grants) cs f) = kept_keys f"
proof (induction cs arbitrary: f)
  case (Cons c cs)
  have "kept_keys (relay_callback U grants c f) = kept_keys f"
    by (cases c) (simp_all, simp_all add: kept_keys_def CallAfter_def)
  with Cons show ?case by simp
qed simp

lemma kept_keys_update [simp]:
  "kept_keys (f\<lparr>fr_wantsSession := b\<rparr>) = kept_keys f" "kept_keys (f\<lparr>fr_hook := b\<rparr>) = kept_keys f"
  "kept_keys (f\<lparr>fr_relay := r\<rparr>) = kept_keys f" "kept_keys (f\<lparr>fr_manager := m\<rparr>) = kept_keys f"
  by (simp_all add: kept_keys_def)

lemma kept_keys_destroy:
  assumes "frame_destroy U locks f = Some f'"
  shows "kept_keys f' = kept_keys f"
proof -
  have disconnect: "kept_keys h = kept_keys g" if "frame_Disconnect U b g = Some h" for b g h
    using that by (auto simp: frame_Disconnect_def kept_keys_relay split: option.splits)
  show ?thesis using assms by (auto simp: frame_destroy_def Let_def dest!: disconnect)
qed

text \<open>What the two files hold after the end.\<close>

lemma quit_files:
  assumes "client_quit D U locks st = Some gone" and "cn_profiles st \<noteq> []" and "active_valid st"
    and "jd_dump2 D (settings_doc D st) = Some t" and "jd_dump2 D (profiles_doc D (cn_active st) (cn_profiles st)) = Some u"
    and "dk_writable (cn_disk st) F_Config" and "dk_writable (cn_disk st) F_Profiles"
  shows "cn_disk gone = write_file F_Profiles (Some u) (write_file F_Config (Some t) (cn_disk st))"
proof -
  obtain f where f: "frame_destroy U locks (cn_frame st) = Some f"
    and gone: "gone = SaveProfilesToDisk D (SaveAudioSettings D (st\<lparr>cn_frame := f\<rparr>))"
    using assms(1) by (auto simp: client_quit_def)
  have "settings_doc D (st\<lparr>cn_frame := f\<rparr>) = settings_doc D st"
    using kept_keys_destroy [OF f] by (simp add: settings_doc_def kept_keys_def Let_def)
  with assms have s: "SaveAudioSettings D (st\<lparr>cn_frame := f\<rparr>)
      = st\<lparr>cn_frame := f, cn_disk := write_file F_Config (Some t) (cn_disk st)\<rparr>"
    by (simp add: SaveAudioSettings_def on_disk_def)
  show ?thesis using assms(2,3,5) by (simp add: gone s SaveProfilesToDisk_valid active_valid_def on_disk_def)
qed

lemma settings_of_start:
  "settings_of (client_start D F st) = settings_of (load_settings D F (load_profiles D st))"
  if "FileExists (cn_disk st) F_Profiles" "0 \<le> cn_rxVolume (load_settings D F (load_profiles D st))"
    "cn_rxVolume (load_settings D F (load_profiles D st)) \<le> 200"
  using that
  by (simp add: client_start_def MigrateLegacyConnectionJsonIfNeeded_def LoadAllSettings_def settings_of_def on_frame_def
      on_engine_def SyncRxVolumeUi_def ApplyAudioSettingsToEngine_def ApplyCustomPatternsToEngine_def RefreshPttUi_def
      LoadCustomSignalPatternsFromDisk_def std_clamp_def Let_def split: option.split prod.split)

lemma profile_fields_start:
  assumes "FileExists (cn_disk st) F_Profiles"
  shows "profile_list (client_start D F st) = profile_list (load_profiles D st)"
proof -
  have "profile_list (SyncRxVolumeUi s) = profile_list s" for s :: "('a, 'b) client"
    by (simp add: SyncRxVolumeUi_def Let_def) (simp add: profile_list_def)
  with assms show ?thesis
    by (simp add: client_start_def MigrateLegacyConnectionJsonIfNeeded_def LoadAllSettings_def Let_def load_settings_list)
qed

text \<open>The fields that show the active profile.\<close>

definition shown where
  "shown st = (cn_nameCtrl st, cn_hostCtrl st, cn_portCtrl st, cn_channelCtrl st, cn_repeaterCheck st)"

definition profile_texts where
  "profile_texts p = (sv_name p, sv_host p, std_to_string (sv_port p), sv_channel p, sv_repeater p)"

lemma shown_simps [simp]:
  "shown (on_frame g st) = shown st" "shown (on_engine k st) = shown st" "shown (ApplyCustomPatternsToEngine st) = shown st"
  "shown (ApplyAudioSettingsToEngine F st) = shown st" "shown (SyncRxVolumeUi st) = shown st"
  "shown (LoadCustomSignalPatternsFromDisk D F st) = shown st"
  by (simp_all add: shown_def on_frame_def on_engine_def ApplyCustomPatternsToEngine_def ApplyAudioSettingsToEngine_def
      SyncRxVolumeUi_def LoadCustomSignalPatternsFromDisk_def Let_def split: option.split prod.split)

lemma assign_until_shown:
  assumes "\<forall>step \<in> set steps. \<forall>s s'. step s = Some s' \<longrightarrow> shown s' = shown s"
  shows "shown (assign_until steps st) = shown st"
  using assms by (induction steps arbitrary: st) (auto split: option.splits)

lemma load_settings_shown: "shown (load_settings D F st) = shown st"
proof -
  have "shown (assign_until (settings_steps D F j) st) = shown st" for j
    by (rule assign_until_shown) (auto simp: settings_steps_def Let_def assign_def on_frame_def shown_def)
  then show ?thesis by (simp add: load_settings_def split: option.splits)
qed

lemma shown_start: "FileExists (cn_disk st) F_Profiles \<Longrightarrow> shown (client_start D F st) = shown (load_profiles D st)"
  by (simp add: client_start_def MigrateLegacyConnectionJsonIfNeeded_def LoadAllSettings_def Let_def load_settings_shown)

lemma quit_returns: "\<exists>gone. client_quit D U locks st = Some gone"
proof -
  have "frame_Disconnect U b f \<noteq> None" for b f
    by (simp add: frame_Disconnect_def Disconnect_def StopReconnectLoop_def Let_def split: option.split prod.split)
  then show ?thesis by (simp add: client_quit_def frame_destroy_def Let_def)
qed


text \<open>A client that has found no files, with a JSON library that knows the texts it will write.\<close>

definition demo_first :: "(unit, int) client" where
  "demo_first = demo_client\<lparr>cn_language := ''ru''\<rparr>"

definition demo_quit_lib :: "(int jdoc, int) json_doc" where
  "demo_quit_lib = doc_lib [(''c'', settings_doc (doc_lib []) demo_first), (''p'', profiles_doc (doc_lib []) 0 [ServerProfile_default])]"

lemma demo_first_start:
  "settings_of (client_start demo_quit_lib int_flt demo_first) = settings_of demo_first"
  "cn_profiles (client_start demo_quit_lib int_flt demo_first) = [ServerProfile_default]"
  "cn_active (client_start demo_quit_lib int_flt demo_first) = 0"
  "cn_disk (client_start demo_quit_lib int_flt demo_first) = demo_disk"
  by (simp_all add: client_start_def MigrateLegacyConnectionJsonIfNeeded_def FileExists_def LoadAllSettings_def
      load_profiles_def read_profiles_def read_file_def load_settings_def settings_path_def demo_first_def demo_disk_def
      demo_client_def settings_of_def on_frame_def on_engine_def SyncRxVolumeUi_def ApplyAudioSettingsToEngine_def
      ApplyCustomPatternsToEngine_def RefreshPttUi_def LoadCustomSignalPatternsFromDisk_def std_clamp_def Let_def
      SyncUiFromActiveProfile_def RepopulateProfileChoice_def active_valid_def)

lemma settings_doc_cong: "settings_of st' = settings_of st \<Longrightarrow> settings_doc D st' = settings_doc D st"
  by (simp add: settings_of_def settings_doc_def Let_def)


section \<open>A link on the command line\<close>

definition plain_arg :: "string \<Rightarrow> bool" where
  "plain_arg arg \<longleftrightarrow> arg \<noteq> ''--connect-uri'' \<and> \<not> starts_with ''owalkie://'' arg"

lemma ParseConnectUri_link:
  assumes "\<forall>arg \<in> set pre. plain_arg arg" and "args = (link_marker @ code) # rest \<or> args = ''--connect-uri'' # (link_marker @ code) # rest"
  shows "ParseConnectUri (pre @ args) = Some (link_marker @ code)"
proof -
  have "ParseConnectUri (pre @ args) = ParseConnectUri args"
    using assms(1) by (induction pre) (auto simp: plain_arg_def)
  moreover have "starts_with ''owalkie://'' (link_marker @ code)" "link_marker @ code \<noteq> ''--connect-uri''"
    by (simp_all add: starts_with_def link_marker_def)
  ultimately show ?thesis using assms(2) by auto
qed

lemma app_start_link:
  assumes "ParseConnectUri args = Some link" "link \<noteq> []"
  shows "app_start D W F P yes exe args (R, st0) =
    (let start = client_start D F st0;
         x = (if PortableConfigDir P \<noteq> [] then EnsureUserProtocolRegistration D yes exe (R, start) else (R, start))
     in (Some (fst (ApplyConnectUri D W link (snd x))), fst x, snd (ApplyConnectUri D W link (snd x))))"
  using assms by (cases "PortableConfigDir P \<noteq> []") (simp_all add: app_start_def Let_def case_prod_beta)

text \<open>What a link leaves of the list of profiles, the question about the registration apart.\<close>

lemma registration_fields:
  "profile_list (snd (EnsureUserProtocolRegistration D yes exe (R, st))) = profile_list st"
  "cn_repeaterCheck (snd (EnsureUserProtocolRegistration D yes exe (R, st))) = cn_repeaterCheck st"
  by (simp_all add: EnsureUserProtocolRegistration_def Let_def profile_list_def SaveAudioSettings_def split: prod.split)

lemma linked_profiles:
  assumes "active_valid st" "wx_ToLong W (std_to_string port) = Some port" "1 \<le> port" "port \<le> 65535"
  shows "cn_profiles (SyncActiveProfileFromUi W (st\<lparr>cn_hostCtrl := host, cn_portCtrl := std_to_string port, cn_channelCtrl := channel,
      cn_nameCtrl := name\<rparr>)) = (cn_profiles st)[nat (cn_active st) :=
        \<lparr>sv_name = (if name = [] then wx_tr W ''Connection'' else name), sv_host = host, sv_port = port, sv_channel = channel,
         sv_repeater = cn_repeaterCheck st\<rparr>]"
proof -
  have "i32 port = port" using assms(3,4) by (simp add: i32_def sint_sbintrunc' signed_take_bit_int_eq_self)
  with assms show ?thesis by (simp add: SyncActiveProfileFromUi_def active_valid_def ctrl_port_def)
qed

text \<open>
  C21. A link that one client shares and that another one finds on its command line - alone, as the registered
  command gives it, or behind \<open>--connect-uri\<close>, after arguments of other kinds - is applied at the
  start: of the profiles that were loaded only the active one changes, to the sender's host, port, channel
  and, when it is in the link, name, and the fields show it. Assumed: JSON is read back as written,
  and a number is read as written.
\<close>

theorem program_starts_with_link:
  assumes "json_laws D" and "OnShareConnectionLink D W incl True sender = Link_Text link"
    and "\<forall>n. 1 \<le> n \<and> n \<le> 65535 \<longrightarrow> wx_ToLong W (std_to_string n) = Some n"
    and "\<forall>arg \<in> set pre. plain_arg arg" and "args = pre @ link # rest \<or> args = pre @ ''--connect-uri'' # link # rest"
  shows "let start = client_start D F st0; (r, R', st') = app_start D W F P yes exe args (R, st0)
    in r = Some Uri_Applied \<and> fields_of W st' = fields_of W sender
      \<and> (\<exists>name port. wx_ToLong W (cn_portCtrl sender) = Some port
           \<and> (incl \<and> cn_nameCtrl sender \<noteq> [] \<longrightarrow> name = cn_nameCtrl sender \<and> cn_nameCtrl st' = name)
           \<and> cn_active st' = cn_active start
           \<and> cn_profiles st' = (cn_profiles start)[nat (cn_active start) :=
               \<lparr>sv_name = name, sv_host = cn_hostCtrl sender, sv_port = port, sv_channel = cn_channelCtrl sender,
                sv_repeater = cn_repeaterCheck start\<rparr>])"
proof -
  let ?name = "if incl then Some (cn_nameCtrl sender) else None"
  let ?start = "client_start D F st0"
  let ?x = "if PortableConfigDir P \<noteq> [] then EnsureUserProtocolRegistration D yes exe (R, ?start) else (R, ?start)"
  define st where "st = snd ?x"
  obtain port t where port: "wx_ToLong W (cn_portCtrl sender) = Some port" "1 \<le> port" "port \<le> 65535"
    and full: "cn_hostCtrl sender \<noteq> []" "cn_channelCtrl sender \<noteq> []"
    and dump: "jl_dump (jd_base D) (link_doc D (cn_hostCtrl sender) port (cn_channelCtrl sender) ?name) = Some t"
    and link: "link = link_marker @ Base64UrlEncode t"
    by (rule share_text [OF assms(2)])
  have parse: "jl_parse (jd_base D) t = Some (link_doc D (cn_hostCtrl sender) port (cn_channelCtrl sender) ?name)"
    by (rule json_text(3) [OF assms(1) dump])
  then have "t \<noteq> []" using json_text(4) [OF assms(1)] by auto
  then have payload: "link_payload (link_marker @ Base64UrlEncode t) = Some t"
    using payload_of_link [of t "[]"] by simp
  have number: "wx_ToLong W (std_to_string port) = Some port" using assms(3) port by blast
  have nonempty: "link \<noteq> []" by (simp add: link link_marker_def)
  have uri: "ParseConnectUri args = Some link"
    using ParseConnectUri_link [OF assms(4), of _ "Base64UrlEncode t" rest] assms(5) by (auto simp: link)
  have start: "profile_list st = profile_list ?start" "cn_repeaterCheck st = cn_repeaterCheck ?start"
    by (simp_all add: st_def registration_fields)
  have valid: "active_valid st" using list_ok_cong [OF start(1)] list_ok_start [of D F st0] by (simp add: list_ok_def)
  define name where "name = (case ?name of None \<Rightarrow> cn_nameCtrl st | Some s \<Rightarrow> if s = [] then ''Connection'' else s)"
  define new where "new = client_SetStatus ''Deep link applied'' (SaveProfilesToDisk D (SyncActiveProfileFromUi W
      (st\<lparr>cn_hostCtrl := cn_hostCtrl sender, cn_portCtrl := std_to_string port, cn_channelCtrl := cn_channelCtrl sender,
          cn_nameCtrl := name\<rparr>)))"
  have applied: "ApplyConnectUri D W link st = (Uri_Applied, new)"
    using applied_link [OF assms(1) port(2,3) full payload parse] unfolding Let_def link new_def name_def .
  have run: "app_start D W F P yes exe args (R, st0) = (Some Uri_Applied, fst ?x, new)"
    using applied unfolding app_start_link [OF uri nonempty] Let_def st_def by simp
  have "cn_profiles st = cn_profiles ?start" "cn_active st = cn_active ?start"
    using start(1) by (simp_all add: profile_list_def)
  then have "cn_profiles new = (cn_profiles ?start)[nat (cn_active ?start) :=
        \<lparr>sv_name = (if name = [] then wx_tr W ''Connection'' else name), sv_host = cn_hostCtrl sender, sv_port = port,
         sv_channel = cn_channelCtrl sender, sv_repeater = cn_repeaterCheck ?start\<rparr>]" "cn_active new = cn_active ?start"
    using linked_profiles [OF valid number port(2,3), where host = "cn_hostCtrl sender" and channel = "cn_channelCtrl sender" and name = name]
      start(2) valid
    by (simp_all add: new_def client_SetStatus_def active_valid_def)
  moreover have "fields_of W new = fields_of W sender" "cn_nameCtrl new = name"
    using number port by (simp_all add: fields_of_def client_SetStatus_def new_def)
  ultimately show ?thesis
    unfolding run Let_def prod.case using port(1)
    by (intro conjI exI [of _ "if name = [] then wx_tr W ''Connection'' else name"] exI [of _ port]) (auto simp: name_def)
qed

text \<open>The program of the user's directory is started with an option and a link.\<close>

definition demo_places :: places where
  "demo_places = \<lparr>pl_exeDir = ''x'', pl_userDir = ''u'', pl_exists = (\<lambda>p. p = ''u''), pl_mkdirOk = True\<rparr>"

theorem program_starts_with_link_witness:
  "case app_start demo_link_lib demo_wx int_flt demo_places True None [''-v'', ''owalkie://connect/dA''] (demo_registry, demo_first) of
     (r, R, st) \<Rightarrow> r = Some Uri_Applied \<and> cn_nameCtrl st = ''Home'' \<and> fields_of demo_wx st = fields_of demo_wx demo_client"
proof -
  have "\<forall>arg \<in> set [''-v'']. plain_arg arg" by (simp add: plain_arg_def starts_with_def)
  with program_starts_with_link [OF demo_link, of "[''-v'']" "[''-v'', ''owalkie://connect/dA'']" "[]" int_flt demo_first demo_places
      True None demo_registry]
  show ?thesis by (auto simp: Let_def split: prod.splits)
qed

section \<open>One signal on a device of its own\<close>

lemma one_shot_step:
  "OneShotPlaybackCallback pcm k n =
     (take n (drop k pcm) @ replicate (n - (length pcm - k)) 0, k + min n (length pcm - k))"
  by (auto simp: OneShotPlaybackCallback_def Let_def min_def)

lemma one_shot_from:
  assumes "k \<le> length pcm"
  shows "one_shot_requests ns pcm k = take (sum_list ns) (drop k pcm) @ replicate (sum_list ns - (length pcm - k)) 0"
  using assms
proof (induction ns arbitrary: k)
  case (Cons n ns)
  show ?case
  proof (cases "n \<le> length pcm - k")
    case True
    with Cons.prems have "k + n \<le> length pcm" by simp
    with Cons.IH [OF this] True show ?thesis
      by (simp add: one_shot_step take_add add.commute)
  next
    case False
    with Cons.prems have "k + (length pcm - k) = length pcm" by simp
    with Cons.IH [of "length pcm"] False Cons.prems show ?thesis
      by (simp add: one_shot_step replicate_add [symmetric])
  qed
qed simp

text \<open>
  A signal played on a device of its own goes out whole, in order and followed by silence, however the device
  cuts its requests, and the time that is waited before the device is stopped lasts for all of its
  samples.
\<close>

theorem one_shot_plays_whole:
  assumes "length pcm \<le> sum_list requests"
  shows "PlayOneShotNow True requests pcm = (if pcm = [] then [] else pcm @ replicate (sum_list requests - length pcm) 0)
    \<and> int (length pcm) * 1000 \<le> one_shot_wait_ms pcm * kUiSignalPlaybackRate"
proof
  show "PlayOneShotNow True requests pcm = (if pcm = [] then [] else pcm @ replicate (sum_list requests - length pcm) 0)"
    using one_shot_from [of 0 pcm requests] assms by (simp add: PlayOneShotNow_def)
  have "int (length pcm) * 1000 \<le> (int (length pcm) * 1000 div kUiSignalPlaybackRate + 50) * kUiSignalPlaybackRate"
    using div_mult_mod_eq [of "int (length pcm) * 1000" kUiSignalPlaybackRate]
      pos_mod_bound [of kUiSignalPlaybackRate "int (length pcm) * 1000"]
    by (simp add: kUiSignalPlaybackRate_def ring_distribs)
  also have "\<dots> \<le> one_shot_wait_ms pcm * kUiSignalPlaybackRate"
    unfolding one_shot_wait_ms_def kUiSignalPlaybackRate_def by (intro mult_right_mono) simp_all
  finally show "int (length pcm) * 1000 \<le> one_shot_wait_ms pcm * kUiSignalPlaybackRate" .
qed

theorem one_shot_plays_whole_witness: "PlayOneShotNow True [2, 2] [7, 8, 9] = [7, 8, 9, 0]"
  using one_shot_plays_whole [of "[7, 8, 9]" "[2, 2]"] by simp

end
