(* ===== verification/Client_Device_Props.thy ===== *)
theory Client_Device_Props
  imports Client_Engine_Props
begin

text \<open>
  From the entry of a device in the settings dialog to the device that is opened for transmitting: which one
  it is, by name, when the devices have changed in between.
\<close>

lemma listed_indices [simp]:
  "map nd_index (ListInputDevices True caps) = map int [0..<length caps]"
  "map nd_index (ListOutputDevices True play) = map int [0..<length play]"
  by (simp_all add: ListInputDevices_def ListOutputDevices_def)

lemma picked_device:
  assumes "k \<le> n"
  shows "PickId (int k) (- 1 # map int [0..<n]) = int k - 1"
  using assms by (cases k) (simp_all add: PickId_def)

text \<open>The name of what \<open>StartTransmit\<close> opens among the devices that are there; \<open>None\<close> for the default device.\<close>

definition opened_microphone :: "string list \<Rightarrow> 'f audio \<Rightarrow> string option" where
  "opened_microphone caps a = map_option (\<lambda>i. caps ! nat i) (au_captureDevice a)"

lemma picked_name:
  "map_option (\<lambda>i. caps ! nat i) (pick_device (int k - 1) (length caps)) =
     (if k = 0 \<or> length caps < k then None else Some (caps ! (k - 1)))"
  by (cases k) (auto simp: pick_device_def)

lemma applied_input:
  assumes "in_step F st" "settings_opened_now D W F True caps play st = (st1, dg)" "k \<le> length caps"
  shows "au_preferredInput (fr_audio (cn_frame (settings_applied D F U (dg\<lparr>sd_input := int k\<rparr>) st1))) = int k - 1"
proof -
  let ?st = "settings_applied D F U (dg\<lparr>sd_input := int k\<rparr>) st1"
  have "in_step F st1" using in_step_opened [OF assms(1)] assms(2) unfolding settings_opened_now_def by (metis fst_conv)
  then have "in_step F ?st" by (rule in_step_applied)
  then have "au_preferredInput (fr_audio (cn_frame ?st)) = cn_input ?st"
    by (simp add: in_step_def frame_choice_def engine_choice_def client_choice_def)
  moreover have "sd_inputIds dg = - 1 # map int [0..<length caps]"
    using assms(2) by (auto simp: settings_opened_now_def settings_opened_def dialog_open_def Let_def)
  then have "cn_input ?st = int k - 1"
    using picked_device [OF assms(3)]
    by (simp add: settings_applied_def Let_def client_SetStatus_def on_frame_def ApplyAudioSettingsToEngine_def on_engine_def
        SaveAudioSettings_def on_disk_def)
  ultimately show ?thesis by simp
qed

text \<open>
  C19. The microphone that is chosen in the settings dialog is the one that is opened for transmitting, as long as
  the devices are those the dialog has listed. The choice is kept as a position: when a device has been
  plugged in that the system lists first, the neighbour of the chosen device is opened, and when the list has become
  too short, the default one, without a word to the user.
\<close>

theorem chosen_microphone_opened:
  assumes "(client_step D W F)\<^sup>*\<^sup>* (client_start D F st0) st" and "settings_opened_now D W F True caps play st = (st1, dg)"
    and "0 < k" and "k \<le> length caps" and "a = fr_audio (cn_frame (settings_applied D F U (dg\<lparr>sd_input := int k\<rparr>) st1))"
    and "\<not> au_captureActive a" and "\<not> au_streaming a" and "au_contextReady a"
    and "ae_captureDevices V = length now" and "ae_captureInitOk V" and "ae_captureStartOk V"
  shows "\<exists>a'. StartTransmit V a = (True, a') \<and> au_transmitting a'
    \<and> (now = caps \<longrightarrow> opened_microphone now a' = Some (caps ! (k - 1)))
    \<and> (now = plugged # caps \<longrightarrow> opened_microphone now a' = (if k = 1 then Some plugged else Some (caps ! (k - 2))))
    \<and> (length now < k \<longrightarrow> opened_microphone now a' = None)"
proof -
  have "in_step F st" using assms(1) by induction (auto intro: in_step_start in_step_step)
  then have "au_preferredInput a = int k - 1" unfolding assms(5) by (rule applied_input [OF _ assms(2,4)])
  then obtain a' where a': "StartTransmit V a = (True, a')" "au_transmitting a'"
    and device: "au_captureDevice a' = pick_device (int k - 1) (length now)"
    using assms(6-11) by (auto simp: StartTransmit_def StartTxPumpThreadLocked_def Let_def)
  have "opened_microphone now a' = (if k = 0 \<or> length now < k then None else Some (now ! (k - 1)))"
    unfolding opened_microphone_def device by (rule picked_name)
  then show ?thesis using a' assms(3,4) by (auto simp: nth_Cons' numeral_2_eq_2 intro!: exI [of _ a'])
qed

text \<open>Two microphones are listed and the second one is chosen; then a third one is plugged in.\<close>

definition demo_mic_env :: "int audio_env" where
  "demo_mic_env = \<lparr>ae_flt = int_flt, ae_file = (\<lambda>_. []), ae_contextOk = True, ae_captureDevices = 3, ae_playbackDevices = 0,
     ae_captureInitOk = True, ae_captureStartOk = True, ae_ringOk = True, ae_playbackInitOk = True, ae_playbackStartOk = True\<rparr>"

definition demo_mic_client :: "(unit, int) client" where
  "demo_mic_client = on_engine (\<lambda>a. snd (Initialize demo_mic_env a)) demo_client"

definition idle :: "('c, 'f) client \<Rightarrow> bool" where
  "idle st \<longleftrightarrow> (let a = fr_audio (cn_frame st) in \<not> au_captureActive a \<and> \<not> au_streaming a \<and> au_contextReady a \<and> \<not> au_transmitting a)"

lemma idle_client:
  "idle (ApplyAudioSettingsToEngine F st) = idle st" "idle (ApplyCustomPatternsToEngine st) = idle st"
  "idle (LoadCustomSignalPatternsFromDisk D F st) = idle st" "idle (SyncRxVolumeUi st) = idle st"
  "idle (SaveAudioSettings D st) = idle st" "idle (client_SetStatus s st) = idle st"
  by (simp_all add: idle_def ApplyAudioSettingsToEngine_def ApplyCustomPatternsToEngine_def LoadCustomSignalPatternsFromDisk_def
      SyncRxVolumeUi_def SaveAudioSettings_def client_SetStatus_def frame_SetStatus_def frame_emit_def on_engine_def on_frame_def
      on_disk_def SetVibrationImitation_def SetRxVolumePercent_def SetCallPatternId_def SetRogerPatternId_def
      SetPreferredOutputDevice_def SetPreferredInputDevice_def CloseOutputStreamLocked_def SetCustomSignalPatterns_def
      Let_def split: option.split prod.split)

lemma idle_frame:
  "(\<And>f. fr_audio (g f) = fr_audio f) \<Longrightarrow> idle (on_frame g st) = idle st"
  "idle (on_frame RefreshPttUi st) = idle st"
  "idle st \<Longrightarrow> idle (on_frame (\<lambda>f. if P f \<and> Q \<and> au_transmitting (fr_audio f) then EndPttTx U f else f) st)"
  by (simp_all add: idle_def on_frame_def RefreshPttUi_def Let_def)

lemma idle_applied: "idle st \<Longrightarrow> idle (settings_applied D F U dg st)"
  unfolding settings_applied_def Let_def
  by (simp add: idle_client idle_frame split del: if_split) (intro idle_frame(3); simp add: idle_def on_frame_def)

theorem chosen_microphone_opened_witness:
  "\<forall>U. let (st, dg) = settings_opened_now (doc_lib []) demo_wx int_flt True [''desk'', ''headset''] []
             (client_start (doc_lib []) int_flt demo_mic_client);
           a = fr_audio (cn_frame (settings_applied (doc_lib []) int_flt U (dg\<lparr>sd_input := 2\<rparr>) st))
       in opened_microphone [''camera'', ''desk'', ''headset''] (snd (StartTransmit demo_mic_env a)) = Some ''desk''"
proof
  fix U
  let ?D = "doc_lib [] :: (int jdoc, int) json_doc"
  let ?st = "client_start ?D int_flt demo_mic_client"
  obtain st dg where open_now: "settings_opened_now ?D demo_wx int_flt True [''desk'', ''headset''] [] ?st = (st, dg)" by fastforce
  let ?a = "fr_audio (cn_frame (settings_applied ?D int_flt U (dg\<lparr>sd_input := int 2\<rparr>) st))"
  have "idle ?st"
    by (simp add: client_start_def LoadAllSettings_def Let_def idle_client idle_frame)
      (simp add: MigrateLegacyConnectionJsonIfNeeded_def load_settings_def settings_path_def FileExists_def read_file_def
        load_profiles_def read_profiles_def demo_mic_client_def demo_client_def demo_disk_def RepopulateProfileChoice_def
        SyncUiFromActiveProfile_def active_valid_def on_engine_def on_frame_def Let_def idle_def Initialize_def demo_mic_env_def
        frame_init_def audio_init_def audio_status_def emit_audio_def)
  then have "idle st"
    using open_now by (auto simp: settings_opened_now_def settings_opened_def Let_def idle_client)
  then have "\<not> au_captureActive ?a \<and> \<not> au_streaming ?a \<and> au_contextReady ?a"
    using idle_applied [of st ?D int_flt U "dg\<lparr>sd_input := int 2\<rparr>"] by (simp add: idle_def Let_def)
  then show "let (st, dg) = settings_opened_now ?D demo_wx int_flt True [''desk'', ''headset''] [] ?st;
        a = fr_audio (cn_frame (settings_applied ?D int_flt U (dg\<lparr>sd_input := 2\<rparr>) st))
      in opened_microphone [''camera'', ''desk'', ''headset''] (snd (StartTransmit demo_mic_env a)) = Some ''desk''"
    using chosen_microphone_opened [OF rtranclp.rtrancl_refl open_now, of 2 ?a U demo_mic_env "[''camera'', ''desk'', ''headset'']" "''camera''"]
    by (auto simp: open_now Let_def demo_mic_env_def)
qed

end
