(* ===== verification/Spec2Isabelle.thy ===== *)
theory Spec2Isabelle
  imports Session_Tx_Props C_Api_Props Relay_Props Ptt_Props Jni_Props Client_Shell_Props Client_Device_Props
begin

text \<open>
  A verification development of the O-Walkie client: push-to-talk voice over a WebSocket for
  control and UDP for Opus audio.

  \<^bold>\<open>The program and its model.\<close> The core library \<open>src/owalkie-core\<close> is modelled whole, one
  theory per part:

  \<^item> \<open>OW_Prelude\<close>, \<open>OW_Types\<close>: shared lemmas and the collections \<open>wire_simps\<close> and the like; the data
    types of \<open>owalkie/types.hpp\<close> (results, events, welcome configuration, session state, packets).
  \<^item> \<open>Protocol\<close> (\<open>protocol.cpp\<close>, \<open>version.cpp\<close>), \<open>Udp_Packet\<close> (\<open>udp.cpp\<close>), \<open>Link_Signal\<close>
    (\<open>link_signal.cpp\<close>), \<open>Json_Wire\<close> (\<open>json.cpp\<close>), \<open>Host_Endpoint\<close> (the two host parsers of
    \<open>session.cpp\<close> and \<open>activity_probe.cpp\<close>), \<open>Signal_Pcm\<close> (\<open>signal.cpp\<close>), \<open>Opus_Codec\<close>
    (\<open>opus_codec.cpp\<close>), \<open>Client_Events\<close> (\<open>client_events.hpp\<close>), \<open>Keepalive\<close> and \<open>Net_Poll\<close> (the
    timing and the bounded waits of \<open>session.cpp\<close>): pure functions, with integers at their width.
  \<^item> \<open>Session_State\<close>, \<open>Session_Tx\<close>, \<open>Session_Transport\<close>, \<open>Session_Io\<close>: the class \<open>Session::Impl\<close> of
    \<open>session.cpp\<close>. The record \<open>session\<close> has its members; every method is a function on it, and
    the record keeps a trace of what the session does to the outside (events and samples handed
    to callbacks, datagrams, WebSocket texts).
  \<^item> \<open>Session_Manager\<close> (\<open>session_manager.cpp\<close>): the registry of sessions with its locks and its
    cleanup threads; \<open>Activity_Probe\<close> (\<open>activity_probe.cpp\<close>): the one-shot question to the relay;
    \<open>C_Api\<close> (\<open>c_api.cpp\<close>): the C interface and the bridge that carries events to the application.

  Two clients are on top of it. \<open>Jni_Bridge\<close> (\<open>owalkie_jni.cpp\<close> of the Android application) is the
  native side of its Java classes: the table of bindings with their references into the virtual
  machine, the callbacks, every native method. The desktop client \<open>src/windows-client-cpp\<close>:

  \<^item> \<open>Relay_Client\<close> (\<open>RelayClient.cpp\<close>): the client's use of one managed session, its callbacks to the
    user interface and its reconnect thread.
  \<^item> \<open>Audio_Pcm\<close>, \<open>Audio_Engine\<close> (\<open>AudioEngine.cpp\<close>): the WAV reader, resampling, tones and signal
    patterns; the audio engine with its devices, the transmit pump, signal streams and playback.
  \<^item> \<open>Hotkeys\<close>, \<open>Client_Ptt\<close>, \<open>Client_Frame\<close>, \<open>Url_Codec\<close> (\<open>MainFrame.cpp\<close>): capturing and recognising
    the hot key; push to talk with its guard, countdowns and queue of posted closures; the handlers
    of the main window for buttons, server events and connecting; the codings of connection links.
  \<^item> \<open>Client_Json\<close>, \<open>Signal_Editor\<close>, \<open>Client_Store\<close>, \<open>Client_Actions\<close>, \<open>Client_Settings\<close>
    (\<open>MainFrame.cpp\<close>): what the client uses of the JSON library; the editor of custom signals and
    their text in the clipboard; the files of profiles, settings and custom signals with the
    controls that show them (the record \<open>client\<close> around \<open>frame\<close>); the handlers of profiles, links,
    volume and signals; the settings dialog and the status texts.
  \<^item> \<open>Client_Shell\<close> (\<open>main.cpp\<close>, \<open>LocaleInit.cpp\<close>, \<open>MainFrame.cpp\<close>): the command line, the directories and
    the language, the registration of links in the registry, the window with its tray icon as a state machine,
    the end of the program; the playback of one signal (\<open>AudioEngine.cpp\<close>).

  \<^bold>\<open>How it is modelled.\<close> Libraries outside the repository are parameters: the JSON library
  (\<open>json_lib\<close>, \<open>json_doc\<close>), wxWidgets (\<open>wx\<close>: reading numbers, trimming, translating), Opus (\<open>opus_lib\<close>), the floating point unit (\<open>flt\<close>), the network (\<open>connect_env\<close>,
  \<open>wait_env\<close>, \<open>probe_env\<close>) and the audio devices (\<open>audio_env\<close>). Time is a number of nanoseconds. Threads are steps: a method that can
  be interrupted takes as argument what the other threads do meanwhile (\<open>connect_sched\<close>, the
  lists of polls), and \<open>session_step\<close>, \<open>manager_step\<close> are the step relations in which the
  operations interleave. A loop that waits takes the list of its rounds; \<open>None\<close> or \<open>Running\<close> means
  that it still waits after them, and the termination theorems say how many rounds are enough:
  each slice takes real time, so a deadline is reached after at most deadline / slice rounds.

  \<^bold>\<open>What is proved.\<close> \<open>Session_Frame\<close>, \<open>Session_Safety\<close> and \<open>Session_Reach\<close> hold the invariants of the
  session along its step relation: one Disconnected event per connection, silence when not
  connected, no joinable thread ever overwritten, well-formed datagrams, bounded queues.
  \<open>Session_Tx_Props\<close> has the transmit pipeline (order and completeness of the samples),
  \<open>Session_Io_Props\<close> connecting, the welcome, keepalive and the waits, \<open>Manager_Props\<close> the registry
  (an interface \<open>id_table\<close> of its table, its invariant, the refinement of the operations to steps,
  what connect and disconnect promise), \<open>C_Api_Props\<close> the C interface (typed unions, lifetimes of
  returned strings, one ending per session). \<open>Relay_Props\<close> has the reconnect thread and its back-off,
  \<open>Audio_Pcm_Props\<close> the WAV reader and the agreement of the two signal generators, \<open>Audio_Props\<close> the
  path of the captured and of the received sound. \<open>Frame_Audio\<close> and \<open>Frame_Props\<close> hold the invariant
  of the main window along its step relation, \<open>Ptt_Props\<close> what it means: a locked client is silent,
  samples follow an opening, the guard reopens, a release closes the uplink. \<open>Jni_Props\<close> has the exact
  references of the bindings, the race between release and callback, and the agreement with the C
  interface. \<open>Signal_Editor_Props\<close> bounds the signals the editor saves, \<open>Client_Store_Props\<close> and
  \<open>Client_Signal_Props\<close> show that profiles, settings and signals come back from their files and that
  a saved signal is the one played, \<open>Client_Link_Props\<close> takes a link from one client to another, and
  \<open>Client_Props\<close> has the invariant of the list of profiles along the steps of the user.
  \<open>Client_Engine_Props\<close> shows that the audio engine never departs from the choices the client shows: every
  operation of the engine, of push to talk and of the client keeps them or passes them on. \<open>Client_Shell_Props\<close>
  has the end and the next start (everything the user saw comes back), the window that can be
  brought back from the tray, the registration of links and the link on the command line, \<open>Client_Device_Props\<close>
  the device that is opened for the one that was chosen. The pure theories carry round trips, bounds and
  equivalences beside their definitions. Hypotheses about a parameter are stated where used,
  and each has a witness on a concrete instance (\<open>jv_lib\<close>, \<open>demo_env\<close>, \<open>demo_net\<close>).

  \<^bold>\<open>What modelling showed.\<close> A lost acknowledgement ends an idle session (\<open>session.cpp\<close>, keepalive
  loop); \<open>std::stoi\<close> can throw out of the host parser; a refused connect keeps its slot because it
  waits for a lock it holds itself; \<open>owalkie_disconnect\<close> drops the bridge before the Disconnected
  event; string results without a buffer dangle; an acknowledgement message is reported as a
  zeroed event that reads \<open>CONNECTED\<close>; an ending delivered on the reconnect thread makes that thread
  join itself; the desktop client forgets an ended session without releasing its slot; a release
  while the session is not ready leaves the microphone on. The native methods of the Android
  bridge return two numberings of results, and a callback can meet a deleted listener. The limit
  on the length of a custom signal overflows; one bad entry of the profiles' file loses those behind it; a
  link with a member of the wrong type ends in an exception; the settings dialog forgets a device
  that is not plugged in. The registration of links is not recognised by the test for it, and a window that
  is closed while the system refuses the tray icon is lost. Devices are kept as positions in a list, so a device that
  is plugged in can take the place of the chosen one.

  \<^bold>\<open>Not modelled.\<close> The stubs of \<open>c_api.cpp\<close> for a build without sessions; in the desktop client the
  creation and layout of controls, the icons and the catalogues of translations; logging; third-party code (miniaudio, Opus, the JSON and WebSocket libraries); the relay server
  (Go) and the Kotlin part of the Android application. Memory safety below the level of the shared
  objects named above, and data races on plain members, are outside the model.
\<close>

end
